(* ===== verification/Prelude.thy ===== *)
theory Prelude
  imports Main "HOL-Library.Word" "HOL-Library.Sublist"
begin

text \<open>
  The shared layer of the development: results with errors as values, the checked 256-bit
  arithmetic and the bounds-checked arrays of Solidity 0.8, the two-pass "count, allocate,
  fill" loop that every view function of the contracts uses, and the generic list and sum
  lemmas on which the component theories rest.
\<close>

named_theorems res_simps \<open>inversion of successful computations\<close>
named_theorems sol_defs \<open>definitions of contract operations, for unfolding\<close>

section \<open>Results: an error or a value\<close>

definition bindE :: "'e + 'a \<Rightarrow> ('a \<Rightarrow> 'e + 'b) \<Rightarrow> 'e + 'b" where
  "bindE m f = (case m of Inl e \<Rightarrow> Inl e | Inr x \<Rightarrow> f x)"

definition require :: "bool \<Rightarrow> 'e \<Rightarrow> 'e + 'a \<Rightarrow> 'e + 'a" where
  "require c e k = (if c then k else Inl e)"

fun is_ok :: "'e + 'a \<Rightarrow> bool" where
  "is_ok (Inl e) = False"
| "is_ok (Inr x) = True"

lemma bindE_simps [simp]:
  "bindE (Inl e) f = Inl e"
  "bindE (Inr x) f = f x"
  by (simp_all add: bindE_def)

lemma bindE_Inr_iff [simp, res_simps]:
  "bindE m f = Inr y \<longleftrightarrow> (\<exists>x. m = Inr x \<and> f x = Inr y)"
  by (cases m) auto

lemma bindE_Inl_iff:
  "bindE m f = Inl e \<longleftrightarrow> m = Inl e \<or> (\<exists>x. m = Inr x \<and> f x = Inl e)"
  by (cases m) auto

lemma bindE_assoc: "bindE (bindE m f) g = bindE m (\<lambda>x. bindE (f x) g)"
  by (cases m) auto

lemma require_simps [simp]:
  "require True e k = k"
  "require False e k = Inl e"
  by (simp_all add: require_def)

lemma require_Inr_iff [simp, res_simps]: "require c e k = Inr y \<longleftrightarrow> c \<and> k = Inr y"
  by (simp add: require_def)

lemma require_Inl_iff: "require c e k = Inl e' \<longleftrightarrow> (\<not> c \<and> e = e') \<or> (c \<and> k = Inl e')"
  by (auto simp: require_def)

lemma is_ok_iff: "is_ok r \<longleftrightarrow> (\<exists>x. r = Inr x)"
  by (cases r) auto

lemma not_is_ok_iff: "\<not> is_ok r \<longleftrightarrow> (\<exists>e. r = Inl e)"
  by (cases r) auto

section \<open>EVM values\<close>

text \<open>
  An address is a 160-bit word; \<open>address(0)\<close> is \<open>0\<close>. An amount, a token id or a timestamp
  of type \<open>uint256\<close> is a natural number with the 0.8 overflow checks written out.
\<close>

type_synonym address = "160 word"

abbreviation addr0 :: address where
  "addr0 \<equiv> 0"

definition two256 :: nat where
  "two256 = 2 ^ 256"

definition uint256_max :: nat where
  "uint256_max = two256 - 1"

text \<open>Why a call reverts: \<open>require\<close> with a message, a compiler panic, or a custom error.\<close>

datatype revert =
    Revert string
  | Panic nat
  | CustomError string
  | CallFailed

definition panic_overflow :: revert where
  "panic_overflow = Panic 17"

definition panic_bounds :: revert where
  "panic_bounds = Panic 50"

definition add256 :: "nat \<Rightarrow> nat \<Rightarrow> revert + nat" where
  "add256 a b = (if a + b < two256 then Inr (a + b) else Inl panic_overflow)"

definition sub256 :: "nat \<Rightarrow> nat \<Rightarrow> revert + nat" where
  "sub256 a b = (if b \<le> a then Inr (a - b) else Inl panic_overflow)"

lemma add256_Inr_iff [simp, res_simps]: "add256 a b = Inr c \<longleftrightarrow> a + b < two256 \<and> c = a + b"
  by (auto simp: add256_def)

lemma sub256_Inr_iff [simp, res_simps]: "sub256 a b = Inr c \<longleftrightarrow> b \<le> a \<and> c = a - b"
  by (auto simp: sub256_def)

lemma two256_pos [simp]: "0 < two256"
  by (simp add: two256_def)

lemma uint256_max_less [simp]: "x < two256 \<Longrightarrow> x \<le> uint256_max"
  by (simp add: uint256_max_def)

section \<open>Memory arrays\<close>

definition nth256 :: "'a list \<Rightarrow> nat \<Rightarrow> revert + 'a" where
  "nth256 xs i = (if i < length xs then Inr (xs ! i) else Inl panic_bounds)"

lemma nth256_Inr_iff [simp, res_simps]: "nth256 xs i = Inr x \<longleftrightarrow> i < length xs \<and> x = xs ! i"
  by (auto simp: nth256_def)

text \<open>
  The loop \<open>for (...) if (P(x)) { arr[currentIndex] = g(x); currentIndex++; }\<close> over a memory
  array allocated beforehand: a write past its end is the panic 0x32.
\<close>

fun fill_loop :: "('a \<Rightarrow> bool) \<Rightarrow> ('a \<Rightarrow> 'b) \<Rightarrow> 'a list \<Rightarrow> nat \<Rightarrow> 'b list \<Rightarrow> revert + 'b list" where
  "fill_loop P g [] i arr = Inr arr"
| "fill_loop P g (x # xs) i arr =
     (if P x
      then if i < length arr then fill_loop P g xs (Suc i) (arr[i := g x]) else Inl panic_bounds
      else fill_loop P g xs i arr)"

text \<open>The counting pass \<open>for (...) if (P(x)) count++\<close>.\<close>

fun count_loop :: "('a \<Rightarrow> bool) \<Rightarrow> 'a list \<Rightarrow> nat \<Rightarrow> nat" where
  "count_loop P [] n = n"
| "count_loop P (x # xs) n = count_loop P xs (if P x then Suc n else n)"

lemma count_loop_eq: "count_loop P xs n = n + length (filter P xs)"
  by (induction xs arbitrary: n) auto

lemma fill_loop_ok:
  assumes "i + length (filter P xs) \<le> length arr"
  shows "fill_loop P g xs i arr =
    Inr (take i arr @ map g (filter P xs) @ drop (i + length (filter P xs)) arr)"
  using assms
proof (induction xs arbitrary: i arr)
  case Nil
  then show ?case by simp
next
  case (Cons x xs)
  show ?case
  proof (cases "P x")
    case True
    with Cons.prems have "i < length arr" and "Suc i + length (filter P xs) \<le> length (arr[i := g x])"
      by auto
    with Cons.IH [of "Suc i" "arr[i := g x]"] True show ?thesis
      by (simp add: take_Suc_conv_app_nth)
  next
    case False
    with Cons show ?thesis by simp
  qed
qed

lemma fill_loop_panic:
  assumes "length arr < i + length (filter P xs)" and "i \<le> length arr"
  shows "fill_loop P g xs i arr = Inl panic_bounds"
  using assms
proof (induction xs arbitrary: i arr)
  case Nil
  then show ?case by simp
next
  case (Cons x xs)
  then show ?case by (cases "P x") auto
qed

text \<open>The two passes together return exactly the matching elements, in order.\<close>

lemma count_fill:
  "fill_loop P g xs 0 (replicate (count_loop P xs 0) d) = Inr (map g (filter P xs))"
  by (subst fill_loop_ok) (simp_all add: count_loop_eq)

section \<open>Sums over finitely many keys\<close>

lemma sum_fun_upd_nat:
  fixes f :: "'k \<Rightarrow> nat"
  assumes "finite A" and "k \<in> A"
  shows "sum (f(k := v)) A + f k = sum f A + v"
proof -
  have "sum (f(k := v)) A = v + sum f (A - {k})"
    using assms by (subst sum.remove [of A k]) (auto intro: sum.cong)
  moreover have "sum f A = f k + sum f (A - {k})"
    using assms by (rule sum.remove)
  ultimately show ?thesis by simp
qed

lemma sum_mono_upd_nat:
  fixes f g :: "'k \<Rightarrow> nat"
  assumes "finite A" and "k \<in> A" and "\<And>j. j \<noteq> k \<Longrightarrow> g j \<le> f j"
  shows "sum g A + f k \<le> sum f A + g k"
proof -
  have "sum g (A - {k}) \<le> sum f (A - {k})"
    using assms(3) by (intro sum_mono) auto
  then show ?thesis
    using assms(1,2) by (simp add: sum.remove [of A k])
qed

lemma sum_list_update_le:
  fixes xs :: "nat list"
  shows "i < length xs \<Longrightarrow> xs ! i \<le> sum_list xs"
  by (simp add: member_le_sum_list)

lemma Min_insert_if:
  fixes a b :: "'a :: linorder"
  assumes "finite A"
  shows "Min (insert (if a < b then a else b) A) = Min (insert b (insert a A))"
  using assms by (cases "A = {}") (auto simp: min_def)

section \<open>State machines with an invariant\<close>

text \<open>
  The contract of a component that is driven by a sequence of calls: a step relation and an
  invariant every step keeps. The client gets the invariant along every run, and a quantity that
  no step lowers never goes down.
\<close>

locale invariant_machine =
  fixes step :: "'s \<Rightarrow> 's \<Rightarrow> bool"
    and inv :: "'s \<Rightarrow> bool"
  assumes inv_step: "step s s' \<Longrightarrow> inv s \<Longrightarrow> inv s'"
begin

lemma inv_run: "rtranclp step s s' \<Longrightarrow> inv s \<Longrightarrow> inv s'"
  by (induction rule: rtranclp_induct) (auto intro: inv_step)

lemma mono_run:
  fixes f :: "'s \<Rightarrow> nat"
  assumes "rtranclp step s s'" and "inv s" and "\<And>a b. step a b \<Longrightarrow> inv a \<Longrightarrow> f a \<le> f b"
  shows "f s \<le> f s'"
  using assms(1)
proof (induction rule: rtranclp_induct)
  case base
  then show ?case by simp
next
  case (step y z)
  then have "inv y" using inv_run assms(2) by blast
  then show ?case using step assms(3) [of y z] by simp
qed

end

text \<open>
  A machine that holds funds against claims: its invariant covers all claims together, so each
  single claim can be paid, in every state of a run.
\<close>

locale solvent_machine = invariant_machine step inv
  for step :: "'s \<Rightarrow> 's \<Rightarrow> bool" and inv :: "'s \<Rightarrow> bool" +
  fixes holders :: "'s \<Rightarrow> 'k set"
    and claim :: "'s \<Rightarrow> 'k \<Rightarrow> nat"
    and funds :: "'s \<Rightarrow> nat"
  assumes holders_finite: "inv s \<Longrightarrow> finite (holders s)"
    and covered: "inv s \<Longrightarrow> sum (claim s) (holders s) \<le> funds s"
begin

lemma claim_covered:
  assumes "inv s" and "k \<in> holders s"
  shows "claim s k \<le> funds s"
  using member_le_sum [OF assms(2), of "claim s"] holders_finite [OF assms(1)] covered [OF assms(1)] by simp

lemma claim_covered_run: "rtranclp step s s' \<Longrightarrow> inv s \<Longrightarrow> k \<in> holders s' \<Longrightarrow> claim s' k \<le> funds s'"
  using inv_run claim_covered by blast

end

text \<open>
  A machine that implements an abstract one through an abstraction function, in the states of its
  invariant: its runs are runs of the abstract machine, whose invariants carry over.
\<close>

locale simulation = invariant_machine step inv
  for step :: "'s \<Rightarrow> 's \<Rightarrow> bool" and inv :: "'s \<Rightarrow> bool" +
  fixes astep :: "'a \<Rightarrow> 'a \<Rightarrow> bool"
    and abs :: "'s \<Rightarrow> 'a"
  assumes simulates: "inv s \<Longrightarrow> step s s' \<Longrightarrow> astep (abs s) (abs s')"
begin

lemma sim_run: "rtranclp step s s' \<Longrightarrow> inv s \<Longrightarrow> rtranclp astep (abs s) (abs s')"
proof (induction rule: rtranclp_induct)
  case base
  show ?case by simp
next
  case (step y z)
  then show ?case using inv_run [OF step(1)] simulates [of y z] by (meson rtranclp.rtrancl_into_rtrancl)
qed

lemma abs_invariant:
  assumes "rtranclp step s s'" and "inv s" and "P (abs s)" and "\<And>a b. astep a b \<Longrightarrow> P a \<Longrightarrow> P b"
  shows "P (abs s')"
  using sim_run [OF assms(1,2)] by (induction rule: rtranclp_induct) (use assms(3,4) in auto)

end

end
