(* ===== verification/Erc721.thy ===== *)
theory Erc721
  imports Prelude
begin

text \<open>
  The chain the contracts run on and the token contract they call: account balances and plain
  Ether transfers, the OpenZeppelin 5.1 \<open>ERC721\<close>, \<open>ERC721URIStorage\<close> and \<open>Ownable\<close> sources
  recorded in \<open>deployment/localhost/solcInputs\<close>, and the storage of
  \<open>contracts/NFTCollection.sol\<close>. Every function takes the storage and returns the new one or
  the reason of the revert.
\<close>

section \<open>Events, accounts and Ether\<close>

datatype evarg = EvAddr address | EvNat nat | EvStr string | EvBool bool

datatype event = Event (ev_name: string) (ev_args: "evarg list")

text \<open>
  What \<open>onERC721Received\<close> does at an address: \<open>NoCode\<close> for an externally owned account,
  \<open>HookAccepts\<close> for a contract that answers with the selector, \<open>HookRejects\<close> for one that
  answers anything else or has no such function, \<open>HookReverts\<close> for one that reverts with data.
\<close>

datatype hook = NoCode | HookAccepts | HookRejects | HookReverts revert

section \<open>Storage of an NFTCollection\<close>

record nft =
  nft_name :: string
  nft_symbol :: string
  nft_owners :: "nat \<Rightarrow> address"
  nft_balances :: "address \<Rightarrow> nat"
  nft_tokenApprovals :: "nat \<Rightarrow> address"
  nft_operatorApprovals :: "address \<Rightarrow> address \<Rightarrow> bool"
  nft_tokenURIs :: "nat \<Rightarrow> string"
  nft_owner :: address
  nft_tokenIds :: nat
  nft_baseURI :: string
  nft_marketplaceAddress :: address
  nft_category :: string

text \<open>
  The part of the chain state the contracts share. \<open>accepts a\<close> says whether a plain transfer
  with the 2300 gas stipend succeeds at \<open>a\<close>; \<open>entered\<close> is the flag of \<open>ReentrancyGuard\<close>.
\<close>

record chain =
  bal :: "address \<Rightarrow> nat"
  accepts :: "address \<Rightarrow> bool"
  code :: "address \<Rightarrow> hook"
  nfts :: "address \<Rightarrow> nft option"
  logs :: "(address \<times> event) list"

record msg =
  msg_sender :: address
  msg_value :: nat
  block_timestamp :: nat

definition move_eth :: "address \<Rightarrow> address \<Rightarrow> nat \<Rightarrow> (address \<Rightarrow> nat) \<Rightarrow> (address \<Rightarrow> nat)" where
  "move_eth from to v b = (let b' = b(from := b from - v) in b'(to := b' to + v))"

text \<open>\<open>payable(to).transfer(v)\<close> executed by the contract at \<open>this\<close>.\<close>

definition transfer_eth ::
  "address \<Rightarrow> address \<Rightarrow> nat \<Rightarrow> 'a chain_scheme \<Rightarrow> revert + 'a chain_scheme" where
  "transfer_eth this to v s =
     (if v \<le> bal s this \<and> accepts s to then Inr (s\<lparr>bal := move_eth this to v (bal s)\<rparr>)
      else Inl CallFailed)"

text \<open>The value of a payable call moves to the contract before its body runs.\<close>

definition pay_in :: "msg \<Rightarrow> address \<Rightarrow> 'a chain_scheme \<Rightarrow> revert + 'a chain_scheme" where
  "pay_in m this s =
     (if msg_value m \<le> bal s (msg_sender m)
      then Inr (s\<lparr>bal := move_eth (msg_sender m) this (msg_value m) (bal s)\<rparr>) else Inl CallFailed)"

definition emit :: "address \<Rightarrow> event list \<Rightarrow> 'a chain_scheme \<Rightarrow> 'a chain_scheme" where
  "emit this es s = s\<lparr>logs := logs s @ map (Pair this) es\<rparr>"

lemma move_eth_sum:
  "v \<le> b from \<Longrightarrow> sum (move_eth from to v b) UNIV = sum b UNIV"
  using sum_fun_upd_nat [of UNIV "from" b "b from - v"]
    sum_fun_upd_nat [of UNIV to "b(from := b from - v)" "(b(from := b from - v)) to + v"]
  by (auto simp: move_eth_def Let_def)

lemma move_eth_self [simp]: "v \<le> b a \<Longrightarrow> move_eth a a v b = b"
  by (auto simp: move_eth_def Let_def)

lemma move_eth_to: "from \<noteq> to \<Longrightarrow> move_eth from to v b to = b to + v"
  by (simp add: move_eth_def Let_def)

lemma move_eth_from: "from \<noteq> to \<Longrightarrow> move_eth from to v b from = b from - v"
  by (simp add: move_eth_def Let_def)

lemma move_eth_other: "a \<noteq> from \<Longrightarrow> a \<noteq> to \<Longrightarrow> move_eth from to v b a = b a"
  by (simp add: move_eth_def Let_def)

lemmas move_eth_simps = move_eth_to move_eth_from move_eth_other

lemma transfer_eth_Inr_iff [simp, res_simps]:
  "transfer_eth this to v s = Inr s' \<longleftrightarrow>
     v \<le> bal s this \<and> accepts s to \<and> s' = s\<lparr>bal := move_eth this to v (bal s)\<rparr>"
  by (auto simp: transfer_eth_def)

lemma pay_in_Inr_iff [simp, res_simps]:
  "pay_in m this s = Inr s' \<longleftrightarrow>
     msg_value m \<le> bal s (msg_sender m) \<and>
     s' = s\<lparr>bal := move_eth (msg_sender m) this (msg_value m) (bal s)\<rparr>"
  by (auto simp: pay_in_def)

lemma emit_simps [simp]:
  "bal (emit a es s) = bal s" "accepts (emit a es s) = accepts s" "code (emit a es s) = code s"
  "nfts (emit a es s) = nfts s" "chain.more (emit a es s) = chain.more s"
  by (simp_all add: emit_def)

section \<open>OpenZeppelin ERC721\<close>

definition requireOwned :: "nft \<Rightarrow> nat \<Rightarrow> revert + address" where
  "requireOwned n tokenId =
     (let owner = nft_owners n tokenId
      in if owner = addr0 then Inl (CustomError ''ERC721NonexistentToken'') else Inr owner)"

definition ownerOf :: "nft \<Rightarrow> nat \<Rightarrow> revert + address" where
  "ownerOf n tokenId = requireOwned n tokenId"

definition balanceOf :: "nft \<Rightarrow> address \<Rightarrow> revert + nat" where
  "balanceOf n owner =
     (if owner = addr0 then Inl (CustomError ''ERC721InvalidOwner'') else Inr (nft_balances n owner))"

definition getApproved :: "nft \<Rightarrow> nat \<Rightarrow> revert + address" where
  "getApproved n tokenId = bindE (requireOwned n tokenId) (\<lambda>_. Inr (nft_tokenApprovals n tokenId))"

definition isApprovedForAll :: "nft \<Rightarrow> address \<Rightarrow> address \<Rightarrow> bool" where
  "isApprovedForAll n owner operator = nft_operatorApprovals n owner operator"

definition isAuthorized :: "nft \<Rightarrow> address \<Rightarrow> address \<Rightarrow> nat \<Rightarrow> bool" where
  "isAuthorized n owner spender tokenId \<longleftrightarrow>
     spender \<noteq> addr0 \<and>
     (owner = spender \<or> isApprovedForAll n owner spender \<or> nft_tokenApprovals n tokenId = spender)"

definition checkAuthorized :: "nft \<Rightarrow> address \<Rightarrow> address \<Rightarrow> nat \<Rightarrow> revert + unit" where
  "checkAuthorized n owner spender tokenId =
     (if \<not> isAuthorized n owner spender tokenId
      then if owner = addr0 then Inl (CustomError ''ERC721NonexistentToken'')
           else Inl (CustomError ''ERC721InsufficientApproval'')
      else Inr ())"

definition unchecked_inc :: "nat \<Rightarrow> nat" where
  "unchecked_inc x = (x + 1) mod two256"

definition unchecked_dec :: "nat \<Rightarrow> nat" where
  "unchecked_dec x = (x + two256 - 1) mod two256"

text \<open>
  \<open>_update\<close>: the only function that writes the owner of a token. It returns the previous
  owner, which its callers check afterwards; \<open>auth = 0\<close> skips the authorization.
\<close>

definition update_token :: "nft \<Rightarrow> address \<Rightarrow> nat \<Rightarrow> address \<Rightarrow> revert + (nft \<times> address \<times> event list)" where
  "update_token n to tokenId auth =
     (let from = nft_owners n tokenId
      in bindE (if auth \<noteq> addr0 then checkAuthorized n from auth tokenId else Inr ()) (\<lambda>_.
         let n1 = (if from \<noteq> addr0
                   then n\<lparr>nft_tokenApprovals := (nft_tokenApprovals n)(tokenId := addr0),
                          nft_balances := (nft_balances n)(from := unchecked_dec (nft_balances n from))\<rparr>
                   else n);
             n2 = (if to \<noteq> addr0
                   then n1\<lparr>nft_balances := (nft_balances n1)(to := unchecked_inc (nft_balances n1 to))\<rparr>
                   else n1);
             n3 = n2\<lparr>nft_owners := (nft_owners n2)(tokenId := to)\<rparr>
         in Inr (n3, from, [Event ''Transfer'' [EvAddr from, EvAddr to, EvNat tokenId]])))"

definition transferFrom ::
  "nft \<Rightarrow> address \<Rightarrow> address \<Rightarrow> address \<Rightarrow> nat \<Rightarrow> revert + (nft \<times> event list)" where
  "transferFrom n sender from to tokenId =
     require (to \<noteq> addr0) (CustomError ''ERC721InvalidReceiver'')
       (bindE (update_token n to tokenId sender) (\<lambda>(n', previousOwner, es).
          require (previousOwner = from) (CustomError ''ERC721IncorrectOwner'') (Inr (n', es))))"

definition checkOnERC721Received :: "hook \<Rightarrow> revert + unit" where
  "checkOnERC721Received h =
     (case h of NoCode \<Rightarrow> Inr () | HookAccepts \<Rightarrow> Inr ()
      | HookRejects \<Rightarrow> Inl (CustomError ''ERC721InvalidReceiver'') | HookReverts r \<Rightarrow> Inl r)"

definition safeTransferFrom ::
  "(address \<Rightarrow> hook) \<Rightarrow> nft \<Rightarrow> address \<Rightarrow> address \<Rightarrow> address \<Rightarrow> nat \<Rightarrow> revert + (nft \<times> event list)" where
  "safeTransferFrom cd n sender from to tokenId =
     bindE (transferFrom n sender from to tokenId) (\<lambda>r.
       bindE (checkOnERC721Received (cd to)) (\<lambda>_. Inr r))"

definition mint_token :: "nft \<Rightarrow> address \<Rightarrow> nat \<Rightarrow> revert + (nft \<times> event list)" where
  "mint_token n to tokenId =
     require (to \<noteq> addr0) (CustomError ''ERC721InvalidReceiver'')
       (bindE (update_token n to tokenId addr0) (\<lambda>(n', previousOwner, es).
          require (previousOwner = addr0) (CustomError ''ERC721InvalidSender'') (Inr (n', es))))"

definition safeMint :: "(address \<Rightarrow> hook) \<Rightarrow> nft \<Rightarrow> address \<Rightarrow> nat \<Rightarrow> revert + (nft \<times> event list)" where
  "safeMint cd n to tokenId =
     bindE (mint_token n to tokenId) (\<lambda>r. bindE (checkOnERC721Received (cd to)) (\<lambda>_. Inr r))"

text \<open>\<open>approve\<close> is \<open>_approve(to, tokenId, msg.sender, true)\<close>.\<close>

definition approve :: "nft \<Rightarrow> address \<Rightarrow> address \<Rightarrow> nat \<Rightarrow> revert + (nft \<times> event list)" where
  "approve n sender to tokenId =
     bindE (requireOwned n tokenId) (\<lambda>owner.
       require (\<not> (sender \<noteq> addr0 \<and> owner \<noteq> sender \<and> \<not> isApprovedForAll n owner sender))
         (CustomError ''ERC721InvalidApprover'')
         (Inr (n\<lparr>nft_tokenApprovals := (nft_tokenApprovals n)(tokenId := to)\<rparr>,
               [Event ''Approval'' [EvAddr owner, EvAddr to, EvNat tokenId]])))"

definition setApprovalForAll :: "nft \<Rightarrow> address \<Rightarrow> address \<Rightarrow> bool \<Rightarrow> revert + (nft \<times> event list)" where
  "setApprovalForAll n sender operator approved =
     require (operator \<noteq> addr0) (CustomError ''ERC721InvalidOperator'')
       (Inr (n\<lparr>nft_operatorApprovals := (nft_operatorApprovals n)
                 (sender := (nft_operatorApprovals n sender)(operator := approved))\<rparr>,
             [Event ''ApprovalForAll'' [EvAddr sender, EvAddr operator, EvBool approved]]))"

text \<open>
  \<open>ERC721URIStorage.tokenURI\<close>. \<open>_baseURI()\<close> is the inherited virtual function, which
  \<open>NFTCollection\<close> does not override (its \<open>baseURI\<close> is an unrelated state variable).
\<close>

definition baseURI_fun :: "nft \<Rightarrow> string" where
  "baseURI_fun n = []"

definition tokenURI :: "(nat \<Rightarrow> string) \<Rightarrow> nft \<Rightarrow> nat \<Rightarrow> revert + string" where
  "tokenURI toStr n tokenId =
     bindE (requireOwned n tokenId) (\<lambda>_.
       let uri = nft_tokenURIs n tokenId; base = baseURI_fun n
       in if length base = 0 then Inr uri
          else if length uri > 0 then Inr (base @ uri)
          else Inr (if length base > 0 then base @ toStr tokenId else []))"

definition setTokenURI :: "nft \<Rightarrow> nat \<Rightarrow> string \<Rightarrow> nft \<times> event list" where
  "setTokenURI n tokenId uri =
     (n\<lparr>nft_tokenURIs := (nft_tokenURIs n)(tokenId := uri)\<rparr>, [Event ''MetadataUpdate'' [EvNat tokenId]])"

section \<open>Ownable\<close>

definition checkOwner :: "address \<Rightarrow> address \<Rightarrow> revert + unit" where
  "checkOwner owner sender =
     (if owner \<noteq> sender then Inl (CustomError ''OwnableUnauthorizedAccount'') else Inr ())"

definition transferOwnership :: "address \<Rightarrow> address \<Rightarrow> address \<Rightarrow> revert + address" where
  "transferOwnership owner sender newOwner =
     bindE (checkOwner owner sender) (\<lambda>_.
       require (newOwner \<noteq> addr0) (CustomError ''OwnableInvalidOwner'') (Inr newOwner))"

definition renounceOwnership :: "address \<Rightarrow> address \<Rightarrow> revert + address" where
  "renounceOwnership owner sender = bindE (checkOwner owner sender) (\<lambda>_. Inr addr0)"

lemma checkOwner_Inr_iff [simp, res_simps]: "checkOwner owner sender = Inr u \<longleftrightarrow> owner = sender"
  by (simp add: checkOwner_def)

section \<open>The constructor of NFTCollection\<close>

definition new_NFTCollection ::
  "string \<Rightarrow> string \<Rightarrow> string \<Rightarrow> address \<Rightarrow> string \<Rightarrow> address \<Rightarrow> revert + nft" where
  "new_NFTCollection name symbol baseURI marketplaceAddress category initialOwner =
     require (initialOwner \<noteq> addr0) (CustomError ''OwnableInvalidOwner'')
       (Inr \<lparr>nft_name = name, nft_symbol = symbol, nft_owners = (\<lambda>_. addr0),
             nft_balances = (\<lambda>_. 0), nft_tokenApprovals = (\<lambda>_. addr0),
             nft_operatorApprovals = (\<lambda>_ _. False), nft_tokenURIs = (\<lambda>_. []),
             nft_owner = initialOwner, nft_tokenIds = 0, nft_baseURI = baseURI,
             nft_marketplaceAddress = marketplaceAddress, nft_category = category\<rparr>)"

definition totalSupply :: "nft \<Rightarrow> nat" where
  "totalSupply n = nft_tokenIds n"

text \<open>
  \<open>mint\<close> up to its last statement, the call back into the marketplace: every write of the
  collection happens before that call. Returns the new storage and the token id.
\<close>

definition mint_body ::
  "(address \<Rightarrow> hook) \<Rightarrow> nft \<Rightarrow> address \<Rightarrow> address \<Rightarrow> string \<Rightarrow> revert + (nft \<times> nat \<times> event list)" where
  "mint_body cd n sender to uri =
     bindE (checkOwner (nft_owner n) sender) (\<lambda>_.
     bindE (add256 (nft_tokenIds n) 1) (\<lambda>newTokenId.
     bindE (safeMint cd (n\<lparr>nft_tokenIds := newTokenId\<rparr>) to newTokenId) (\<lambda>(n1, es).
       let (n2, es') = setTokenURI n1 newTokenId uri in Inr (n2, newTokenId, es @ es'))))"

text \<open>The external calls any account can make on a collection, besides \<open>mint\<close>.\<close>

datatype nft_call =
    CallTransferFrom address address nat
  | CallSafeTransferFrom address address nat
  | CallApprove address nat
  | CallSetApprovalForAll address bool
  | CallTransferOwnership address
  | CallRenounceOwnership

fun nft_exec :: "(address \<Rightarrow> hook) \<Rightarrow> address \<Rightarrow> nft_call \<Rightarrow> nft \<Rightarrow> revert + (nft \<times> event list)" where
  "nft_exec cd c (CallTransferFrom from to t) n = transferFrom n c from to t"
| "nft_exec cd c (CallSafeTransferFrom from to t) n = safeTransferFrom cd n c from to t"
| "nft_exec cd c (CallApprove to t) n = approve n c to t"
| "nft_exec cd c (CallSetApprovalForAll op b) n = setApprovalForAll n c op b"
| "nft_exec cd c (CallTransferOwnership a) n =
     bindE (transferOwnership (nft_owner n) c a) (\<lambda>ow.
       Inr (n\<lparr>nft_owner := ow\<rparr>, [Event ''OwnershipTransferred'' [EvAddr (nft_owner n), EvAddr ow]]))"
| "nft_exec cd c CallRenounceOwnership n =
     bindE (renounceOwnership (nft_owner n) c) (\<lambda>ow.
       Inr (n\<lparr>nft_owner := ow\<rparr>, [Event ''OwnershipTransferred'' [EvAddr (nft_owner n), EvAddr ow]]))"

section \<open>What each token operation does when it succeeds\<close>

definition moved_token :: "nft \<Rightarrow> nat \<Rightarrow> address \<Rightarrow> nft" where
  "moved_token n t to =
     (let from = nft_owners n t;
          b = (if from \<noteq> addr0 then (nft_balances n)(from := unchecked_dec (nft_balances n from))
               else nft_balances n)
      in n\<lparr>nft_tokenApprovals := (if from \<noteq> addr0 then (nft_tokenApprovals n)(t := addr0)
                                  else nft_tokenApprovals n),
           nft_balances := b(to := unchecked_inc (b to)),
           nft_owners := (nft_owners n)(t := to)\<rparr>)"

lemma update_token_Inr_iff:
  assumes "to \<noteq> addr0"
  shows "update_token n to t auth = Inr (n', prev, es) \<longleftrightarrow>
     (auth \<noteq> addr0 \<longrightarrow> isAuthorized n (nft_owners n t) auth t) \<and>
     prev = nft_owners n t \<and> n' = moved_token n t to \<and>
     es = [Event ''Transfer'' [EvAddr (nft_owners n t), EvAddr to, EvNat t]]"
  using assms
  by (auto simp: update_token_def moved_token_def checkAuthorized_def Let_def split: if_splits)

lemma transferFrom_Inr_iff:
  "transferFrom n c from to t = Inr (n', es) \<longleftrightarrow>
     to \<noteq> addr0 \<and> (c \<noteq> addr0 \<longrightarrow> isAuthorized n (nft_owners n t) c t) \<and> nft_owners n t = from \<and>
     n' = moved_token n t to \<and> es = [Event ''Transfer'' [EvAddr from, EvAddr to, EvNat t]]"
proof (cases "to = addr0")
  case True
  then show ?thesis by (simp add: transferFrom_def)
next
  case False
  show ?thesis
    by (auto simp: transferFrom_def update_token_Inr_iff [OF False] False)
qed

lemma safeTransferFrom_Inr:
  "safeTransferFrom cd n c from to t = Inr r \<Longrightarrow> transferFrom n c from to t = Inr r"
  by (auto simp: safeTransferFrom_def)

lemma mint_token_Inr_iff:
  "mint_token n to t = Inr (n', es) \<longleftrightarrow>
     to \<noteq> addr0 \<and> nft_owners n t = addr0 \<and> n' = moved_token n t to \<and>
     es = [Event ''Transfer'' [EvAddr addr0, EvAddr to, EvNat t]]"
proof (cases "to = addr0")
  case True
  then show ?thesis by (simp add: mint_token_def)
next
  case False
  show ?thesis
    by (auto simp: mint_token_def update_token_Inr_iff [OF False] False)
qed

lemma mint_body_Inr_iff:
  "mint_body cd n c to uri = Inr (n', tid, es) \<longleftrightarrow>
     nft_owner n = c \<and> nft_tokenIds n + 1 < two256 \<and> tid = nft_tokenIds n + 1 \<and> to \<noteq> addr0 \<and>
     nft_owners n tid = addr0 \<and> checkOnERC721Received (cd to) = Inr () \<and>
     n' = (moved_token (n\<lparr>nft_tokenIds := tid\<rparr>) tid to)\<lparr>nft_tokenURIs := (nft_tokenURIs n)(tid := uri)\<rparr> \<and>
     es = [Event ''Transfer'' [EvAddr addr0, EvAddr to, EvNat tid], Event ''MetadataUpdate'' [EvNat tid]]"
  by (auto simp: mint_body_def safeMint_def mint_token_Inr_iff setTokenURI_def moved_token_def Let_def)

lemma approve_Inr_iff:
  "approve n c to t = Inr (n', es) \<longleftrightarrow>
     nft_owners n t \<noteq> addr0 \<and>
     (c \<noteq> addr0 \<longrightarrow> nft_owners n t = c \<or> nft_operatorApprovals n (nft_owners n t) c) \<and>
     n' = n\<lparr>nft_tokenApprovals := (nft_tokenApprovals n)(t := to)\<rparr> \<and>
     es = [Event ''Approval'' [EvAddr (nft_owners n t), EvAddr to, EvNat t]]"
  by (auto simp: approve_def requireOwned_def isApprovedForAll_def Let_def split: if_splits)

lemma setApprovalForAll_Inr_iff:
  "setApprovalForAll n c op b = Inr (n', es) \<longleftrightarrow>
     op \<noteq> addr0 \<and>
     n' = n\<lparr>nft_operatorApprovals := (nft_operatorApprovals n)
             (c := (nft_operatorApprovals n c)(op := b))\<rparr> \<and>
     es = [Event ''ApprovalForAll'' [EvAddr c, EvAddr op, EvBool b]]"
  by (auto simp: setApprovalForAll_def)

lemma moved_token_simps [simp]:
  "nft_owners (moved_token n t to) = (nft_owners n)(t := to)"
  "nft_operatorApprovals (moved_token n t to) = nft_operatorApprovals n"
  "nft_tokenURIs (moved_token n t to) = nft_tokenURIs n"
  "nft_tokenIds (moved_token n t to) = nft_tokenIds n"
  "nft_owner (moved_token n t to) = nft_owner n"
  "nft_marketplaceAddress (moved_token n t to) = nft_marketplaceAddress n"
  "nft_tokenApprovals (moved_token n t to) =
     (if nft_owners n t \<noteq> addr0 then (nft_tokenApprovals n)(t := addr0) else nft_tokenApprovals n)"
  by (auto simp: moved_token_def Let_def)

lemmas token_iffs = transferFrom_Inr_iff mint_body_Inr_iff approve_Inr_iff setApprovalForAll_Inr_iff

section \<open>The ledger invariant of a collection\<close>

text \<open>
  Exactly the ids \<open>1 .. _tokenIds\<close> have an owner, the balance of an account is the number of
  tokens it owns (so the unchecked arithmetic of \<open>_update\<close> never wraps), and a token nobody
  owns has no approval.
\<close>

definition ledger_ok :: "nft \<Rightarrow> bool" where
  "ledger_ok n \<longleftrightarrow>
     nft_tokenIds n < two256 \<and>
     (\<forall>t. nft_owners n t \<noteq> addr0 \<longleftrightarrow> 0 < t \<and> t \<le> nft_tokenIds n) \<and>
     (\<forall>a. a \<noteq> addr0 \<longrightarrow> nft_balances n a = card {t. nft_owners n t = a}) \<and>
     (\<forall>t. nft_owners n t = addr0 \<longrightarrow> nft_tokenApprovals n t = addr0) \<and>
     (\<forall>a. \<not> nft_operatorApprovals n addr0 a)"

lemma unchecked_inc_id [simp]: "Suc x < two256 \<Longrightarrow> unchecked_inc x = Suc x"
  by (simp add: unchecked_inc_def)

lemma unchecked_dec_id [simp]: "0 < x \<Longrightarrow> x < two256 \<Longrightarrow> unchecked_dec x = x - 1"
proof -
  assume "0 < x" and "x < two256"
  then have "(x + two256 - 1) mod two256 = ((x - 1) + two256) mod two256" by simp
  also have "\<dots> = x - 1" using \<open>x < two256\<close> by (simp only: mod_add_self2) simp
  finally show ?thesis by (simp add: unchecked_dec_def)
qed

lemma ledger_owned_finite:
  assumes "ledger_ok n" and "a \<noteq> addr0"
  shows "finite {t. nft_owners n t = a}" and "card {t. nft_owners n t = a} \<le> nft_tokenIds n"
proof -
  have sub: "{t. nft_owners n t = a} \<subseteq> {1..nft_tokenIds n}"
    using assms by (auto simp: ledger_ok_def Suc_le_eq)
  then show "finite {t. nft_owners n t = a}" by (rule finite_subset) simp
  show "card {t. nft_owners n t = a} \<le> nft_tokenIds n"
    using card_mono [OF _ sub] by simp
qed

lemma moved_balances:
  assumes bal: "\<And>a. a \<noteq> addr0 \<Longrightarrow> nft_balances n a = card {t. nft_owners n t = a}"
    and fin: "\<And>a. a \<noteq> addr0 \<Longrightarrow> finite {t. nft_owners n t = a}"
    and bound: "\<And>a. a \<noteq> addr0 \<Longrightarrow> a \<noteq> nft_owners n t \<Longrightarrow> Suc (card {t. nft_owners n t = a}) < two256"
    and bound': "\<And>a. a \<noteq> addr0 \<Longrightarrow> card {t. nft_owners n t = a} < two256"
    and "to \<noteq> addr0" and "a \<noteq> addr0"
  shows "nft_balances (moved_token n t to) a = card {u. nft_owners (moved_token n t to) u = a}"
proof -
  let ?from = "nft_owners n t"
  have pos: "?from \<noteq> addr0 \<Longrightarrow> 0 < card {u. nft_owners n u = ?from}"
    using fin by (subst card_gt_0_iff) auto
  have upd: "nft_balances (moved_token n t to) a =
    (let b = (if ?from \<noteq> addr0 then (nft_balances n)(?from := unchecked_dec (nft_balances n ?from))
              else nft_balances n)
     in (b(to := unchecked_inc (b to))) a)"
    by (simp add: moved_token_def Let_def)
  consider "a = to" "?from = to" | "a = to" "?from \<noteq> to" | "a \<noteq> to" "?from = a"
    | "a \<noteq> to" "?from \<noteq> a" by blast
  then show ?thesis
  proof cases
    case 1
    then have mem: "t \<in> {u. nft_owners n u = to}" by simp
    from 1 have "nft_balances (moved_token n t to) a = card {u. nft_owners n u = to}"
      using upd pos bal [of to] bound' [of to] \<open>to \<noteq> addr0\<close> by (simp add: Let_def)
    moreover have "{u. nft_owners (moved_token n t to) u = a} = {u. nft_owners n u = to}"
      using 1 mem by auto
    ultimately show ?thesis by simp
  next
    case 2
    then have "t \<notin> {u. nft_owners n u = to}" by simp
    then have "card (insert t {u. nft_owners n u = to}) = Suc (card {u. nft_owners n u = to})"
      using fin [of to] \<open>to \<noteq> addr0\<close> by simp
    moreover have "nft_balances (moved_token n t to) a = Suc (card {u. nft_owners n u = to})"
      using upd 2 bal [of to] bound [of to] \<open>to \<noteq> addr0\<close> by (simp add: Let_def)
    moreover have "{u. nft_owners (moved_token n t to) u = a} = insert t {u. nft_owners n u = to}"
      using 2 by auto
    ultimately show ?thesis by simp
  next
    case 3
    then have mem: "t \<in> {u. nft_owners n u = a}" by simp
    then have "card ({u. nft_owners n u = a} - {t}) = card {u. nft_owners n u = a} - 1"
      by (rule card_Diff_singleton)
    moreover have "nft_balances (moved_token n t to) a = card {u. nft_owners n u = a} - 1"
      using upd 3 bal [of a] bound' [of a] pos \<open>a \<noteq> addr0\<close> by (simp add: Let_def)
    moreover have "{u. nft_owners (moved_token n t to) u = a} = {u. nft_owners n u = a} - {t}"
      using 3 by auto
    ultimately show ?thesis by simp
  next
    case 4
    then have "t \<notin> {u. nft_owners n u = a}" by simp
    then have "{u. nft_owners (moved_token n t to) u = a} = {u. nft_owners n u = a}"
      using 4 by auto
    with 4 show ?thesis
      using upd bal [of a] \<open>a \<noteq> addr0\<close> by (simp add: Let_def)
  qed
qed

lemma ledger_ok_new:
  "new_NFTCollection nm sy bu mk cat ow = Inr n \<Longrightarrow> ledger_ok n"
  by (auto simp: new_NFTCollection_def ledger_ok_def)

lemma ledger_ok_transfer:
  assumes ok: "ledger_ok n" and frm: "nft_owners n t \<noteq> addr0" and to: "to \<noteq> addr0"
  shows "ledger_ok (moved_token n t to)"
proof -
  have ids: "nft_tokenIds n < two256" and owned: "0 < t" "t \<le> nft_tokenIds n"
    using ok frm by (auto simp: ledger_ok_def)
  have strict: "Suc (card {u. nft_owners n u = a}) < two256"
    if "a \<noteq> addr0" "a \<noteq> nft_owners n t" for a
  proof -
    have sub: "{u. nft_owners n u = a} \<subseteq> {1..nft_tokenIds n} - {t}"
      using ok that by (auto simp: ledger_ok_def Suc_le_eq)
    have "card {u. nft_owners n u = a} \<le> card ({1..nft_tokenIds n} - {t})"
      using sub by (intro card_mono) auto
    also have "\<dots> < nft_tokenIds n" using owned by simp
    finally show ?thesis using ids by simp
  qed
  have "nft_balances (moved_token n t to) a = card {u. nft_owners (moved_token n t to) u = a}"
    if "a \<noteq> addr0" for a
    using ok ids strict ledger_owned_finite [OF ok] to that
    by (intro moved_balances) (auto simp: ledger_ok_def intro: le_less_trans less_le_trans)
  then show ?thesis
    using ok frm to owned by (auto simp: ledger_ok_def)
qed

lemma ledger_ok_mint:
  assumes ok: "ledger_ok n" and tid: "tid = nft_tokenIds n + 1" "tid < two256" and to: "to \<noteq> addr0"
  shows "ledger_ok ((moved_token (n\<lparr>nft_tokenIds := tid\<rparr>) tid to)\<lparr>nft_tokenURIs := us\<rparr>)"
proof -
  let ?n = "n\<lparr>nft_tokenIds := tid\<rparr>"
  have "nft_owners n tid \<noteq> addr0 \<longleftrightarrow> 0 < tid \<and> tid \<le> nft_tokenIds n"
    using ok unfolding ledger_ok_def by blast
  then have free: "nft_owners n tid = addr0" using tid by simp
  have bd: "Suc (card {t. nft_owners n t = a}) < two256" "card {t. nft_owners n t = a} < two256"
    if "a \<noteq> addr0" for a
    using ledger_owned_finite(2) [OF ok that] tid by simp_all
  have b: "nft_balances (moved_token ?n tid to) a = card {u. nft_owners (moved_token ?n tid to) u = a}"
    if "a \<noteq> addr0" for a
    using ok ledger_owned_finite(1) [OF ok] bd tid to that
    by (intro moved_balances) (auto simp: ledger_ok_def intro: le_less_trans less_le_trans)
  have bal': "nft_balances (moved_token ?n tid to\<lparr>nft_tokenURIs := us\<rparr>) = nft_balances (moved_token ?n tid to)"
    by simp
  show ?thesis
    unfolding ledger_ok_def bal'
    using ok b free tid to by (auto simp: ledger_ok_def le_Suc_eq)
qed

lemma nft_exec_ledger_ok:
  assumes "ledger_ok n" and "c \<noteq> addr0" and "nft_exec cd c call n = Inr (n', es)"
  shows "ledger_ok n'"
proof (cases call)
  case (CallTransferFrom frm to t)
  then show ?thesis
    using assms ledger_ok_transfer [OF assms(1)]
    by (auto simp: transferFrom_Inr_iff isAuthorized_def isApprovedForAll_def ledger_ok_def)
next
  case (CallSafeTransferFrom frm to t)
  then show ?thesis
    using assms ledger_ok_transfer [OF assms(1)] safeTransferFrom_Inr [of cd n c frm to t]
    by (auto simp: transferFrom_Inr_iff isAuthorized_def isApprovedForAll_def ledger_ok_def)
qed (use assms in \<open>auto simp: approve_Inr_iff setApprovalForAll_Inr_iff ledger_ok_def
      transferOwnership_def renounceOwnership_def\<close>)

lemma mint_body_ledger_ok:
  "ledger_ok n \<Longrightarrow> mint_body cd n c to uri = Inr (n', tid, es) \<Longrightarrow> ledger_ok n'"
  by (auto simp: mint_body_Inr_iff intro: ledger_ok_mint)

section \<open>Custody: who can take a token away from its holder\<close>

text \<open>
  The contract a holder of tokens relies on. A call that moves a token needs the authority to
  move it, and authority over a token is only granted by an account that has it. The client
  lemma: while nobody else has authority over a token, no call of anybody else takes it.
\<close>

locale token_custody =
  fixes holder_of :: "'n \<Rightarrow> nat \<Rightarrow> address"
    and may_move :: "'n \<Rightarrow> address \<Rightarrow> nat \<Rightarrow> bool"
    and call :: "address \<Rightarrow> 'n \<Rightarrow> 'n \<Rightarrow> bool"
  assumes move_needs_auth:
    "call c n n' \<Longrightarrow> holder_of n t \<noteq> addr0 \<Longrightarrow> holder_of n' t \<noteq> holder_of n t \<Longrightarrow> may_move n c t"
    and grant_needs_auth:
    "call c n n' \<Longrightarrow> holder_of n t \<noteq> addr0 \<Longrightarrow> holder_of n' t = holder_of n t \<Longrightarrow>
     may_move n' d t \<Longrightarrow> may_move n d t \<or> may_move n c t"
begin

lemma custody_step:
  assumes "call c n n'" and "c \<noteq> h" and "h \<noteq> addr0" and "holder_of n t = h"
    and "\<And>d. may_move n d t \<Longrightarrow> d = h"
  shows "holder_of n' t = h" and "may_move n' d t \<Longrightarrow> d = h"
proof -
  show h: "holder_of n' t = h"
    using assms move_needs_auth by metis
  show "may_move n' d t \<Longrightarrow> d = h"
    using assms grant_needs_auth [of c n n' t d] h by auto
qed

lemma custody_run:
  assumes "\<And>i. i < k \<Longrightarrow> \<exists>c. c \<noteq> h \<and> call c (f i) (f (Suc i))" and "h \<noteq> addr0"
    and "holder_of (f 0) t = h" and "\<And>d. may_move (f 0) d t \<Longrightarrow> d = h"
  shows "holder_of (f k) t = h \<and> (\<forall>d. may_move (f k) d t \<longrightarrow> d = h)"
  using assms
proof (induction k)
  case 0
  then show ?case by blast
next
  case (Suc k)
  then obtain c where c: "c \<noteq> h" "call c (f k) (f (Suc k))" by blast
  from Suc have "holder_of (f k) t = h" and "\<And>d. may_move (f k) d t \<Longrightarrow> d = h"
    using less_SucI by blast+
  with c Suc.prems(2) show ?case
    using custody_step [OF c(2) c(1)] by blast
qed

end

inductive nft_step :: "(address \<Rightarrow> hook) \<Rightarrow> address \<Rightarrow> nft \<Rightarrow> nft \<Rightarrow> bool" for cd where
  exec: "c \<noteq> addr0 \<Longrightarrow> nft_exec cd c call n = Inr (n', es) \<Longrightarrow> nft_step cd c n n'"
| mint: "c \<noteq> addr0 \<Longrightarrow> mint_body cd n c to uri = Inr (n', tid, es) \<Longrightarrow> nft_step cd c n n'"

definition can_move :: "nft \<Rightarrow> address \<Rightarrow> nat \<Rightarrow> bool" where
  "can_move n c t = isAuthorized n (nft_owners n t) c t"

lemmas can_move_defs = can_move_def isAuthorized_def isApprovedForAll_def

lemma nft_exec_move_needs_auth:
  "nft_exec cd c call n = Inr (n', es) \<Longrightarrow> c \<noteq> addr0 \<Longrightarrow> nft_owners n' t \<noteq> nft_owners n t \<Longrightarrow>
   can_move n c t"
  by (cases call)
    (auto simp: token_iffs can_move_def transferOwnership_def renounceOwnership_def
      dest!: safeTransferFrom_Inr split: if_splits)

lemma nft_exec_grant_needs_auth:
  assumes "nft_exec cd c call n = Inr (n', es)" and "c \<noteq> addr0" and "nft_owners n t \<noteq> addr0"
    and "nft_owners n' t = nft_owners n t" and "can_move n' d t"
  shows "can_move n d t \<or> can_move n c t"
  using assms
  by (cases call)
    (auto simp: token_iffs can_move_defs transferOwnership_def renounceOwnership_def
      dest!: safeTransferFrom_Inr split: if_splits)

lemma mint_body_other_token:
  assumes "mint_body cd n c to uri = Inr (n', tid, es)" and "nft_owners n t \<noteq> addr0"
  shows "nft_owners n' t = nft_owners n t" and "can_move n' d t = can_move n d t"
proof -
  have "t \<noteq> tid" using assms by (auto simp: mint_body_Inr_iff)
  then show "nft_owners n' t = nft_owners n t" and "can_move n' d t = can_move n d t"
    using assms by (auto simp: mint_body_Inr_iff can_move_defs)
qed

interpretation erc: token_custody nft_owners can_move "nft_step cd" for cd
proof unfold_locales
  fix c n n' t
  assume "nft_step cd c n n'" "nft_owners n t \<noteq> addr0" "nft_owners n' t \<noteq> nft_owners n t"
  then show "can_move n c t"
    by cases (auto dest: nft_exec_move_needs_auth mint_body_other_token(1))
next
  fix c n n' t d
  assume "nft_step cd c n n'" "nft_owners n t \<noteq> addr0" "nft_owners n' t = nft_owners n t"
    "can_move n' d t"
  then show "can_move n d t \<or> can_move n c t"
    by cases (auto dest: nft_exec_grant_needs_auth mint_body_other_token(2))
qed

text \<open>A collection in which nobody but the holder \<open>this\<close> has authority over its tokens.\<close>

definition held_ok :: "address \<Rightarrow> nft \<Rightarrow> bool" where
  "held_ok this n \<longleftrightarrow>
     (\<forall>d. \<not> nft_operatorApprovals n this d) \<and>
     (\<forall>t d. nft_owners n t = this \<longrightarrow> can_move n d t \<longrightarrow> d = this)"

lemma held_ok_moved:
  "held_ok this n \<Longrightarrow> ledger_ok n \<Longrightarrow> held_ok this (moved_token n t to)"
  by (auto simp: held_ok_def can_move_defs ledger_ok_def)

lemma held_ok_exec:
  assumes "held_ok this n" and "ledger_ok n" and "nft_exec cd c call n = Inr (n', es)"
    and "c \<noteq> this" and "c \<noteq> addr0" and "this \<noteq> addr0"
  shows "held_ok this n'"
proof -
  have step: "nft_step cd c n n'" using assms by (auto intro: nft_step.exec)
  have noop: "\<not> nft_operatorApprovals n' this d" for d
    using assms
    by (cases call) (auto simp: token_iffs held_ok_def transferOwnership_def renounceOwnership_def
        dest!: safeTransferFrom_Inr)
  have "d = this" if o': "nft_owners n' t = this" and cm: "can_move n' d t" for t d
  proof (cases "nft_owners n t = this")
    case True
    then show ?thesis
      using erc.custody_step(2) [OF step assms(4,6) True _ cm] assms(1) by (auto simp: held_ok_def)
  next
    case False
    then have "n' = moved_token n t this"
      using assms(3) o'
      by (cases call) (auto simp: token_iffs transferOwnership_def renounceOwnership_def
          dest!: safeTransferFrom_Inr split: if_splits)
    then have "held_ok this n'"
      using held_ok_moved [OF assms(1,2)] by simp
    then show ?thesis
      using o' cm unfolding held_ok_def by blast
  qed
  with noop show ?thesis by (auto simp: held_ok_def)
qed

lemma held_ok_mint:
  assumes "held_ok this n" and "ledger_ok n" and "mint_body cd n c to uri = Inr (n', tid, es)"
  shows "held_ok this n'"
  using assms
  by (auto simp: mint_body_Inr_iff held_ok_def can_move_defs ledger_ok_def)

lemma nft_step_kept:
  assumes "nft_step cd a n n'" and "a \<noteq> this" and "this \<noteq> addr0" and "ledger_ok n" and "held_ok this n"
  shows "ledger_ok n'" and "held_ok this n'" and "nft_owners n t = this \<Longrightarrow> nft_owners n' t = this"
proof -
  show "ledger_ok n'"
    using assms(1,4) by cases (auto intro: nft_exec_ledger_ok mint_body_ledger_ok)
  show "held_ok this n'"
    using assms(1-5) by cases (auto intro: held_ok_exec held_ok_mint)
  show "nft_owners n t = this \<Longrightarrow> nft_owners n' t = this"
    using erc.custody_step(1) [OF assms(1-3)] assms(5) by (auto simp: held_ok_def)
qed

section \<open>Calls of a contract into a token contract\<close>

text \<open>\<open>IERC721(c).transferFrom(from, to, tokenId)\<close> executed by the contract at \<open>this\<close>.\<close>

definition call_transferFrom ::
  "address \<Rightarrow> address \<Rightarrow> address \<Rightarrow> address \<Rightarrow> nat \<Rightarrow> 'a chain_scheme \<Rightarrow> revert + 'a chain_scheme" where
  "call_transferFrom this c from to tokenId s =
     (case nfts s c of None \<Rightarrow> Inl CallFailed
      | Some n \<Rightarrow> bindE (transferFrom n this from to tokenId) (\<lambda>(n', es).
          Inr (emit c es (s\<lparr>nfts := (nfts s)(c \<mapsto> n')\<rparr>))))"

lemma call_transferFrom_Inr_iff [simp, res_simps]:
  "call_transferFrom this c from to t s = Inr s' \<longleftrightarrow>
     (\<exists>n. nfts s c = Some n \<and> to \<noteq> addr0 \<and> (this \<noteq> addr0 \<longrightarrow> can_move n this t) \<and>
        nft_owners n t = from \<and>
        s' = emit c [Event ''Transfer'' [EvAddr from, EvAddr to, EvNat t]]
               (s\<lparr>nfts := (nfts s)(c \<mapsto> moved_token n t to)\<rparr>))"
  by (auto simp: call_transferFrom_def transferFrom_Inr_iff can_move_def split: option.splits)

end
