(* ===== verification/Market.thy ===== *)
theory Market
  imports Erc721
begin

text \<open>
  The deployed contract \<open>contracts/NFTMarketplace.sol\<close> (with \<open>contracts/NFTCollection.sol\<close>'s
  \<open>mint\<close>, which calls back into it): its structs, its storage and one definition per
  function, view functions included; the search functions are in the theory \<open>Search\<close>.
\<close>

section \<open>Structs and storage\<close>

record Collection =
  col_collectionAddress :: address
  col_name :: string
  col_symbol :: string
  col_category :: string
  col_owner :: address
  col_isActive :: bool
  col_createdAt :: nat
  col_baseURI :: string
  col_totalSupply :: nat

record CollectionDetails =
  cd_basic :: Collection
  cd_floorPrice :: nat
  cd_totalVolume :: nat
  cd_ownerCount :: nat

record MarketItem =
  mi_tokenId :: nat
  mi_nftContract :: address
  mi_seller :: address
  mi_owner :: address
  mi_price :: nat
  mi_isOnSale :: bool
  mi_auctionEndTime :: nat
  mi_highestBidder :: address
  mi_highestBid :: nat
  mi_isAuction :: bool
  mi_tokenURI :: string

record Offer =
  of_buyer :: address
  of_price :: nat
  of_timestamp :: nat

text \<open>The value of an unwritten slot of a mapping.\<close>

definition no_Collection :: Collection where
  "no_Collection = \<lparr>col_collectionAddress = addr0, col_name = [], col_symbol = [], col_category = [],
     col_owner = addr0, col_isActive = False, col_createdAt = 0, col_baseURI = [], col_totalSupply = 0\<rparr>"

definition no_MarketItem :: MarketItem where
  "no_MarketItem = \<lparr>mi_tokenId = 0, mi_nftContract = addr0, mi_seller = addr0, mi_owner = addr0,
     mi_price = 0, mi_isOnSale = False, mi_auctionEndTime = 0, mi_highestBidder = addr0,
     mi_highestBid = 0, mi_isAuction = False, mi_tokenURI = []\<rparr>"

record market = chain +
  this_addr :: address
  entered :: bool
  owner :: address
  categories :: "string list"
  categoryExists :: "string \<Rightarrow> bool"
  collections :: "address \<Rightarrow> Collection"
  collectionAddresses :: "address list"
  categoryToCollections :: "string \<Rightarrow> address list"
  collectionToMarketItems :: "address \<Rightarrow> nat \<Rightarrow> MarketItem"
  collectionTokenIds :: "address \<Rightarrow> nat list"
  pendingReturns :: "address \<Rightarrow> nat \<Rightarrow> address \<Rightarrow> nat"
  itemOffers :: "address \<Rightarrow> nat \<Rightarrow> Offer list"
  userCreatedCollections :: "address \<Rightarrow> address list"
  userPurchases :: "address \<Rightarrow> address \<Rightarrow> nat \<Rightarrow> bool"
  userPurchaseCount :: "address \<Rightarrow> nat"
  listingFee :: nat

section \<open>Modifiers\<close>

definition nonReentrant :: "(market \<Rightarrow> revert + market) \<Rightarrow> market \<Rightarrow> revert + market" where
  "nonReentrant f s =
     require (\<not> entered s) (CustomError ''ReentrancyGuardReentrantCall'')
       (bindE (f (s\<lparr>entered := True\<rparr>)) (\<lambda>s'. Inr (s'\<lparr>entered := False\<rparr>)))"

text \<open>A function that is not \<open>payable\<close> reverts when Ether is sent with the call.\<close>

definition nonpayable :: "msg \<Rightarrow> revert + 'a \<Rightarrow> revert + 'a" where
  "nonpayable m k = require (msg_value m = 0) CallFailed k"

section \<open>Categories and the constructor\<close>

definition addCategory :: "msg \<Rightarrow> string \<Rightarrow> market \<Rightarrow> revert + market" where
  "addCategory m category s =
     nonpayable m (bindE (checkOwner (owner s) (msg_sender m)) (\<lambda>_.
       require (\<not> categoryExists s category) (Revert ''Category already exists'')
         (Inr (emit (this_addr s) [Event ''CategoryAdded'' [EvStr category]]
                (s\<lparr>categories := categories s @ [category],
                   categoryExists := (categoryExists s)(category := True)\<rparr>)))))"

definition getCategories :: "market \<Rightarrow> string list" where
  "getCategories s = categories s"

fun addCategories :: "msg \<Rightarrow> string list \<Rightarrow> market \<Rightarrow> revert + market" where
  "addCategories m [] s = Inr s"
| "addCategories m (c # cs) s = bindE (addCategory m c s) (addCategories m cs)"

definition initial_categories :: "string list" where
  "initial_categories = [''Art'', ''Gaming'', ''Memberships'', ''Music'', ''PFPs'', ''Photography'']"

definition empty_market :: "address \<Rightarrow> address \<Rightarrow> chain \<Rightarrow> market" where
  "empty_market this deployer ch =
     \<lparr>bal = bal ch, accepts = (accepts ch)(this := False), code = (code ch)(this := HookRejects),
      nfts = nfts ch, logs = logs ch, this_addr = this, entered = False, owner = deployer,
      categories = [], categoryExists = (\<lambda>_. False), collections = (\<lambda>_. no_Collection),
      collectionAddresses = [], categoryToCollections = (\<lambda>_. []),
      collectionToMarketItems = (\<lambda>_ _. no_MarketItem), collectionTokenIds = (\<lambda>_. []),
      pendingReturns = (\<lambda>_ _ _. 0), itemOffers = (\<lambda>_ _. []), userCreatedCollections = (\<lambda>_. []),
      userPurchases = (\<lambda>_ _ _. False), userPurchaseCount = (\<lambda>_. 0), listingFee = 500000000000000\<rparr>"

text \<open>The constructor; \<open>new_NFTMarketplace m this ch\<close> deploys at the address \<open>this\<close>.\<close>

definition new_NFTMarketplace :: "msg \<Rightarrow> address \<Rightarrow> chain \<Rightarrow> revert + market" where
  "new_NFTMarketplace m this ch =
     nonpayable m (require (msg_sender m \<noteq> addr0) (CustomError ''OwnableInvalidOwner'')
       (addCategories m initial_categories
          (emit this [Event ''OwnershipTransferred'' [EvAddr addr0, EvAddr (msg_sender m)]]
             (empty_market this (msg_sender m) ch))))"

section \<open>Collections\<close>

text \<open>
  \<open>ca\<close> is the address the \<open>CREATE\<close> instruction computes for the new contract; the creation
  fails when that address is already in use.
\<close>

definition createCollection ::
  "msg \<Rightarrow> address \<Rightarrow> string \<Rightarrow> string \<Rightarrow> string \<Rightarrow> string \<Rightarrow> market \<Rightarrow> revert + (market \<times> address)" where
  "createCollection m ca name symbol baseURI category s =
     nonpayable m (require (categoryExists s category) (Revert ''Invalid category'')
       (require (nfts s ca = None \<and> code s ca = NoCode \<and> ca \<noteq> addr0) CallFailed
         (bindE (new_NFTCollection name symbol baseURI (this_addr s) category (msg_sender m)) (\<lambda>n.
           let s1 = emit ca [Event ''OwnershipTransferred'' [EvAddr addr0, EvAddr (msg_sender m)]]
                      (s\<lparr>nfts := (nfts s)(ca \<mapsto> n), code := (code s)(ca := HookRejects),
                         accepts := (accepts s)(ca := False)\<rparr>);
               col = \<lparr>col_collectionAddress = ca, col_name = name, col_symbol = symbol,
                      col_category = category, col_owner = msg_sender m, col_isActive = True,
                      col_createdAt = block_timestamp m, col_baseURI = baseURI, col_totalSupply = 0\<rparr>;
               s2 = s1\<lparr>collections := (collections s1)(ca := col),
                       collectionAddresses := collectionAddresses s1 @ [ca],
                       categoryToCollections := (categoryToCollections s1)
                         (category := categoryToCollections s1 category @ [ca])\<rparr>;
               s3 = emit (this_addr s) [Event ''CollectionCreated''
                      [EvAddr ca, EvStr name, EvStr symbol, EvStr category, EvAddr (msg_sender m)]] s2;
               s4 = s3\<lparr>userCreatedCollections := (userCreatedCollections s3)
                       (msg_sender m := userCreatedCollections s3 (msg_sender m) @ [ca])\<rparr>
           in Inr (s4, ca)))))"

definition getCollectionDetails :: "address \<Rightarrow> market \<Rightarrow> revert + Collection" where
  "getCollectionDetails ca s =
     require (col_isActive (collections s ca)) (Revert ''Collection does not exist'')
       (Inr (collections s ca))"

text \<open>The external callback: only the collection itself may refresh its mirrored supply.\<close>

definition updateCollectionTotalSupply :: "msg \<Rightarrow> address \<Rightarrow> market \<Rightarrow> revert + market" where
  "updateCollectionTotalSupply m ca s =
     nonpayable m (require (col_isActive (collections s ca)) (Revert ''Collection does not exist'')
       (require (msg_sender m = ca) (Revert ''Only collection contract can update its supply'')
         (case nfts s ca of None \<Rightarrow> Inl CallFailed
          | Some n \<Rightarrow>
              Inr (s\<lparr>collections := (collections s)
                      (ca := (collections s ca)\<lparr>col_totalSupply := totalSupply n\<rparr>)\<rparr>))))"

text \<open>
  \<open>NFTCollection.mint\<close> on the collection at \<open>ca\<close>: the body, then the call of
  \<open>updateCollectionTotalSupply\<close> on the marketplace with the collection as the sender.
\<close>

definition nft_mint :: "msg \<Rightarrow> address \<Rightarrow> address \<Rightarrow> string \<Rightarrow> market \<Rightarrow> revert + (market \<times> nat)" where
  "nft_mint m ca to uri s =
     nonpayable m (case nfts s ca of None \<Rightarrow> Inl CallFailed
       | Some n \<Rightarrow> bindE (mint_body (code s) n (msg_sender m) to uri) (\<lambda>(n', newTokenId, es).
           let s1 = emit ca es (s\<lparr>nfts := (nfts s)(ca \<mapsto> n')\<rparr>)
           in if nft_marketplaceAddress n' = this_addr s
              then bindE (updateCollectionTotalSupply
                     \<lparr>msg_sender = ca, msg_value = 0, block_timestamp = block_timestamp m\<rparr> ca s1)
                   (\<lambda>s2. Inr (s2, newTokenId))
              else Inl CallFailed))"

text \<open>Any other external call of an account on a token contract.\<close>

definition nft_external :: "msg \<Rightarrow> address \<Rightarrow> nft_call \<Rightarrow> market \<Rightarrow> revert + market" where
  "nft_external m ca call s =
     nonpayable m (case nfts s ca of None \<Rightarrow> Inl CallFailed
       | Some n \<Rightarrow> bindE (nft_exec (code s) (msg_sender m) call n) (\<lambda>(n', es).
           Inr (emit ca es (s\<lparr>nfts := (nfts s)(ca \<mapsto> n')\<rparr>))))"

section \<open>Listing, sale, auction, bid, offer\<close>

definition set_item :: "address \<Rightarrow> nat \<Rightarrow> MarketItem \<Rightarrow> market \<Rightarrow> market" where
  "set_item ca t it s = s\<lparr>collectionToMarketItems := (collectionToMarketItems s)
     (ca := (collectionToMarketItems s ca)(t := it))\<rparr>"

text \<open>\<open>toStr\<close> is \<open>Strings.toString\<close>; it is never reached because the base URI is empty.\<close>

definition createMarketItem_body :: "msg \<Rightarrow> address \<Rightarrow> nat \<Rightarrow> nat \<Rightarrow> market \<Rightarrow> revert + market" where
  "createMarketItem_body m ca tokenId price s =
     require (col_isActive (collections s ca)) (Revert ''Collection does not exist'')
     (require (price > 0) (Revert ''Price must be greater than zero'')
     (require (msg_value m = listingFee s) (Revert ''Must pay listing fee'')
     (bindE (case nfts s ca of None \<Rightarrow> Inl CallFailed | Some n \<Rightarrow> tokenURI (\<lambda>_. []) n tokenId) (\<lambda>uri.
       let it = \<lparr>mi_tokenId = tokenId, mi_nftContract = ca, mi_seller = msg_sender m, mi_owner = addr0,
                 mi_price = price, mi_isOnSale = True, mi_auctionEndTime = 0, mi_highestBidder = addr0,
                 mi_highestBid = 0, mi_isAuction = False, mi_tokenURI = uri\<rparr>;
           s1 = (set_item ca tokenId it s)\<lparr>collectionTokenIds := (collectionTokenIds s)
                   (ca := collectionTokenIds s ca @ [tokenId])\<rparr>
       in bindE (call_transferFrom (this_addr s) ca (msg_sender m) (this_addr s) tokenId s1) (\<lambda>s2.
            Inr (emit (this_addr s) [Event ''MarketItemCreated''
              [EvAddr ca, EvNat tokenId, EvAddr (msg_sender m), EvAddr addr0, EvNat price]] s2))))))"

definition createMarketItem :: "msg \<Rightarrow> address \<Rightarrow> nat \<Rightarrow> nat \<Rightarrow> market \<Rightarrow> revert + market" where
  "createMarketItem m ca tokenId price s =
     bindE (pay_in m (this_addr s) s) (nonReentrant (createMarketItem_body m ca tokenId price))"

definition createMarketSale_body :: "msg \<Rightarrow> address \<Rightarrow> nat \<Rightarrow> market \<Rightarrow> revert + market" where
  "createMarketSale_body m ca tokenId s =
     (let item = collectionToMarketItems s ca tokenId in
      require (mi_isOnSale item) (Revert ''Item is not on sale'')
      (require (\<not> mi_isAuction item) (Revert ''Item is on auction'')
      (require (msg_value m = mi_price item) (Revert ''Please submit the asking price'')
      (let s1 = set_item ca tokenId (item\<lparr>mi_isOnSale := False, mi_owner := msg_sender m\<rparr>) s in
       bindE (transfer_eth (this_addr s) (mi_seller item) (msg_value m) s1) (\<lambda>s2.
       bindE (call_transferFrom (this_addr s) ca (this_addr s) (msg_sender m) tokenId s2) (\<lambda>s3.
       bindE (add256 (userPurchaseCount s3 (msg_sender m)) 1) (\<lambda>cnt.
         Inr (emit (this_addr s) [Event ''MarketItemSold''
                [EvAddr ca, EvNat tokenId, EvAddr (mi_seller item), EvAddr (msg_sender m), EvNat (msg_value m)]]
           (s3\<lparr>userPurchases := (userPurchases s3)(msg_sender m := (userPurchases s3 (msg_sender m))
                  (ca := (userPurchases s3 (msg_sender m) ca)(tokenId := True))),
               userPurchaseCount := (userPurchaseCount s3)(msg_sender m := cnt)\<rparr>)))))))))"

definition createMarketSale :: "msg \<Rightarrow> address \<Rightarrow> nat \<Rightarrow> market \<Rightarrow> revert + market" where
  "createMarketSale m ca tokenId s =
     bindE (pay_in m (this_addr s) s) (nonReentrant (createMarketSale_body m ca tokenId))"

definition createAuction_body :: "msg \<Rightarrow> address \<Rightarrow> nat \<Rightarrow> nat \<Rightarrow> nat \<Rightarrow> market \<Rightarrow> revert + market" where
  "createAuction_body m ca tokenId startingPrice duration s =
     (let item = collectionToMarketItems s ca tokenId in
      require (mi_seller item = msg_sender m) (Revert ''Only seller can start auction'')
      (require (\<not> mi_isAuction item) (Revert ''Already on auction'')
      (bindE (add256 (block_timestamp m) duration) (\<lambda>endTime.
         Inr (set_item ca tokenId (item\<lparr>mi_isAuction := True, mi_price := startingPrice,
                mi_auctionEndTime := endTime\<rparr>) s)))))"

definition createAuction :: "msg \<Rightarrow> address \<Rightarrow> nat \<Rightarrow> nat \<Rightarrow> nat \<Rightarrow> market \<Rightarrow> revert + market" where
  "createAuction m ca tokenId startingPrice duration s =
     nonpayable m (nonReentrant (createAuction_body m ca tokenId startingPrice duration) s)"

definition placeBid_body :: "msg \<Rightarrow> address \<Rightarrow> nat \<Rightarrow> market \<Rightarrow> revert + market" where
  "placeBid_body m ca tokenId s =
     (let item = collectionToMarketItems s ca tokenId in
      require (mi_isAuction item) (Revert ''Not an auction'')
      (require (block_timestamp m < mi_auctionEndTime item) (Revert ''Auction ended'')
      (require (msg_value m > mi_highestBid item) (Revert ''Bid too low'')
      (bindE (if mi_highestBidder item \<noteq> addr0
              then bindE (add256 (pendingReturns s ca tokenId (mi_highestBidder item)) (mi_highestBid item))
                (\<lambda>r. Inr (s\<lparr>pendingReturns := (pendingReturns s)(ca := (pendingReturns s ca)
                       (tokenId := (pendingReturns s ca tokenId)(mi_highestBidder item := r)))\<rparr>))
              else Inr s) (\<lambda>s1.
         Inr (set_item ca tokenId (item\<lparr>mi_highestBidder := msg_sender m, mi_highestBid := msg_value m\<rparr>) s1))))))"

definition placeBid :: "msg \<Rightarrow> address \<Rightarrow> nat \<Rightarrow> market \<Rightarrow> revert + market" where
  "placeBid m ca tokenId s =
     bindE (pay_in m (this_addr s) s) (nonReentrant (placeBid_body m ca tokenId))"

definition makeOffer_body :: "msg \<Rightarrow> address \<Rightarrow> nat \<Rightarrow> market \<Rightarrow> revert + market" where
  "makeOffer_body m ca tokenId s =
     (let item = collectionToMarketItems s ca tokenId in
      require (mi_isOnSale item) (Revert ''Item not on sale'')
      (require (\<not> mi_isAuction item) (Revert ''Item is on auction'')
      (require (msg_value m > 0) (Revert ''Offer must be greater than zero'')
        (Inr (emit (this_addr s) [Event ''OfferCreated'' [EvAddr ca, EvAddr (msg_sender m), EvNat (msg_value m)]]
           (s\<lparr>itemOffers := (itemOffers s)(ca := (itemOffers s ca)(tokenId := itemOffers s ca tokenId @
               [\<lparr>of_buyer = msg_sender m, of_price = msg_value m, of_timestamp = block_timestamp m\<rparr>]))\<rparr>))))))"

definition makeOffer :: "msg \<Rightarrow> address \<Rightarrow> nat \<Rightarrow> market \<Rightarrow> revert + market" where
  "makeOffer m ca tokenId s =
     bindE (pay_in m (this_addr s) s) (nonReentrant (makeOffer_body m ca tokenId))"

definition market_transferOwnership :: "msg \<Rightarrow> address \<Rightarrow> market \<Rightarrow> revert + market" where
  "market_transferOwnership m a s =
     nonpayable m (bindE (transferOwnership (owner s) (msg_sender m) a) (\<lambda>ow.
       Inr (emit (this_addr s) [Event ''OwnershipTransferred'' [EvAddr (owner s), EvAddr ow]]
              (s\<lparr>owner := ow\<rparr>))))"

definition market_renounceOwnership :: "msg \<Rightarrow> market \<Rightarrow> revert + market" where
  "market_renounceOwnership m s =
     nonpayable m (bindE (renounceOwnership (owner s) (msg_sender m)) (\<lambda>ow.
       Inr (emit (this_addr s) [Event ''OwnershipTransferred'' [EvAddr (owner s), EvAddr ow]]
              (s\<lparr>owner := ow\<rparr>))))"

section \<open>View functions\<close>

fun floor_loop :: "(nat \<Rightarrow> MarketItem) \<Rightarrow> nat list \<Rightarrow> nat \<Rightarrow> nat" where
  "floor_loop items [] lowestPrice = lowestPrice"
| "floor_loop items (t # ts) lowestPrice =
     floor_loop items ts
       (if mi_isOnSale (items t) \<and> mi_price (items t) < lowestPrice then mi_price (items t) else lowestPrice)"

definition getFloorPrice :: "address \<Rightarrow> market \<Rightarrow> nat" where
  "getFloorPrice ca s =
     (let lowestPrice = floor_loop (collectionToMarketItems s ca) (collectionTokenIds s ca) uint256_max
      in if lowestPrice = uint256_max then 0 else lowestPrice)"

definition getTotalVolume :: "address \<Rightarrow> market \<Rightarrow> nat" where
  "getTotalVolume ca s = 0"

definition getUniqueOwnerCount :: "address \<Rightarrow> market \<Rightarrow> nat" where
  "getUniqueOwnerCount ca s = 0"

definition fetchCollectionDetails :: "address \<Rightarrow> market \<Rightarrow> revert + CollectionDetails" where
  "fetchCollectionDetails ca s =
     require (col_isActive (collections s ca)) (Revert ''Collection does not exist'')
       (Inr \<lparr>cd_basic = collections s ca, cd_floorPrice = getFloorPrice ca s,
             cd_totalVolume = getTotalVolume ca s, cd_ownerCount = getUniqueOwnerCount ca s\<rparr>)"

text \<open>The loop \<open>for (i ...) details[i] = fetchCollectionDetails(cs[i])\<close>: the first revert wins.\<close>

fun details_loop :: "address list \<Rightarrow> market \<Rightarrow> revert + CollectionDetails list" where
  "details_loop [] s = Inr []"
| "details_loop (c # cs) s =
     bindE (fetchCollectionDetails c s) (\<lambda>d. bindE (details_loop cs s) (\<lambda>ds. Inr (d # ds)))"

definition fetchCollections :: "market \<Rightarrow> revert + CollectionDetails list" where
  "fetchCollections s = details_loop (collectionAddresses s) s"

definition fetchUserCreatedCollections :: "address \<Rightarrow> market \<Rightarrow> revert + CollectionDetails list" where
  "fetchUserCreatedCollections user s = details_loop (userCreatedCollections s user) s"

definition fetchCollectionItems :: "address \<Rightarrow> market \<Rightarrow> revert + MarketItem list" where
  "fetchCollectionItems ca s =
     require (col_isActive (collections s ca)) (Revert ''Collection does not exist'')
       (Inr (map (collectionToMarketItems s ca) (collectionTokenIds s ca)))"

definition fetchCollectionsByCategory :: "string \<Rightarrow> market \<Rightarrow> revert + Collection list" where
  "fetchCollectionsByCategory category s =
     require (categoryExists s category) (Revert ''Category does not exist'')
       (Inr (map (collections s) (categoryToCollections s category)))"

text \<open>The nested loop over every token id of every collection, as one list of pairs.\<close>

definition listed_tokens :: "market \<Rightarrow> (address \<times> nat) list" where
  "listed_tokens s = concat (map (\<lambda>ca. map (Pair ca) (collectionTokenIds s ca)) (collectionAddresses s))"

definition fetchUserPurchasedItems :: "address \<Rightarrow> market \<Rightarrow> revert + MarketItem list" where
  "fetchUserPurchasedItems user s =
     fill_loop (\<lambda>(ca, t). userPurchases s user ca t) (\<lambda>(ca, t). collectionToMarketItems s ca t)
       (listed_tokens s) 0 (replicate (userPurchaseCount s user) no_MarketItem)"

end
