(* ===== verification/MarketInv.thy ===== *)
theory MarketInv
  imports Market
begin

text \<open>
  The marketplace as a state machine: the calls an account can make, the reachable states, and
  the invariants every call keeps: the registry of collections, the mirrored supply, the
  custody of the tokens on sale, and the Ether the contract has taken in.
\<close>

section \<open>Calls\<close>

datatype mcall =
    AddCategory string
  | CreateCollection address string string string string
  | CreateMarketItem address nat nat
  | CreateMarketSale address nat
  | CreateAuction address nat nat nat
  | PlaceBid address nat
  | MakeOffer address nat
  | UpdateSupply address
  | TransferOwnership address
  | RenounceOwnership
  | Mint address address string
  | NftCall address nft_call
  | SendEther address

fun exec :: "msg \<Rightarrow> mcall \<Rightarrow> market \<Rightarrow> revert + market" where
  "exec m (AddCategory c) s = addCategory m c s"
| "exec m (CreateCollection ca nm sy bu cat) s = bindE (createCollection m ca nm sy bu cat s) (Inr \<circ> fst)"
| "exec m (CreateMarketItem ca t p) s = createMarketItem m ca t p s"
| "exec m (CreateMarketSale ca t) s = createMarketSale m ca t s"
| "exec m (CreateAuction ca t p d) s = createAuction m ca t p d s"
| "exec m (PlaceBid ca t) s = placeBid m ca t s"
| "exec m (MakeOffer ca t) s = makeOffer m ca t s"
| "exec m (UpdateSupply ca) s = updateCollectionTotalSupply m ca s"
| "exec m (TransferOwnership a) s = market_transferOwnership m a s"
| "exec m RenounceOwnership s = market_renounceOwnership m s"
| "exec m (Mint ca to uri) s = bindE (nft_mint m ca to uri s) (Inr \<circ> fst)"
| "exec m (NftCall ca call) s = nft_external m ca call s"
| "exec m (SendEther to) s =
     require (msg_value m \<le> bal s (msg_sender m) \<and> accepts s to) CallFailed
       (Inr (s\<lparr>bal := move_eth (msg_sender m) to (msg_value m) (bal s)\<rparr>))"

text \<open>
  A caller is an account other than the marketplace and its collections, which make no call of
  their own besides those written in the operations.
\<close>

definition outside :: "market \<Rightarrow> address \<Rightarrow> bool" where
  "outside s a \<longleftrightarrow> a \<noteq> addr0 \<and> a \<noteq> this_addr s \<and> nfts s a = None"

inductive market_step :: "market \<Rightarrow> market \<Rightarrow> bool" where
  step: "outside s (msg_sender m) \<Longrightarrow> exec m call s = Inr s' \<Longrightarrow> market_step s s'"

inductive_cases market_stepE: "market_step s s'"

inductive reachable :: "address \<Rightarrow> market \<Rightarrow> bool" for this where
  init: "this \<noteq> addr0 \<Longrightarrow> nfts ch = Map.empty \<Longrightarrow> new_NFTMarketplace m this ch = Inr s \<Longrightarrow>
    reachable this s"
| step: "reachable this s \<Longrightarrow> market_step s s' \<Longrightarrow> reachable this s'"

section \<open>The shape of the state after a successful call\<close>

lemmas op_defs = nonReentrant_def nonpayable_def set_item_def emit_def

lemma addCategory_shape:
  "addCategory m c s = Inr s' \<Longrightarrow>
   \<exists>l. owner s = msg_sender m \<and> \<not> categoryExists s c \<and> msg_value m = 0 \<and>
     s' = s\<lparr>logs := l, categories := categories s @ [c], categoryExists := (categoryExists s)(c := True)\<rparr>"
  by (rule exI [of _ "logs s'"]) (auto simp: addCategory_def op_defs)

lemma createCollection_shape:
  "createCollection m ca nm sy bu cat s = Inr (s', r) \<Longrightarrow>
   \<exists>l n. categoryExists s cat \<and> nfts s ca = None \<and> code s ca = NoCode \<and> ca \<noteq> addr0 \<and> r = ca \<and>
     msg_value m = 0 \<and> new_NFTCollection nm sy bu (this_addr s) cat (msg_sender m) = Inr n \<and>
     s' = s\<lparr>logs := l, nfts := (nfts s)(ca \<mapsto> n), code := (code s)(ca := HookRejects),
       accepts := (accepts s)(ca := False),
       collections := (collections s)(ca :=
         \<lparr>col_collectionAddress = ca, col_name = nm, col_symbol = sy, col_category = cat,
          col_owner = msg_sender m, col_isActive = True, col_createdAt = block_timestamp m,
          col_baseURI = bu, col_totalSupply = 0\<rparr>),
       collectionAddresses := collectionAddresses s @ [ca],
       categoryToCollections := (categoryToCollections s)(cat := categoryToCollections s cat @ [ca]),
       userCreatedCollections := (userCreatedCollections s)
         (msg_sender m := userCreatedCollections s (msg_sender m) @ [ca])\<rparr>"
  by (rule exI [of _ "logs s'"]) (auto simp: createCollection_def op_defs Let_def)

lemma updateCollectionTotalSupply_shape:
  "updateCollectionTotalSupply m ca s = Inr s' \<Longrightarrow>
   \<exists>n. nfts s ca = Some n \<and> col_isActive (collections s ca) \<and> msg_sender m = ca \<and>
     s' = s\<lparr>collections := (collections s)(ca := (collections s ca)\<lparr>col_totalSupply := nft_tokenIds n\<rparr>)\<rparr>"
  by (auto simp: updateCollectionTotalSupply_def op_defs totalSupply_def split: option.splits)

lemma nft_mint_shape:
  "nft_mint m ca to uri s = Inr (s', tid) \<Longrightarrow>
   \<exists>l n n' es. nfts s ca = Some n \<and> mint_body (code s) n (msg_sender m) to uri = Inr (n', tid, es) \<and>
     msg_value m = 0 \<and> col_isActive (collections s ca) \<and>
     s' = s\<lparr>logs := l, nfts := (nfts s)(ca \<mapsto> n'),
       collections := (collections s)(ca := (collections s ca)\<lparr>col_totalSupply := nft_tokenIds n'\<rparr>)\<rparr>"
  by (rule exI [of _ "logs s'"]) (auto simp: nft_mint_def op_defs Let_def split: option.splits if_splits
      dest!: updateCollectionTotalSupply_shape)

lemma nft_external_shape:
  "nft_external m ca call s = Inr s' \<Longrightarrow>
   \<exists>l n n' es. nfts s ca = Some n \<and> nft_exec (code s) (msg_sender m) call n = Inr (n', es) \<and>
     msg_value m = 0 \<and> s' = s\<lparr>logs := l, nfts := (nfts s)(ca \<mapsto> n')\<rparr>"
  by (rule exI [of _ "logs s'"]) (auto simp: nft_external_def op_defs split: option.splits)

lemma createMarketItem_shape:
  "createMarketItem m ca t p s = Inr s' \<Longrightarrow>
   \<exists>l n uri. col_isActive (collections s ca) \<and> 0 < p \<and> msg_value m = listingFee s \<and>
     msg_value m \<le> bal s (msg_sender m) \<and> \<not> entered s \<and> nfts s ca = Some n \<and>
     nft_owners n t = msg_sender m \<and> msg_sender m \<noteq> addr0 \<and> this_addr s \<noteq> addr0 \<and>
     can_move n (this_addr s) t \<and> uri = nft_tokenURIs n t \<and>
     s' = s\<lparr>logs := l, bal := move_eth (msg_sender m) (this_addr s) (msg_value m) (bal s),
       nfts := (nfts s)(ca \<mapsto> moved_token n t (this_addr s)), entered := False,
       collectionToMarketItems := (collectionToMarketItems s)(ca := (collectionToMarketItems s ca)(t :=
         \<lparr>mi_tokenId = t, mi_nftContract = ca, mi_seller = msg_sender m, mi_owner = addr0,
          mi_price = p, mi_isOnSale = True, mi_auctionEndTime = 0, mi_highestBidder = addr0,
          mi_highestBid = 0, mi_isAuction = False, mi_tokenURI = uri\<rparr>)),
       collectionTokenIds := (collectionTokenIds s)(ca := collectionTokenIds s ca @ [t])\<rparr>"
  by (rule exI [of _ "logs s'"]) (auto simp: createMarketItem_def createMarketItem_body_def op_defs Let_def tokenURI_def
      baseURI_fun_def requireOwned_def split: option.splits if_splits)

lemma createMarketSale_shape:
  "createMarketSale m ca t s = Inr s' \<Longrightarrow>
   \<exists>l n. (let it = collectionToMarketItems s ca t; b = move_eth (msg_sender m) (this_addr s) (msg_value m) (bal s) in
     mi_isOnSale it \<and> \<not> mi_isAuction it \<and> msg_value m = mi_price it \<and>
     msg_value m \<le> bal s (msg_sender m) \<and> \<not> entered s \<and> nfts s ca = Some n \<and>
     nft_owners n t = this_addr s \<and> msg_sender m \<noteq> addr0 \<and> accepts s (mi_seller it) \<and>
     msg_value m \<le> b (this_addr s) \<and> userPurchaseCount s (msg_sender m) + 1 < two256 \<and>
     s' = s\<lparr>logs := l, bal := move_eth (this_addr s) (mi_seller it) (msg_value m) b,
       nfts := (nfts s)(ca \<mapsto> moved_token n t (msg_sender m)), entered := False,
       collectionToMarketItems := (collectionToMarketItems s)(ca := (collectionToMarketItems s ca)(t :=
         it\<lparr>mi_isOnSale := False, mi_owner := msg_sender m\<rparr>)),
       userPurchases := (userPurchases s)(msg_sender m := (userPurchases s (msg_sender m))
         (ca := (userPurchases s (msg_sender m) ca)(t := True))),
       userPurchaseCount := (userPurchaseCount s)(msg_sender m := userPurchaseCount s (msg_sender m) + 1)\<rparr>)"
  by (rule exI [of _ "logs s'"]) (auto simp: createMarketSale_def createMarketSale_body_def op_defs Let_def)

lemma createAuction_shape:
  "createAuction m ca t p d s = Inr s' \<Longrightarrow>
   mi_seller (collectionToMarketItems s ca t) = msg_sender m \<and> \<not> mi_isAuction (collectionToMarketItems s ca t) \<and>
   msg_value m = 0 \<and> \<not> entered s \<and> block_timestamp m + d < two256 \<and>
   s' = s\<lparr>entered := False, collectionToMarketItems := (collectionToMarketItems s)
     (ca := (collectionToMarketItems s ca)(t := (collectionToMarketItems s ca t)
        \<lparr>mi_isAuction := True, mi_price := p, mi_auctionEndTime := block_timestamp m + d\<rparr>))\<rparr>"
  by (auto simp: createAuction_def createAuction_body_def op_defs Let_def)

lemma placeBid_shape:
  "placeBid m ca t s = Inr s' \<Longrightarrow>
   \<exists>pr. (let it = collectionToMarketItems s ca t in
     mi_isAuction it \<and> block_timestamp m < mi_auctionEndTime it \<and> mi_highestBid it < msg_value m \<and>
     msg_value m \<le> bal s (msg_sender m) \<and> \<not> entered s \<and>
     pr = (if mi_highestBidder it \<noteq> addr0
           then (pendingReturns s ca t)(mi_highestBidder it :=
                  pendingReturns s ca t (mi_highestBidder it) + mi_highestBid it)
           else pendingReturns s ca t) \<and>
     s' = s\<lparr>bal := move_eth (msg_sender m) (this_addr s) (msg_value m) (bal s), entered := False,
       pendingReturns := (pendingReturns s)(ca := (pendingReturns s ca)(t := pr)),
       collectionToMarketItems := (collectionToMarketItems s)(ca := (collectionToMarketItems s ca)(t :=
         it\<lparr>mi_highestBidder := msg_sender m, mi_highestBid := msg_value m\<rparr>))\<rparr>)"
  by (auto simp: placeBid_def placeBid_body_def op_defs Let_def split: if_splits)

lemma makeOffer_shape:
  "makeOffer m ca t s = Inr s' \<Longrightarrow>
   \<exists>l. mi_isOnSale (collectionToMarketItems s ca t) \<and> \<not> mi_isAuction (collectionToMarketItems s ca t) \<and>
     0 < msg_value m \<and> msg_value m \<le> bal s (msg_sender m) \<and> \<not> entered s \<and>
     s' = s\<lparr>logs := l, bal := move_eth (msg_sender m) (this_addr s) (msg_value m) (bal s), entered := False,
       itemOffers := (itemOffers s)(ca := (itemOffers s ca)(t := itemOffers s ca t @
         [\<lparr>of_buyer = msg_sender m, of_price = msg_value m, of_timestamp = block_timestamp m\<rparr>]))\<rparr>"
  by (rule exI [of _ "logs s'"]) (auto simp: makeOffer_def makeOffer_body_def op_defs Let_def)

lemma market_transferOwnership_shape:
  "market_transferOwnership m a s = Inr s' \<Longrightarrow>
   \<exists>l. owner s = msg_sender m \<and> msg_value m = 0 \<and> s' = s\<lparr>logs := l, owner := a\<rparr>"
  by (rule exI [of _ "logs s'"]) (auto simp: market_transferOwnership_def transferOwnership_def op_defs)

lemma market_renounceOwnership_shape:
  "market_renounceOwnership m s = Inr s' \<Longrightarrow>
   \<exists>l. owner s = msg_sender m \<and> msg_value m = 0 \<and> s' = s\<lparr>logs := l, owner := addr0\<rparr>"
  by (rule exI [of _ "logs s'"]) (auto simp: market_renounceOwnership_def renounceOwnership_def op_defs)

lemmas shapes = addCategory_shape createCollection_shape updateCollectionTotalSupply_shape
  nft_mint_shape nft_external_shape createMarketItem_shape createMarketSale_shape createAuction_shape
  placeBid_shape makeOffer_shape market_transferOwnership_shape market_renounceOwnership_shape

section \<open>Ether: what the marketplace takes in it never pays out\<close>

text \<open>The Ether a call leaves in the contract: the listing fee, the bid, the offer.\<close>

fun kept :: "msg \<Rightarrow> mcall \<Rightarrow> nat" where
  "kept m (CreateMarketItem ca t p) = msg_value m"
| "kept m (PlaceBid ca t) = msg_value m"
| "kept m (MakeOffer ca t) = msg_value m"
| "kept m _ = 0"

definition env_ok :: "address \<Rightarrow> market \<Rightarrow> bool" where
  "env_ok this s \<longleftrightarrow> this_addr s = this \<and> this \<noteq> addr0 \<and> \<not> entered s \<and> \<not> accepts s this \<and>
     code s this = HookRejects \<and> nfts s this = None"

lemma exec_balance:
  assumes "env_ok this s" and "outside s (msg_sender m)" and "exec m call s = Inr s'"
  shows "bal s' this = bal s this + kept m call"
  using assms
proof (cases call)
  case (CreateMarketSale ca t)
  with assms have sale: "createMarketSale m ca t s = Inr s'" by simp
  obtain l n where eq: "bal s' = move_eth (this_addr s) (mi_seller (collectionToMarketItems s ca t))
        (msg_value m) (move_eth (msg_sender m) (this_addr s) (msg_value m) (bal s))"
    and acc: "accepts s (mi_seller (collectionToMarketItems s ca t))"
    using createMarketSale_shape [OF sale] by (auto simp: Let_def)
  from acc assms(1) have "mi_seller (collectionToMarketItems s ca t) \<noteq> this"
    by (auto simp: env_ok_def)
  with eq assms CreateMarketSale show ?thesis
    by (auto simp: env_ok_def outside_def move_eth_simps)
next
  case (SendEther to)
  with assms have "to \<noteq> this" by (auto simp: env_ok_def)
  with SendEther assms show ?thesis by (auto simp: env_ok_def outside_def move_eth_simps)
qed (use assms in \<open>auto simp: env_ok_def outside_def move_eth_simps Let_def dest!: shapes\<close>)

lemma exec_env_ok:
  assumes "env_ok this s" and "outside s (msg_sender m)" and "exec m call s = Inr s'"
  shows "env_ok this s'"
proof (cases call)
  case (CreateCollection ca nm sy bu cat)
  with assms have "code s ca = NoCode" by (auto dest!: createCollection_shape)
  with assms(1) have "ca \<noteq> this" by (auto simp: env_ok_def)
  with CreateCollection assms show ?thesis by (auto simp: env_ok_def dest!: createCollection_shape)
qed (use assms in \<open>auto simp: env_ok_def Let_def dest!: shapes\<close>)

lemma addCategories_frame:
  "addCategories m cs s = Inr s' \<Longrightarrow>
   \<exists>l e. s' = s\<lparr>logs := l, categories := categories s @ cs, categoryExists := e\<rparr> \<and>
     e = (\<lambda>c. categoryExists s c \<or> c \<in> set cs) \<and> distinct cs \<and> (\<forall>c\<in>set cs. \<not> categoryExists s c)"
proof (induction cs arbitrary: s)
  case Nil
  then show ?case by (auto intro: exI [of _ "logs s"])
next
  case (Cons c cs)
  then obtain s1 where s1: "addCategory m c s = Inr s1" and "addCategories m cs s1 = Inr s'"
    by auto
  with Cons.IH obtain l where
    s': "s' = s1\<lparr>logs := l, categories := categories s1 @ cs,
           categoryExists := (\<lambda>d. categoryExists s1 d \<or> d \<in> set cs)\<rparr>"
    and dist: "distinct cs" "\<forall>d\<in>set cs. \<not> categoryExists s1 d"
    by blast
  from addCategory_shape [OF s1] obtain l1 where
    eq: "s1 = s\<lparr>logs := l1, categories := categories s @ [c], categoryExists := (categoryExists s)(c := True)\<rparr>"
    and new: "\<not> categoryExists s c" by blast
  have "(\<lambda>d. categoryExists s1 d \<or> d \<in> set cs) = (\<lambda>d. categoryExists s d \<or> d \<in> set (c # cs))"
    by (auto simp: eq fun_eq_iff)
  then have "s' = s\<lparr>logs := l, categories := categories s @ c # cs,
      categoryExists := (\<lambda>d. categoryExists s d \<or> d \<in> set (c # cs))\<rparr>"
    by (simp add: s' eq)
  then show ?case using dist new by (auto simp: eq split: if_splits)
qed

lemma new_NFTMarketplace_shape:
  assumes "new_NFTMarketplace m this ch = Inr s"
  shows "\<exists>l. s = (empty_market this (msg_sender m) ch)\<lparr>logs := l, categories := initial_categories,
     categoryExists := (\<lambda>c. c \<in> set initial_categories)\<rparr>"
  using assms
  by (auto simp: new_NFTMarketplace_def op_defs empty_market_def dest!: addCategories_frame)

lemma env_ok_init:
  "this \<noteq> addr0 \<Longrightarrow> nfts ch = Map.empty \<Longrightarrow> new_NFTMarketplace m this ch = Inr s \<Longrightarrow> env_ok this s"
  by (auto simp: env_ok_def empty_market_def dest!: new_NFTMarketplace_shape)

lemma reachable_env_ok: "reachable this s \<Longrightarrow> env_ok this s"
  by (induction rule: reachable.induct)
    (auto elim!: market_stepE intro: env_ok_init exec_env_ok)

section \<open>The registry of collections\<close>

text \<open>
  The list of addresses, the flag \<open>isActive\<close>, the deployed contracts and the two indices by
  category and by creator are views of one registry.
\<close>

definition registry_ok :: "market \<Rightarrow> bool" where
  "registry_ok s \<longleftrightarrow>
     distinct (collectionAddresses s) \<and> distinct (categories s) \<and>
     (\<forall>c. c \<in> set (collectionAddresses s) \<longleftrightarrow> col_isActive (collections s c)) \<and>
     dom (nfts s) = {c. col_isActive (collections s c)} \<and>
     (\<forall>c. col_isActive (collections s c) \<longrightarrow> col_collectionAddress (collections s c) = c \<and>
        categoryExists s (col_category (collections s c))) \<and>
     (\<forall>c. categoryExists s c \<longleftrightarrow> c \<in> set (categories s)) \<and>
     (\<forall>cat. categoryToCollections s cat =
        filter (\<lambda>c. col_category (collections s c) = cat) (collectionAddresses s)) \<and>
     (\<forall>u. userCreatedCollections s u =
        filter (\<lambda>c. col_owner (collections s c) = u) (collectionAddresses s))"

lemma registry_ok_init:
  "nfts ch = Map.empty \<Longrightarrow> new_NFTMarketplace m this ch = Inr s \<Longrightarrow> registry_ok s"
  by (auto simp: registry_ok_def empty_market_def no_Collection_def initial_categories_def
      dest!: new_NFTMarketplace_shape)

text \<open>A call that keeps the registry fields, up to the mirrored supply, keeps the registry.\<close>

lemma registry_ok_supply:
  assumes "registry_ok s" and "nfts s ca \<noteq> None"
  shows "registry_ok (s\<lparr>logs := l, nfts := (nfts s)(ca \<mapsto> n),
    collections := (collections s)(ca := (collections s ca)\<lparr>col_totalSupply := k\<rparr>)\<rparr>)"
  using assms by (auto simp: registry_ok_def intro!: filter_cong)

lemma registry_ok_cong:
  assumes "registry_ok s" and "collectionAddresses s' = collectionAddresses s"
    and "categories s' = categories s" and "collections s' = collections s"
    and "\<And>c. nfts s' c = None \<longleftrightarrow> nfts s c = None" and "categoryExists s' = categoryExists s"
    and "categoryToCollections s' = categoryToCollections s"
    and "userCreatedCollections s' = userCreatedCollections s"
  shows "registry_ok s'"
proof -
  have d: "dom (nfts s') = dom (nfts s)" using assms(5) by (auto simp: dom_def)
  show ?thesis using assms(1) unfolding registry_ok_def assms(2-4,6-) d .
qed

lemma registry_ok_createCollection:
  assumes reg: "registry_ok s" and cr: "createCollection m ca nm sy bu cat s = Inr (s', r)"
  shows "registry_ok s'"
proof -
  obtain l n where g: "categoryExists s cat" "nfts s ca = None"
    and s': "s' = s\<lparr>logs := l, nfts := (nfts s)(ca \<mapsto> n), code := (code s)(ca := HookRejects),
       accepts := (accepts s)(ca := False),
       collections := (collections s)(ca :=
         \<lparr>col_collectionAddress = ca, col_name = nm, col_symbol = sy, col_category = cat,
          col_owner = msg_sender m, col_isActive = True, col_createdAt = block_timestamp m,
          col_baseURI = bu, col_totalSupply = 0\<rparr>),
       collectionAddresses := collectionAddresses s @ [ca],
       categoryToCollections := (categoryToCollections s)(cat := categoryToCollections s cat @ [ca]),
       userCreatedCollections := (userCreatedCollections s)
         (msg_sender m := userCreatedCollections s (msg_sender m) @ [ca])\<rparr>"
    using createCollection_shape [OF cr] by blast
  have new: "ca \<notin> set (collectionAddresses s)"
    using reg g(2) unfolding registry_ok_def by (metis domIff mem_Collect_eq)
  have filt: "filter (\<lambda>c. P (((collections s)(ca := x)) c)) (collectionAddresses s) =
      filter (\<lambda>c. P (collections s c)) (collectionAddresses s)" for P x
    using new by (intro filter_cong) auto
  show ?thesis
    using reg g new filt [of "\<lambda>c. col_category c = _"] filt [of "\<lambda>c. col_owner c = _"]
    unfolding s' by (auto simp: registry_ok_def)
qed

lemma exec_registry_ok:
  assumes "registry_ok s" and "exec m call s = Inr s'"
  shows "registry_ok s'"
proof (cases call)
  case (CreateCollection ca nm sy bu cat)
  then show ?thesis using assms by (auto intro: registry_ok_createCollection)
next
  case (UpdateSupply ca)
  then obtain n where n: "nfts s ca = Some n" and s': "s' = s\<lparr>collections := (collections s)
      (ca := (collections s ca)\<lparr>col_totalSupply := nft_tokenIds n\<rparr>)\<rparr>"
    using assms by (auto dest!: updateCollectionTotalSupply_shape)
  have "(nfts s)(ca \<mapsto> n) = nfts s" using n by auto
  then show ?thesis
    using registry_ok_supply [OF assms(1), where ca = ca and l = "logs s" and n = n and k = "nft_tokenIds n"] n by (simp add: s')
next
  case (Mint ca to uri)
  then show ?thesis
    using assms by (auto dest!: nft_mint_shape intro!: registry_ok_supply)
next
  case (AddCategory c)
  then obtain l where s': "s' = s\<lparr>logs := l, categories := categories s @ [c],
      categoryExists := (categoryExists s)(c := True)\<rparr>" and new: "\<not> categoryExists s c"
    using assms by (auto dest!: addCategory_shape)
  have reg: "distinct (categories s)" "\<And>d. categoryExists s d \<longleftrightarrow> d \<in> set (categories s)"
    using assms(1) by (simp_all add: registry_ok_def)
  show ?thesis
    using assms(1) new reg unfolding registry_ok_def s' by simp
qed (use assms in \<open>auto simp: Let_def dest!: shapes intro!: registry_ok_cong [OF assms(1)] split: if_splits\<close>)

section \<open>Tokens: ledgers, mirrored supply and custody\<close>

definition tokens_ok :: "address \<Rightarrow> market \<Rightarrow> bool" where
  "tokens_ok this s \<longleftrightarrow>
     (\<forall>c n. nfts s c = Some n \<longrightarrow>
        ledger_ok n \<and> held_ok this n \<and> col_totalSupply (collections s c) = nft_tokenIds n)"

lemma tokens_ok_init:
  "nfts ch = Map.empty \<Longrightarrow> new_NFTMarketplace m this ch = Inr s \<Longrightarrow> tokens_ok this s"
  by (auto simp: tokens_ok_def empty_market_def dest!: new_NFTMarketplace_shape)

lemma tokens_ok_upd:
  assumes "tokens_ok this s" and "nfts s' = (nfts s)(ca \<mapsto> n')" and "ledger_ok n'" and "held_ok this n'"
    and "col_totalSupply (collections s' ca) = nft_tokenIds n'"
    and "\<And>c. c \<noteq> ca \<Longrightarrow> collections s' c = collections s c"
  shows "tokens_ok this s'"
  using assms by (auto simp: tokens_ok_def)

lemma tokens_okD:
  assumes "tokens_ok this s" and "nfts s c = Some n"
  shows "ledger_ok n" and "held_ok this n" and "col_totalSupply (collections s c) = nft_tokenIds n"
  using assms by (auto simp: tokens_ok_def)

lemma tokens_ok_moved:
  assumes "tokens_ok this s" and "nfts s ca = Some n" and "nft_owners n t \<noteq> addr0" and "to \<noteq> addr0"
    and "nfts s' = (nfts s)(ca \<mapsto> moved_token n t to)" and "collections s' = collections s"
  shows "tokens_ok this s'"
  using assms tokens_okD [OF assms(1,2)]
  by (intro tokens_ok_upd [OF assms(1,5)]) (auto intro: ledger_ok_transfer held_ok_moved)

lemma exec_tokens_ok:
  assumes tok: "tokens_ok this s" and env: "env_ok this s" and out: "outside s (msg_sender m)"
    and ex: "exec m call s = Inr s'"
  shows "tokens_ok this s'"
proof (cases call)
  case (CreateCollection ca nm sy bu cat)
  with ex obtain n where n: "new_NFTCollection nm sy bu (this_addr s) cat (msg_sender m) = Inr n"
    by (auto dest!: createCollection_shape)
  have "held_ok this n" "nft_tokenIds n = 0"
    using n by (auto simp: new_NFTCollection_def held_ok_def can_move_defs)
  with CreateCollection ex tok n show ?thesis
    by (auto simp: tokens_ok_def dest!: createCollection_shape intro: ledger_ok_new split: if_splits)
next
  case (CreateMarketItem ca t p)
  with ex obtain n where "nfts s ca = Some n" "nft_owners n t \<noteq> addr0"
    "nfts s' = (nfts s)(ca \<mapsto> moved_token n t (this_addr s))" "collections s' = collections s"
    by (auto dest!: createMarketItem_shape)
  with tok env show ?thesis by (auto simp: env_ok_def intro: tokens_ok_moved)
next
  case (CreateMarketSale ca t)
  with ex obtain n where "nfts s ca = Some n" "nft_owners n t = this_addr s"
    "nfts s' = (nfts s)(ca \<mapsto> moved_token n t (msg_sender m))" "collections s' = collections s"
    by (auto simp: Let_def dest!: createMarketSale_shape)
  with tok env out show ?thesis by (auto simp: env_ok_def outside_def intro: tokens_ok_moved)
next
  case (Mint ca to uri)
  with ex obtain n n' es tid where n: "nfts s ca = Some n"
    and mb: "mint_body (code s) n (msg_sender m) to uri = Inr (n', tid, es)"
    and s': "nfts s' = (nfts s)(ca \<mapsto> n')" "collections s' = (collections s)
        (ca := (collections s ca)\<lparr>col_totalSupply := nft_tokenIds n'\<rparr>)"
    by (auto dest!: nft_mint_shape)
  show ?thesis
    using tokens_okD [OF tok n] mb s'
    by (intro tokens_ok_upd [OF tok s'(1)]) (auto intro: mint_body_ledger_ok held_ok_mint)
next
  case (NftCall ca c)
  with ex obtain n n' es l where n: "nfts s ca = Some n"
    and e: "nft_exec (code s) (msg_sender m) c n = Inr (n', es)"
    and s': "s' = s\<lparr>logs := l, nfts := (nfts s)(ca \<mapsto> n')\<rparr>"
    by (auto dest!: nft_external_shape)
  have ids: "nft_tokenIds n' = nft_tokenIds n"
    using e by (cases c) (auto simp: token_iffs transferOwnership_def renounceOwnership_def
        dest!: safeTransferFrom_Inr)
  show ?thesis
    using tokens_okD [OF tok n] e out env ids
    by (intro tokens_ok_upd [OF tok, of _ ca n'])
      (auto simp: s' outside_def env_ok_def intro: nft_exec_ledger_ok held_ok_exec)
next
  case (UpdateSupply ca)
  with ex tok show ?thesis by (auto simp: tokens_ok_def dest!: updateCollectionTotalSupply_shape split: if_splits)
qed (use tok ex in \<open>auto simp: Let_def tokens_ok_def dest!: shapes\<close>)

section \<open>Escrow: a token on sale is in the hands of the marketplace\<close>

definition escrow_ok :: "market \<Rightarrow> bool" where
  "escrow_ok s \<longleftrightarrow>
     (\<forall>c t. mi_isOnSale (collectionToMarketItems s c t) \<longrightarrow>
        t \<in> set (collectionTokenIds s c) \<and>
        (\<exists>n. nfts s c = Some n \<and> nft_owners n t = this_addr s)) \<and>
     (\<forall>c. \<forall>t \<in> set (collectionTokenIds s c).
        mi_tokenId (collectionToMarketItems s c t) = t \<and>
        mi_nftContract (collectionToMarketItems s c t) = c \<and>
        mi_seller (collectionToMarketItems s c t) \<noteq> addr0)"

lemma escrow_ok_init:
  "new_NFTMarketplace m this ch = Inr s \<Longrightarrow> escrow_ok s"
  by (auto simp: escrow_ok_def empty_market_def no_MarketItem_def dest!: new_NFTMarketplace_shape)

lemma escrow_ok_cong:
  assumes "escrow_ok s" and "nfts s' = nfts s" and "this_addr s' = this_addr s"
    and "collectionTokenIds s' = collectionTokenIds s"
    and "\<And>c t. mi_isOnSale (collectionToMarketItems s' c t) = mi_isOnSale (collectionToMarketItems s c t)"
    and "\<And>c t. mi_tokenId (collectionToMarketItems s' c t) = mi_tokenId (collectionToMarketItems s c t)"
    and "\<And>c t. mi_nftContract (collectionToMarketItems s' c t) = mi_nftContract (collectionToMarketItems s c t)"
    and "\<And>c t. mi_seller (collectionToMarketItems s' c t) = mi_seller (collectionToMarketItems s c t)"
  shows "escrow_ok s'"
  using assms by (simp add: escrow_ok_def)

lemma escrow_ok_nft_step:
  assumes "escrow_ok s" and "tokens_ok this s" and "env_ok this s" and "nfts s ca = Some n"
    and "nft_step (code s) c n n'" and "c \<noteq> this"
  shows "escrow_ok (s\<lparr>logs := l, nfts := (nfts s)(ca \<mapsto> n'), collections := cs\<rparr>)"
proof -
  have thisa: "this_addr s = this" "this \<noteq> addr0" using assms(3) by (auto simp: env_ok_def)
  have "nft_owners n' t = this" if "nft_owners n t = this" for t
    using erc.custody_step(1) [OF assms(5,6) thisa(2) that] assms(2,4) that
    by (auto simp: tokens_ok_def held_ok_def)
  moreover have "nft_owners n t = this" if "mi_isOnSale (collectionToMarketItems s ca t)" for t
    using assms(1,4) thisa that by (fastforce simp: escrow_ok_def)
  ultimately show ?thesis
    using assms(1) thisa by (auto simp: escrow_ok_def)
qed

lemma exec_escrow_ok:
  assumes esc: "escrow_ok s" and tok: "tokens_ok this s" and env: "env_ok this s"
    and out: "outside s (msg_sender m)" and ex: "exec m call s = Inr s'"
  shows "escrow_ok s'"
proof (cases call)
  case (CreateCollection ca nm sy bu cat)
  with ex esc show ?thesis by (fastforce simp: escrow_ok_def dest!: createCollection_shape)
next
  case (CreateMarketItem ca t p)
  with ex esc show ?thesis
    by (fastforce simp: escrow_ok_def dest!: createMarketItem_shape split: if_splits)
next
  case (CreateMarketSale ca t)
  with ex esc show ?thesis
    by (fastforce simp: escrow_ok_def Let_def dest!: createMarketSale_shape split: if_splits)
next
  case (Mint ca to uri)
  with ex out env obtain l n n' es tid where
    n: "nfts s ca = Some n" "mint_body (code s) n (msg_sender m) to uri = Inr (n', tid, es)"
    and s': "s' = s\<lparr>logs := l, nfts := (nfts s)(ca \<mapsto> n'), collections := (collections s)
        (ca := (collections s ca)\<lparr>col_totalSupply := nft_tokenIds n'\<rparr>)\<rparr>"
    by (auto dest!: nft_mint_shape)
  have "nft_step (code s) (msg_sender m) n n'"
    using n(2) out by (auto simp: outside_def intro: nft_step.mint)
  then show ?thesis
    using escrow_ok_nft_step [OF esc tok env n(1)] out env unfolding s'
    by (auto simp: outside_def env_ok_def)
next
  case (NftCall ca c)
  with ex obtain l n n' es where
    n: "nfts s ca = Some n" "nft_exec (code s) (msg_sender m) c n = Inr (n', es)"
    and s': "s' = s\<lparr>logs := l, nfts := (nfts s)(ca \<mapsto> n')\<rparr>"
    by (auto dest!: nft_external_shape)
  have "nft_step (code s) (msg_sender m) n n'"
    using n(2) out by (auto simp: outside_def intro: nft_step.exec)
  then show ?thesis
    using escrow_ok_nft_step [OF esc tok env n(1), where l = l and cs = "collections s"] out env
    unfolding s' by (auto simp: outside_def env_ok_def)
next
  case (CreateAuction ca t p d)
  with ex show ?thesis
    by (auto dest!: createAuction_shape intro!: escrow_ok_cong [OF esc] split: if_splits)
next
  case (PlaceBid ca t)
  with ex show ?thesis
    by (auto simp: Let_def dest!: placeBid_shape intro!: escrow_ok_cong [OF esc] split: if_splits)
qed (use esc ex in \<open>auto simp: escrow_ok_def dest!: shapes\<close>)

section \<open>The invariant in every reachable state\<close>

definition market_ok :: "address \<Rightarrow> market \<Rightarrow> bool" where
  "market_ok this s \<longleftrightarrow> env_ok this s \<and> registry_ok s \<and> tokens_ok this s \<and> escrow_ok s"

lemma market_ok_step:
  "market_ok this s \<Longrightarrow> market_step s s' \<Longrightarrow> market_ok this s'"
  by (auto simp: market_ok_def elim!: market_stepE
      intro: exec_env_ok exec_registry_ok exec_tokens_ok exec_escrow_ok)

interpretation mkt: invariant_machine market_step "market_ok this" for this
  by unfold_locales (rule market_ok_step)

lemma reachable_market_ok: "reachable this s \<Longrightarrow> market_ok this s"
proof (induction rule: reachable.induct)
  case (init ch m s)
  then show ?case
    by (auto simp: market_ok_def intro: env_ok_init registry_ok_init tokens_ok_init escrow_ok_init)
next
  case (step s s')
  then show ?case by (blast intro: mkt.inv_step)
qed

text \<open>The invariant in the form the properties use it.\<close>

lemma market_ok_env:
  assumes "market_ok this s"
  shows "this_addr s = this" and "this \<noteq> addr0" and "\<not> entered s" and "\<not> accepts s this"
  using assms by (auto simp: market_ok_def env_ok_def)

lemma market_ok_on_sale:
  assumes "market_ok this s" and "mi_isOnSale (collectionToMarketItems s c t)"
  obtains n where "nfts s c = Some n" and "nft_owners n t = this" and "ledger_ok n" and "held_ok this n"
    and "t \<in> set (collectionTokenIds s c)"
proof -
  have "escrow_ok s" and tok: "tokens_ok this s" using assms(1) by (auto simp: market_ok_def)
  then obtain n where "nfts s c = Some n" "nft_owners n t = this_addr s" "t \<in> set (collectionTokenIds s c)"
    using assms(2) unfolding escrow_ok_def by blast
  with that tokens_okD [OF tok] market_ok_env(1) [OF assms(1)] show ?thesis by blast
qed

end
