(* ===== verification/MarketProps.thy ===== *)
theory MarketProps
  imports MarketInv
begin

text \<open>
  What the marketplace promises its users, in every reachable state, and a concrete history of
  calls on which the hypotheses of these properties hold.
\<close>

section \<open>Runs\<close>

fun run :: "(msg \<times> mcall) list \<Rightarrow> market \<Rightarrow> market option" where
  "run [] s = Some s"
| "run ((m, c) # tr) s =
     (if outside s (msg_sender m) then (case exec m c s of Inl e \<Rightarrow> None | Inr s' \<Rightarrow> run tr s') else None)"

lemma reachable_run: "reachable this s \<Longrightarrow> run tr s = Some s' \<Longrightarrow> reachable this s'"
proof (induction tr arbitrary: s)
  case Nil
  then show ?case by simp
next
  case (Cons mc tr)
  obtain m c where mc: "mc = (m, c)" by force
  from Cons.prems(2) obtain s1 where "outside s (msg_sender m)" "exec m c s = Inr s1" "run tr s1 = Some s'"
    by (auto simp: mc split: if_splits sum.splits)
  with Cons show ?case by (blast intro: market_step.step reachable.step)
qed

lemma run_append: "run (tr @ tr') s = Option.bind (run tr s) (run tr')"
  by (induction tr s rule: run.induct) (auto split: sum.splits)

section \<open>A concrete history\<close>

definition demo_chain :: chain where
  "demo_chain = \<lparr>bal = (\<lambda>a. if a = 2 \<or> a = 3 then 10 ^ 18 else 0), accepts = (\<lambda>_. True), code = (\<lambda>_. NoCode),
     nfts = Map.empty, logs = []\<rparr>"

abbreviation demo_msg :: "address \<Rightarrow> nat \<Rightarrow> msg" where
  "demo_msg a v \<equiv> \<lparr>msg_sender = a, msg_value = v, block_timestamp = 1000\<rparr>"

definition demo_new :: market where
  "demo_new = (case new_NFTMarketplace (demo_msg 1 0) 9 demo_chain of Inr s \<Rightarrow> s)"

definition demo_listing :: "(msg \<times> mcall) list" where
  "demo_listing =
     [(demo_msg 2 0, CreateCollection 100 ''Test Collection'' ''TEST'' ''ipfs://base'' ''Art''),
      (demo_msg 2 0, Mint 100 2 ''ipfs://one''),
      (demo_msg 2 0, NftCall 100 (CallApprove 9 1)),
      (demo_msg 2 500000000000000, CreateMarketItem 100 1 70)]"

lemma demo_new_eq: "new_NFTMarketplace (demo_msg 1 0) 9 demo_chain = Inr demo_new"
  by (simp add: demo_new_def new_NFTMarketplace_def checkOwner_def initial_categories_def addCategory_def
      nonpayable_def empty_market_def emit_def demo_chain_def)

lemma demo_new_reachable: "reachable 9 demo_new"
  by (rule reachable.init [OF _ _ demo_new_eq]) (simp_all add: demo_chain_def)

lemmas demo_defs = checkOwner_def outside_def createCollection_def nonpayable_def new_NFTCollection_def
  Let_def emit_def nft_mint_def mint_body_def two256_def add256_def safeMint_def mint_token_def
  update_token_def checkOnERC721Received_def setTokenURI_def unchecked_inc_def
  updateCollectionTotalSupply_def totalSupply_def nft_external_def approve_def requireOwned_def
  isApprovedForAll_def createMarketItem_def pay_in_def move_eth_def nonReentrant_def
  createMarketItem_body_def tokenURI_def baseURI_fun_def set_item_def call_transferFrom_def
  transferFrom_def checkAuthorized_def isAuthorized_def unchecked_dec_def
  demo_chain_def empty_market_def initial_categories_def no_Collection_def no_MarketItem_def

definition demo_l_expected :: "market \<Rightarrow> bool" where
  "demo_l_expected s \<longleftrightarrow>
     collectionToMarketItems s 100 1 = \<lparr>mi_tokenId = 1, mi_nftContract = 100, mi_seller = 2,
       mi_owner = addr0, mi_price = 70, mi_isOnSale = True, mi_auctionEndTime = 0,
       mi_highestBidder = addr0, mi_highestBid = 0, mi_isAuction = False, mi_tokenURI = ''ipfs://one''\<rparr> \<and>
     bal s 3 = 10 ^ 18 \<and> accepts s 2 \<and> userPurchaseCount s 3 = 0 \<and> outside s 3 \<and>
     collectionAddresses s = [100] \<and> collectionTokenIds s 100 = [1] \<and> nfts s 100 \<noteq> None \<and>
     categoryExists s ''Art'' \<and> outside s 2 \<and> col_isActive (collections s 100) \<and>
     bal s 2 = 10 ^ 18 - 500000000000000 \<and> accepts s 3 \<and> listingFee s = 500000000000000"

lemma demo_listed: "case run demo_listing demo_new of None \<Rightarrow> False | Some s \<Rightarrow> demo_l_expected s"
  unfolding demo_new_def demo_listing_def new_NFTMarketplace_def demo_l_expected_def
  by (simp add: demo_defs addCategory_def)

definition demo_l :: market where
  "demo_l = (case run demo_listing demo_new of Some s \<Rightarrow> s)"

lemma demo_l_run: "run demo_listing demo_new = Some demo_l"
  using demo_listed by (auto simp: demo_l_def split: option.splits)

lemma demo_l_reachable: "reachable 9 demo_l"
  by (rule reachable_run [OF demo_new_reachable demo_l_run])

lemma demo_l_facts:
  "collectionToMarketItems demo_l 100 1 = \<lparr>mi_tokenId = 1, mi_nftContract = 100, mi_seller = 2,
     mi_owner = addr0, mi_price = 70, mi_isOnSale = True, mi_auctionEndTime = 0,
     mi_highestBidder = addr0, mi_highestBid = 0, mi_isAuction = False, mi_tokenURI = ''ipfs://one''\<rparr>"
  "bal demo_l 3 = 10 ^ 18" "accepts demo_l 2" "userPurchaseCount demo_l 3 = 0" "outside demo_l 3"
  "collectionAddresses demo_l = [100]" "collectionTokenIds demo_l 100 = [1]"
  "nfts demo_l 100 \<noteq> None" "categoryExists demo_l ''Art''" "outside demo_l 2"
  "col_isActive (collections demo_l 100)" "bal demo_l 2 = 10 ^ 18 - 500000000000000" "accepts demo_l 3"
  "listingFee demo_l = 500000000000000"
  using demo_listed by (simp_all add: demo_l_run demo_l_expected_def)

text \<open>The definitions a concrete call on \<open>demo_l\<close> unfolds to.\<close>

lemmas call_defs [sol_defs] = createMarketSale_def createMarketSale_body_def nonReentrant_def pay_in_def
  transfer_eth_def move_eth_def call_transferFrom_def transferFrom_def update_token_def checkAuthorized_def
  isAuthorized_def isApprovedForAll_def set_item_def Let_def add256_def two256_def emit_def nft_external_def nonpayable_def
  approve_def requireOwned_def createMarketItem_def createMarketItem_body_def tokenURI_def baseURI_fun_def

lemmas demo_l_simps = demo_l_facts demo_l_facts [unfolded One_nat_def]

section \<open>Properties\<close>

text \<open>
  C1. Escrow: in every reachable state, a token that the marketplace shows as on sale exists, is
  owned by the marketplace, and no other account is authorised to move it.
\<close>

theorem escrow_safety:
  assumes "reachable this s" and "mi_isOnSale (collectionToMarketItems s c t)"
  shows "\<exists>n. nfts s c = Some n \<and> ownerOf n t = Inr this \<and> (\<forall>d. can_move n d t \<longrightarrow> d = this)"
proof -
  have ok: "market_ok this s" using assms(1) by (rule reachable_market_ok)
  then obtain n where "nfts s c = Some n" "nft_owners n t = this" "held_ok this n"
    using assms(2) by (rule market_ok_on_sale)
  with market_ok_env [OF ok] show ?thesis
    by (auto simp: ownerOf_def requireOwned_def held_ok_def Let_def)
qed

theorem escrow_safety_witness:
  "\<exists>n. nfts demo_l 100 = Some n \<and> ownerOf n 1 = Inr 9 \<and> (\<forall>d. can_move n d 1 \<longrightarrow> d = 9)"
  by (rule escrow_safety [OF demo_l_reachable]) (simp add: demo_l_simps)

text \<open>
  C2. A purchase at the asking price goes through in every reachable state, as long as the buyer
  can pay and the seller's account takes Ether: the buyer owns the token, the price has moved
  from the buyer to the seller and the marketplace's own balance is unchanged.
\<close>

theorem purchase_succeeds:
  assumes "reachable this s" and "outside s (msg_sender m)"
    and "mi_isOnSale (collectionToMarketItems s c t)" and "\<not> mi_isAuction (collectionToMarketItems s c t)"
    and "msg_value m = mi_price (collectionToMarketItems s c t)" and "msg_value m \<le> bal s (msg_sender m)"
    and "accepts s (mi_seller (collectionToMarketItems s c t))"
    and "mi_seller (collectionToMarketItems s c t) \<noteq> msg_sender m"
    and "userPurchaseCount s (msg_sender m) + 1 < two256"
  shows "\<exists>s' n. createMarketSale m c t s = Inr s' \<and> nfts s' c = Some n \<and>
    ownerOf n t = Inr (msg_sender m) \<and> \<not> mi_isOnSale (collectionToMarketItems s' c t) \<and>
    userPurchases s' (msg_sender m) c t \<and> bal s' this = bal s this \<and>
    bal s' (msg_sender m) = bal s (msg_sender m) - msg_value m \<and>
    bal s' (mi_seller (collectionToMarketItems s c t)) =
      bal s (mi_seller (collectionToMarketItems s c t)) + msg_value m"
proof -
  let ?it = "collectionToMarketItems s c t"
  have ok: "market_ok this s" using assms(1) by (rule reachable_market_ok)
  note env = market_ok_env [OF ok]
  obtain n where n: "nfts s c = Some n" "nft_owners n t = this"
    using ok assms(3) by (rule market_ok_on_sale)
  have snd: "msg_sender m \<noteq> addr0" "msg_sender m \<noteq> this" "mi_seller ?it \<noteq> this"
    using assms(2,7) env by (auto simp: outside_def)
  have "is_ok (createMarketSale m c t s)"
    using assms(3-6,7,9) env n snd
    by (simp add: createMarketSale_def createMarketSale_body_def nonReentrant_def pay_in_def
        transfer_eth_def move_eth_simps call_transferFrom_def transferFrom_Inr_iff set_item_def Let_def
        transferFrom_def update_token_def checkAuthorized_def isAuthorized_def add256_def emit_def)
  then obtain s' where s': "createMarketSale m c t s = Inr s'" by (auto simp: is_ok_iff)
  have "nfts s' c = Some (moved_token n t (msg_sender m))" "userPurchases s' (msg_sender m) c t"
    and "\<not> mi_isOnSale (collectionToMarketItems s' c t)"
    and b: "bal s' = move_eth this (mi_seller ?it) (msg_value m) (move_eth (msg_sender m) this (msg_value m) (bal s))"
    using createMarketSale_shape [OF s'] n env by (auto simp: Let_def)
  moreover have "bal s' this = bal s this" "bal s' (msg_sender m) = bal s (msg_sender m) - msg_value m"
    "bal s' (mi_seller ?it) = bal s (mi_seller ?it) + msg_value m"
    using snd assms(8) by (simp_all add: b move_eth_simps)
  ultimately show ?thesis
    using s' snd by (auto simp: ownerOf_def requireOwned_def)
qed

theorem purchase_succeeds_witness:
  "\<exists>s' n. createMarketSale (demo_msg 3 70) 100 1 demo_l = Inr s' \<and> nfts s' 100 = Some n \<and>
    ownerOf n 1 = Inr 3 \<and> \<not> mi_isOnSale (collectionToMarketItems s' 100 1) \<and>
    userPurchases s' 3 100 1 \<and> bal s' 9 = bal demo_l 9 \<and>
    bal s' 3 = bal demo_l 3 - 70 \<and> bal s' 2 = bal demo_l 2 + 70"
  using purchase_succeeds [OF demo_l_reachable, of "demo_msg 3 70" 100 1]
  by (simp add: demo_l_simps two256_def)

text \<open>
  C3. Only the owner of a token can list it, only with the exact listing fee and a positive
  price, and only in a collection the marketplace created; listing moves the token into escrow.
\<close>

theorem listing_requires_owner:
  assumes "createMarketItem m c t p s = Inr s'"
  shows "\<exists>n n'. nfts s c = Some n \<and> ownerOf n t = Inr (msg_sender m) \<and> can_move n (this_addr s) t \<and>
    0 < p \<and> msg_value m = listingFee s \<and> col_isActive (collections s c) \<and>
    nfts s' c = Some n' \<and> ownerOf n' t = Inr (this_addr s) \<and>
    mi_isOnSale (collectionToMarketItems s' c t) \<and> mi_price (collectionToMarketItems s' c t) = p \<and>
    mi_seller (collectionToMarketItems s' c t) = msg_sender m \<and>
    tokenURI (\<lambda>_. []) n t = Inr (mi_tokenURI (collectionToMarketItems s' c t))"
  using createMarketItem_shape [OF assms]
  by (auto simp: ownerOf_def requireOwned_def tokenURI_def baseURI_fun_def)

definition demo_pre :: market where
  "demo_pre = (case run (take 3 demo_listing) demo_new of Some s \<Rightarrow> s)"

lemma demo_pre_listing:
  "createMarketItem (demo_msg 2 500000000000000) 100 1 70 demo_pre = Inr demo_l"
proof -
  have "Option.bind (run (take 3 demo_listing) demo_new) (run (drop 3 demo_listing)) = Some demo_l"
    using demo_l_run run_append [of "take 3 demo_listing" "drop 3 demo_listing" demo_new] by simp
  then have "run (drop 3 demo_listing) demo_pre = Some demo_l"
    by (auto simp: demo_pre_def split: option.splits elim!: Option.bind_eq_Some_conv [THEN iffD1, elim_format])
  then show ?thesis
    by (auto simp: demo_listing_def split: if_splits sum.splits)
qed

theorem listing_requires_owner_witness:
  "\<exists>n n'. nfts demo_pre 100 = Some n \<and> ownerOf n 1 = Inr 2 \<and> can_move n (this_addr demo_pre) 1 \<and>
    (0::nat) < 70 \<and> 500000000000000 = listingFee demo_pre \<and> col_isActive (collections demo_pre 100) \<and>
    nfts demo_l 100 = Some n' \<and> ownerOf n' 1 = Inr (this_addr demo_pre) \<and>
    mi_isOnSale (collectionToMarketItems demo_l 100 1) \<and> mi_price (collectionToMarketItems demo_l 100 1) = 70 \<and>
    mi_seller (collectionToMarketItems demo_l 100 1) = 2 \<and>
    tokenURI (\<lambda>_. []) n 1 = Inr (mi_tokenURI (collectionToMarketItems demo_l 100 1))"
  using listing_requires_owner [OF demo_pre_listing] by simp

text \<open>
  C7. Ether only accumulates: a successful call changes the balance of the marketplace by exactly
  the listing fee, bid or offer it carries; no function pays Ether out of it.
\<close>

theorem ether_accumulates:
  assumes "reachable this s" and "outside s (msg_sender m)" and "exec m call s = Inr s'"
  shows "bal s' this = bal s this + kept m call"
  using exec_balance [OF reachable_env_ok [OF assms(1)] assms(2,3)] .

theorem ether_accumulates_witness:
  "\<exists>s'. exec (demo_msg 3 40) (MakeOffer 100 1) demo_l = Inr s' \<and> bal s' 9 = bal demo_l 9 + 40"
proof -
  have "is_ok (exec (demo_msg 3 40) (MakeOffer 100 1) demo_l)"
    using market_ok_env [OF reachable_market_ok [OF demo_l_reachable]]
    by (simp add: makeOffer_def makeOffer_body_def pay_in_def nonReentrant_def Let_def demo_l_simps)
  then obtain s' where s': "exec (demo_msg 3 40) (MakeOffer 100 1) demo_l = Inr s'"
    by (auto simp: is_ok_iff)
  with ether_accumulates [OF demo_l_reachable _ s'] show ?thesis by (auto simp: demo_l_simps)
qed

text \<open>A token in escrow that is up for auction, and that every call leaves it so.\<close>

definition locked :: "address \<Rightarrow> address \<Rightarrow> nat \<Rightarrow> market \<Rightarrow> bool" where
  "locked this c t s \<longleftrightarrow> market_ok this s \<and> mi_isOnSale (collectionToMarketItems s c t) \<and>
     mi_isAuction (collectionToMarketItems s c t)"

lemma locked_step:
  assumes "market_step s s'" and lk: "locked this c t s"
  shows "locked this c t s'"
proof -
  have ok: "market_ok this s" and sale: "mi_isOnSale (collectionToMarketItems s c t)" "mi_isAuction (collectionToMarketItems s c t)"
    using lk by (simp_all add: locked_def)
  obtain n where n: "nfts s c = Some n" "nft_owners n t = this"
    using ok sale(1) by (rule market_ok_on_sale)
  obtain m call where m: "outside s (msg_sender m)" "exec m call s = Inr s'"
    using assms(1) by (auto elim: market_stepE)
  have "mi_isOnSale (collectionToMarketItems s' c t) \<and> mi_isAuction (collectionToMarketItems s' c t)"
  proof (cases call)
    case (CreateMarketItem ca tid p)
    with m(2) obtain n0 where "nfts s ca = Some n0" "nft_owners n0 tid = msg_sender m"
      and upd: "collectionToMarketItems s' c t = (if (c, t) = (ca, tid)
        then collectionToMarketItems s' ca tid else collectionToMarketItems s c t)"
      by (auto dest!: createMarketItem_shape)
    with n m(1) market_ok_env [OF ok] have "(c, t) \<noteq> (ca, tid)" by (auto simp: outside_def)
    then have "collectionToMarketItems s' c t = collectionToMarketItems s c t" using upd by (metis (full_types))
    with sale show ?thesis by simp
  qed (use m sale in \<open>auto simp: Let_def dest!: shapes split: if_splits\<close>)
  with mkt.inv_step [OF assms(1) ok] show ?thesis by (simp add: locked_def)
qed

interpretation lock: invariant_machine market_step "locked this c t" for this c t
  by unfold_locales (rule locked_step)

text \<open>
  C8. An auction on a token in escrow never ends: once a token on sale is put up for auction, after
  any further sequence of calls it is still an auction and the marketplace still owns it, so neither
  the seller nor any bidder can ever get it.
\<close>

theorem auction_locks_token:
  assumes "reachable this s" and "rtranclp market_step s s'"
    and "mi_isOnSale (collectionToMarketItems s c t)" and "mi_isAuction (collectionToMarketItems s c t)"
  shows "mi_isOnSale (collectionToMarketItems s' c t) \<and> mi_isAuction (collectionToMarketItems s' c t) \<and>
    (\<exists>n. nfts s' c = Some n \<and> ownerOf n t = Inr this)"
proof -
  have "locked this c t s'"
    using assms(3,4) reachable_market_ok [OF assms(1)] by (intro lock.inv_run [OF assms(2)]) (simp add: locked_def)
  then have ok: "market_ok this s'" and sale: "mi_isOnSale (collectionToMarketItems s' c t)" "mi_isAuction (collectionToMarketItems s' c t)"
    by (simp_all add: locked_def)
  obtain n where "nfts s' c = Some n" "nft_owners n t = this"
    using ok sale(1) by (rule market_ok_on_sale)
  then show ?thesis using sale market_ok_env [OF ok] by (auto simp: ownerOf_def requireOwned_def)
qed

definition demo_auction :: "(msg \<times> mcall) list" where
  "demo_auction = [(demo_msg 2 0, CreateAuction 100 1 5 600)]"

definition demo_a :: market where
  "demo_a = (case run demo_auction demo_l of Some s \<Rightarrow> s)"

lemma demo_a_run: "run demo_auction demo_l = Some demo_a"
  and demo_a_item: "collectionToMarketItems demo_a 100 1 = (collectionToMarketItems demo_l 100 1)
    \<lparr>mi_isAuction := True, mi_price := 5, mi_auctionEndTime := 1600\<rparr>"
  and demo_a_bal: "bal demo_a = bal demo_l" and demo_a_nfts: "nfts demo_a = nfts demo_l"
  and demo_a_this: "this_addr demo_a = 9" "\<not> entered demo_a"
  using market_ok_env [OF reachable_market_ok [OF demo_l_reachable]]
  by (simp_all add: demo_a_def demo_auction_def createAuction_def createAuction_body_def nonpayable_def
      nonReentrant_def set_item_def add256_def two256_def demo_l_simps del: One_nat_def)

lemma demo_a_reachable: "reachable 9 demo_a"
  by (rule reachable_run [OF demo_l_reachable demo_a_run])

lemma demo_a_bid:
  "\<exists>s'. exec (demo_msg 3 60) (PlaceBid 100 1) demo_a = Inr s' \<and> outside demo_a 3"
proof -
  have "outside demo_a 3"
    using demo_l_facts(5) by (simp add: outside_def demo_a_this demo_a_nfts)
  moreover have "is_ok (exec (demo_msg 3 60) (PlaceBid 100 1) demo_a)"
    by (simp add: placeBid_def placeBid_body_def pay_in_def nonReentrant_def Let_def demo_a_item
        demo_a_bal demo_a_this demo_l_facts del: One_nat_def)
  ultimately show ?thesis by (auto simp: is_ok_iff)
qed

theorem auction_locks_token_witness:
  "\<exists>s'. market_step demo_a s' \<and> rtranclp market_step demo_a s' \<and> mi_isOnSale (collectionToMarketItems s' 100 1) \<and>
    mi_isAuction (collectionToMarketItems s' 100 1) \<and>
    (\<exists>n. nfts s' 100 = Some n \<and> ownerOf n 1 = Inr 9)"
proof -
  obtain s' where "exec (demo_msg 3 60) (PlaceBid 100 1) demo_a = Inr s'" "outside demo_a 3"
    using demo_a_bid by blast
  then have st: "market_step demo_a s'"
    by (intro market_step.step [of _ "demo_msg 3 60" "PlaceBid 100 1"]) simp_all
  have item: "mi_isOnSale (collectionToMarketItems demo_a 100 1)"
    "mi_isAuction (collectionToMarketItems demo_a 100 1)"
    unfolding demo_a_item demo_l_facts by simp_all
  show ?thesis using auction_locks_token [OF demo_a_reachable r_into_rtranclp [of market_step, OF st] item] st by blast
qed

text \<open>No bid without a bidder: the invariant behind the accounting of bids.\<close>

definition bids_ok :: "market \<Rightarrow> bool" where
  "bids_ok s \<longleftrightarrow> (\<forall>c t. mi_highestBidder (collectionToMarketItems s c t) = addr0 \<longrightarrow>
     mi_highestBid (collectionToMarketItems s c t) = 0)"

lemma bids_ok_upd:
  "bids_ok s \<Longrightarrow> (mi_highestBidder it = addr0 \<Longrightarrow> mi_highestBid it = 0) \<Longrightarrow>
   collectionToMarketItems s' = (collectionToMarketItems s)(c := (collectionToMarketItems s c)(t := it)) \<Longrightarrow>
   bids_ok s'"
  by (auto simp: bids_ok_def)

lemma bids_ok_same:
  "bids_ok s \<Longrightarrow> collectionToMarketItems s' = collectionToMarketItems s \<Longrightarrow> bids_ok s'"
  by (simp add: bids_ok_def)

lemma exec_bids_ok:
  assumes ok: "bids_ok s" and ex: "exec m call s = Inr s'" and out: "outside s (msg_sender m)"
  shows "bids_ok s'"
proof (cases call)
  case (CreateMarketItem ca t p)
  then show ?thesis
    using ex by (auto dest!: createMarketItem_shape intro!: bids_ok_upd [OF ok])
next
  case (CreateMarketSale ca t)
  with ex have "collectionToMarketItems s' = (collectionToMarketItems s)(ca := (collectionToMarketItems s ca)(t :=
      (collectionToMarketItems s ca t)\<lparr>mi_isOnSale := False, mi_owner := msg_sender m\<rparr>))"
    by (auto simp: Let_def dest!: createMarketSale_shape)
  with ok show ?thesis by (auto simp: bids_ok_def intro!: bids_ok_upd [OF ok])
next
  case (CreateAuction ca t p d)
  with ex have "collectionToMarketItems s' = (collectionToMarketItems s)(ca := (collectionToMarketItems s ca)(t :=
      (collectionToMarketItems s ca t)\<lparr>mi_isAuction := True, mi_price := p,
         mi_auctionEndTime := block_timestamp m + d\<rparr>))"
    by (auto dest!: createAuction_shape)
  with ok show ?thesis by (auto simp: bids_ok_def intro!: bids_ok_upd [OF ok])
next
  case (PlaceBid ca t)
  with ex have "collectionToMarketItems s' = (collectionToMarketItems s)(ca := (collectionToMarketItems s ca)(t :=
      (collectionToMarketItems s ca t)\<lparr>mi_highestBidder := msg_sender m, mi_highestBid := msg_value m\<rparr>))"
    by (auto simp: Let_def dest!: placeBid_shape)
  with out show ?thesis by (auto simp: outside_def intro!: bids_ok_upd [OF ok])
qed (use ex in \<open>auto dest!: shapes intro!: bids_ok_same [OF ok]\<close>)

lemma reachable_bids_ok: "reachable this s \<Longrightarrow> bids_ok s"
proof (induction rule: reachable.induct)
  case (init ch m s)
  then show ?case
    by (auto simp: bids_ok_def empty_market_def no_MarketItem_def dest!: new_NFTMarketplace_shape)
next
  case (step s s')
  then show ?case by (auto elim!: market_stepE intro: exec_bids_ok)
qed

text \<open>
  C10. Bids: an accepted bid is strictly higher than the one it replaces and arrives before the end
  of the auction, and no bid money is lost in the books: the refunds owed on the item plus the
  highest bid grow by exactly the new bid.
\<close>

theorem bid_accounting:
  assumes "reachable this s" and "outside s (msg_sender m)" and "placeBid m c t s = Inr s'"
  shows "mi_highestBid (collectionToMarketItems s c t) < mi_highestBid (collectionToMarketItems s' c t) \<and>
    mi_highestBidder (collectionToMarketItems s' c t) = msg_sender m \<and>
    block_timestamp m < mi_auctionEndTime (collectionToMarketItems s c t) \<and>
    sum (pendingReturns s' c t) UNIV + mi_highestBid (collectionToMarketItems s' c t) =
    sum (pendingReturns s c t) UNIV + mi_highestBid (collectionToMarketItems s c t) + msg_value m"
proof -
  let ?it = "collectionToMarketItems s c t"
  have none: "mi_highestBidder ?it = addr0 \<Longrightarrow> mi_highestBid ?it = 0"
    using reachable_bids_ok [OF assms(1)] by (simp add: bids_ok_def)
  have pr: "pendingReturns s' c t = (if mi_highestBidder ?it \<noteq> addr0
      then (pendingReturns s c t)(mi_highestBidder ?it :=
             pendingReturns s c t (mi_highestBidder ?it) + mi_highestBid ?it)
      else pendingReturns s c t)"
    and item: "collectionToMarketItems s' c t = ?it\<lparr>mi_highestBidder := msg_sender m, mi_highestBid := msg_value m\<rparr>"
    and grd: "mi_highestBid ?it < msg_value m" "block_timestamp m < mi_auctionEndTime ?it"
    using placeBid_shape [OF assms(3)] by (auto simp: Let_def)
  have "sum (pendingReturns s' c t) UNIV = sum (pendingReturns s c t) UNIV + mi_highestBid ?it"
    using pr none sum_fun_upd_nat [of UNIV "mi_highestBidder ?it" "pendingReturns s c t"
        "pendingReturns s c t (mi_highestBidder ?it) + mi_highestBid ?it"]
    by (auto split: if_splits)
  then show ?thesis using item grd by simp
qed

theorem bid_accounting_witness:
  "\<exists>s'. placeBid (demo_msg 3 60) 100 1 demo_a = Inr s' \<and> mi_highestBidder (collectionToMarketItems s' 100 1) = 3 \<and>
    sum (pendingReturns s' 100 1) UNIV + mi_highestBid (collectionToMarketItems s' 100 1) =
    sum (pendingReturns demo_a 100 1) UNIV + mi_highestBid (collectionToMarketItems demo_a 100 1) + 60"
proof -
  obtain s' where s': "placeBid (demo_msg 3 60) 100 1 demo_a = Inr s'" and out: "outside demo_a 3"
    using demo_a_bid by auto
  have "outside demo_a (msg_sender (demo_msg 3 60))" using out by simp
  from bid_accounting [OF demo_a_reachable this s'] s' show ?thesis by auto
qed

text \<open>
  C11. The supply the marketplace shows for a collection is the collection's own total supply, and
  that is the number of tokens somebody owns: ids 1 up to the supply, none else.
\<close>

theorem mirrored_supply:
  assumes "reachable this s" and "getCollectionDetails c s = Inr col"
  shows "\<exists>n. nfts s c = Some n \<and> col_totalSupply col = totalSupply n \<and>
    card {t. is_ok (ownerOf n t)} = col_totalSupply col \<and>
    (\<forall>t. is_ok (ownerOf n t) \<longleftrightarrow> 1 \<le> t \<and> t \<le> col_totalSupply col)"
proof -
  have ok: "registry_ok s" "tokens_ok this s"
    using reachable_market_ok [OF assms(1)] by (auto simp: market_ok_def)
  have col: "col = collections s c" "col_isActive (collections s c)"
    using assms(2) by (auto simp: getCollectionDetails_def)
  then have "c \<in> dom (nfts s)" using ok(1) unfolding registry_ok_def by simp
  then obtain n where n: "nfts s c = Some n" by auto
  note nok = tokens_okD [OF ok(2) n]
  have own: "is_ok (ownerOf n t) \<longleftrightarrow> 1 \<le> t \<and> t \<le> nft_tokenIds n" for t
    using nok(1) by (auto simp: ledger_ok_def ownerOf_def requireOwned_def Let_def Suc_le_eq)
  have "{t. is_ok (ownerOf n t)} = {1..nft_tokenIds n}" unfolding own by auto
  then show ?thesis using n nok(3) own by (simp add: col totalSupply_def)
qed

theorem mirrored_supply_witness:
  "\<exists>n. nfts demo_l 100 = Some n \<and> col_totalSupply (collections demo_l 100) = totalSupply n \<and>
    card {t. is_ok (ownerOf n t)} = col_totalSupply (collections demo_l 100)"
proof -
  have "getCollectionDetails 100 demo_l = Inr (collections demo_l 100)"
    by (simp add: getCollectionDetails_def demo_l_facts)
  from mirrored_supply [OF demo_l_reachable this] show ?thesis by blast
qed

end
