(* ===== verification/Purchases.thy ===== *)
theory Purchases
  imports MarketProps "HOL-Library.Multiset"
begin

text \<open>
  The bookkeeping of purchases in \<open>contracts/NFTMarketplace.sol\<close>: how the purchase counter of a
  user relates to the listings of the tokens the user once bought. Every purchase uses up a listing, so a
  bought token that is on sale again has one listing more than the counter allows for.
\<close>

section \<open>The listings as a multiset\<close>

lemma mset_concat_snoc_at:
  assumes "c \<in> set cs" and "distinct cs"
  shows "mset (concat (map (\<lambda>a. map (Pair a) ((f(c := f c @ [t])) a)) cs)) =
    add_mset (c, t) (mset (concat (map (\<lambda>a. map (Pair a) (f a)) cs)))"
  using assms
proof (induction cs)
  case (Cons a cs)
  show ?case
  proof (cases "a = c")
    case True
    with Cons.prems(2) have "concat (map (\<lambda>a. map (Pair a) ((f(c := f c @ [t])) a)) cs) = concat (map (\<lambda>a. map (Pair a) (f a)) cs)"
      by (intro arg_cong [where f = concat] map_cong) auto
    with True show ?thesis by (simp del: fun_upd_apply add: fun_upd_same)
  next
    case False
    with Cons show ?thesis by simp
  qed
qed simp

lemma length_filter_mset: "length (filter P xs) = size (filter_mset P (mset xs))"
  by (metis mset_filter size_mset)

section \<open>Purchases and listings\<close>

definition bought :: "market \<Rightarrow> address \<Rightarrow> address \<times> nat \<Rightarrow> bool" where
  "bought s u = (\<lambda>(c, t). userPurchases s u c t)"

definition on_sale_again :: "market \<Rightarrow> address \<Rightarrow> (address \<times> nat) set" where
  "on_sale_again s u =
     {k \<in> set (listed_tokens s). bought s u k \<and> mi_isOnSale (collectionToMarketItems s (fst k) (snd k))}"

definition purchases_ok :: "market \<Rightarrow> bool" where
  "purchases_ok s \<longleftrightarrow>
     (\<forall>c. nfts s c = None \<longrightarrow> collectionTokenIds s c = []) \<and>
     (\<forall>u. userPurchaseCount s u + card (on_sale_again s u) \<le> length (filter (bought s u) (listed_tokens s)))"

lemma finite_on_sale_again [simp]: "finite (on_sale_again s u)"
  by (simp add: on_sale_again_def)

lemma listed_tokens_iff:
  "k \<in> set (listed_tokens s) \<longleftrightarrow> fst k \<in> set (collectionAddresses s) \<and> snd k \<in> set (collectionTokenIds s (fst k))"
  by (cases k) (auto simp: listed_tokens_def)

lemma purchases_ok_cong:
  assumes "purchases_ok s" and "\<And>c. nfts s' c = None \<Longrightarrow> nfts s c = None"
    and "collectionTokenIds s' = collectionTokenIds s" and "collectionAddresses s' = collectionAddresses s"
    and "userPurchases s' = userPurchases s" and "userPurchaseCount s' = userPurchaseCount s"
    and "\<And>c t. mi_isOnSale (collectionToMarketItems s' c t) = mi_isOnSale (collectionToMarketItems s c t)"
  shows "purchases_ok s'"
  using assms by (simp add: purchases_ok_def on_sale_again_def bought_def listed_tokens_def)

lemma listed_before:
  assumes "market_ok this s" and "mi_isOnSale (collectionToMarketItems s c t)"
  shows "(c, t) \<in> set (listed_tokens s)"
proof -
  from market_ok_on_sale [OF assms] obtain n where "nfts s c = Some n" "t \<in> set (collectionTokenIds s c)"
    by blast
  moreover have "dom (nfts s) = set (collectionAddresses s)"
    using assms(1) by (auto simp: market_ok_def registry_ok_def)
  ultimately show ?thesis by (auto simp: listed_tokens_iff)
qed

lemma filter_one_more:
  assumes "k \<in> set xs" and "\<not> P k" and "\<And>x. P x \<Longrightarrow> Q x" and "Q k"
  shows "length (filter P xs) < length (filter Q xs)"
  using assms(1)
proof (induction xs)
  case (Cons x xs)
  have "length (filter P xs) \<le> length (filter Q xs)" for xs
    using assms(3) by (induction xs) auto
  with Cons assms(2-4) show ?case by (auto simp: less_Suc_eq_le)
qed simp

section \<open>Every call keeps the books\<close>

lemma purchases_listing:
  assumes ok: "purchases_ok s" and reg: "registry_ok s" and "createMarketItem m ca t p s = Inr s'"
  shows "purchases_ok s'"
proof -
  from createMarketItem_shape [OF assms(3)] obtain l n it where act: "col_isActive (collections s ca)" and n: "nfts s ca = Some n"
    and s': "s' = s\<lparr>logs := l, bal := move_eth (msg_sender m) (this_addr s) (msg_value m) (bal s),
       nfts := (nfts s)(ca \<mapsto> moved_token n t (this_addr s)), entered := False,
       collectionToMarketItems := (collectionToMarketItems s)(ca := (collectionToMarketItems s ca)(t := it)),
       collectionTokenIds := (collectionTokenIds s)(ca := collectionTokenIds s ca @ [t])\<rparr>"
    by blast
  have "mset (listed_tokens s') = add_mset (ca, t) (mset (listed_tokens s))"
    using mset_concat_snoc_at [where c = ca and cs = "collectionAddresses s" and f = "collectionTokenIds s" and t = t] act reg
    by (simp add: registry_ok_def listed_tokens_def s')
  moreover from this have set': "set (listed_tokens s') = insert (ca, t) (set (listed_tokens s))"
    by (metis set_mset_add_mset_insert set_mset_mset)
  moreover have b: "bought s' u = bought s u" for u by (simp add: bought_def s')
  ultimately have hits: "length (filter (bought s' u) (listed_tokens s')) =
      length (filter (bought s u) (listed_tokens s)) + (if bought s u (ca, t) then 1 else 0)" for u
    by (simp add: length_filter_mset)
  have again: "on_sale_again s' u \<subseteq> (if bought s u (ca, t) then insert (ca, t) (on_sale_again s u) else on_sale_again s u)" for u
    unfolding on_sale_again_def set' b by (auto simp: s' split: if_splits)
  have "card (on_sale_again s' u) \<le> card (on_sale_again s u) + (if bought s u (ca, t) then 1 else 0)" for u
    using card_mono [OF _ again [of u]] card_insert_le_m1 by (auto simp: card_insert_if split: if_splits)
  then have "userPurchaseCount s u + card (on_sale_again s' u) \<le> length (filter (bought s' u) (listed_tokens s'))" for u
    using ok unfolding purchases_ok_def hits by (smt (verit) add.assoc add_le_mono1 add_left_mono le_trans)
  then show ?thesis
    using ok n by (auto simp: purchases_ok_def s')
qed

lemma purchases_sale:
  assumes ok: "purchases_ok s" and mk: "market_ok this s" and "createMarketSale m ca t s = Inr s'"
  shows "purchases_ok s'"
proof -
  let ?v = "msg_sender m" and ?k = "(ca, t)"
  let ?it = "(collectionToMarketItems s ca t)\<lparr>mi_isOnSale := False, mi_owner := ?v\<rparr>"
  from createMarketSale_shape [OF assms(3)] obtain n where sale: "mi_isOnSale (collectionToMarketItems s ca t)"
    and n: "nfts s ca = Some n"
    and s': "nfts s' = (nfts s)(ca \<mapsto> moved_token n t ?v)" "collectionTokenIds s' = collectionTokenIds s"
      "collectionAddresses s' = collectionAddresses s"
      "collectionToMarketItems s' = (collectionToMarketItems s)(ca := (collectionToMarketItems s ca)(t := ?it))"
      "userPurchases s' = (userPurchases s)(?v := (userPurchases s ?v)(ca := (userPurchases s ?v ca)(t := True)))"
      "userPurchaseCount s' = (userPurchaseCount s)(?v := userPurchaseCount s ?v + 1)"
    by (auto simp: Let_def)
  have mem: "?k \<in> set (listed_tokens s)" by (rule listed_before [OF mk sale])
  have L: "listed_tokens s' = listed_tokens s" by (simp add: listed_tokens_def s')
  have bo: "bought s' u k \<longleftrightarrow> bought s u k \<or> (u = ?v \<and> k = ?k)" for u k
    by (cases k) (auto simp: bought_def s')
  have on: "mi_isOnSale (collectionToMarketItems s' (fst k) (snd k)) \<longleftrightarrow>
      mi_isOnSale (collectionToMarketItems s (fst k) (snd k)) \<and> k \<noteq> ?k" for k
    by (cases k) (simp add: s')
  have again: "on_sale_again s' u = on_sale_again s u - {?k}" for u
  proof (rule set_eqI)
    show "k \<in> on_sale_again s' u \<longleftrightarrow> k \<in> on_sale_again s u - {?k}" for k
      by (cases "k = ?k") (simp_all add: on_sale_again_def L bo on del: split_paired_All split_paired_Ex)
  qed
  have old: "userPurchaseCount s u + card (on_sale_again s u) \<le> length (filter (bought s u) (listed_tokens s))" for u
    using ok by (simp add: purchases_ok_def)
  have "userPurchaseCount s' u + card (on_sale_again s' u) \<le> length (filter (bought s' u) (listed_tokens s'))" for u
  proof (cases "u = ?v")
    case False
    then have "bought s' u = bought s u" using bo by auto
    moreover have "card (on_sale_again s' u) \<le> card (on_sale_again s u)" unfolding again by (simp add: card_mono)
    ultimately show ?thesis using old [of u] False by (simp add: L s')
  next
    case u: True
    show ?thesis
    proof (cases "bought s u ?k")
      case True
      then have "?k \<in> on_sale_again s u" using mem sale by (simp add: on_sale_again_def)
      then have "card (on_sale_again s u) = Suc (card (on_sale_again s' u))"
        unfolding again by (rule card.remove [OF finite_on_sale_again])
      moreover have "bought s' u = bought s u" using bo True by auto
      ultimately show ?thesis using old [of u] u by (simp add: L s')
    next
      case False
      then have "on_sale_again s' u = on_sale_again s u" unfolding again by (auto simp: on_sale_again_def)
      moreover have "length (filter (bought s u) (listed_tokens s)) < length (filter (bought s' u) (listed_tokens s))"
        using mem False u bo by (intro filter_one_more) auto
      ultimately show ?thesis using old [of u] u by (simp add: L s')
    qed
  qed
  then show ?thesis using ok n by (auto simp: purchases_ok_def s')
qed

lemma purchases_new_collection:
  assumes ok: "purchases_ok s" and "createCollection m ca nm sy bu cat s = Inr (s', r)"
  shows "purchases_ok s'"
proof -
  from createCollection_shape [OF assms(2)] have none: "nfts s ca = None"
    and s': "collectionTokenIds s' = collectionTokenIds s" "collectionAddresses s' = collectionAddresses s @ [ca]"
      "userPurchases s' = userPurchases s" "userPurchaseCount s' = userPurchaseCount s"
      "collectionToMarketItems s' = collectionToMarketItems s" "\<And>c. nfts s' c = None \<Longrightarrow> nfts s c = None"
    by (auto split: if_splits)
  have "collectionTokenIds s ca = []" using ok none by (simp add: purchases_ok_def)
  then have "listed_tokens s' = listed_tokens s" by (simp add: listed_tokens_def s')
  then show ?thesis using ok s' by (simp add: purchases_ok_def on_sale_again_def bought_def)
qed

lemma exec_purchases_ok:
  assumes ok: "purchases_ok s" and mk: "market_ok this s" and ex: "exec m call s = Inr s'"
  shows "purchases_ok s'"
proof (cases call)
  case (CreateMarketItem ca t p)
  with ok mk ex show ?thesis by (auto simp: market_ok_def intro: purchases_listing)
next
  case (CreateMarketSale ca t)
  with ok mk ex show ?thesis by (auto intro: purchases_sale)
next
  case (CreateCollection ca nm sy bu cat)
  with ok ex show ?thesis by (auto intro: purchases_new_collection)
qed (use ex in \<open>auto simp: Let_def dest!: shapes intro!: purchases_ok_cong [OF ok] split: if_splits\<close>)

interpretation purchases: invariant_machine market_step "\<lambda>s. market_ok this s \<and> purchases_ok s" for this
  by unfold_locales (auto elim!: market_stepE intro: exec_purchases_ok market_ok_step market_step.intros)

lemma purchases_ok_init:
  "nfts ch = Map.empty \<Longrightarrow> new_NFTMarketplace m this ch = Inr s \<Longrightarrow> purchases_ok s"
  by (auto simp: purchases_ok_def on_sale_again_def listed_tokens_def empty_market_def dest!: new_NFTMarketplace_shape)

lemma reachable_purchases_ok: "reachable this s \<Longrightarrow> market_ok this s \<and> purchases_ok s"
proof (induction rule: reachable.induct)
  case (init ch m s)
  then show ?case using reachable_market_ok [OF reachable.init] by (blast intro: purchases_ok_init)
next
  case (step s s')
  show ?case by (rule purchases.inv_step [OF step(2,3)])
qed

text \<open>A bought token that is on sale again.\<close>

lemma resale_exceeds_count:
  assumes "reachable this s" and "userPurchases s u c t" and "mi_isOnSale (collectionToMarketItems s c t)"
  shows "userPurchaseCount s u < length (filter (bought s u) (listed_tokens s))"
proof -
  note ok = reachable_purchases_ok [OF assms(1)]
  have "(c, t) \<in> on_sale_again s u"
    using listed_before [OF conjunct1 [OF ok] assms(3)] assms(2,3) by (simp add: on_sale_again_def bought_def)
  then have "0 < card (on_sale_again s u)" by (auto simp: card_gt_0_iff)
  moreover have "userPurchaseCount s u + card (on_sale_again s u) \<le> length (filter (bought s u) (listed_tokens s))"
    using ok by (simp add: purchases_ok_def)
  ultimately show ?thesis by linarith
qed

end
