(* ===== verification/SearchCode.thy ===== *)
theory SearchCode
  imports Market
begin

unbundle bit_operations_syntax

text \<open>
  The search functions of \<open>contracts/NFTMarketplace.sol\<close>: the byte loops of \<open>_containsIgnoreCase\<close>,
  the filter of \<open>_matchesSearchCriteria\<close> and the two passes of \<open>_searchWithFilters\<close>.
\<close>

section \<open>Case-insensitive substring search\<close>

text \<open>A Solidity string is its sequence of bytes.\<close>

definition bytes :: "string \<Rightarrow> 8 word list" where
  "bytes str = map of_char str"

definition lower_byte :: "8 word \<Rightarrow> 8 word" where
  "lower_byte b = (if b \<ge> 0x41 \<and> b \<le> 0x5A then b OR 0x20 else b)"

text \<open>The inner loop over \<open>j\<close>: \<open>base[i + j]\<close> and \<open>search[j]\<close> are bounds-checked reads.\<close>

function inner_loop :: "8 word list \<Rightarrow> 8 word list \<Rightarrow> nat \<Rightarrow> nat \<Rightarrow> revert + bool" where
  "inner_loop base search i j =
     (if j < length search
      then bindE (nth256 base (i + j)) (\<lambda>b. bindE (nth256 search j) (\<lambda>c.
             if lower_byte b \<noteq> lower_byte c then Inr False else inner_loop base search i (Suc j)))
      else Inr True)"
  by pat_completeness auto
termination
  by (relation "measure (\<lambda>(base, search, i, j). length search - j)") auto

function outer_loop :: "8 word list \<Rightarrow> 8 word list \<Rightarrow> nat \<Rightarrow> revert + bool" where
  "outer_loop base search i =
     (if i \<le> length base - length search
      then bindE (inner_loop base search i 0) (\<lambda>found.
             if found then Inr True else outer_loop base search (Suc i))
      else Inr False)"
  by pat_completeness auto
termination
  by (relation "measure (\<lambda>(base, search, i). Suc (length base - length search) - i)") auto

declare inner_loop.simps [simp del] outer_loop.simps [simp del]

definition containsIgnoreCase :: "string \<Rightarrow> string \<Rightarrow> revert + bool" where
  "containsIgnoreCase base_str search_str =
     (let base = bytes base_str; search = bytes search_str
      in if length search = 0 then Inr True
         else if length base < length search then Inr False
         else outer_loop base search 0)"

section \<open>Search with filters\<close>

record SearchResult =
  sr_collectionAddress :: address
  sr_name :: string
  sr_symbol :: string
  sr_category :: string
  sr_totalSupply :: nat
  sr_floorPrice :: nat
  sr_isActive :: bool

definition no_SearchResult :: SearchResult where
  "no_SearchResult = \<lparr>sr_collectionAddress = addr0, sr_name = [], sr_symbol = [], sr_category = [],
     sr_totalSupply = 0, sr_floorPrice = 0, sr_isActive = False\<rparr>"

definition orE :: "revert + bool \<Rightarrow> revert + bool \<Rightarrow> revert + bool" where
  "orE a b = bindE a (\<lambda>x. if x then Inr True else b)"

definition matchesSearchCriteria ::
  "Collection \<Rightarrow> string \<Rightarrow> string \<Rightarrow> nat \<Rightarrow> nat \<Rightarrow> nat \<Rightarrow> revert + bool" where
  "matchesSearchCriteria col searchTerm category floorPrice minFloorPrice maxFloorPrice =
     bindE (orE (Inr (length (bytes searchTerm) = 0))
             (orE (containsIgnoreCase (col_name col) searchTerm)
                  (containsIgnoreCase (col_symbol col) searchTerm))) (\<lambda>matchesSearch.
     bindE (orE (Inr (length (bytes category) = 0)) (containsIgnoreCase (col_category col) category))
       (\<lambda>matchesCategory.
         let matchesPrice = (minFloorPrice = 0 \<or> floorPrice \<ge> minFloorPrice) \<and>
                            (maxFloorPrice = 0 \<or> floorPrice \<le> maxFloorPrice)
         in Inr (matchesSearch \<and> matchesCategory \<and> matchesPrice)))"

text \<open>The two passes of \<open>_searchWithFilters\<close>, with \<open>continue\<close> for an inactive collection.\<close>

fun search_count :: "(address \<Rightarrow> revert + bool) \<Rightarrow> market \<Rightarrow> address list \<Rightarrow> nat \<Rightarrow> revert + nat" where
  "search_count P s [] resultCount = Inr resultCount"
| "search_count P s (c # cs) resultCount =
     (if \<not> col_isActive (collections s c) then search_count P s cs resultCount
      else bindE (P c) (\<lambda>b. search_count P s cs (if b then Suc resultCount else resultCount)))"

fun search_fill :: "(address \<Rightarrow> revert + bool) \<Rightarrow> (address \<Rightarrow> SearchResult) \<Rightarrow> market \<Rightarrow>
    address list \<Rightarrow> nat \<Rightarrow> SearchResult list \<Rightarrow> revert + SearchResult list" where
  "search_fill P g s [] currentIndex results = Inr results"
| "search_fill P g s (c # cs) currentIndex results =
     (if currentIndex < length results
      then if \<not> col_isActive (collections s c) then search_fill P g s cs currentIndex results
           else bindE (P c) (\<lambda>b. if b then search_fill P g s cs (Suc currentIndex) (results[currentIndex := g c])
                                 else search_fill P g s cs currentIndex results)
      else Inr results)"

definition search_hit :: "market \<Rightarrow> address \<Rightarrow> SearchResult" where
  "search_hit s c =
     (let col = collections s c
      in \<lparr>sr_collectionAddress = col_collectionAddress col, sr_name = col_name col, sr_symbol = col_symbol col,
          sr_category = col_category col, sr_totalSupply = col_totalSupply col,
          sr_floorPrice = getFloorPrice c s, sr_isActive = True\<rparr>)"

definition searchWithFilters ::
  "string \<Rightarrow> string \<Rightarrow> nat \<Rightarrow> nat \<Rightarrow> market \<Rightarrow> revert + SearchResult list" where
  "searchWithFilters searchTerm category minFloorPrice maxFloorPrice s =
     (let P = (\<lambda>c. matchesSearchCriteria (collections s c) searchTerm category (getFloorPrice c s)
                 minFloorPrice maxFloorPrice)
      in bindE (search_count P s (collectionAddresses s) 0) (\<lambda>resultCount.
           search_fill P (search_hit s) s (collectionAddresses s) 0 (replicate resultCount no_SearchResult)))"

definition searchCollections :: "string \<Rightarrow> market \<Rightarrow> revert + SearchResult list" where
  "searchCollections searchTerm s = searchWithFilters searchTerm [] 0 0 s"

definition searchCollectionsWithFilters ::
  "string \<Rightarrow> string \<Rightarrow> nat \<Rightarrow> nat \<Rightarrow> market \<Rightarrow> revert + SearchResult list" where
  "searchCollectionsWithFilters searchTerm category minFloorPrice maxFloorPrice s =
     searchWithFilters searchTerm category minFloorPrice maxFloorPrice s"

end
