(* ===== verification/Search.thy ===== *)
theory Search
  imports Purchases SearchCode
begin

unbundle bit_operations_syntax

text \<open>
  What the read side of \<open>contracts/NFTMarketplace.sol\<close> returns: the search functions, the floor
  price, the listings by category and by creator, the purchased items.
\<close>

section \<open>The byte loops compute the sublist relation\<close>

text \<open>
  The specification: some contiguous block of the base equals the search string, both with the ASCII
  letters \<open>A\<close> to \<open>Z\<close> replaced by their lower-case forms, 32 code points up.
\<close>

definition ascii_lower :: "char \<Rightarrow> char" where
  "ascii_lower c = (if 65 \<le> (of_char c :: nat) \<and> (of_char c :: nat) \<le> 90 then char_of (of_char c + 32 :: nat) else c)"

definition lower_case :: "string \<Rightarrow> string" where
  "lower_case = map ascii_lower"

definition contains_spec :: "string \<Rightarrow> string \<Rightarrow> bool" where
  "contains_spec base_str search_str \<longleftrightarrow> sublist (lower_case search_str) (lower_case base_str)"

lemma or_space: "\<forall>n \<in> set [65..<91]. (word_of_nat n :: 8 word) OR 0x20 = word_of_nat (n + 32)"
  by (simp add: upt_rec)

lemma of_char_word: "(of_char c :: 8 word) = word_of_nat (of_char c)"
  by (simp add: of_char_def horner_sum_of_bool_2_less) 

lemma of_char_less: "(of_char c :: nat) < 256"
  using horner_sum_of_bool_2_less [of "[digit0 c, digit1 c, digit2 c, digit3 c, digit4 c, digit5 c, digit6 c, digit7 c]", where ?'a = int]
  by (cases c) (simp add: of_char_def)

lemma lower_byte_of_char: "lower_byte (of_char c) = of_char (ascii_lower c)"
proof -
  let ?n = "of_char c :: nat"
  have u: "unat (word_of_nat ?n :: 8 word) = ?n" using of_char_less [of c] by (simp add: unat_of_nat)
  have ge: "(word_of_nat ?n :: 8 word) \<ge> 0x41 \<longleftrightarrow> 65 \<le> ?n" "(word_of_nat ?n :: 8 word) \<le> 0x5A \<longleftrightarrow> ?n \<le> 90"
    unfolding word_le_nat_alt u by simp_all
  show ?thesis
  proof (cases "65 \<le> ?n \<and> ?n \<le> 90")
    case True
    then have "?n \<in> set [65..<91]" unfolding set_upt by simp
    then have "(word_of_nat ?n :: 8 word) OR 0x20 = word_of_nat (?n + 32)" using or_space by blast
    moreover have "of_char (char_of (?n + 32)) = (word_of_nat (?n + 32) :: 8 word)"
      using True by (simp add: of_char_word)
    ultimately show ?thesis using True ge unfolding lower_byte_def of_char_word [of c] by (simp add: ascii_lower_def)
  next
    case False
    then show ?thesis using ge unfolding lower_byte_def of_char_word [of c] by (auto simp: ascii_lower_def of_char_word)
  qed
qed

lemma of_char_inj: "(of_char c :: 8 word) = of_char d \<Longrightarrow> c = d"
proof -
  assume "(of_char c :: 8 word) = of_char d"
  then have "unat (word_of_nat (of_char c) :: 8 word) = unat (word_of_nat (of_char d) :: 8 word)"
    by (simp add: of_char_word)
  then have "(of_char c :: nat) = of_char d"
    using of_char_less [of c] of_char_less [of d] by (simp add: unat_of_nat)
  then show "c = d" by (metis char_of_char)
qed

lemma sublist_map_inj:
  assumes "inj f"
  shows "sublist (map f xs) (map f ys) \<longleftrightarrow> sublist xs ys"
proof
  assume "sublist (map f xs) (map f ys)"
  then obtain ps ss where "map f ys = ps @ map f xs @ ss" by (auto simp: sublist_def)
  then obtain ps' xs' ss' where "ys = ps' @ xs' @ ss'" "map f xs' = map f xs"
    by (auto simp: map_eq_append_conv append_eq_map_conv)
  then show "sublist xs ys" using assms by (auto simp: sublist_def inj_map_eq_map)
next
  assume "sublist xs ys"
  then show "sublist (map f xs) (map f ys)" unfolding sublist_def by (metis map_append)
qed

lemma lower_bytes: "map lower_byte (bytes x) = map of_char (lower_case x)"
  by (simp add: bytes_def lower_case_def lower_byte_of_char)

lemma contains_spec_bytes:
  "contains_spec b q \<longleftrightarrow> sublist (map lower_byte (bytes q)) (map lower_byte (bytes b))"
  unfolding contains_spec_def lower_bytes by (simp add: sublist_map_inj inj_def of_char_inj)

lemma inner_loop_eq:
  assumes "i + length search \<le> length base" and "j \<le> length search"
  shows "inner_loop base search i j =
    Inr (\<forall>k. j \<le> k \<and> k < length search \<longrightarrow> lower_byte (base ! (i + k)) = lower_byte (search ! k))"
  using assms
proof (induction base search i j rule: inner_loop.induct)
  case (1 base search i j)
  show ?case
  proof (cases "j < length search")
    case False
    then show ?thesis by (auto simp: inner_loop.simps [of base search i j])
  next
    case True
    have rd: "i + j < length base" using True "1.prems" by simp
    show ?thesis
    proof (cases "lower_byte (base ! (i + j)) = lower_byte (search ! j)")
      case False
      with True rd show ?thesis by (auto simp: inner_loop.simps [of base search i j] nth256_def)
    next
      case eq: True
      have "inner_loop base search i j = inner_loop base search i (Suc j)"
        using True rd eq by (simp add: inner_loop.simps [of base search i j] nth256_def)
      also have "\<dots> = Inr (\<forall>k. Suc j \<le> k \<and> k < length search \<longrightarrow> lower_byte (base ! (i + k)) = lower_byte (search ! k))"
        using "1.IH" [OF True, of "base ! (i + j)" "search ! j"] eq True "1.prems" by simp
      also have "\<dots> = Inr (\<forall>k. j \<le> k \<and> k < length search \<longrightarrow> lower_byte (base ! (i + k)) = lower_byte (search ! k))"
        using eq by (intro arg_cong [of _ _ Inr]) (metis Suc_leD Suc_leI le_neq_implies_less)
      finally show ?thesis .
    qed
  qed
qed

lemma outer_loop_eq:
  assumes "length search \<le> length base"
  shows "outer_loop base search i =
    Inr (\<exists>p \<ge> i. p + length search \<le> length base \<and>
      (\<forall>k < length search. lower_byte (base ! (p + k)) = lower_byte (search ! k)))"
  using assms
proof (induction base search i rule: outer_loop.induct)
  case (1 base search i)
  let ?at = "\<lambda>p. \<forall>k < length search. lower_byte (base ! (p + k)) = lower_byte (search ! k)"
  show ?case
  proof (cases "i \<le> length base - length search")
    case False
    then show ?thesis by (auto simp: outer_loop.simps [of base search i])
  next
    case True
    then have fits: "i + length search \<le> length base" using "1.prems" by simp
    have inner: "inner_loop base search i 0 = Inr (?at i)"
      using inner_loop_eq [OF fits, of 0] by simp
    show ?thesis
    proof (cases "?at i")
      case at: True
      with True inner fits show ?thesis by (auto simp: outer_loop.simps [of base search i])
    next
      case no: False
      then have "outer_loop base search i = outer_loop base search (Suc i)"
        using True inner by (auto simp: outer_loop.simps [of base search i])
      also have "\<dots> = Inr (\<exists>p \<ge> Suc i. p + length search \<le> length base \<and> ?at p)"
        using "1.IH" [OF True, of False] "1.prems" by simp
      also have "\<dots> = Inr (\<exists>p \<ge> i. p + length search \<le> length base \<and> ?at p)"
        using no by (intro arg_cong [of _ _ Inr]) (metis Suc_leD Suc_leI le_neq_implies_less)
      finally show ?thesis .
    qed
  qed
qed

lemma sublist_iff_at:
  "sublist xs ys \<longleftrightarrow> (\<exists>p. p + length xs \<le> length ys \<and> (\<forall>k < length xs. ys ! (p + k) = xs ! k))"
proof
  assume "sublist xs ys"
  then obtain ps ss where "ys = ps @ xs @ ss" by (auto simp: sublist_def)
  then show "\<exists>p. p + length xs \<le> length ys \<and> (\<forall>k < length xs. ys ! (p + k) = xs ! k)"
    by (intro exI [of _ "length ps"]) (auto simp: nth_append)
next
  assume "\<exists>p. p + length xs \<le> length ys \<and> (\<forall>k < length xs. ys ! (p + k) = xs ! k)"
  then obtain p where p: "p + length xs \<le> length ys" "\<forall>k < length xs. ys ! (p + k) = xs ! k" by blast
  then have "take (length xs) (drop p ys) = xs" by (intro nth_equalityI) auto
  then have "ys = take p ys @ xs @ drop (p + length xs) ys"
    by (metis append_take_drop_id drop_drop add.commute)
  then show "sublist xs ys" by (auto simp: sublist_def)
qed

lemma containsIgnoreCase_eq: "containsIgnoreCase b q = Inr (contains_spec b q)"
proof -
  consider "bytes q = []" | "bytes q \<noteq> []" "length (bytes b) < length (bytes q)"
    | "bytes q \<noteq> []" "length (bytes q) \<le> length (bytes b)" by force
  then show ?thesis
  proof cases
    case 1
    then show ?thesis by (simp add: containsIgnoreCase_def contains_spec_bytes)
  next
    case 2
    then show ?thesis
      by (auto simp: containsIgnoreCase_def contains_spec_bytes dest: sublist_length_le)
  next
    case 3
    have "containsIgnoreCase b q = outer_loop (bytes b) (bytes q) 0"
      using 3 by (simp add: containsIgnoreCase_def)
    also have "\<dots> = Inr (contains_spec b q)"
      unfolding outer_loop_eq [OF 3(2)] contains_spec_bytes sublist_iff_at
      by (rule arg_cong [of _ _ Inr]) auto
    finally show ?thesis .
  qed
qed

section \<open>Search returns the matching collections\<close>

lemma bytes_Nil_iff [simp]: "bytes q = [] \<longleftrightarrow> q = []"
  by (simp add: bytes_def)

definition matches_spec :: "Collection \<Rightarrow> string \<Rightarrow> string \<Rightarrow> nat \<Rightarrow> nat \<Rightarrow> nat \<Rightarrow> bool" where
  "matches_spec col term category fp lo hi \<longleftrightarrow>
     (contains_spec (col_name col) term \<or> contains_spec (col_symbol col) term) \<and>
     contains_spec (col_category col) category \<and>
     (lo = 0 \<or> lo \<le> fp) \<and> (hi = 0 \<or> fp \<le> hi)"

lemma contains_spec_Nil [simp]: "contains_spec b []"
  by (simp add: contains_spec_def lower_case_def)

lemma matchesSearchCriteria_eq:
  "matchesSearchCriteria col term category fp lo hi = Inr (matches_spec col term category fp lo hi)"
  by (auto simp: matchesSearchCriteria_def matches_spec_def orE_def containsIgnoreCase_eq Let_def)

lemma search_count_eq:
  assumes "\<And>c. P c = Inr (Q c)"
  shows "search_count P s cs k = Inr (k + length (filter (\<lambda>c. col_isActive (collections s c) \<and> Q c) cs))"
  using assms by (induction cs arbitrary: k) auto

lemma search_fill_eq:
  assumes "\<And>c. P c = Inr (Q c)"
    and "length rs = i + length (filter (\<lambda>c. col_isActive (collections s c) \<and> Q c) cs)"
  shows "search_fill P g s cs i rs =
    Inr (take i rs @ map g (filter (\<lambda>c. col_isActive (collections s c) \<and> Q c) cs))"
  using assms(2)
proof (induction cs arbitrary: i rs)
  case Nil
  then show ?case by simp
next
  case (Cons c cs)
  show ?case
  proof (cases "i < length rs")
    case False
    with Cons.prems have "filter (\<lambda>c. col_isActive (collections s c) \<and> Q c) (c # cs) = []"
      by (simp del: filter.simps)
    with False show ?thesis by (simp del: filter.simps)
  next
    case True
    then show ?thesis
      using Cons.prems assms(1) Cons.IH [of rs i] Cons.IH [of "rs[i := g c]" "Suc i"]
      by (auto simp: take_Suc_conv_app_nth)
  qed
qed

lemma searchWithFilters_eq:
  "searchWithFilters term category lo hi s =
     Inr (map (search_hit s) (filter (\<lambda>c. col_isActive (collections s c) \<and>
       matches_spec (collections s c) term category (getFloorPrice c s) lo hi) (collectionAddresses s)))"
  by (simp add: searchWithFilters_def Let_def search_count_eq [OF matchesSearchCriteria_eq]
      search_fill_eq [OF matchesSearchCriteria_eq])

text \<open>
  C19. Search never reverts and returns exactly the active collections whose name or symbol contains
  the search term and whose category contains the category filter (contiguous block of bytes,
  ASCII case ignored) and whose floor price is within the given bounds, in creation order.
\<close>

theorem search_exact:
  "searchCollectionsWithFilters term category lo hi s =
     Inr (map (search_hit s) (filter (\<lambda>c. col_isActive (collections s c) \<and>
       (sublist (lower_case term) (lower_case (col_name (collections s c))) \<or>
        sublist (lower_case term) (lower_case (col_symbol (collections s c)))) \<and>
       sublist (lower_case category) (lower_case (col_category (collections s c))) \<and>
       (lo = 0 \<or> lo \<le> getFloorPrice c s) \<and> (hi = 0 \<or> getFloorPrice c s \<le> hi))
       (collectionAddresses s)))"
  by (simp add: searchCollectionsWithFilters_def searchWithFilters_eq matches_spec_def contains_spec_def
      conj_assoc)

text \<open>
  The empty search term returns every collection of the marketplace, each once.
\<close>

theorem search_all:
  assumes "reachable this s"
  shows "searchCollections [] s = Inr (map (search_hit s) (collectionAddresses s)) \<and>
    distinct (collectionAddresses s) \<and> set (collectionAddresses s) = dom (nfts s)"
proof -
  have reg: "registry_ok s" using reachable_market_ok [OF assms] by (simp add: market_ok_def)
  then have "filter (\<lambda>c. col_isActive (collections s c) \<and> matches_spec (collections s c) [] [] fp 0 0)
      (collectionAddresses s) = collectionAddresses s" for fp
    by (auto simp: registry_ok_def matches_spec_def intro!: filter_True)
  moreover have "set (collectionAddresses s) = dom (nfts s)" "distinct (collectionAddresses s)"
    using reg by (simp_all add: registry_ok_def set_eq_iff)
  ultimately show ?thesis
    using reg by (auto simp: searchCollections_def searchWithFilters_eq matches_spec_def registry_ok_def
        intro!: filter_True)
qed

theorem search_all_witness:
  "searchCollections [] demo_l = Inr [search_hit demo_l 100] \<and> set [100] = dom (nfts demo_l)"
  using search_all [OF demo_l_reachable] by (simp add: demo_l_simps)

section \<open>View functions\<close>




lemma details_loop_ok:
  "(\<And>c. c \<in> set cs \<Longrightarrow> col_isActive (collections s c)) \<Longrightarrow>
   details_loop cs s = Inr (map (\<lambda>c. \<lparr>cd_basic = collections s c, cd_floorPrice = getFloorPrice c s,
     cd_totalVolume = 0, cd_ownerCount = 0\<rparr>) cs)"
  by (induction cs) (auto simp: fetchCollectionDetails_def getTotalVolume_def getUniqueOwnerCount_def)

text \<open>
  C21. The three listings of collections agree: the list by category and the list by creator are the
  sublists of the list of all collections with that category or creator, and none of the three
  view functions reverts.
\<close>

theorem listings_agree:
  assumes "reachable this s"
  shows "\<exists>ds. fetchCollections s = Inr ds \<and>
    map cd_basic ds = map (collections s) (collectionAddresses s) \<and>
    fetchUserCreatedCollections u s = Inr (filter (\<lambda>d. col_owner (cd_basic d) = u) ds) \<and>
    (categoryExists s cat \<longrightarrow>
      fetchCollectionsByCategory cat s = Inr (filter (\<lambda>col. col_category col = cat) (map cd_basic ds)))"
proof -
  have reg: "registry_ok s" using reachable_market_ok [OF assms] by (simp add: market_ok_def)
  let ?d = "\<lambda>c. \<lparr>cd_basic = collections s c, cd_floorPrice = getFloorPrice c s,
     cd_totalVolume = 0, cd_ownerCount = 0\<rparr>"
  have active: "\<And>c. c \<in> set (collectionAddresses s) \<Longrightarrow> col_isActive (collections s c)"
    and user: "userCreatedCollections s u = filter (\<lambda>c. col_owner (collections s c) = u) (collectionAddresses s)"
    and categ: "categoryToCollections s cat = filter (\<lambda>c. col_category (collections s c) = cat) (collectionAddresses s)"
    using reg by (simp_all add: registry_ok_def)
  have "fetchCollections s = Inr (map ?d (collectionAddresses s))"
    using details_loop_ok active by (auto simp: fetchCollections_def)
  moreover have "fetchUserCreatedCollections u s =
      Inr (filter (\<lambda>d. col_owner (cd_basic d) = u) (map ?d (collectionAddresses s)))"
    using details_loop_ok [of "userCreatedCollections s u" s] active
    by (auto simp: fetchUserCreatedCollections_def user filter_map o_def)
  moreover have "categoryExists s cat \<Longrightarrow> fetchCollectionsByCategory cat s =
      Inr (filter (\<lambda>col. col_category col = cat) (map cd_basic (map ?d (collectionAddresses s))))"
    by (auto simp: fetchCollectionsByCategory_def categ filter_map o_def)
  ultimately show ?thesis by (intro exI [of _ "map ?d (collectionAddresses s)"]) simp
qed

theorem listings_agree_witness:
  "\<exists>ds. fetchCollections demo_l = Inr ds \<and> map cd_basic ds = [collections demo_l 100] \<and>
    fetchCollectionsByCategory ''Art'' demo_l = Inr (filter (\<lambda>col. col_category col = ''Art'') (map cd_basic ds))"
  using listings_agree [OF demo_l_reachable, of 2 "''Art''"] by (auto simp: demo_l_simps)

text \<open>
  \<open>fetchUserPurchasedItems\<close> reads one entry per listing, not per purchase: it returns the
  purchased items padded with blanks when the listings marked as bought are at most the purchase
  counter, and panics with an index out of bounds otherwise.
\<close>

theorem purchased_items_result:
  "fetchUserPurchasedItems u s =
     (let hits = filter (\<lambda>(c, t). userPurchases s u c t) (listed_tokens s)
      in if length hits \<le> userPurchaseCount s u
         then Inr (map (\<lambda>(c, t). collectionToMarketItems s c t) hits @
                   replicate (userPurchaseCount s u - length hits) no_MarketItem)
         else Inl panic_bounds)"
  unfolding fetchUserPurchasedItems_def Let_def
  by (simp add: fill_loop_ok fill_loop_panic)

definition demo_resale :: "(msg \<times> mcall) list" where
  "demo_resale =
     [(demo_msg 3 70, CreateMarketSale 100 1),
      (demo_msg 3 0, NftCall 100 (CallApprove 9 1)),
      (demo_msg 3 500000000000000, CreateMarketItem 100 1 90)]"

lemma demo_resale_run:
  "case run demo_resale demo_l of None \<Rightarrow> False
   | Some s \<Rightarrow> userPurchases s 3 100 1 \<and> mi_isOnSale (collectionToMarketItems s 100 1)"
proof -
  have ok: "market_ok 9 demo_l" by (rule reachable_market_ok [OF demo_l_reachable])
  note env = market_ok_env [OF ok]
  obtain n where n: "nfts demo_l 100 = Some n" "nft_owners n 1 = 9"
    using market_ok_on_sale [OF ok, of 100 1] by (auto simp: demo_l_simps)
  have out: "nfts demo_l 3 = None" using demo_l_facts(5) by (simp add: outside_def)
  show ?thesis
    using env n out by (simp add: demo_resale_def outside_def listed_tokens_def sol_defs demo_l_facts del: One_nat_def)
qed

text \<open>
  C22. Reselling breaks the list of purchases: in every reachable state in which a token somebody has bought is on sale again,
  whoever listed it, \<open>fetchUserPurchasedItems\<close> panics for that buyer with an index out of bounds. The array is
  allocated from the number of purchases, but the loop writes an entry for every listing of a bought token.
\<close>

theorem resale_breaks_purchase_list:
  assumes "reachable this s" and "userPurchases s u c t" and "mi_isOnSale (collectionToMarketItems s c t)"
  shows "fetchUserPurchasedItems u s = Inl panic_bounds"
  using resale_exceeds_count [OF assms] by (simp add: purchased_items_result bought_def Let_def)

theorem resale_breaks_purchase_list_witness:
  "\<exists>s. run demo_resale demo_l = Some s \<and> fetchUserPurchasedItems 3 s = Inl panic_bounds"
proof -
  obtain s where s: "run demo_resale demo_l = Some s" "userPurchases s 3 100 1" "mi_isOnSale (collectionToMarketItems s 100 1)"
    using demo_resale_run by (auto split: option.splits)
  with resale_breaks_purchase_list [OF reachable_run [OF demo_l_reachable s(1)] s(2,3)] show ?thesis by blast
qed

end
