(* ===== verification/MarketBooks.thy ===== *)
theory MarketBooks
  imports MarketProps
begin

text \<open>
  The books of the deployed marketplace: bids, refunds and offers are all backed by its balance,
  although no function pays them out, and auctions of items that are not in the contract's hands.
\<close>

section \<open>Claims\<close>

text \<open>What the marketplace has booked for one item: the standing bid, the refunds, the offers.\<close>

definition market_claim :: "market \<Rightarrow> address \<times> nat \<Rightarrow> nat" where
  "market_claim s = (\<lambda>(c, t). mi_highestBid (collectionToMarketItems s c t) + sum (pendingReturns s c t) UNIV +
     sum_list (map of_price (itemOffers s c t)))"

definition market_listed :: "market \<Rightarrow> (address \<times> nat) set" where
  "market_listed s = (SIGMA c : set (collectionAddresses s). set (collectionTokenIds s c))"

text \<open>A slot no listing has ever written.\<close>

definition blank_item :: "market \<Rightarrow> address \<Rightarrow> nat \<Rightarrow> bool" where
  "blank_item s c t \<longleftrightarrow> collectionToMarketItems s c t = no_MarketItem \<and> pendingReturns s c t = (\<lambda>_. 0) \<and>
     itemOffers s c t = []"

definition books_ok :: "address \<Rightarrow> market \<Rightarrow> bool" where
  "books_ok this s \<longleftrightarrow>
     (\<forall>c. \<forall>t \<in> set (collectionTokenIds s c). c \<in> set (collectionAddresses s)) \<and>
     (\<forall>c t. t \<notin> set (collectionTokenIds s c) \<longrightarrow> blank_item s c t) \<and>
     sum (market_claim s) (market_listed s) \<le> bal s this"

lemma market_listed_finite [simp]: "finite (market_listed s)"
  by (simp add: market_listed_def)

lemma books_listed: "books_ok this s \<Longrightarrow> (c, t) \<in> market_listed s \<longleftrightarrow> t \<in> set (collectionTokenIds s c)"
  by (auto simp: books_ok_def market_listed_def)

lemma blank_claim: "blank_item s c t \<Longrightarrow> market_claim s (c, t) = 0"
  by (simp add: blank_item_def market_claim_def no_MarketItem_def)

text \<open>A call that touches the books of one item \<open>k\<close> only, which may be new.\<close>

lemma claims_upd:
  fixes f g :: "'k \<Rightarrow> nat"
  assumes "finite A" and "B \<subseteq> insert k A" and "k \<notin> A \<Longrightarrow> f k = 0" and "\<And>j. j \<noteq> k \<Longrightarrow> g j = f j"
    and "g k + b \<le> f k + b'" and "sum f A \<le> b"
  shows "sum g B \<le> b'"
proof -
  have "sum g B \<le> sum g (insert k A)"
    using assms(1,2) by (intro sum_mono2) auto
  moreover have "sum g (insert k A) + f k \<le> sum f (insert k A) + g k"
    using assms(1,4) by (intro sum_mono_upd_nat) auto
  moreover have "sum f (insert k A) = sum f A"
    using assms(1,3) by (cases "k \<in> A") (simp_all add: insert_absorb)
  ultimately show ?thesis using assms(5,6) by simp
qed

lemma books_ok_upd:
  assumes ok: "books_ok this s" and addr: "set (collectionAddresses s) \<subseteq> set (collectionAddresses s')"
    and ca: "ca \<in> set (collectionAddresses s')"
    and ids: "\<And>c. set (collectionTokenIds s' c) = (if c = ca then insert t (set (collectionTokenIds s ca)) else set (collectionTokenIds s c))"
    and frame: "\<And>c u. (c, u) \<noteq> (ca, t) \<Longrightarrow> collectionToMarketItems s' c u = collectionToMarketItems s c u \<and>
      pendingReturns s' c u = pendingReturns s c u \<and> itemOffers s' c u = itemOffers s c u"
    and "market_claim s' (ca, t) + bal s this \<le> market_claim s (ca, t) + bal s' this"
  shows "books_ok this s'"
proof -
  have listed: "\<And>c u. u \<in> set (collectionTokenIds s c) \<Longrightarrow> c \<in> set (collectionAddresses s)"
    and blank: "\<And>c u. u \<notin> set (collectionTokenIds s c) \<Longrightarrow> blank_item s c u"
    and sum: "sum (market_claim s) (market_listed s) \<le> bal s this"
    using ok by (auto simp: books_ok_def)
  have in_addr: "c \<in> set (collectionAddresses s')" if "u \<in> set (collectionTokenIds s' c)" for c u
    using that ids [of c] listed [of u c] addr ca by (cases "c = ca") auto
  have "sum (market_claim s') (market_listed s') \<le> bal s' this"
  proof (rule claims_upd [of "market_listed s" _ "(ca, t)" "market_claim s" _ "bal s this"])
    show "market_listed s' \<subseteq> insert (ca, t) (market_listed s)"
      using ids listed by (auto simp: market_listed_def split: if_splits)
    show "market_claim s (ca, t) = 0" if "(ca, t) \<notin> market_listed s"
      using that books_listed [OF ok] blank by (simp add: blank_claim)
    show "market_claim s' j = market_claim s j" if "j \<noteq> (ca, t)" for j
      using frame that by (cases j) (simp add: market_claim_def)
  qed (use assms(6) sum in auto)
  moreover have "blank_item s' c u" if "u \<notin> set (collectionTokenIds s' c)" for c u
    using that ids [of c] blank [of u c] frame [of c u] by (cases "c = ca") (auto simp: blank_item_def)
  ultimately show ?thesis using in_addr by (auto simp: books_ok_def)
qed

lemma books_ok_frame:
  assumes "books_ok this s" and "set (collectionAddresses s) \<subseteq> set (collectionAddresses s')"
    and "collectionTokenIds s' = collectionTokenIds s" and "collectionToMarketItems s' = collectionToMarketItems s"
    and "pendingReturns s' = pendingReturns s" and "itemOffers s' = itemOffers s" and "bal s this \<le> bal s' this"
  shows "books_ok this s'"
proof -
  have "market_listed s' = market_listed s"
    using assms(1-3) by (auto simp: market_listed_def books_ok_def)
  moreover have "market_claim s' = market_claim s"
    using assms(4-6) by (simp add: market_claim_def)
  ultimately show ?thesis
    using assms by (auto simp: books_ok_def blank_item_def)
qed

section \<open>Every call keeps the books covered\<close>

lemma books_ok_init: "new_NFTMarketplace m this ch = Inr s \<Longrightarrow> books_ok this s"
  by (auto simp: books_ok_def blank_item_def market_listed_def empty_market_def dest!: new_NFTMarketplace_shape)

lemma books_listed_addr:
  "books_ok this s \<Longrightarrow> \<not> blank_item s c t \<Longrightarrow> t \<in> set (collectionTokenIds s c) \<and> c \<in> set (collectionAddresses s)"
  by (auto simp: books_ok_def)

lemma no_MarketItem_sel [simp]:
  "mi_seller no_MarketItem = addr0" "\<not> mi_isAuction no_MarketItem" "\<not> mi_isOnSale no_MarketItem"
  by (simp_all add: no_MarketItem_def)

text \<open>A call on one listed item: its books grow by at most what the call brings.\<close>

lemma books_ok_item:
  assumes "books_ok this s" and "\<not> blank_item s ca t" and "collectionAddresses s' = collectionAddresses s"
    and "collectionTokenIds s' = collectionTokenIds s"
    and "\<And>c u. (c, u) \<noteq> (ca, t) \<Longrightarrow> collectionToMarketItems s' c u = collectionToMarketItems s c u \<and>
      pendingReturns s' c u = pendingReturns s c u \<and> itemOffers s' c u = itemOffers s c u"
    and "market_claim s' (ca, t) + bal s this \<le> market_claim s (ca, t) + bal s' this"
  shows "books_ok this s'"
  using books_listed_addr [OF assms(1,2)] assms
  by (intro books_ok_upd [OF assms(1), of s' ca t]) (auto simp: insert_absorb)

lemma exec_books_ok:
  assumes ok: "market_ok this s" and bids: "bids_ok s" and books: "books_ok this s"
    and out: "outside s (msg_sender m)" and ex: "exec m call s = Inr s'"
  shows "books_ok this s'"
proof -
  have bal: "bal s' this = bal s this + kept m call"
    using ok by (intro exec_balance [OF _ out ex]) (simp add: market_ok_def)
  have snd: "msg_sender m \<noteq> addr0" using out by (simp add: outside_def)
  show ?thesis
  proof (cases call)
    case (CreateMarketItem ca t p)
    with ex obtain l n uri where act: "col_isActive (collections s ca)"
      and s': "s' = s\<lparr>logs := l, bal := move_eth (msg_sender m) (this_addr s) (msg_value m) (bal s),
       nfts := (nfts s)(ca \<mapsto> n), entered := False,
       collectionToMarketItems := (collectionToMarketItems s)(ca := (collectionToMarketItems s ca)(t :=
         \<lparr>mi_tokenId = t, mi_nftContract = ca, mi_seller = msg_sender m, mi_owner = addr0,
          mi_price = p, mi_isOnSale = True, mi_auctionEndTime = 0, mi_highestBidder = addr0,
          mi_highestBid = 0, mi_isAuction = False, mi_tokenURI = uri\<rparr>)),
       collectionTokenIds := (collectionTokenIds s)(ca := collectionTokenIds s ca @ [t])\<rparr>"
      by (auto dest!: createMarketItem_shape)
    have "ca \<in> set (collectionAddresses s)" using ok act by (simp add: market_ok_def registry_ok_def)
    moreover have "market_claim s' (ca, t) \<le> market_claim s (ca, t)" by (simp add: s' market_claim_def)
    ultimately show ?thesis
      using bal by (intro books_ok_upd [OF books, of s' ca t]) (auto simp: s')
  next
    case (CreateMarketSale ca t)
    then have "createMarketSale m ca t s = Inr s'" using ex by simp
    from createMarketSale_shape [OF this] show ?thesis
      using bal CreateMarketSale by (intro books_ok_item [OF books, of ca t]) (auto simp: Let_def blank_item_def market_claim_def)
  next
    case (CreateAuction ca t p d)
    then have "createAuction m ca t p d s = Inr s'" using ex by simp
    from createAuction_shape [OF this] show ?thesis
      using bal snd CreateAuction by (intro books_ok_item [OF books, of ca t]) (auto simp: blank_item_def market_claim_def)
  next
    case (PlaceBid ca t)
    then have bid: "placeBid m ca t s = Inr s'" using ex by simp
    let ?it = "collectionToMarketItems s ca t"
    have none: "mi_highestBidder ?it = addr0 \<Longrightarrow> mi_highestBid ?it = 0"
      using bids by (simp add: bids_ok_def)
    have pr: "pendingReturns s' ca t = (if mi_highestBidder ?it \<noteq> addr0 then (pendingReturns s ca t)(mi_highestBidder ?it :=
        pendingReturns s ca t (mi_highestBidder ?it) + mi_highestBid ?it) else pendingReturns s ca t)"
      using placeBid_shape [OF bid] by (auto simp: Let_def)
    have "sum (pendingReturns s' ca t) UNIV = sum (pendingReturns s ca t) UNIV + mi_highestBid ?it"
      using pr none sum_fun_upd_nat [of UNIV "mi_highestBidder ?it" "pendingReturns s ca t"
        "pendingReturns s ca t (mi_highestBidder ?it) + mi_highestBid ?it"] by (auto split: if_splits)
    moreover have "mi_highestBid (collectionToMarketItems s' ca t) = msg_value m" "itemOffers s' = itemOffers s"
      using placeBid_shape [OF bid] by (auto simp: Let_def)
    ultimately have "market_claim s' (ca, t) + bal s this \<le> market_claim s (ca, t) + bal s' this"
      using bal PlaceBid by (simp add: market_claim_def)
    with placeBid_shape [OF bid] show ?thesis
      by (intro books_ok_item [OF books, of ca t]) (auto simp: Let_def blank_item_def)
  next
    case (MakeOffer ca t)
    then have "makeOffer m ca t s = Inr s'" using ex by simp
    from makeOffer_shape [OF this] show ?thesis
      using bal MakeOffer by (intro books_ok_item [OF books, of ca t]) (auto simp: blank_item_def market_claim_def)
  qed (use ex bal in \<open>auto simp: Let_def dest!: shapes intro!: books_ok_frame [OF books]\<close>)
qed

lemma market_books_step:
  "market_step s s' \<Longrightarrow> market_ok this s \<and> bids_ok s \<and> books_ok this s \<Longrightarrow>
   market_ok this s' \<and> bids_ok s' \<and> books_ok this s'"
  by (blast elim!: market_stepE intro: market_ok_step market_step.step exec_bids_ok exec_books_ok)

interpretation books: solvent_machine market_step "\<lambda>s. market_ok this s \<and> bids_ok s \<and> books_ok this s"
  market_listed market_claim "\<lambda>s. bal s this" for this
proof unfold_locales
  show "market_step s s' \<Longrightarrow> market_ok this s \<and> bids_ok s \<and> books_ok this s \<Longrightarrow>
    market_ok this s' \<and> bids_ok s' \<and> books_ok this s'" for s s'
    by (rule market_books_step)
qed (auto simp: books_ok_def)

lemma reachable_books:
  "reachable this s \<Longrightarrow> market_ok this s \<and> bids_ok s \<and> books_ok this s"
proof (induction rule: reachable.induct)
  case (init ch m s)
  then have r: "reachable this s" by (rule reachable.init)
  show ?case using reachable_market_ok [OF r] reachable_bids_ok [OF r] books_ok_init [OF init(3)] by simp
next
  case (step s s')
  show ?case using market_books_step [OF step(2,3)] .
qed

lemma refund_kept:
  assumes "market_step s s'"
  shows "pendingReturns s c t a \<le> pendingReturns s' c t a"
proof -
  obtain m call where ex: "exec m call s = Inr s'" using assms by (auto elim: market_stepE)
  show ?thesis
  proof (cases call)
    case (PlaceBid ca u)
    then have "placeBid m ca u s = Inr s'" using ex by simp
    from placeBid_shape [OF this] show ?thesis by (auto simp: Let_def)
  qed (use ex in \<open>auto simp: Let_def dest!: shapes\<close>)
qed

lemma refund_kept_run:
  assumes "rtranclp market_step s s'"
  shows "pendingReturns s c t a \<le> pendingReturns s' c t a"
  using assms by (induction rule: rtranclp_induct) (auto intro: le_trans refund_kept)

text \<open>
  C6. Refunds are backed and never paid: in every reachable state the marketplace holds the standing bids, the refunds
  and the offers of all listed items together, and yet no sequence of calls ever lowers the
  refund owed to an account, so the money stays where it is.
\<close>

theorem refunds_backed_never_paid:
  assumes "reachable this s" and "rtranclp market_step s s'"
  shows "(\<Sum>(c, t) \<in> market_listed s'. mi_highestBid (collectionToMarketItems s' c t) +
      (\<Sum>a \<in> UNIV. pendingReturns s' c t a) + sum_list (map of_price (itemOffers s' c t))) \<le> bal s' this \<and>
    (\<forall>c t a. pendingReturns s c t a \<le> pendingReturns s' c t a \<and> pendingReturns s' c t a \<le> bal s' this)"
proof -
  have inv: "market_ok this s' \<and> bids_ok s' \<and> books_ok this s'"
    using books.inv_run [OF assms(2)] reachable_books [OF assms(1)] by blast
  have "pendingReturns s' c t a \<le> bal s' this" for c t a
  proof (cases "(c, t) \<in> market_listed s'")
    case True
    have "pendingReturns s' c t a \<le> sum (pendingReturns s' c t) UNIV" by (rule member_le_sum) auto
    also have "\<dots> \<le> market_claim s' (c, t)" by (simp add: market_claim_def)
    also have "\<dots> \<le> bal s' this" using inv True by (rule books.claim_covered)
    finally show ?thesis .
  next
    case False
    then have "t \<notin> set (collectionTokenIds s' c)" using inv books_listed by blast
    then have "blank_item s' c t" using inv unfolding books_ok_def by blast
    then show ?thesis by (simp add: blank_item_def)
  qed
  moreover have "sum (market_claim s') (market_listed s') \<le> bal s' this"
    using inv by (simp add: books_ok_def)
  ultimately show ?thesis
    using refund_kept_run [OF assms(2)] by (simp add: market_claim_def case_prod_beta')
qed

theorem refunds_backed_never_paid_witness:
  "\<exists>s'. market_step demo_a s' \<and> (\<forall>c t a. pendingReturns demo_a c t a \<le> pendingReturns s' c t a) \<and>
    (\<Sum>(c, t) \<in> market_listed s'. mi_highestBid (collectionToMarketItems s' c t) +
      (\<Sum>a \<in> UNIV. pendingReturns s' c t a) + sum_list (map of_price (itemOffers s' c t))) \<le> bal s' 9"
proof -
  obtain s' where "exec (demo_msg 3 60) (PlaceBid 100 1) demo_a = Inr s'" "outside demo_a 3"
    using demo_a_bid by blast
  then have st: "market_step demo_a s'"
    by (intro market_step.step [of _ "demo_msg 3 60" "PlaceBid 100 1"]) simp_all
  show ?thesis using refunds_backed_never_paid [OF demo_a_reachable r_into_rtranclp [of market_step, OF st]] st by blast
qed

section \<open>Auctions without a token\<close>

text \<open>
  C9. An auction of a token the marketplace does not hold: the seller of an item that has been bought can still
  put it up for auction, and the marketplace then takes a bid of a single wei, whatever
  the starting price, for a token that belongs to the buyer.
\<close>

theorem sold_item_auctioned:
  assumes "reachable this s" and "\<not> mi_isOnSale (collectionToMarketItems s c t)" and "\<not> mi_isAuction (collectionToMarketItems s c t)"
    and "mi_seller (collectionToMarketItems s c t) = msg_sender m" and "msg_value m = 0"
    and "mi_highestBidder (collectionToMarketItems s c t) = addr0"
    and "0 < d" and "block_timestamp m + d < two256" and "block_timestamp b = block_timestamp m"
    and "msg_value b = 1" and "1 \<le> bal s (msg_sender b)" and "msg_sender b \<noteq> this"
  shows "\<exists>s1 s2. createAuction m c t price d s = Inr s1 \<and> placeBid b c t s1 = Inr s2 \<and> nfts s2 = nfts s \<and>
    mi_highestBidder (collectionToMarketItems s2 c t) = msg_sender b \<and> bal s2 this = bal s this + 1"
proof -
  note env = market_ok_env [OF reachable_market_ok [OF assms(1)]]
  have "mi_highestBid (collectionToMarketItems s c t) = 0"
    using reachable_bids_ok [OF assms(1)] assms(6) by (simp add: bids_ok_def)
  with assms env show ?thesis
    by (simp add: createAuction_def createAuction_body_def placeBid_def placeBid_body_def nonpayable_def
        nonReentrant_def set_item_def Let_def add256_def pay_in_def move_eth_to)
qed

definition demo_sold :: market where
  "demo_sold = (case exec (demo_msg 3 70) (CreateMarketSale 100 1) demo_l of Inr s \<Rightarrow> s)"

lemma demo_sold_facts:
  "exec (demo_msg 3 70) (CreateMarketSale 100 1) demo_l = Inr demo_sold \<and>
   \<not> mi_isOnSale (collectionToMarketItems demo_sold 100 1) \<and> \<not> mi_isAuction (collectionToMarketItems demo_sold 100 1) \<and>
   mi_seller (collectionToMarketItems demo_sold 100 1) = 2 \<and> mi_highestBidder (collectionToMarketItems demo_sold 100 1) = addr0 \<and>
   bal demo_sold 3 = 10 ^ 18 - 70 \<and> (\<exists>n. nfts demo_sold 100 = Some n \<and> nft_owners n 1 = 3)"
proof -
  have ok: "market_ok 9 demo_l" by (rule reachable_market_ok [OF demo_l_reachable])
  note env = market_ok_env [OF ok]
  obtain n where n: "nfts demo_l 100 = Some n" "nft_owners n 1 = 9"
    using market_ok_on_sale [OF ok, of 100 1] by (auto simp: demo_l_simps)
  show ?thesis
    using env n by (simp add: demo_sold_def sol_defs demo_l_facts del: One_nat_def)
qed

lemma demo_sold_reachable: "reachable 9 demo_sold"
  using demo_sold_facts demo_l_facts(5)
  by (intro reachable.step [OF demo_l_reachable] market_step.step [of _ "demo_msg 3 70" "CreateMarketSale 100 1"]) simp_all

theorem sold_item_auctioned_witness:
  "\<exists>s1 s2. createAuction (demo_msg 2 0) 100 1 1000 600 demo_sold = Inr s1 \<and> placeBid (demo_msg 3 1) 100 1 s1 = Inr s2 \<and>
    (\<exists>n. nfts s2 100 = Some n \<and> nft_owners n 1 = 3) \<and> mi_highestBidder (collectionToMarketItems s2 100 1) = 3 \<and> bal s2 9 = bal demo_sold 9 + 1"
  using sold_item_auctioned [OF demo_sold_reachable, of 100 1 "demo_msg 2 0" 600 "demo_msg 3 1" 1000] demo_sold_facts
  by (auto simp: two256_def)

end
