(* ===== verification/Shop.thy ===== *)
theory Shop
  imports MarketBooks
begin

text \<open>
  The specification of the marketplace as a shop with tokens, offers and cash, and the refinement:
  every call of the marketplace is one step of the shop, seen through an abstraction function
  that forgets escrow, approvals and the bookkeeping of the contract.
\<close>

section \<open>The shop\<close>

datatype sale_mode = Fixed nat | UpForAuction

type_synonym token = "address \<times> nat"

text \<open>Who is entitled to a token (\<open>addr0\<close> for nobody), how it is offered, and everybody's Ether.\<close>

record shop =
  holder :: "token \<Rightarrow> address"
  offered :: "token \<Rightarrow> sale_mode option"
  cash :: "address \<Rightarrow> nat"

text \<open>
  A step made by the account \<open>a\<close>, at a shop whose account is \<open>till\<close> and which takes \<open>fee\<close> for an
  offer. Only a token that is not offered can be given away (the token contract decides by whom);
  an offered token changes hands by \<open>buy\<close> alone, and only the acting account's cash goes down.
\<close>

inductive shop_step :: "address \<Rightarrow> nat \<Rightarrow> address \<Rightarrow> shop \<Rightarrow> shop \<Rightarrow> bool" for till fee a where
  idle: "shop_step till fee a sh sh"
| issue: "holder sh k = addr0 \<Longrightarrow> offered sh k = None \<Longrightarrow> b \<noteq> addr0 \<Longrightarrow>
    shop_step till fee a sh (sh\<lparr>holder := (holder sh)(k := b)\<rparr>)"
| give: "holder sh k \<noteq> addr0 \<Longrightarrow> offered sh k = None \<Longrightarrow> b \<noteq> addr0 \<Longrightarrow>
    shop_step till fee a sh (sh\<lparr>holder := (holder sh)(k := b)\<rparr>)"
| pay: "v \<le> cash sh a \<Longrightarrow> a \<noteq> till \<Longrightarrow> shop_step till fee a sh (sh\<lparr>cash := move_eth a b v (cash sh)\<rparr>)"
| offer: "holder sh k = a \<Longrightarrow> offered sh k = None \<Longrightarrow> 0 < p \<Longrightarrow> fee \<le> cash sh a \<Longrightarrow> a \<noteq> till \<Longrightarrow>
    shop_step till fee a sh (sh\<lparr>offered := (offered sh)(k \<mapsto> Fixed p), cash := move_eth a till fee (cash sh)\<rparr>)"
| buy: "offered sh k = Some (Fixed p) \<Longrightarrow> p \<le> cash sh a \<Longrightarrow> a \<noteq> till \<Longrightarrow> holder sh k \<noteq> till \<Longrightarrow>
    shop_step till fee a sh (sh\<lparr>holder := (holder sh)(k := a), offered := (offered sh)(k := None),
      cash := move_eth a (holder sh k) p (cash sh)\<rparr>)"
| put_up: "offered sh k = Some (Fixed p) \<Longrightarrow> holder sh k = a \<Longrightarrow>
    shop_step till fee a sh (sh\<lparr>offered := (offered sh)(k \<mapsto> UpForAuction)\<rparr>)"

inductive_cases shop_stepE: "shop_step till fee a sh sh'"

section \<open>The abstraction\<close>

definition token_owner :: "market \<Rightarrow> token \<Rightarrow> address" where
  "token_owner s = (\<lambda>(c, t). case nfts s c of None \<Rightarrow> addr0 | Some n \<Rightarrow> nft_owners n t)"

definition item_of :: "market \<Rightarrow> token \<Rightarrow> MarketItem" where
  "item_of s = (\<lambda>(c, t). collectionToMarketItems s c t)"

definition shop_of :: "market \<Rightarrow> shop" where
  "shop_of s =
     \<lparr>holder = (\<lambda>k. if mi_isOnSale (item_of s k) then mi_seller (item_of s k) else token_owner s k),
      offered = (\<lambda>k. if \<not> mi_isOnSale (item_of s k) then None
        else if mi_isAuction (item_of s k) then Some UpForAuction else Some (Fixed (mi_price (item_of s k)))),
      cash = bal s\<rparr>"

lemma shop_of_sel [simp]: "cash (shop_of s) = bal s"
  by (simp add: shop_of_def)

lemma holder_shop_of: "holder (shop_of s) k = (if mi_isOnSale (item_of s k) then mi_seller (item_of s k) else token_owner s k)"
  by (simp add: shop_of_def)

lemma offered_shop_of: "offered (shop_of s) k = (if \<not> mi_isOnSale (item_of s k) then None
    else if mi_isAuction (item_of s k) then Some UpForAuction else Some (Fixed (mi_price (item_of s k))))"
  by (simp add: shop_of_def)

lemma shop_eqI:
  fixes a b :: shop
  assumes "\<And>k. holder a k = holder b k" and "\<And>k. offered a k = offered b k" and "cash a = cash b"
  shows "a = b"
  using assms by (cases a; cases b) (auto intro!: ext)

lemma move_eth_via:
  assumes "v \<le> b a" and "a \<noteq> mid" and "c \<noteq> mid"
  shows "move_eth mid c v (move_eth a mid v b) = move_eth a c v b"
proof
  show "move_eth mid c v (move_eth a mid v b) x = move_eth a c v b x" for x
    using assms by (cases "x = a"; cases "x = c"; cases "x = mid"; cases "a = c") (simp_all add: move_eth_def)
qed

text \<open>A token on sale is the marketplace's, and its seller is neither the marketplace nor nobody.\<close>

lemma on_sale_owner:
  assumes "market_ok this s" and "mi_isOnSale (item_of s k)"
  shows "token_owner s k = this"
proof -
  obtain c t where k: "k = (c, t)" by force
  with assms(2) have "mi_isOnSale (collectionToMarketItems s c t)" by (simp add: item_of_def)
  with assms(1) obtain n where "nfts s c = Some n" "nft_owners n t = this" by (rule market_ok_on_sale)
  then show ?thesis by (simp add: k token_owner_def)
qed

lemma shop_of_same:
  assumes "\<And>k. item_of s' k = item_of s k" and "\<And>k. \<not> mi_isOnSale (item_of s k) \<Longrightarrow> token_owner s' k = token_owner s k"
    and "bal s' = bal s"
  shows "shop_of s' = shop_of s"
  using assms by (intro shop_eqI) (simp_all add: holder_shop_of offered_shop_of)

section \<open>Every call is a step of the shop\<close>

lemma nft_exec_owners:
  assumes "nft_exec cd c call n = Inr (n', es)"
  shows "nft_owners n' = nft_owners n \<or> (\<exists>t to. to \<noteq> addr0 \<and> nft_owners n' = (nft_owners n)(t := to))"
proof (cases call)
  case (CallTransferFrom src to t)
  with assms have "to \<noteq> addr0 \<and> nft_owners n' = (nft_owners n)(t := to)" by (simp add: transferFrom_Inr_iff)
  then show ?thesis by blast
next
  case (CallSafeTransferFrom src to t)
  with assms have "transferFrom n c src to t = Inr (n', es)" by (auto dest: safeTransferFrom_Inr)
  then have "to \<noteq> addr0 \<and> nft_owners n' = (nft_owners n)(t := to)" by (simp add: transferFrom_Inr_iff)
  then show ?thesis by blast
qed (use assms in \<open>auto simp: token_iffs transferOwnership_def renounceOwnership_def\<close>)

lemma shop_of_owner_upd:
  assumes "item_of s' = item_of s" and "bal s' = bal s" and "\<not> mi_isOnSale (item_of s k)"
    and "token_owner s' = (token_owner s)(k := a)"
  shows "shop_of s' = (shop_of s)\<lparr>holder := (holder (shop_of s))(k := a)\<rparr>"
  using assms by (intro shop_eqI) (auto simp: holder_shop_of offered_shop_of)

lemma token_owner_upd:
  assumes "nfts s ca = Some n" and "nfts s' = (nfts s)(ca \<mapsto> n')" and "nft_owners n' = (nft_owners n)(t := a)"
  shows "token_owner s' = (token_owner s)((ca, t) := a)"
  using assms by (auto simp: token_owner_def fun_eq_iff)

lemma shop_moves:
  assumes "item_of s' = item_of s" and "bal s' = bal s" and "token_owner s' = (token_owner s)(k := a)" and "a \<noteq> addr0"
  shows "shop_step till fee who (shop_of s) (shop_of s')"
proof (cases "mi_isOnSale (item_of s k)")
  case True
  then have "shop_of s' = shop_of s" using assms by (intro shop_of_same) auto
  then show ?thesis by (simp add: shop_step.idle)
next
  case False
  then show ?thesis
    using shop_of_owner_upd [OF assms(1,2) False assms(3)] assms(4) shop_step.issue [of "shop_of s" k a till fee who]
      shop_step.give [of "shop_of s" k a till fee who]
    by (cases "holder (shop_of s) k = addr0") (auto simp: offered_shop_of)
qed

lemma list_refines:
  assumes ok: "market_ok this s" and out: "outside s (msg_sender m)" and "createMarketItem m ca t p s = Inr s'"
  shows "shop_step this (listingFee s) (msg_sender m) (shop_of s) (shop_of s')"
proof -
  obtain l n uri where g: "0 < p" "msg_value m = listingFee s" "msg_value m \<le> bal s (msg_sender m)"
      "nfts s ca = Some n" "nft_owners n t = msg_sender m"
    and s': "s' = s\<lparr>logs := l, bal := move_eth (msg_sender m) (this_addr s) (msg_value m) (bal s),
       nfts := (nfts s)(ca \<mapsto> moved_token n t (this_addr s)), entered := False,
       collectionToMarketItems := (collectionToMarketItems s)(ca := (collectionToMarketItems s ca)(t :=
         \<lparr>mi_tokenId = t, mi_nftContract = ca, mi_seller = msg_sender m, mi_owner = addr0,
          mi_price = p, mi_isOnSale = True, mi_auctionEndTime = 0, mi_highestBidder = addr0,
          mi_highestBid = 0, mi_isAuction = False, mi_tokenURI = uri\<rparr>)),
       collectionTokenIds := (collectionTokenIds s)(ca := collectionTokenIds s ca @ [t])\<rparr>"
    using createMarketItem_shape [OF assms(3)] by blast
  note env = market_ok_env [OF ok]
  have it': "collectionToMarketItems s' = (collectionToMarketItems s)(ca := (collectionToMarketItems s ca)(t :=
      \<lparr>mi_tokenId = t, mi_nftContract = ca, mi_seller = msg_sender m, mi_owner = addr0,
        mi_price = p, mi_isOnSale = True, mi_auctionEndTime = 0, mi_highestBidder = addr0,
        mi_highestBid = 0, mi_isAuction = False, mi_tokenURI = uri\<rparr>))"
    and n': "nfts s' = (nfts s)(ca \<mapsto> moved_token n t this)"
    and b': "bal s' = move_eth (msg_sender m) this (listingFee s) (bal s)"
    using env g(2) by (simp_all add: s')
  have ne: "msg_sender m \<noteq> this" using out env by (simp add: outside_def)
  have own: "token_owner s (ca, t) = msg_sender m" using g by (simp add: token_owner_def)
  then have off: "\<not> mi_isOnSale (item_of s (ca, t))" using on_sale_owner [OF ok, of "(ca, t)"] ne by auto
  have to': "token_owner s' = (token_owner s)((ca, t) := this)"
    using g(4) n' by (intro token_owner_upd [of s ca n s' "moved_token n t this"]) simp_all
  have "shop_of s' = (shop_of s)\<lparr>offered := (offered (shop_of s))((ca, t) \<mapsto> Fixed p),
      cash := move_eth (msg_sender m) this (listingFee s) (cash (shop_of s))\<rparr>"
    using own off by (intro shop_eqI) (auto simp: holder_shop_of offered_shop_of to' item_of_def it' b' split: prod.splits)
  then show ?thesis
    using shop_step.offer [of "shop_of s" "(ca, t)" "msg_sender m" p "listingFee s" this] own off g ne
    by (simp add: holder_shop_of offered_shop_of)
qed

lemma sale_refines:
  assumes ok: "market_ok this s" and out: "outside s (msg_sender m)" and "createMarketSale m ca t s = Inr s'"
  shows "shop_step this fee (msg_sender m) (shop_of s) (shop_of s')"
proof -
  let ?it = "collectionToMarketItems s ca t"
  from createMarketSale_shape [OF assms(3)] obtain l n where
    g: "mi_isOnSale ?it" "\<not> mi_isAuction ?it" "msg_value m = mi_price ?it" "msg_value m \<le> bal s (msg_sender m)"
      "nfts s ca = Some n" "accepts s (mi_seller ?it)"
    and b: "bal s' = move_eth (this_addr s) (mi_seller ?it) (msg_value m) (move_eth (msg_sender m) (this_addr s) (msg_value m) (bal s))"
    and n': "nfts s' = (nfts s)(ca \<mapsto> moved_token n t (msg_sender m))"
    and it': "collectionToMarketItems s' = (collectionToMarketItems s)(ca := (collectionToMarketItems s ca)(t :=
         ?it\<lparr>mi_isOnSale := False, mi_owner := msg_sender m\<rparr>))"
    by (auto simp: Let_def)
  note env = market_ok_env [OF ok]
  have ne: "msg_sender m \<noteq> this" "mi_seller ?it \<noteq> this" using out env g(6) by (auto simp: outside_def)
  have to': "token_owner s' = (token_owner s)((ca, t) := msg_sender m)"
    using g(5) by (intro token_owner_upd [of s ca n s' "moved_token n t (msg_sender m)"]) (simp_all add: n')
  have bal': "bal s' = move_eth (msg_sender m) (mi_seller ?it) (msg_value m) (bal s)"
    unfolding b using env g(4) ne by (simp add: move_eth_via)
  have "shop_of s' = (shop_of s)\<lparr>holder := (holder (shop_of s))((ca, t) := msg_sender m),
      offered := (offered (shop_of s))((ca, t) := None),
      cash := move_eth (msg_sender m) (holder (shop_of s) (ca, t)) (msg_value m) (cash (shop_of s))\<rparr>"
    using g by (intro shop_eqI) (auto simp: holder_shop_of offered_shop_of to' item_of_def it' bal' split: prod.splits)
  then show ?thesis
    using shop_step.buy [of "shop_of s" "(ca, t)" "msg_value m" "msg_sender m" this fee] g ne
    by (simp add: holder_shop_of offered_shop_of item_of_def)
qed

lemma pay_refines:
  assumes "\<And>k. mi_isOnSale (item_of s' k) = mi_isOnSale (item_of s k)" and "\<And>k. mi_seller (item_of s' k) = mi_seller (item_of s k)"
    and "\<And>k. mi_isAuction (item_of s' k) = mi_isAuction (item_of s k)" and "\<And>k. mi_price (item_of s' k) = mi_price (item_of s k)"
    and "nfts s' = nfts s" and "bal s' = move_eth a b v (bal s)" and "v \<le> bal s a" and "a \<noteq> till"
  shows "shop_step till fee a (shop_of s) (shop_of s')"
proof -
  have "shop_of s' = (shop_of s)\<lparr>cash := move_eth a b v (cash (shop_of s))\<rparr>"
    using assms by (intro shop_eqI) (simp_all add: holder_shop_of offered_shop_of token_owner_def)
  then show ?thesis using assms(7,8) shop_step.pay [of v "shop_of s" a till fee b] by simp
qed

lemma auction_refines:
  assumes "createAuction m ca t p d s = Inr s'"
  shows "shop_step till fee (msg_sender m) (shop_of s) (shop_of s')"
proof -
  let ?it = "collectionToMarketItems s ca t"
  have g: "\<not> mi_isAuction ?it" "mi_seller ?it = msg_sender m" and it': "collectionToMarketItems s' = (collectionToMarketItems s)
     (ca := (collectionToMarketItems s ca)(t := ?it\<lparr>mi_isAuction := True, mi_price := p, mi_auctionEndTime := block_timestamp m + d\<rparr>))"
    and e: "nfts s' = nfts s" "bal s' = bal s"
    using createAuction_shape [OF assms] by auto
  show ?thesis
  proof (cases "mi_isOnSale ?it")
    case True
    then have "shop_of s' = (shop_of s)\<lparr>offered := (offered (shop_of s))((ca, t) \<mapsto> UpForAuction)\<rparr>"
      using e by (intro shop_eqI) (auto simp: holder_shop_of offered_shop_of token_owner_def item_of_def it' split: prod.splits)
    then show ?thesis
      using True g shop_step.put_up [of "shop_of s" "(ca, t)" "mi_price ?it" "msg_sender m" till fee]
      by (simp add: offered_shop_of holder_shop_of item_of_def)
  next
    case False
    then have "shop_of s' = shop_of s"
      using e by (intro shop_eqI) (auto simp: holder_shop_of offered_shop_of token_owner_def item_of_def it' split: prod.splits)
    then show ?thesis by (simp add: shop_step.idle)
  qed
qed

lemma shop_idle:
  assumes "collectionToMarketItems s' = collectionToMarketItems s" and "token_owner s' = token_owner s" and "bal s' = bal s"
  shows "shop_step till fee who (shop_of s) (shop_of s')"
proof -
  have "item_of s' = item_of s" using assms(1) by (simp add: item_of_def)
  then have "shop_of s' = shop_of s" using assms by (intro shop_of_same) simp_all
  then show ?thesis by (simp add: shop_step.idle)
qed

lemma exec_refines:
  assumes ok: "market_ok this s" and out: "outside s (msg_sender m)" and ex: "exec m call s = Inr s'"
  shows "shop_step this (listingFee s) (msg_sender m) (shop_of s) (shop_of s')"
proof -
  have ne: "msg_sender m \<noteq> this" using out market_ok_env [OF ok] by (simp add: outside_def)
  show ?thesis
  proof (cases call)
    case (CreateCollection ca nm sy bu cat)
    with ex obtain n where n: "nfts s ca = None" "new_NFTCollection nm sy bu (this_addr s) cat (msg_sender m) = Inr n"
      and s': "nfts s' = (nfts s)(ca \<mapsto> n)" "collectionToMarketItems s' = collectionToMarketItems s" "bal s' = bal s"
      by (auto dest!: createCollection_shape)
    have "token_owner s' = token_owner s"
      using n by (auto simp: token_owner_def s'(1) new_NFTCollection_def fun_eq_iff)
    with s' show ?thesis by (simp add: shop_idle)
  next
    case (CreateMarketItem ca t p)
    with ex show ?thesis by (simp add: list_refines [OF ok out])
  next
    case (CreateMarketSale ca t)
    with ex show ?thesis by (simp add: sale_refines [OF ok out])
  next
    case (CreateAuction ca t p d)
    with ex show ?thesis by (simp add: auction_refines)
  next
    case (PlaceBid ca t)
    with ex ne show ?thesis
      by (intro pay_refines [of s' s "msg_sender m" "this_addr s" "msg_value m"])
        (auto simp: item_of_def Let_def dest!: placeBid_shape split: prod.splits if_splits)
  next
    case (MakeOffer ca t)
    with ex ne show ?thesis
      by (intro pay_refines [of s' s "msg_sender m" "this_addr s" "msg_value m"])
        (auto simp: item_of_def dest!: makeOffer_shape)
  next
    case (SendEther to)
    with ex ne show ?thesis
      by (intro pay_refines [of s' s "msg_sender m" to "msg_value m"]) (auto simp: item_of_def)
  next
    case (Mint ca to uri)
    with ex obtain n n' es tid where n: "nfts s ca = Some n"
        "mint_body (code s) n (msg_sender m) to uri = Inr (n', tid, es)"
      and s': "nfts s' = (nfts s)(ca \<mapsto> n')" "collectionToMarketItems s' = collectionToMarketItems s" "bal s' = bal s"
      by (auto dest!: nft_mint_shape)
    show ?thesis
      using n s' by (intro shop_moves [of s' s "(ca, tid)" to] token_owner_upd [of s ca n s' n'])
        (auto simp: item_of_def mint_body_Inr_iff)
  next
    case (NftCall ca c)
    with ex obtain n n' es where n: "nfts s ca = Some n" "nft_exec (code s) (msg_sender m) c n = Inr (n', es)"
      and s': "nfts s' = (nfts s)(ca \<mapsto> n')" "collectionToMarketItems s' = collectionToMarketItems s" "bal s' = bal s"
      by (auto dest!: nft_external_shape)
    from nft_exec_owners [OF n(2)] show ?thesis
    proof (elim disjE exE conjE)
      assume "nft_owners n' = nft_owners n"
      then have "token_owner s' = token_owner s" using n(1) s'(1) by (auto simp: token_owner_def fun_eq_iff)
      with s' show ?thesis by (simp add: shop_idle)
    next
      fix t to assume "to \<noteq> addr0" "nft_owners n' = (nft_owners n)(t := to)"
      with n s' show ?thesis
        by (intro shop_moves [of s' s "(ca, t)" to] token_owner_upd [of s ca n s' n']) (auto simp: item_of_def)
    qed
  qed (use ex in \<open>auto simp: token_owner_def intro!: shop_idle dest!: shapes\<close>)
qed

section \<open>Runs\<close>

text \<open>A run of the shop: any accounts acting, the till excepted.\<close>

definition shop_move :: "address \<Rightarrow> nat \<Rightarrow> shop \<Rightarrow> shop \<Rightarrow> bool" where
  "shop_move till fee sh sh' \<longleftrightarrow> (\<exists>a. a \<noteq> till \<and> shop_step till fee a sh sh')"

definition shop_run :: "address \<Rightarrow> nat \<Rightarrow> shop \<Rightarrow> shop \<Rightarrow> bool" where
  "shop_run till fee = rtranclp (shop_move till fee)"

lemma listing_fee_constant: "market_step s s' \<Longrightarrow> listingFee s' = listingFee s"
proof (erule market_stepE)
  fix m call assume ex: "exec m call s = Inr s'"
  show ?thesis by (cases call; use ex in \<open>auto simp: Let_def dest!: shapes\<close>)
qed

lemma reachable_listing_fee: "reachable this s \<Longrightarrow> listingFee s = 500000000000000"
  by (induction rule: reachable.induct)
    (auto simp: empty_market_def listing_fee_constant dest!: new_NFTMarketplace_shape)

lemma step_refines:
  assumes "reachable this s" and "market_step s s'"
  shows "shop_move this 500000000000000 (shop_of s) (shop_of s')"
proof -
  note ok = reachable_market_ok [OF assms(1)]
  obtain m call where "outside s (msg_sender m)" "exec m call s = Inr s'" using assms(2) by (auto elim: market_stepE)
  with exec_refines [OF ok] market_ok_env(1) [OF ok] reachable_listing_fee [OF assms(1)] show ?thesis
    by (auto simp: outside_def shop_move_def)
qed

interpretation refined: simulation market_step "reachable this" "shop_move this 500000000000000" shop_of for this
  by unfold_locales (auto intro: reachable.step step_refines)

text \<open>The shop is a closed economy, and so, through the abstraction, is the marketplace.\<close>

lemma shop_cash_total: "shop_move till fee sh sh' \<Longrightarrow> sum (cash sh') UNIV = sum (cash sh) UNIV"
  by (auto simp: shop_move_def move_eth_sum elim!: shop_stepE)

lemma ether_total:
  assumes "reachable this s" and "rtranclp market_step s s'"
  shows "sum (bal s') UNIV = sum (bal s) UNIV"
  using refined.abs_invariant [OF assms(2,1), of "\<lambda>sh. sum (cash sh) UNIV = sum (bal s) UNIV"]
  by (auto simp: shop_cash_total)

text \<open>
  C4. The marketplace is a shop: every run of the deployed contracts, by any accounts and any calls, is, with escrow,
  approvals and bookkeeping abstracted away, a run of the shop, where an offered token changes
  hands only by a purchase at its price paid to its seller, offering costs the fee, and nobody
  spends another's Ether.
\<close>

theorem marketplace_refines_shop:
  assumes "reachable this s" and "rtranclp market_step s s'"
  shows "shop_run this 500000000000000 (shop_of s) (shop_of s')"
  unfolding shop_run_def using assms(2,1) by (rule refined.sim_run)

lemma demo_sold_step: "market_step demo_l demo_sold"
  using demo_sold_facts demo_l_facts(5)
  by (intro market_step.step [of _ "demo_msg 3 70" "CreateMarketSale 100 1"]) simp_all

lemma demo_sold_holder: "holder (shop_of demo_sold) (100, 1) = 3" "holder (shop_of demo_l) (100, 1) = 2"
  using demo_sold_facts by (auto simp: holder_shop_of item_of_def token_owner_def demo_l_facts simp del: One_nat_def)

theorem marketplace_refines_shop_witness:
  "shop_run 9 500000000000000 (shop_of demo_l) (shop_of demo_sold) \<and>
   holder (shop_of demo_l) (100, 1) = 2 \<and> holder (shop_of demo_sold) (100, 1) = 3"
  using marketplace_refines_shop [OF demo_l_reachable r_into_rtranclp [of market_step, OF demo_sold_step]]
    demo_sold_holder by blast

text \<open>
  C5. Sellers are paid: when a call ends with somebody else entitled to a token that was on sale, it was a sale at
  a fixed price to the caller: the seller has got exactly the asking price and the buyer has
  spent exactly that.
\<close>

theorem sellers_are_paid:
  assumes "reachable this s" and "outside s (msg_sender m)" and "exec m call s = Inr s'"
    and "mi_isOnSale (collectionToMarketItems s c t)"
    and "holder (shop_of s') (c, t) \<noteq> mi_seller (collectionToMarketItems s c t)"
  shows "\<not> mi_isAuction (collectionToMarketItems s c t) \<and> holder (shop_of s') (c, t) = msg_sender m \<and>
    bal s' (mi_seller (collectionToMarketItems s c t)) =
      bal s (mi_seller (collectionToMarketItems s c t)) + mi_price (collectionToMarketItems s c t) \<and>
    bal s (msg_sender m) = bal s' (msg_sender m) + mi_price (collectionToMarketItems s c t)"
proof -
  let ?it = "collectionToMarketItems s c t"
  have h: "holder (shop_of s) (c, t) = mi_seller ?it" and off: "offered (shop_of s) (c, t) \<noteq> None"
    "\<And>p. offered (shop_of s) (c, t) = Some (Fixed p) \<Longrightarrow> \<not> mi_isAuction ?it \<and> p = mi_price ?it"
    using assms(4) by (auto simp: holder_shop_of offered_shop_of item_of_def split: if_splits)
  have "shop_step this (listingFee s) (msg_sender m) (shop_of s) (shop_of s')"
    using exec_refines [OF reachable_market_ok [OF assms(1)] assms(2,3)] .
  then obtain p where "offered (shop_of s) (c, t) = Some (Fixed p)" "p \<le> bal s (msg_sender m)"
    "holder (shop_of s') (c, t) = msg_sender m" "bal s' = move_eth (msg_sender m) (mi_seller ?it) p (bal s)"
  proof (cases rule: shop_step.cases)
    case (buy k p)
    show ?thesis
    proof (cases "k = (c, t)")
      case True
      with buy h have "bal s' = move_eth (msg_sender m) (mi_seller ?it) p (bal s)"
        using shop_of_sel [of s'] by simp
      with buy True show ?thesis using that [of p] by simp
    next
      case False
      with buy h assms(5) show ?thesis by simp
    qed
  qed (use h off assms(5) in \<open>auto split: if_splits\<close>)
  with off(2) assms(5) h show ?thesis by (auto simp: move_eth_simps)
qed

theorem sellers_are_paid_witness:
  "holder (shop_of demo_sold) (100, 1) = 3 \<and> bal demo_sold 2 = bal demo_l 2 + 70 \<and> bal demo_l 3 = bal demo_sold 3 + 70"
  using sellers_are_paid [OF demo_l_reachable, of "demo_msg 3 70" "CreateMarketSale 100 1" demo_sold 100 1]
    demo_sold_facts demo_sold_holder demo_l_facts(5)
  by (simp add: demo_l_facts del: One_nat_def)

end
