(* ===== verification/Draft.thy ===== *)
theory Draft
  imports Erc721
begin

text \<open>
  The draft of the marketplace contract that the three service files carry as commented-out
  text below their JavaScript (\<open>src/services/blockchain.service.js\<close>, \<open>nft.service.js\<close> and
  \<open>collection.service.js\<close> each hold the same text four times; it is an auction and offer market
  with price history, never deployed). One definition per function, one for its body and one for each of its steps. The collection factory it
  calls is in no file of the repository with this interface, so it is a parameter.
\<close>

section \<open>Structs, enums, constants, storage\<close>

record dItem =
  di_itemId :: nat
  di_nftContract :: address
  di_tokenId :: nat
  di_seller :: address
  di_owner :: address
  di_price :: nat
  di_isAuction :: bool
  di_auctionEndTime :: nat
  di_highestBidder :: address
  di_highestBid :: nat
  di_sold :: bool

record dOffer =
  do_buyer :: address
  do_price :: nat
  do_expirationTime :: nat

datatype PriceActionType = LISTING | SALE | AUCTION_BID | AUCTION_END | OFFER_ACCEPTED

record PriceHistory =
  ph_timestamp :: nat
  ph_price :: nat
  ph_seller :: address
  ph_buyer :: address
  ph_actionType :: PriceActionType

datatype SaleType = ALL | FIXED_PRICE | AUCTION

datatype SortOrder = PRICE_LOW_TO_HIGH | PRICE_HIGH_TO_LOW | NEWEST_FIRST | OLDEST_FIRST

definition AUCTION_DURATION :: nat where
  "AUCTION_DURATION = 7 * 24 * 60 * 60"

definition MIN_AUCTION_INCREMENT :: nat where
  "MIN_AUCTION_INCREMENT = 10 ^ 16"

definition LISTING_PRICE :: nat where
  "LISTING_PRICE = 5 * 10 ^ 14"

definition no_dItem :: dItem where
  "no_dItem = \<lparr>di_itemId = 0, di_nftContract = addr0, di_tokenId = 0, di_seller = addr0, di_owner = addr0,
     di_price = 0, di_isAuction = False, di_auctionEndTime = 0, di_highestBidder = addr0,
     di_highestBid = 0, di_sold = False\<rparr>"

section \<open>Events\<close>

definition ev_MarketItemCreated ::
  "nat \<Rightarrow> address \<Rightarrow> nat \<Rightarrow> address \<Rightarrow> address \<Rightarrow> nat \<Rightarrow> bool \<Rightarrow> nat \<Rightarrow> event" where
  "ev_MarketItemCreated itemId nftContract tokenId seller owner price isAuction auctionEndTime =
     Event ''MarketItemCreated'' [EvNat itemId, EvAddr nftContract, EvNat tokenId, EvAddr seller, EvAddr owner,
       EvNat price, EvBool isAuction, EvNat auctionEndTime]"

definition ev_AuctionBid :: "nat \<Rightarrow> address \<Rightarrow> nat \<Rightarrow> event" where
  "ev_AuctionBid itemId bidder bid = Event ''AuctionBid'' [EvNat itemId, EvAddr bidder, EvNat bid]"

definition ev_AuctionEnded :: "nat \<Rightarrow> address \<Rightarrow> nat \<Rightarrow> event" where
  "ev_AuctionEnded itemId winner amount = Event ''AuctionEnded'' [EvNat itemId, EvAddr winner, EvNat amount]"

definition ev_OfferCreated :: "nat \<Rightarrow> address \<Rightarrow> nat \<Rightarrow> nat \<Rightarrow> event" where
  "ev_OfferCreated itemId buyer price expirationTime =
     Event ''OfferCreated'' [EvNat itemId, EvAddr buyer, EvNat price, EvNat expirationTime]"

definition ev_OfferAccepted :: "nat \<Rightarrow> address \<Rightarrow> nat \<Rightarrow> event" where
  "ev_OfferAccepted itemId buyer price = Event ''OfferAccepted'' [EvNat itemId, EvAddr buyer, EvNat price]"

section \<open>Storage\<close>

text \<open>
  The factory's interface as the draft uses it: the third component of \<open>collections(a)\<close> and
  \<open>updateCollectionStats\<close>, over a state of its own.
\<close>

record 'f factory =
  fac_collections :: "'f \<Rightarrow> address \<Rightarrow> address"
  fac_updateCollectionStats :: "'f \<Rightarrow> address \<Rightarrow> nat \<Rightarrow> bool \<Rightarrow> revert + 'f"

record 'f draft = chain +
  d_this :: address
  d_entered :: bool
  d_owner :: address
  d_itemIds :: nat
  d_itemsSold :: nat
  d_items :: "nat \<Rightarrow> dItem"
  d_pendingReturns :: "nat \<Rightarrow> address \<Rightarrow> nat"
  d_offers :: "nat \<Rightarrow> dOffer list"
  d_history :: "nat \<Rightarrow> PriceHistory list"
  d_factory :: 'f

definition d_constructor :: "msg \<Rightarrow> address \<Rightarrow> 'f \<Rightarrow> chain \<Rightarrow> 'f draft" where
  "d_constructor m this fac ch =
     \<lparr>bal = bal ch, accepts = (accepts ch)(this := False), code = (code ch)(this := HookRejects),
      nfts = nfts ch, logs = logs ch, d_this = this, d_entered = False, d_owner = msg_sender m,
      d_itemIds = 0, d_itemsSold = 0, d_items = (\<lambda>_. no_dItem), d_pendingReturns = (\<lambda>_ _. 0),
      d_offers = (\<lambda>_. []), d_history = (\<lambda>_. []), d_factory = fac\<rparr>"

definition d_nonReentrant :: "('f draft \<Rightarrow> revert + 'f draft) \<Rightarrow> 'f draft \<Rightarrow> revert + 'f draft" where
  "d_nonReentrant f s =
     require (\<not> d_entered s) (CustomError ''ReentrancyGuardReentrantCall'')
       (bindE (f (s\<lparr>d_entered := True\<rparr>)) (\<lambda>s'. Inr (s'\<lparr>d_entered := False\<rparr>)))"

definition d_set_item :: "nat \<Rightarrow> dItem \<Rightarrow> 'f draft \<Rightarrow> 'f draft" where
  "d_set_item i it s = s\<lparr>d_items := (d_items s)(i := it)\<rparr>"

definition d_history_entry :: "msg \<Rightarrow> nat \<Rightarrow> address \<Rightarrow> address \<Rightarrow> PriceActionType \<Rightarrow> PriceHistory" where
  "d_history_entry m price seller buyer act =
     \<lparr>ph_timestamp = block_timestamp m, ph_price = price, ph_seller = seller, ph_buyer = buyer, ph_actionType = act\<rparr>"

definition d_addPriceHistory ::
  "msg \<Rightarrow> nat \<Rightarrow> nat \<Rightarrow> address \<Rightarrow> address \<Rightarrow> PriceActionType \<Rightarrow> 'f draft \<Rightarrow> 'f draft" where
  "d_addPriceHistory m itemId price seller buyer act s =
     s\<lparr>d_history := (d_history s)(itemId := d_history s itemId @ [d_history_entry m price seller buyer act])\<rparr>"

section \<open>Fixed-price listing and sale\<close>

definition d_listing_item :: "msg \<Rightarrow> address \<Rightarrow> nat \<Rightarrow> nat \<Rightarrow> nat \<Rightarrow> dItem" where
  "d_listing_item m collectionAddress tokenId price itemId =
     \<lparr>di_itemId = itemId, di_nftContract = collectionAddress, di_tokenId = tokenId,
      di_seller = msg_sender m, di_owner = addr0, di_price = price, di_isAuction = False,
      di_auctionEndTime = 0, di_highestBidder = addr0, di_highestBid = 0, di_sold = False\<rparr>"

definition d_createMarketItem_checks ::
  "'f factory \<Rightarrow> msg \<Rightarrow> address \<Rightarrow> nat \<Rightarrow> 'f draft \<Rightarrow> revert + address" where
  "d_createMarketItem_checks F m collectionAddress price s =
     require (price > 0) (Revert ''Price must be greater than 0'')
     (require (msg_value m = LISTING_PRICE) (Revert ''Must pay listing price'')
     (let nftContract = fac_collections F (d_factory s) collectionAddress
      in require (nftContract \<noteq> addr0) (Revert ''Collection does not exist'') (Inr nftContract)))"

text \<open>The steps of the body: the item is stored, the token taken in, the listing recorded.\<close>

definition d_store_listing :: "msg \<Rightarrow> address \<Rightarrow> nat \<Rightarrow> nat \<Rightarrow> 'f draft \<Rightarrow> revert + 'f draft" where
  "d_store_listing m collectionAddress tokenId price s =
     bindE (add256 (d_itemIds s) 1) (\<lambda>nextId. let itemId = d_itemIds s in
       Inr (d_set_item itemId (d_listing_item m collectionAddress tokenId price itemId) (s\<lparr>d_itemIds := nextId\<rparr>)))"

definition d_take_token :: "msg \<Rightarrow> address \<Rightarrow> nat \<Rightarrow> 'f draft \<Rightarrow> revert + 'f draft" where
  "d_take_token m nftContract tokenId s =
     call_transferFrom (d_this s) nftContract (msg_sender m) (d_this s) tokenId s"

definition d_record_listing ::
  "'f factory \<Rightarrow> msg \<Rightarrow> address \<Rightarrow> address \<Rightarrow> nat \<Rightarrow> nat \<Rightarrow> nat \<Rightarrow> 'f draft \<Rightarrow> revert + 'f draft" where
  "d_record_listing F m collectionAddress nftContract tokenId price itemId s =
     bindE (fac_updateCollectionStats F (d_factory s) collectionAddress price False) (\<lambda>f.
       Inr (emit (d_this s) [ev_MarketItemCreated itemId nftContract tokenId (msg_sender m) addr0 price False 0]
         (d_addPriceHistory m itemId price (msg_sender m) addr0 LISTING (s\<lparr>d_factory := f\<rparr>))))"

definition d_createMarketItem_body ::
  "'f factory \<Rightarrow> msg \<Rightarrow> address \<Rightarrow> nat \<Rightarrow> nat \<Rightarrow> 'f draft \<Rightarrow> revert + 'f draft" where
  "d_createMarketItem_body F m collectionAddress tokenId price s =
     bindE (d_createMarketItem_checks F m collectionAddress price s) (\<lambda>nftContract.
     let itemId = d_itemIds s
     in bindE (d_store_listing m collectionAddress tokenId price s) (\<lambda>s1.
        bindE (d_take_token m collectionAddress tokenId s1)
          (d_record_listing F m collectionAddress nftContract tokenId price itemId)))"

definition d_createMarketItem ::
  "'f factory \<Rightarrow> msg \<Rightarrow> address \<Rightarrow> nat \<Rightarrow> nat \<Rightarrow> 'f draft \<Rightarrow> revert + 'f draft" where
  "d_createMarketItem F m collectionAddress tokenId price s =
     bindE (pay_in m (d_this s) s) (d_nonReentrant (d_createMarketItem_body F m collectionAddress tokenId price))"

definition d_getListingPrice :: nat where
  "d_getListingPrice = LISTING_PRICE"

definition d_createMarketSale_checks :: "msg \<Rightarrow> dItem \<Rightarrow> revert + unit" where
  "d_createMarketSale_checks m item =
     require (\<not> di_isAuction item) (Revert ''Cannot buy auction items directly'')
     (require (msg_value m = di_price item) (Revert ''Please submit the asking price'')
     (require (\<not> di_sold item) (Revert ''Item already sold'') (Inr ())))"

text \<open>The seller is paid and the token handed over; the item is marked; the sale is recorded.\<close>

definition d_hand_over :: "msg \<Rightarrow> address \<Rightarrow> dItem \<Rightarrow> nat \<Rightarrow> 'f draft \<Rightarrow> revert + 'f draft" where
  "d_hand_over m collectionAddress item tokenId s =
     bindE (transfer_eth (d_this s) (di_seller item) (msg_value m) s)
       (call_transferFrom (d_this s) collectionAddress (d_this s) (msg_sender m) tokenId)"

definition d_mark_bought :: "msg \<Rightarrow> nat \<Rightarrow> dItem \<Rightarrow> 'f draft \<Rightarrow> revert + 'f draft" where
  "d_mark_bought m itemId item s =
     bindE (add256 (d_itemsSold s) 1) (\<lambda>sold.
       Inr (d_set_item itemId (item\<lparr>di_owner := msg_sender m, di_sold := True\<rparr>) (s\<lparr>d_itemsSold := sold\<rparr>)))"

definition d_record_sale ::
  "'f factory \<Rightarrow> msg \<Rightarrow> address \<Rightarrow> nat \<Rightarrow> nat \<Rightarrow> dItem \<Rightarrow> 'f draft \<Rightarrow> revert + 'f draft" where
  "d_record_sale F m collectionAddress itemId price item s =
     bindE (fac_updateCollectionStats F (d_factory s) collectionAddress price True) (\<lambda>f.
       Inr (d_addPriceHistory m itemId price (di_seller item) (msg_sender m) SALE (s\<lparr>d_factory := f\<rparr>)))"

definition d_createMarketSale_body ::
  "'f factory \<Rightarrow> msg \<Rightarrow> address \<Rightarrow> nat \<Rightarrow> 'f draft \<Rightarrow> revert + 'f draft" where
  "d_createMarketSale_body F m collectionAddress itemId s =
     (let item = d_items s itemId; price = di_price item; tokenId = di_tokenId item
      in bindE (d_createMarketSale_checks m item) (\<lambda>_.
         bindE (d_hand_over m collectionAddress item tokenId s) (\<lambda>s1.
         bindE (d_mark_bought m itemId item s1) (\<lambda>s2.
         bindE (d_record_sale F m collectionAddress itemId price item s2)
           (transfer_eth (d_this s) (d_owner s) LISTING_PRICE)))))"

definition d_createMarketSale :: "'f factory \<Rightarrow> msg \<Rightarrow> address \<Rightarrow> nat \<Rightarrow> 'f draft \<Rightarrow> revert + 'f draft" where
  "d_createMarketSale F m collectionAddress itemId s =
     bindE (pay_in m (d_this s) s) (d_nonReentrant (d_createMarketSale_body F m collectionAddress itemId))"

section \<open>Auctions\<close>

definition d_auction_item :: "msg \<Rightarrow> address \<Rightarrow> nat \<Rightarrow> nat \<Rightarrow> nat \<Rightarrow> nat \<Rightarrow> dItem" where
  "d_auction_item m nftContract tokenId startingPrice itemId auctionEnd =
     \<lparr>di_itemId = itemId, di_nftContract = nftContract, di_tokenId = tokenId, di_seller = msg_sender m,
      di_owner = addr0, di_price = startingPrice, di_isAuction = True, di_auctionEndTime = auctionEnd,
      di_highestBidder = addr0, di_highestBid = 0, di_sold = False\<rparr>"

definition d_createAuction_checks :: "msg \<Rightarrow> nat \<Rightarrow> revert + unit" where
  "d_createAuction_checks m startingPrice =
     require (startingPrice > 0) (Revert ''Starting price must be greater than 0'')
     (require (msg_value m = LISTING_PRICE) (Revert ''Must pay listing price'') (Inr ()))"

definition d_announce_auction ::
  "msg \<Rightarrow> address \<Rightarrow> nat \<Rightarrow> nat \<Rightarrow> nat \<Rightarrow> nat \<Rightarrow> 'f draft \<Rightarrow> revert + 'f draft" where
  "d_announce_auction m nftContract tokenId startingPrice itemId auctionEnd s =
     Inr (emit (d_this s) [ev_MarketItemCreated itemId nftContract tokenId (msg_sender m) addr0 startingPrice True auctionEnd] s)"

definition d_createAuction_body :: "msg \<Rightarrow> address \<Rightarrow> nat \<Rightarrow> nat \<Rightarrow> 'f draft \<Rightarrow> revert + 'f draft" where
  "d_createAuction_body m nftContract tokenId startingPrice s =
     bindE (d_createAuction_checks m startingPrice) (\<lambda>_.
     bindE (add256 (d_itemIds s) 1) (\<lambda>nextId.
     bindE (add256 (block_timestamp m) AUCTION_DURATION) (\<lambda>auctionEnd.
       let itemId = d_itemIds s;
           s1 = d_set_item itemId (d_auction_item m nftContract tokenId startingPrice itemId auctionEnd)
                  (s\<lparr>d_itemIds := nextId\<rparr>)
       in bindE (d_take_token m nftContract tokenId s1)
            (d_announce_auction m nftContract tokenId startingPrice itemId auctionEnd))))"

definition d_createAuction :: "msg \<Rightarrow> address \<Rightarrow> nat \<Rightarrow> nat \<Rightarrow> 'f draft \<Rightarrow> revert + 'f draft" where
  "d_createAuction m nftContract tokenId startingPrice s =
     bindE (pay_in m (d_this s) s) (d_nonReentrant (d_createAuction_body m nftContract tokenId startingPrice))"

definition d_placeBid_checks :: "msg \<Rightarrow> dItem \<Rightarrow> revert + unit" where
  "d_placeBid_checks m item =
     require (di_isAuction item) (Revert ''Item is not an auction'')
     (require (block_timestamp m < di_auctionEndTime item) (Revert ''Auction ended'')
     (bindE (add256 (di_price item) MIN_AUCTION_INCREMENT) (\<lambda>least.
        require (msg_value m \<ge> least) (Revert ''Bid too low'') (Inr ()))))"

text \<open>The standing bid becomes a refund of its bidder; the new bid is stored and recorded.\<close>

definition d_outbid :: "nat \<Rightarrow> dItem \<Rightarrow> 'f draft \<Rightarrow> revert + 'f draft" where
  "d_outbid itemId item s =
     (if di_highestBidder item \<noteq> addr0
      then bindE (add256 (d_pendingReturns s itemId (di_highestBidder item)) (di_highestBid item)) (\<lambda>r.
        Inr (s\<lparr>d_pendingReturns := (d_pendingReturns s)
          (itemId := (d_pendingReturns s itemId)(di_highestBidder item := r))\<rparr>))
      else Inr s)"

definition d_record_bid :: "msg \<Rightarrow> nat \<Rightarrow> dItem \<Rightarrow> 'f draft \<Rightarrow> 'f draft" where
  "d_record_bid m itemId item s =
     emit (d_this s) [ev_AuctionBid itemId (msg_sender m) (msg_value m)]
       (d_addPriceHistory m itemId (msg_value m) (di_seller item) (msg_sender m) AUCTION_BID
         (d_set_item itemId (item\<lparr>di_highestBidder := msg_sender m, di_highestBid := msg_value m\<rparr>) s))"

definition d_placeBid_body :: "msg \<Rightarrow> nat \<Rightarrow> 'f draft \<Rightarrow> revert + 'f draft" where
  "d_placeBid_body m itemId s =
     (let item = d_items s itemId
      in bindE (d_placeBid_checks m item) (\<lambda>_.
         bindE (d_outbid itemId item s) (\<lambda>s1. Inr (d_record_bid m itemId item s1))))"

definition d_placeBid :: "msg \<Rightarrow> nat \<Rightarrow> 'f draft \<Rightarrow> revert + 'f draft" where
  "d_placeBid m itemId s = bindE (pay_in m (d_this s) s) (d_nonReentrant (d_placeBid_body m itemId))"

definition d_endAuction_checks :: "msg \<Rightarrow> dItem \<Rightarrow> revert + unit" where
  "d_endAuction_checks m item =
     require (di_isAuction item) (Revert ''Not an auction'')
     (require (block_timestamp m \<ge> di_auctionEndTime item) (Revert ''Auction not ended'')
     (require (\<not> di_sold item) (Revert ''Auction already ended'') (Inr ())))"

text \<open>The payout of \<open>endAuction\<close>: to the winner, or the token back to the seller without a bid.\<close>

definition d_settle :: "dItem \<Rightarrow> 'f draft \<Rightarrow> revert + 'f draft" where
  "d_settle item s =
     (if di_highestBidder item \<noteq> addr0
      then bindE (transfer_eth (d_this s) (di_seller item) (di_highestBid item) s)
             (call_transferFrom (d_this s) (di_nftContract item) (d_this s) (di_highestBidder item) (di_tokenId item))
      else call_transferFrom (d_this s) (di_nftContract item) (d_this s) (di_seller item) (di_tokenId item) s)"

definition d_mark_ended :: "nat \<Rightarrow> dItem \<Rightarrow> 'f draft \<Rightarrow> revert + 'f draft" where
  "d_mark_ended itemId item s =
     bindE (add256 (d_itemsSold s) 1) (\<lambda>sold.
       Inr (d_set_item itemId (item\<lparr>di_sold := True, di_owner := di_highestBidder item\<rparr>) (s\<lparr>d_itemsSold := sold\<rparr>)))"

definition d_announce_end :: "nat \<Rightarrow> dItem \<Rightarrow> 'f draft \<Rightarrow> revert + 'f draft" where
  "d_announce_end itemId item s =
     bindE (transfer_eth (d_this s) (d_owner s) LISTING_PRICE s) (\<lambda>s1.
       Inr (emit (d_this s) [ev_AuctionEnded itemId (di_highestBidder item) (di_highestBid item)] s1))"

definition d_endAuction_body :: "msg \<Rightarrow> nat \<Rightarrow> 'f draft \<Rightarrow> revert + 'f draft" where
  "d_endAuction_body m itemId s =
     (let item = d_items s itemId
      in bindE (d_endAuction_checks m item) (\<lambda>_.
         bindE (d_mark_ended itemId item s) (\<lambda>s1.
         bindE (d_settle item s1) (d_announce_end itemId item))))"

definition d_endAuction :: "msg \<Rightarrow> nat \<Rightarrow> 'f draft \<Rightarrow> revert + 'f draft" where
  "d_endAuction m itemId s =
     require (msg_value m = 0) CallFailed (d_nonReentrant (d_endAuction_body m itemId) s)"

definition d_pay_refund :: "msg \<Rightarrow> nat \<Rightarrow> nat \<Rightarrow> 'f draft \<Rightarrow> revert + 'f draft" where
  "d_pay_refund m itemId amount s =
     transfer_eth (d_this s) (msg_sender m) amount
       (s\<lparr>d_pendingReturns := (d_pendingReturns s)(itemId := (d_pendingReturns s itemId)(msg_sender m := 0))\<rparr>)"

definition d_withdrawBid_body :: "msg \<Rightarrow> nat \<Rightarrow> 'f draft \<Rightarrow> revert + 'f draft" where
  "d_withdrawBid_body m itemId s =
     (let amount = d_pendingReturns s itemId (msg_sender m)
      in require (amount > 0) (Revert ''No funds to withdraw'') (d_pay_refund m itemId amount s))"

definition d_withdrawBid :: "msg \<Rightarrow> nat \<Rightarrow> 'f draft \<Rightarrow> revert + 'f draft" where
  "d_withdrawBid m itemId s =
     require (msg_value m = 0) CallFailed (d_nonReentrant (d_withdrawBid_body m itemId) s)"

section \<open>Offers\<close>

definition d_makeOffer_checks :: "msg \<Rightarrow> nat \<Rightarrow> dItem \<Rightarrow> revert + unit" where
  "d_makeOffer_checks m expirationTime item =
     require (msg_value m > 0) (Revert ''Offer must be greater than 0'')
     (require (expirationTime > block_timestamp m) (Revert ''Expiration must be in future'')
     (require (\<not> di_sold item) (Revert ''Item already sold'')
     (require (\<not> di_isAuction item) (Revert ''Cannot make offers on auctions'') (Inr ()))))"

definition d_new_offer :: "msg \<Rightarrow> nat \<Rightarrow> dOffer" where
  "d_new_offer m expirationTime =
     \<lparr>do_buyer = msg_sender m, do_price = msg_value m, do_expirationTime = expirationTime\<rparr>"

definition d_store_offer :: "msg \<Rightarrow> nat \<Rightarrow> nat \<Rightarrow> 'f draft \<Rightarrow> 'f draft" where
  "d_store_offer m itemId expirationTime s =
     emit (d_this s) [ev_OfferCreated itemId (msg_sender m) (msg_value m) expirationTime]
       (s\<lparr>d_offers := (d_offers s)(itemId := d_offers s itemId @ [d_new_offer m expirationTime])\<rparr>)"

definition d_makeOffer_body :: "msg \<Rightarrow> nat \<Rightarrow> nat \<Rightarrow> 'f draft \<Rightarrow> revert + 'f draft" where
  "d_makeOffer_body m itemId expirationTime s =
     bindE (d_makeOffer_checks m expirationTime (d_items s itemId)) (\<lambda>_.
       Inr (d_store_offer m itemId expirationTime s))"

definition d_makeOffer :: "msg \<Rightarrow> nat \<Rightarrow> nat \<Rightarrow> 'f draft \<Rightarrow> revert + 'f draft" where
  "d_makeOffer m itemId expirationTime s =
     bindE (pay_in m (d_this s) s) (d_nonReentrant (d_makeOffer_body m itemId expirationTime))"

text \<open>The refund loop of \<open>acceptOffer\<close>, from index \<open>i\<close> on: every other offer that has not expired.\<close>

fun d_refund_loop :: "msg \<Rightarrow> nat \<Rightarrow> nat \<Rightarrow> dOffer list \<Rightarrow> 'f draft \<Rightarrow> revert + 'f draft" where
  "d_refund_loop m offerIndex i [] s = Inr s"
| "d_refund_loop m offerIndex i (off # os) s =
     (if i \<noteq> offerIndex \<and> block_timestamp m \<le> do_expirationTime off
      then bindE (transfer_eth (d_this s) (do_buyer off) (do_price off) s) (d_refund_loop m offerIndex (Suc i) os)
      else d_refund_loop m offerIndex (Suc i) os s)"

text \<open>The checks of \<open>acceptOffer\<close> return the offer they look up.\<close>

definition d_acceptOffer_checks :: "msg \<Rightarrow> dItem \<Rightarrow> dOffer list \<Rightarrow> nat \<Rightarrow> revert + dOffer" where
  "d_acceptOffer_checks m item offers offerIndex =
     require (msg_sender m = di_seller item) (Revert ''Only seller can accept'')
     (require (\<not> di_sold item) (Revert ''Item already sold'')
     (bindE (nth256 offers offerIndex) (\<lambda>offer.
        require (block_timestamp m \<le> do_expirationTime offer) (Revert ''Offer expired'') (Inr offer))))"

definition d_mark_accepted :: "nat \<Rightarrow> dItem \<Rightarrow> dOffer \<Rightarrow> 'f draft \<Rightarrow> revert + 'f draft" where
  "d_mark_accepted itemId item offer s =
     bindE (add256 (d_itemsSold s) 1) (\<lambda>sold.
       Inr (d_set_item itemId (item\<lparr>di_sold := True, di_owner := do_buyer offer\<rparr>) (s\<lparr>d_itemsSold := sold\<rparr>)))"

definition d_pay_accepted :: "dItem \<Rightarrow> dOffer \<Rightarrow> 'f draft \<Rightarrow> revert + 'f draft" where
  "d_pay_accepted item offer s =
     bindE (call_transferFrom (d_this s) (di_nftContract item) (d_this s) (do_buyer offer) (di_tokenId item) s) (\<lambda>s1.
     bindE (transfer_eth (d_this s) (di_seller item) (do_price offer) s1)
       (transfer_eth (d_this s) (d_owner s) LISTING_PRICE))"

definition d_acceptOffer_body :: "msg \<Rightarrow> nat \<Rightarrow> nat \<Rightarrow> 'f draft \<Rightarrow> revert + 'f draft" where
  "d_acceptOffer_body m itemId offerIndex s =
     (let item = d_items s itemId
      in bindE (d_acceptOffer_checks m item (d_offers s itemId) offerIndex) (\<lambda>offer.
         bindE (d_mark_accepted itemId item offer s) (\<lambda>s1.
         bindE (d_pay_accepted item offer s1) (\<lambda>s2.
         bindE (d_refund_loop m offerIndex 0 (d_offers s itemId) s2) (\<lambda>s3.
           Inr (emit (d_this s) [ev_OfferAccepted itemId (do_buyer offer) (do_price offer)] s3))))))"

definition d_acceptOffer :: "msg \<Rightarrow> nat \<Rightarrow> nat \<Rightarrow> 'f draft \<Rightarrow> revert + 'f draft" where
  "d_acceptOffer m itemId offerIndex s =
     require (msg_value m = 0) CallFailed (d_nonReentrant (d_acceptOffer_body m itemId offerIndex) s)"

section \<open>Ownership\<close>

text \<open>The two functions the draft inherits from \<open>Ownable\<close>.\<close>

definition d_transferOwnership :: "msg \<Rightarrow> address \<Rightarrow> 'f draft \<Rightarrow> revert + 'f draft" where
  "d_transferOwnership m newOwner s =
     require (msg_value m = 0) CallFailed (bindE (transferOwnership (d_owner s) (msg_sender m) newOwner) (\<lambda>ow.
       Inr (emit (d_this s) [Event ''OwnershipTransferred'' [EvAddr (d_owner s), EvAddr ow]] (s\<lparr>d_owner := ow\<rparr>))))"

definition d_renounceOwnership :: "msg \<Rightarrow> 'f draft \<Rightarrow> revert + 'f draft" where
  "d_renounceOwnership m s =
     require (msg_value m = 0) CallFailed (bindE (renounceOwnership (d_owner s) (msg_sender m)) (\<lambda>ow.
       Inr (emit (d_this s) [Event ''OwnershipTransferred'' [EvAddr (d_owner s), EvAddr ow]] (s\<lparr>d_owner := ow\<rparr>))))"

section \<open>View functions\<close>

definition d_fetchMarketItem :: "nat \<Rightarrow> 'f draft \<Rightarrow> dItem" where
  "d_fetchMarketItem itemId s = d_items s itemId"

definition d_fetchItemOffers :: "nat \<Rightarrow> 'f draft \<Rightarrow> dOffer list" where
  "d_fetchItemOffers itemId s = d_offers s itemId"

definition d_fetchPriceHistory :: "nat \<Rightarrow> 'f draft \<Rightarrow> PriceHistory list" where
  "d_fetchPriceHistory itemId s = d_history s itemId"

definition d_unsold_fill :: "'f draft \<Rightarrow> nat \<Rightarrow> revert + dItem list" where
  "d_unsold_fill s unsoldItemCount =
     fill_loop (\<lambda>i. \<not> di_sold (d_items s i)) (d_items s) [0..<d_itemIds s] 0 (replicate unsoldItemCount no_dItem)"

definition d_fetchMarketItems :: "'f draft \<Rightarrow> revert + dItem list" where
  "d_fetchMarketItems s =
     bindE (sub256 (d_itemIds s) (d_itemsSold s)) (d_unsold_fill s)"

text \<open>The other lists: a counting pass, then a filling pass over an array of that length.\<close>

definition d_mine :: "msg \<Rightarrow> 'f draft \<Rightarrow> nat \<Rightarrow> bool" where
  "d_mine m s i \<longleftrightarrow> di_owner (d_items s i) = msg_sender m"

definition d_mine_count :: "msg \<Rightarrow> 'f draft \<Rightarrow> nat" where
  "d_mine_count m s = count_loop (d_mine m s) [0..<d_itemIds s] 0"

definition d_mine_fill :: "msg \<Rightarrow> 'f draft \<Rightarrow> nat \<Rightarrow> revert + dItem list" where
  "d_mine_fill m s itemCount = fill_loop (d_mine m s) (d_items s) [0..<d_itemIds s] 0 (replicate itemCount no_dItem)"

definition d_fetchMyNFTs :: "msg \<Rightarrow> 'f draft \<Rightarrow> revert + dItem list" where
  "d_fetchMyNFTs m s = d_mine_fill m s (d_mine_count m s)"

definition d_listed :: "msg \<Rightarrow> 'f draft \<Rightarrow> nat \<Rightarrow> bool" where
  "d_listed m s i \<longleftrightarrow> di_seller (d_items s i) = msg_sender m"

definition d_listed_count :: "msg \<Rightarrow> 'f draft \<Rightarrow> nat" where
  "d_listed_count m s = count_loop (d_listed m s) [0..<d_itemIds s] 0"

definition d_listed_fill :: "msg \<Rightarrow> 'f draft \<Rightarrow> nat \<Rightarrow> revert + dItem list" where
  "d_listed_fill m s itemCount = fill_loop (d_listed m s) (d_items s) [0..<d_itemIds s] 0 (replicate itemCount no_dItem)"

definition d_fetchMyListedNFTs :: "msg \<Rightarrow> 'f draft \<Rightarrow> revert + dItem list" where
  "d_fetchMyListedNFTs m s = d_listed_fill m s (d_listed_count m s)"

definition d_active :: "msg \<Rightarrow> 'f draft \<Rightarrow> nat \<Rightarrow> bool" where
  "d_active m s i \<longleftrightarrow> di_isAuction (d_items s i) \<and> \<not> di_sold (d_items s i) \<and>
     block_timestamp m < di_auctionEndTime (d_items s i)"

definition d_active_count :: "msg \<Rightarrow> 'f draft \<Rightarrow> nat" where
  "d_active_count m s = count_loop (d_active m s) [0..<d_itemIds s] 0"

definition d_active_fill :: "msg \<Rightarrow> 'f draft \<Rightarrow> nat \<Rightarrow> revert + dItem list" where
  "d_active_fill m s activeCount = fill_loop (d_active m s) (d_items s) [0..<d_itemIds s] 0 (replicate activeCount no_dItem)"

definition d_fetchActiveAuctions :: "msg \<Rightarrow> 'f draft \<Rightarrow> revert + dItem list" where
  "d_fetchActiveAuctions m s = d_active_fill m s (d_active_count m s)"

section \<open>Price statistics\<close>

definition d_is_sale :: "PriceHistory \<Rightarrow> bool" where
  "d_is_sale h \<longleftrightarrow> ph_actionType h = SALE \<or> ph_actionType h = AUCTION_END \<or> ph_actionType h = OFFER_ACCEPTED"

record price_acc =
  pa_lowest :: nat
  pa_highest :: nat
  pa_total :: nat
  pa_count :: nat

definition d_stats_step :: "nat \<Rightarrow> price_acc \<Rightarrow> revert + price_acc" where
  "d_stats_step price a =
     (let a1 = (if price < pa_lowest a then a\<lparr>pa_lowest := price\<rparr> else a);
          a2 = (if price > pa_highest a1 then a1\<lparr>pa_highest := price\<rparr> else a1)
      in bindE (add256 (pa_total a2) price) (\<lambda>total.
           Inr (a2\<lparr>pa_total := total, pa_count := Suc (pa_count a2)\<rparr>)))"

fun d_stats_loop :: "PriceHistory list \<Rightarrow> price_acc \<Rightarrow> revert + price_acc" where
  "d_stats_loop [] a = Inr a"
| "d_stats_loop (h # hs) a =
     (if d_is_sale h then bindE (d_stats_step (ph_price h) a) (d_stats_loop hs) else d_stats_loop hs a)"

text \<open>\<open>getItemPriceStats\<close>: lowest, highest and average price, and the number of sales.\<close>

definition d_stats_result :: "price_acc \<Rightarrow> nat \<times> nat \<times> nat \<times> nat" where
  "d_stats_result a =
     (let averagePrice = (if pa_count a > 0 then pa_total a div pa_count a else 0);
          lowestPrice = (if pa_lowest a = uint256_max then 0 else pa_lowest a)
      in (lowestPrice, pa_highest a, averagePrice, pa_count a))"

definition d_getItemPriceStats :: "nat \<Rightarrow> 'f draft \<Rightarrow> revert + nat \<times> nat \<times> nat \<times> nat" where
  "d_getItemPriceStats itemId s =
     bindE (d_stats_loop (d_history s itemId)
              \<lparr>pa_lowest = uint256_max, pa_highest = 0, pa_total = 0, pa_count = 0\<rparr>) (\<lambda>a. Inr (d_stats_result a))"

text \<open>\<open>_findPriceAtTime\<close>: the loop runs from the end of the history down to its start.\<close>

fun d_find_loop :: "PriceHistory list \<Rightarrow> nat \<Rightarrow> nat \<Rightarrow> nat" where
  "d_find_loop history targetTime 0 = 0"
| "d_find_loop history targetTime (Suc i) =
     (if ph_timestamp (history ! i) \<le> targetTime then ph_price (history ! i)
      else d_find_loop history targetTime i)"

definition d_findPriceAtTime :: "PriceHistory list \<Rightarrow> nat \<Rightarrow> nat" where
  "d_findPriceAtTime history targetTime = d_find_loop history targetTime (length history)"

end
