(* ===== verification/DraftInv.thy ===== *)
theory DraftInv
  imports Draft
begin

text \<open>
  The draft marketplace as a state machine over time: its calls, the steps of the accounts and
  collections around it, and the invariant every step keeps. The contract always holds at least
  what it owes (listing fees, standing bids, open offers, refunds). Custody of the tokens for sale is
  kept by every step but one kind of purchase.
\<close>

section \<open>Calls and steps\<close>

datatype dcall =
    DList address nat nat
  | DBuy address nat
  | DAuction address nat nat
  | DBid nat
  | DEnd nat
  | DWithdraw nat
  | DOffer nat nat
  | DAccept nat nat
  | DTransferOwnership address
  | DRenounceOwnership

fun d_exec :: "'f factory \<Rightarrow> msg \<Rightarrow> dcall \<Rightarrow> 'f draft \<Rightarrow> revert + 'f draft" where
  "d_exec F m (DList c t p) s = d_createMarketItem F m c t p s"
| "d_exec F m (DBuy c i) s = d_createMarketSale F m c i s"
| "d_exec F m (DAuction c t p) s = d_createAuction m c t p s"
| "d_exec F m (DBid i) s = d_placeBid m i s"
| "d_exec F m (DEnd i) s = d_endAuction m i s"
| "d_exec F m (DWithdraw i) s = d_withdrawBid m i s"
| "d_exec F m (DOffer i e) s = d_makeOffer m i e s"
| "d_exec F m (DAccept i k) s = d_acceptOffer m i k s"
| "d_exec F m (DTransferOwnership a) s = d_transferOwnership m a s"
| "d_exec F m DRenounceOwnership s = d_renounceOwnership m s"

definition d_outside :: "'f draft \<Rightarrow> address \<Rightarrow> bool" where
  "d_outside s a \<longleftrightarrow> a \<noteq> addr0 \<and> a \<noteq> d_this s \<and> nfts s a = None"

text \<open>
  A state with the time of the last block. Between two calls, collections are deployed, accounts
  call them and move Ether among themselves or into the contract. Any account may make any call; the
  token contracts are \<open>NFTCollection\<close> contracts.
\<close>

inductive draft_step :: "'f factory \<Rightarrow> nat \<times> 'f draft \<Rightarrow> nat \<times> 'f draft \<Rightarrow> bool" for F where
  call: "d_outside s (msg_sender m) \<Longrightarrow> now \<le> block_timestamp m \<Longrightarrow>
    d_exec F m c s = Inr s' \<Longrightarrow> draft_step F (now, s) (block_timestamp m, s')"
| token: "d_outside s a \<Longrightarrow> nfts s c = Some n \<Longrightarrow> nft_step (code s) a n n' \<Longrightarrow>
    draft_step F (now, s) (now, s\<lparr>nfts := (nfts s)(c \<mapsto> n')\<rparr>)"
| deploy: "nfts s c = None \<Longrightarrow> new_NFTCollection nm sy bu mk cat ow = Inr n \<Longrightarrow>
    draft_step F (now, s) (now, s\<lparr>nfts := (nfts s)(c \<mapsto> n)\<rparr>)"
| ether: "bal s (d_this s) \<le> b (d_this s) \<Longrightarrow> draft_step F (now, s) (now, s\<lparr>bal := b\<rparr>)"

inductive d_reachable :: "'f factory \<Rightarrow> nat \<Rightarrow> 'f draft \<Rightarrow> bool" for F where
  init: "this \<noteq> addr0 \<Longrightarrow> nfts ch = Map.empty \<Longrightarrow> d_reachable F now (d_constructor m this fac ch)"
| step: "d_reachable F now s \<Longrightarrow> draft_step F (now, s) (now', s') \<Longrightarrow> d_reachable F now' s'"

section \<open>The shape of the state after a successful call\<close>

lemmas d_parts = d_store_listing_def d_take_token_def d_record_listing_def d_hand_over_def d_mark_bought_def
  d_record_sale_def d_announce_auction_def d_outbid_def d_record_bid_def d_mark_ended_def
  d_announce_end_def d_pay_refund_def d_store_offer_def d_mark_accepted_def d_pay_accepted_def

lemmas d_op_defs = d_parts d_nonReentrant_def d_set_item_def d_addPriceHistory_def emit_def Let_def

lemma d_createMarketItem_shape:
  "d_createMarketItem F m c t p s = Inr s' \<Longrightarrow>
   \<exists>l h f n. 0 < p \<and> msg_value m = LISTING_PRICE \<and> LISTING_PRICE \<le> bal s (msg_sender m) \<and> \<not> d_entered s \<and>
     nfts s c = Some n \<and> nft_owners n t = msg_sender m \<and> d_this s \<noteq> addr0 \<and> d_itemIds s + 1 < two256 \<and>
     s' = s\<lparr>bal := move_eth (msg_sender m) (d_this s) LISTING_PRICE (bal s), logs := l, d_history := h, d_factory := f,
       nfts := (nfts s)(c \<mapsto> moved_token n t (d_this s)), d_itemIds := d_itemIds s + 1,
       d_items := (d_items s)(d_itemIds s := d_listing_item m c t p (d_itemIds s))\<rparr>"
  by (rule exI [of _ "logs s'"], rule exI [of _ "d_history s'"], rule exI [of _ "d_factory s'"])
    (auto simp: d_createMarketItem_def d_createMarketItem_body_def d_createMarketItem_checks_def d_op_defs)

lemma d_createMarketSale_shape:
  "d_createMarketSale F m c i s = Inr s' \<Longrightarrow>
   \<exists>l h f n. \<not> di_isAuction (d_items s i) \<and> msg_value m = di_price (d_items s i) \<and> \<not> di_sold (d_items s i) \<and>
     msg_value m \<le> bal s (msg_sender m) \<and> \<not> d_entered s \<and> nfts s c = Some n \<and>
     nft_owners n (di_tokenId (d_items s i)) = d_this s \<and> msg_sender m \<noteq> addr0 \<and>
     s' = s\<lparr>bal := move_eth (d_this s) (d_owner s) LISTING_PRICE
         (move_eth (d_this s) (di_seller (d_items s i)) (msg_value m)
           (move_eth (msg_sender m) (d_this s) (msg_value m) (bal s))),
       logs := l, d_history := h, d_factory := f, d_itemsSold := d_itemsSold s + 1,
       nfts := (nfts s)(c \<mapsto> moved_token n (di_tokenId (d_items s i)) (msg_sender m)),
       d_items := (d_items s)(i := (d_items s i)\<lparr>di_owner := msg_sender m, di_sold := True\<rparr>)\<rparr>"
  by (rule exI [of _ "logs s'"], rule exI [of _ "d_history s'"], rule exI [of _ "d_factory s'"])
    (auto simp: d_createMarketSale_def d_createMarketSale_body_def d_createMarketSale_checks_def d_op_defs)

lemma d_createAuction_shape:
  "d_createAuction m c t p s = Inr s' \<Longrightarrow>
   \<exists>l n. 0 < p \<and> msg_value m = LISTING_PRICE \<and> LISTING_PRICE \<le> bal s (msg_sender m) \<and> \<not> d_entered s \<and>
     nfts s c = Some n \<and> nft_owners n t = msg_sender m \<and> d_this s \<noteq> addr0 \<and> d_itemIds s + 1 < two256 \<and>
     s' = s\<lparr>bal := move_eth (msg_sender m) (d_this s) LISTING_PRICE (bal s), logs := l,
       nfts := (nfts s)(c \<mapsto> moved_token n t (d_this s)), d_itemIds := d_itemIds s + 1,
       d_items := (d_items s)(d_itemIds s :=
         d_auction_item m c t p (d_itemIds s) (block_timestamp m + AUCTION_DURATION))\<rparr>"
  by (rule exI [of _ "logs s'"]) (auto simp: d_createAuction_def d_createAuction_body_def d_createAuction_checks_def d_op_defs)

lemma d_placeBid_shape:
  "d_placeBid m i s = Inr s' \<Longrightarrow>
   \<exists>l h. di_isAuction (d_items s i) \<and> block_timestamp m < di_auctionEndTime (d_items s i) \<and>
     di_price (d_items s i) + MIN_AUCTION_INCREMENT \<le> msg_value m \<and> msg_value m \<le> bal s (msg_sender m) \<and>
     \<not> d_entered s \<and>
     s' = s\<lparr>bal := move_eth (msg_sender m) (d_this s) (msg_value m) (bal s), logs := l, d_history := h,
       d_pendingReturns := (if di_highestBidder (d_items s i) = addr0 then d_pendingReturns s
         else (d_pendingReturns s)(i := (d_pendingReturns s i)(di_highestBidder (d_items s i) :=
           d_pendingReturns s i (di_highestBidder (d_items s i)) + di_highestBid (d_items s i)))),
       d_items := (d_items s)(i := (d_items s i)\<lparr>di_highestBidder := msg_sender m, di_highestBid := msg_value m\<rparr>)\<rparr>"
  by (rule exI [of _ "logs s'"], rule exI [of _ "d_history s'"])
    (auto simp: d_placeBid_def d_placeBid_body_def d_placeBid_checks_def d_op_defs split: if_splits)

lemma d_withdrawBid_shape:
  "d_withdrawBid m i s = Inr s' \<Longrightarrow>
   0 < d_pendingReturns s i (msg_sender m) \<and> d_pendingReturns s i (msg_sender m) \<le> bal s (d_this s) \<and>
   accepts s (msg_sender m) \<and> msg_value m = 0 \<and> \<not> d_entered s \<and>
   s' = s\<lparr>bal := move_eth (d_this s) (msg_sender m) (d_pendingReturns s i (msg_sender m)) (bal s),
     d_pendingReturns := (d_pendingReturns s)(i := (d_pendingReturns s i)(msg_sender m := 0))\<rparr>"
  by (auto simp: d_withdrawBid_def d_withdrawBid_body_def d_op_defs)

lemma d_makeOffer_shape:
  "d_makeOffer m i e s = Inr s' \<Longrightarrow>
   \<exists>l. 0 < msg_value m \<and> msg_value m \<le> bal s (msg_sender m) \<and> block_timestamp m < e \<and>
     \<not> di_sold (d_items s i) \<and> \<not> di_isAuction (d_items s i) \<and> \<not> d_entered s \<and>
     s' = s\<lparr>bal := move_eth (msg_sender m) (d_this s) (msg_value m) (bal s), logs := l,
       d_offers := (d_offers s)(i := d_offers s i @
         [\<lparr>do_buyer = msg_sender m, do_price = msg_value m, do_expirationTime = e\<rparr>])\<rparr>"
  by (rule exI [of _ "logs s'"]) (auto simp: d_makeOffer_def d_makeOffer_body_def d_makeOffer_checks_def d_new_offer_def d_op_defs)

lemma d_ownership_shape:
  "d_transferOwnership m a s = Inr s' \<Longrightarrow> \<exists>l ow. s' = s\<lparr>d_owner := ow, logs := l\<rparr>"
  "d_renounceOwnership m s = Inr s' \<Longrightarrow> \<exists>l ow. s' = s\<lparr>d_owner := ow, logs := l\<rparr>"
  by (auto simp: d_transferOwnership_def d_renounceOwnership_def emit_def)

lemma move_eth_lower: "b this \<le> move_eth this to v b this + v"
  by (auto simp: move_eth_def Let_def)

text \<open>What \<open>endAuction\<close> pays: the standing bid to the seller, and the listing fee to the owner.\<close>

definition d_end_paid :: "'f draft \<Rightarrow> dItem \<Rightarrow> address \<Rightarrow> nat" where
  "d_end_paid s it = move_eth (d_this s) (d_owner s) LISTING_PRICE
     (if di_highestBidder it = addr0 then bal s else move_eth (d_this s) (di_seller it) (di_highestBid it) (bal s))"

definition d_end_receiver :: "dItem \<Rightarrow> address" where
  "d_end_receiver it = (if di_highestBidder it = addr0 then di_seller it else di_highestBidder it)"

lemma d_endAuction_shape:
  "d_endAuction m i s = Inr s' \<Longrightarrow>
   \<exists>l n. di_isAuction (d_items s i) \<and> di_auctionEndTime (d_items s i) \<le> block_timestamp m \<and>
     \<not> di_sold (d_items s i) \<and> msg_value m = 0 \<and> \<not> d_entered s \<and>
     nfts s (di_nftContract (d_items s i)) = Some n \<and> nft_owners n (di_tokenId (d_items s i)) = d_this s \<and>
     d_end_receiver (d_items s i) \<noteq> addr0 \<and>
     s' = s\<lparr>bal := d_end_paid s (d_items s i), logs := l, d_itemsSold := d_itemsSold s + 1,
       nfts := (nfts s)(di_nftContract (d_items s i) \<mapsto>
         moved_token n (di_tokenId (d_items s i)) (d_end_receiver (d_items s i))),
       d_items := (d_items s)(i := (d_items s i)\<lparr>di_sold := True, di_owner := di_highestBidder (d_items s i)\<rparr>)\<rparr>"
  by (rule exI [of _ "logs s'"])
    (auto simp: d_endAuction_def d_endAuction_body_def d_endAuction_checks_def d_settle_def d_end_paid_def
      d_end_receiver_def d_op_defs split: if_splits)

text \<open>What the refund loop pays back in all.\<close>

fun d_refund_total :: "msg \<Rightarrow> nat \<Rightarrow> nat \<Rightarrow> dOffer list \<Rightarrow> nat" where
  "d_refund_total m k i [] = 0"
| "d_refund_total m k i (off # os) =
     (if i \<noteq> k \<and> block_timestamp m \<le> do_expirationTime off then do_price off else 0) + d_refund_total m k (Suc i) os"

lemma d_refund_loop_shape:
  "d_refund_loop m k i os s = Inr s' \<Longrightarrow>
   \<exists>b. s' = s\<lparr>bal := b\<rparr> \<and> bal s (d_this s) \<le> b (d_this s) + d_refund_total m k i os"
proof (induction os arbitrary: i s)
  case Nil
  then show ?case by (intro exI [of _ "bal s"]) simp
next
  case (Cons off os)
  show ?case
  proof (cases "i \<noteq> k \<and> block_timestamp m \<le> do_expirationTime off")
    case True
    let ?s = "s\<lparr>bal := move_eth (d_this s) (do_buyer off) (do_price off) (bal s)\<rparr>"
    from True Cons.prems have "d_refund_loop m k (Suc i) os ?s = Inr s'" by auto
    from Cons.IH [OF this] True show ?thesis
      using move_eth_lower [of "bal s" "d_this s" "do_buyer off" "do_price off"] by fastforce
  next
    case False
    then show ?thesis using Cons by auto
  qed
qed

lemma d_refund_total_le: "d_refund_total m k i os \<le> sum_list (map do_price os)"
  by (induction os arbitrary: i) (auto intro: add_mono trans_le_add2)

lemma d_refund_total_accepted:
  "k < length os \<Longrightarrow> d_refund_total m (i + k) i os + do_price (os ! k) \<le> sum_list (map do_price os)"
proof (induction os arbitrary: i k)
  case (Cons off os)
  show ?case
  proof (cases k)
    case 0
    then show ?thesis using d_refund_total_le [of m i "Suc i" os] by simp
  next
    case (Suc j)
    then show ?thesis using Cons.IH [of j "Suc i"] Cons.prems by simp
  qed
qed simp

lemma d_acceptOffer_shape:
  assumes "d_acceptOffer m i k s = Inr s'" and this0: "d_this s \<noteq> addr0"
  shows "\<exists>l n b. msg_sender m = di_seller (d_items s i) \<and> \<not> di_sold (d_items s i) \<and> k < length (d_offers s i) \<and>
     block_timestamp m \<le> do_expirationTime (d_offers s i ! k) \<and> msg_value m = 0 \<and> \<not> d_entered s \<and>
     nfts s (di_nftContract (d_items s i)) = Some n \<and> nft_owners n (di_tokenId (d_items s i)) = d_this s \<and>
     do_buyer (d_offers s i ! k) \<noteq> addr0 \<and>
     bal s (d_this s) \<le> b (d_this s) + LISTING_PRICE + sum_list (map do_price (d_offers s i)) \<and>
     s' = s\<lparr>bal := b, logs := l, d_itemsSold := d_itemsSold s + 1,
       nfts := (nfts s)(di_nftContract (d_items s i) \<mapsto>
         moved_token n (di_tokenId (d_items s i)) (do_buyer (d_offers s i ! k))),
       d_items := (d_items s)(i := (d_items s i)\<lparr>di_sold := True, di_owner := do_buyer (d_offers s i ! k)\<rparr>)\<rparr>"
proof -
  let ?it = "d_items s i" and ?os = "d_offers s i"
  let ?b1 = "move_eth (d_this s) (di_seller ?it) (do_price (?os ! k)) (bal s)"
  let ?b2 = "move_eth (d_this s) (d_owner s) LISTING_PRICE ?b1"
  from this0 assms(1) obtain n s4 s5 where g: "msg_sender m = di_seller ?it" "\<not> di_sold ?it" "k < length ?os"
      "block_timestamp m \<le> do_expirationTime (?os ! k)" "msg_value m = 0" "\<not> d_entered s"
      "nfts s (di_nftContract ?it) = Some n" "nft_owners n (di_tokenId ?it) = d_this s" "do_buyer (?os ! k) \<noteq> addr0"
    and loop: "d_refund_loop m k 0 ?os s4 = Inr s5"
    and s4: "s4 = emit (di_nftContract ?it) [Event ''Transfer'' [EvAddr (d_this s), EvAddr (do_buyer (?os ! k)), EvNat (di_tokenId ?it)]]
        (s\<lparr>d_entered := True, d_itemsSold := d_itemsSold s + 1, d_items := (d_items s)(i := ?it\<lparr>di_sold := True, di_owner := do_buyer (?os ! k)\<rparr>),
           nfts := (nfts s)(di_nftContract ?it \<mapsto> moved_token n (di_tokenId ?it) (do_buyer (?os ! k)))\<rparr>)\<lparr>bal := ?b2\<rparr>"
    and s': "s' = (emit (d_this s) [ev_OfferAccepted i (do_buyer (?os ! k)) (do_price (?os ! k))] s5)\<lparr>d_entered := False\<rparr>"
    by (auto simp: d_parts d_acceptOffer_def d_acceptOffer_body_def d_acceptOffer_checks_def d_nonReentrant_def d_set_item_def emit_def Let_def)
  from d_refund_loop_shape [OF loop] obtain b where
    b: "s5 = s4\<lparr>bal := b\<rparr>" "?b2 (d_this s) \<le> b (d_this s) + d_refund_total m k 0 ?os"
    by (auto simp: s4 emit_def)
  have "bal s (d_this s) \<le> b (d_this s) + LISTING_PRICE + sum_list (map do_price ?os)"
    using b(2) d_refund_total_accepted [OF g(3), of m 0]
      move_eth_lower [of "bal s" "d_this s" "di_seller ?it" "do_price (?os ! k)"]
      move_eth_lower [of ?b1 "d_this s" "d_owner s" LISTING_PRICE] by simp
  with g s' b(1) s4 show ?thesis
    by (intro exI [of _ "logs s'"] exI [of _ n] exI [of _ b]) (simp add: emit_def)
qed

lemmas d_shapes = d_createMarketItem_shape d_createMarketSale_shape d_createAuction_shape d_placeBid_shape
  d_endAuction_shape d_withdrawBid_shape d_makeOffer_shape d_acceptOffer_shape d_ownership_shape

section \<open>The books: what the contract owes\<close>

text \<open>
  For an item not sold its listing fee and the offers on it, and the offers made on an id that is
  not yet an item; the standing bid, unless the auction is settled; and the refunds of outbid
  bidders. An auction sold by accepting an offer still takes bids until its end.
\<close>

definition d_claim :: "nat \<Rightarrow> 'f draft \<Rightarrow> nat \<Rightarrow> nat" where
  "d_claim now s i =
     (if di_sold (d_items s i) then 0
      else (if i < d_itemIds s then LISTING_PRICE else 0) + sum_list (map do_price (d_offers s i))) +
     (if di_sold (d_items s i) \<and> di_auctionEndTime (d_items s i) \<le> now then 0 else di_highestBid (d_items s i)) +
     sum (d_pendingReturns s i) UNIV"

text \<open>The balance covers all claims and a surplus of \<open>x\<close> on top.\<close>

definition d_solvent :: "nat \<Rightarrow> nat \<Rightarrow> 'f draft \<Rightarrow> bool" where
  "d_solvent x now s \<longleftrightarrow> (\<forall>n. sum (d_claim now s) {..<n} + x \<le> bal s (d_this s))"

lemma d_claim_frame:
  assumes "d_items s' j = d_items s j" and "d_offers s' j = d_offers s j" and "d_pendingReturns s' j = d_pendingReturns s j"
    and "(j < d_itemIds s') = (j < d_itemIds s)" and "now \<le> now'"
  shows "d_claim now' s' j \<le> d_claim now s j"
  using assms by (auto simp: d_claim_def)

lemma d_solvent_upd:
  assumes "d_solvent x now s" and "d_this s' = d_this s"
    and "\<And>j. j \<noteq> i \<Longrightarrow> d_claim now' s' j \<le> d_claim now s j"
    and "d_claim now' s' i + bal s (d_this s) + y \<le> d_claim now s i + bal s' (d_this s) + x"
  shows "d_solvent y now' s'"
  unfolding d_solvent_def
proof
  fix n
  let ?N = "max n (Suc i)"
  have "sum (d_claim now' s') {..<n} \<le> sum (d_claim now' s') {..<?N}"
    by (intro sum_mono2) auto
  moreover have "sum (d_claim now' s') {..<?N} + d_claim now s i \<le> sum (d_claim now s) {..<?N} + d_claim now' s' i"
    using assms(3) by (intro sum_mono_upd_nat) auto
  moreover have "sum (d_claim now s) {..<?N} + x \<le> bal s (d_this s)"
    using assms(1) by (simp add: d_solvent_def)
  ultimately show "sum (d_claim now' s') {..<n} + y \<le> bal s' (d_this s')"
    using assms(2,4) by simp
qed

section \<open>The items\<close>

definition d_item_ok :: "'f draft \<Rightarrow> nat \<Rightarrow> bool" where
  "d_item_ok s i \<longleftrightarrow>
     di_itemId (d_items s i) = i \<and> 0 < di_price (d_items s i) \<and>
     di_seller (d_items s i) \<noteq> addr0 \<and> di_seller (d_items s i) \<noteq> d_this s \<and>
     di_highestBidder (d_items s i) \<noteq> d_this s \<and> (di_isAuction (d_items s i) \<or> di_highestBidder (d_items s i) = addr0) \<and>
     (di_highestBidder (d_items s i) = addr0 \<longrightarrow> di_highestBid (d_items s i) = 0)"

definition d_fresh :: "'f draft \<Rightarrow> nat \<Rightarrow> bool" where
  "d_fresh s i \<longleftrightarrow> d_items s i = no_dItem \<and> d_pendingReturns s i = (\<lambda>_. 0)"

text \<open>Offers can be made on any id, also one that is not yet an item.\<close>

definition d_buyers_ok :: "'f draft \<Rightarrow> nat \<Rightarrow> bool" where
  "d_buyers_ok s i \<longleftrightarrow> (\<forall>off \<in> set (d_offers s i). do_buyer off \<noteq> addr0 \<and> do_buyer off \<noteq> d_this s)"

definition d_entries :: "'f draft \<Rightarrow> bool" where
  "d_entries s \<longleftrightarrow>
     d_this s \<noteq> addr0 \<and> \<not> d_entered s \<and> d_itemIds s < two256 \<and>
     d_itemsSold s = card {i. i < d_itemIds s \<and> di_sold (d_items s i)} \<and>
     (\<forall>i < d_itemIds s. d_item_ok s i) \<and> (\<forall>i \<ge> d_itemIds s. d_fresh s i) \<and> (\<forall>i. d_buyers_ok s i)"

lemma card_insert_sold:
  fixes n :: nat
  assumes "i < n" and "\<not> P i"
  shows "card {j. j < n \<and> (if j = i then True else P j)} = Suc (card {j. j < n \<and> P j})"
proof -
  have "{j. j < n \<and> (if j = i then True else P j)} = insert i {j. j < n \<and> P j}"
    using assms by auto
  moreover have "finite {j. j < n \<and> P j}"
    by (rule finite_subset [of _ "{..<n}"]) auto
  ultimately show ?thesis using assms by (simp add: card_insert_disjoint)
qed

lemma d_entriesD:
  assumes "d_entries s"
  shows "d_this s \<noteq> addr0" and "\<not> d_entered s" and "d_itemIds s < two256"
    and "i < d_itemIds s \<Longrightarrow> d_item_ok s i" and "d_itemIds s \<le> i \<Longrightarrow> d_fresh s i" and "d_buyers_ok s i"
    and "d_itemsSold s = card {i. i < d_itemIds s \<and> di_sold (d_items s i)}"
  using assms by (auto simp: d_entries_def)

text \<open>What tells an item from an id that is not one yet.\<close>

lemma d_item_exists:
  assumes "d_entries s"
  shows "di_isAuction (d_items s i) \<Longrightarrow> i < d_itemIds s" and "di_sold (d_items s i) \<Longrightarrow> i < d_itemIds s"
    and "di_seller (d_items s i) \<noteq> addr0 \<Longrightarrow> i < d_itemIds s" and "d_pendingReturns s i a \<noteq> 0 \<Longrightarrow> i < d_itemIds s"
  using d_entriesD(5) [OF assms, of i] by (force simp: d_fresh_def no_dItem_def)+

lemma d_entries_upd:
  assumes "d_entries s" and s': "d_this s' = d_this s" "d_entered s' = d_entered s" "d_itemIds s' = d_itemIds s"
    and "\<And>j. j \<noteq> i \<Longrightarrow> d_items s' j = d_items s j \<and> d_pendingReturns s' j = d_pendingReturns s j"
    and it: "i < d_itemIds s \<Longrightarrow> d_item_ok s' i" and fr: "d_itemIds s \<le> i \<Longrightarrow> d_fresh s' i" and "\<And>j. d_buyers_ok s' j"
    and "if di_sold (d_items s' i) = di_sold (d_items s i) then d_itemsSold s' = d_itemsSold s
         else i < d_itemIds s \<and> di_sold (d_items s' i) \<and> d_itemsSold s' = d_itemsSold s + 1"
  shows "d_entries s'"
proof -
  have "d_item_ok s' j" if j: "j < d_itemIds s" for j
    using assms(5) s'(1) d_entriesD(4) [OF assms(1) j] it j by (cases "j = i") (auto simp: d_item_ok_def)
  moreover have "d_fresh s' j" if j: "d_itemIds s \<le> j" for j
    using assms(5) d_entriesD(5) [OF assms(1) j] fr j by (cases "j = i") (auto simp: d_fresh_def)
  moreover have "d_itemsSold s' = card {j. j < d_itemIds s \<and> di_sold (d_items s' j)}"
  proof (cases "di_sold (d_items s' i) = di_sold (d_items s i)")
    case True
    then have "di_sold (d_items s' j) = di_sold (d_items s j)" for j
      using assms(5) by (cases "j = i") auto
    then show ?thesis using True assms(1,9) by (simp add: d_entries_def)
  next
    case False
    then have "di_sold (d_items s' j) = (if j = i then True else di_sold (d_items s j))" for j
      using assms(5,9) by auto
    then show ?thesis
      using False assms(1,9) card_insert_sold [of i "d_itemIds s" "\<lambda>j. di_sold (d_items s j)"]
      by (simp add: d_entries_def)
  qed
  ultimately show ?thesis
    using assms(1,8) s' by (simp add: d_entries_def)
qed

lemma d_entries_new:
  assumes "d_entries s" and "d_item_ok s' (d_itemIds s)"
    and s': "d_this s' = d_this s" "d_entered s' = d_entered s" "d_itemIds s' = d_itemIds s + 1"
      "d_itemsSold s' = d_itemsSold s" "d_offers s' = d_offers s" "d_pendingReturns s' = d_pendingReturns s"
      "d_items s' = (d_items s)(d_itemIds s := it)"
    and "d_itemIds s + 1 < two256" and "\<not> di_sold it"
  shows "d_entries s'"
proof -
  have "d_item_ok s' j" if j: "j < d_itemIds s + 1" for j
  proof (cases "j = d_itemIds s")
    case False
    then have "d_item_ok s j" using j d_entriesD(4) [OF assms(1), of j] by simp
    with False s' show ?thesis by (auto simp: d_item_ok_def)
  qed (use assms in simp)
  moreover have "{j. j < d_itemIds s + 1 \<and> di_sold (d_items s' j)} = {j. j < d_itemIds s \<and> di_sold (d_items s j)}"
    using s'(7) assms(11) by (auto split: if_splits)
  moreover have "d_fresh s' j" if "d_itemIds s + 1 \<le> j" for j
    using that assms(1) s' by (auto simp: d_entries_def d_fresh_def)
  ultimately show ?thesis
    using assms by (simp add: d_entries_def d_buyers_ok_def)
qed

section \<open>The collections\<close>

definition d_collections_ok :: "'f draft \<Rightarrow> bool" where
  "d_collections_ok s \<longleftrightarrow> (\<forall>c n. nfts s c = Some n \<longrightarrow> ledger_ok n \<and> held_ok (d_this s) n)"

lemma d_collections_ok_moved:
  assumes "d_collections_ok s" and "nfts s c = Some n" and "nft_owners n t \<noteq> addr0" and "to \<noteq> addr0"
    and "nfts s' = (nfts s)(c \<mapsto> moved_token n t to)" and "d_this s' = d_this s"
  shows "d_collections_ok s'"
  using assms ledger_ok_transfer [of n t to] held_ok_moved [of "d_this s" n t to]
  by (auto simp: d_collections_ok_def)

text \<open>
  Token ids of a collection start from 1, so a purchase of an id that is not an item, which would take
  token 0 for nothing, reverts in the token contract. Nothing in the draft itself refuses it.
\<close>

lemma d_bought_exists:
  assumes "d_entries s" and "d_collections_ok s" and "nfts s c = Some n" and "nft_owners n (di_tokenId (d_items s i)) = d_this s"
  shows "i < d_itemIds s"
proof (rule ccontr)
  assume "\<not> i < d_itemIds s"
  then have "di_tokenId (d_items s i) = 0"
    using d_entriesD(5) [OF assms(1), of i] by (simp add: d_fresh_def no_dItem_def)
  moreover have "ledger_ok n" using assms(2,3) by (simp add: d_collections_ok_def)
  then have "nft_owners n 0 = addr0" unfolding ledger_ok_def by blast
  ultimately show False using assms(4) d_entriesD(1) [OF assms(1)] by simp
qed

section \<open>Every call keeps the invariant\<close>

definition draft_ok :: "nat \<Rightarrow> nat \<times> 'f draft \<Rightarrow> bool" where
  "draft_ok x st \<longleftrightarrow> d_entries (snd st) \<and> d_solvent x (fst st) (snd st) \<and> d_collections_ok (snd st)"

lemma draft_okD:
  assumes "draft_ok x (now, s)"
  shows "d_entries s" and "d_solvent x now s" and "d_collections_ok s"
  using assms by (simp_all add: draft_ok_def)

lemma draft_ok_less: "draft_ok x st \<Longrightarrow> y \<le> x \<Longrightarrow> draft_ok y st"
  unfolding draft_ok_def d_solvent_def by (meson add_left_mono le_trans)

lemma d_listing_kept:
  assumes ok: "draft_ok x (now, s)" and "now \<le> now'" and out: "d_outside s (msg_sender m)"
    and it: "it = d_listing_item m c t p (d_itemIds s) \<or> it = d_auction_item m c t p (d_itemIds s) e" and "0 < p"
    and n: "nfts s c = Some n" "nft_owners n t = msg_sender m" and "d_itemIds s + 1 < two256"
    and s': "bal s' = move_eth (msg_sender m) (d_this s) LISTING_PRICE (bal s)"
      "nfts s' = (nfts s)(c \<mapsto> moved_token n t (d_this s))" "d_this s' = d_this s" "d_entered s' = d_entered s"
      "d_itemIds s' = d_itemIds s + 1" "d_itemsSold s' = d_itemsSold s" "d_offers s' = d_offers s"
      "d_pendingReturns s' = d_pendingReturns s" "d_items s' = (d_items s)(d_itemIds s := it)"
  shows "draft_ok x (now', s')"
proof -
  note e = draft_okD(1) [OF ok] and so = draft_okD(2) [OF ok] and co = draft_okD(3) [OF ok]
  have fr: "d_fresh s (d_itemIds s)" and t0: "d_this s \<noteq> addr0"
    using d_entriesD [OF e] by auto
  have it': "di_itemId it = d_itemIds s" "di_seller it = msg_sender m" "di_price it = p" "di_highestBidder it = addr0"
      "di_highestBid it = 0" "\<not> di_sold it"
    using it by (auto simp: d_listing_item_def d_auction_item_def)
  have "d_item_ok s' (d_itemIds s)"
    using it' s' out t0 \<open>0 < p\<close> by (auto simp: d_item_ok_def d_outside_def)
  then have "d_entries s'"
    using d_entries_new [OF e _ s'(3-9) assms(8)] it'(6) by simp
  moreover have "d_solvent x now' s'"
  proof (rule d_solvent_upd [OF so s'(3), of "d_itemIds s"])
    show "d_claim now' s' j \<le> d_claim now s j" if "j \<noteq> d_itemIds s" for j
      using that s' \<open>now \<le> now'\<close> by (intro d_claim_frame) auto
    show "d_claim now' s' (d_itemIds s) + bal s (d_this s) + x \<le> d_claim now s (d_itemIds s) + bal s' (d_this s) + x"
      using it' fr out by (simp add: d_claim_def s' d_fresh_def no_dItem_def d_outside_def move_eth_to)
  qed
  moreover have "d_collections_ok s'"
    using d_collections_ok_moved [OF co n(1) _ t0 s'(2,3)] n(2) out by (simp add: d_outside_def)
  ultimately show ?thesis by (simp add: draft_ok_def)
qed

lemma d_sold_kept:
  assumes ok: "draft_ok x (now, s)" and "now \<le> now'" and i: "i < d_itemIds s" "\<not> di_sold (d_items s i)"
    and n: "nfts s c = Some n" and "nft_owners n t = d_this s" and "to \<noteq> addr0"
    and paid: "bal s (d_this s) + (if di_auctionEndTime (d_items s i) \<le> now' then 0 else di_highestBid (d_items s i)) + y
      \<le> bal s' (d_this s) + LISTING_PRICE + di_highestBid (d_items s i) + sum_list (map do_price (d_offers s i)) + x"
    and s': "nfts s' = (nfts s)(c \<mapsto> moved_token n t to)"
      "d_this s' = d_this s" "d_entered s' = d_entered s" "d_itemIds s' = d_itemIds s"
      "d_itemsSold s' = d_itemsSold s + 1" "d_offers s' = d_offers s" "d_pendingReturns s' = d_pendingReturns s"
      "d_items s' = (d_items s)(i := (d_items s i)\<lparr>di_owner := ow, di_sold := True\<rparr>)"
  shows "draft_ok y (now', s')"
proof -
  note e = draft_okD(1) [OF ok] and so = draft_okD(2) [OF ok] and co = draft_okD(3) [OF ok]
  have "d_item_ok s' i" and "d_buyers_ok s' j" for j
    using d_entriesD(4) [OF e i(1)] d_entriesD(6) [OF e, of j] by (auto simp: d_item_ok_def d_buyers_ok_def s')
  then have "d_entries s'"
    using d_entries_upd [OF e s'(2-4), of i] i by (simp add: s')
  moreover have "d_solvent y now' s'"
  proof (rule d_solvent_upd [OF so s'(2), of i])
    show "d_claim now' s' j \<le> d_claim now s j" if "j \<noteq> i" for j
      using that \<open>now \<le> now'\<close> by (intro d_claim_frame) (auto simp: s')
    show "d_claim now' s' i + bal s (d_this s) + y \<le> d_claim now s i + bal s' (d_this s) + x"
      using i paid by (auto simp: d_claim_def s' split: if_splits)
  qed
  moreover have "d_collections_ok s'"
    using d_collections_ok_moved [OF co n _ assms(7) s'(1,2)] assms(6) d_entriesD(1) [OF e] by simp
  ultimately show ?thesis by (simp add: draft_ok_def)
qed

lemma d_books_kept:
  assumes ok: "draft_ok x (now, s)" and "now \<le> now'"
    and it: "i < d_itemIds s \<Longrightarrow> d_item_ok s' i" and fr: "d_itemIds s \<le> i \<Longrightarrow> d_fresh s' i" and "\<And>j. d_buyers_ok s' j"
    and "di_sold (d_items s' i) = di_sold (d_items s i)"
    and owed: "d_claim now' s' i + bal s (d_this s) \<le> d_claim now s i + bal s' (d_this s)"
    and s': "d_this s' = d_this s" "d_entered s' = d_entered s" "d_itemIds s' = d_itemIds s"
      "d_itemsSold s' = d_itemsSold s" "nfts s' = nfts s"
    and frame: "\<And>j. j \<noteq> i \<Longrightarrow> d_items s' j = d_items s j \<and> d_offers s' j = d_offers s j \<and>
        d_pendingReturns s' j = d_pendingReturns s j"
  shows "draft_ok x (now', s')"
proof -
  note e = draft_okD(1) [OF ok] and so = draft_okD(2) [OF ok] and co = draft_okD(3) [OF ok]
  have "d_entries s'"
    by (rule d_entries_upd [OF e s'(1-3), of i]) (use it fr assms(5,6) frame s'(4) in auto)
  moreover have "d_solvent x now' s'"
  proof (rule d_solvent_upd [OF so s'(1), of i])
    show "d_claim now' s' j \<le> d_claim now s j" if "j \<noteq> i" for j
      using that frame [of j] s' \<open>now \<le> now'\<close> by (intro d_claim_frame) auto
  qed (use owed in simp)
  moreover have "d_collections_ok s'"
    using co by (simp add: d_collections_ok_def s')
  ultimately show ?thesis by (simp add: draft_ok_def)
qed

lemma d_placeBid_kept:
  assumes ok: "draft_ok x (now, s)" and "now \<le> block_timestamp m" and out: "d_outside s (msg_sender m)"
    and "d_placeBid m i s = Inr s'"
  shows "draft_ok x (block_timestamp m, s')"
proof -
  let ?it = "d_items s i"
  obtain l h where g: "di_isAuction ?it" "block_timestamp m < di_auctionEndTime ?it"
    and s': "s' = s\<lparr>bal := move_eth (msg_sender m) (d_this s) (msg_value m) (bal s), logs := l, d_history := h,
       d_pendingReturns := (if di_highestBidder ?it = addr0 then d_pendingReturns s
         else (d_pendingReturns s)(i := (d_pendingReturns s i)(di_highestBidder ?it :=
           d_pendingReturns s i (di_highestBidder ?it) + di_highestBid ?it))),
       d_items := (d_items s)(i := ?it\<lparr>di_highestBidder := msg_sender m, di_highestBid := msg_value m\<rparr>)\<rparr>"
    using d_placeBid_shape [OF assms(4)] by blast
  note e = draft_okD(1) [OF ok]
  have i: "i < d_itemIds s" using d_item_exists(1) [OF e g(1)] .
  have it: "d_item_ok s i" using d_entriesD(4) [OF e i] .
  have b: "bal s' (d_this s) = bal s (d_this s) + msg_value m"
    using out by (simp add: s' d_outside_def move_eth_to)
  have refund: "sum (d_pendingReturns s' i) UNIV = sum (d_pendingReturns s i) UNIV + di_highestBid ?it"
    using it sum_fun_upd_nat [of UNIV "di_highestBidder ?it" "d_pendingReturns s i"
        "d_pendingReturns s i (di_highestBidder ?it) + di_highestBid ?it"]
    by (cases "di_highestBidder ?it = addr0") (simp_all add: s' d_item_ok_def)
  have owed: "d_claim (block_timestamp m) s' i = d_claim now s i + msg_value m"
    using g(2) assms(2) refund by (simp add: d_claim_def) (simp add: s')
  have "d_buyers_ok s' j" for j
    using d_entriesD(6) [OF e, of j] by (simp add: d_buyers_ok_def s')
  moreover have "d_item_ok s' i"
    using it g out by (auto simp: d_item_ok_def s' d_outside_def)
  ultimately show ?thesis
    by (intro d_books_kept [OF ok assms(2), of i]) (use i owed b in \<open>auto simp: s'\<close>)
qed

lemma d_withdrawBid_kept:
  assumes ok: "draft_ok x (now, s)" and "now \<le> block_timestamp m" and out: "d_outside s (msg_sender m)"
    and "d_withdrawBid m i s = Inr s'"
  shows "draft_ok x (block_timestamp m, s')"
proof -
  let ?v = "d_pendingReturns s i (msg_sender m)"
  have g: "0 < ?v" "?v \<le> bal s (d_this s)"
    and s': "s' = s\<lparr>bal := move_eth (d_this s) (msg_sender m) ?v (bal s),
      d_pendingReturns := (d_pendingReturns s)(i := (d_pendingReturns s i)(msg_sender m := 0))\<rparr>"
    using d_withdrawBid_shape [OF assms(4)] by simp_all
  note e = draft_okD(1) [OF ok]
  have i: "i < d_itemIds s" using g(1) by (intro d_item_exists(4) [OF e]) auto
  have "sum (d_pendingReturns s' i) UNIV + ?v = sum (d_pendingReturns s i) UNIV"
    using sum_fun_upd_nat [of UNIV "msg_sender m" "d_pendingReturns s i" 0] by (simp add: s')
  then have owed: "d_claim (block_timestamp m) s' i + ?v \<le> d_claim now s i"
    using assms(2) by (simp add: d_claim_def) (simp add: s')
  have b: "bal s' (d_this s) + ?v = bal s (d_this s)"
    using out g(2) by (auto simp: s' d_outside_def move_eth_def Let_def)
  have "d_buyers_ok s' j" and "d_item_ok s' i" for j
    using d_entriesD(6) [OF e, of j] d_entriesD(4) [OF e i] by (simp_all add: d_buyers_ok_def d_item_ok_def s')
  then show ?thesis
    by (intro d_books_kept [OF ok assms(2), of i]) (use i owed b in \<open>auto simp: s'\<close>)
qed

lemma d_makeOffer_kept:
  assumes ok: "draft_ok x (now, s)" and "now \<le> block_timestamp m" and out: "d_outside s (msg_sender m)"
    and "d_makeOffer m i ex s = Inr s'"
  shows "draft_ok x (block_timestamp m, s')"
proof -
  obtain l where g: "\<not> di_sold (d_items s i)"
    and s': "s' = s\<lparr>bal := move_eth (msg_sender m) (d_this s) (msg_value m) (bal s), logs := l,
       d_offers := (d_offers s)(i := d_offers s i @
         [\<lparr>do_buyer = msg_sender m, do_price = msg_value m, do_expirationTime = ex\<rparr>])\<rparr>"
    using d_makeOffer_shape [OF assms(4)] by blast
  note e = draft_okD(1) [OF ok]
  have "d_buyers_ok s' j" for j
    using d_entriesD(6) [OF e, of j] out by (auto simp: d_buyers_ok_def s' d_outside_def)
  moreover have "i < d_itemIds s \<Longrightarrow> d_item_ok s' i" and "d_itemIds s \<le> i \<Longrightarrow> d_fresh s' i"
    using d_entriesD(4,5) [OF e, of i] by (auto simp: d_item_ok_def d_fresh_def s')
  moreover have "d_claim (block_timestamp m) s' i + bal s (d_this s) \<le> d_claim now s i + bal s' (d_this s)"
    using g out assms(2) by (simp add: d_claim_def s' d_outside_def move_eth_to)
  ultimately show ?thesis
    by (intro d_books_kept [OF ok assms(2), of i]) (auto simp: s')
qed

text \<open>A sale leaves the offers on the item with the contract: they add to the surplus.\<close>

lemma d_createMarketSale_surplus:
  assumes ok: "draft_ok x (now, s)" and "now \<le> block_timestamp m" and out: "d_outside s (msg_sender m)"
    and "d_createMarketSale F m c i s = Inr s'"
  shows "draft_ok (x + sum_list (map do_price (d_offers s i))) (block_timestamp m, s')"
proof -
  let ?it = "d_items s i"
  from d_createMarketSale_shape [OF assms(4)] obtain l h f n where g: "\<not> di_isAuction ?it" "\<not> di_sold ?it"
      "nfts s c = Some n" "nft_owners n (di_tokenId ?it) = d_this s" "msg_sender m \<noteq> addr0"
    and s': "s' = s\<lparr>bal := move_eth (d_this s) (d_owner s) LISTING_PRICE (move_eth (d_this s) (di_seller ?it) (msg_value m)
           (move_eth (msg_sender m) (d_this s) (msg_value m) (bal s))),
       logs := l, d_history := h, d_factory := f, d_itemsSold := d_itemsSold s + 1,
       nfts := (nfts s)(c \<mapsto> moved_token n (di_tokenId ?it) (msg_sender m)),
       d_items := (d_items s)(i := ?it\<lparr>di_owner := msg_sender m, di_sold := True\<rparr>)\<rparr>"
    by blast
  have i: "i < d_itemIds s" by (rule d_bought_exists [OF draft_okD(1,3) [OF ok] g(3,4)])
  have nobid: "di_highestBid ?it = 0"
    using d_entriesD(4) [OF draft_okD(1) [OF ok] i] g(1) by (simp add: d_item_ok_def)
  have paid: "bal s (d_this s) \<le> bal s' (d_this s) + LISTING_PRICE"
    using out move_eth_lower [of "move_eth (msg_sender m) (d_this s) (msg_value m) (bal s)" "d_this s" "di_seller ?it" "msg_value m"]
      move_eth_lower [of "move_eth (d_this s) (di_seller ?it) (msg_value m) (move_eth (msg_sender m) (d_this s) (msg_value m) (bal s))"
        "d_this s" "d_owner s" LISTING_PRICE]
    by (simp add: s' d_outside_def move_eth_to)
  show ?thesis
    by (rule d_sold_kept [OF ok assms(2) i g(2) g(3,4,5)]) (use g paid nobid in \<open>auto simp: s'\<close>)
qed

lemmas d_createMarketSale_kept = draft_ok_less [OF d_createMarketSale_surplus le_add1]

lemma d_endAuction_kept:
  assumes ok: "draft_ok x (now, s)" and "now \<le> block_timestamp m" and "d_endAuction m i s = Inr s'"
  shows "draft_ok x (block_timestamp m, s')"
proof -
  let ?it = "d_items s i"
  from d_endAuction_shape [OF assms(3)] obtain l n where g: "di_isAuction ?it" "di_auctionEndTime ?it \<le> block_timestamp m"
      "\<not> di_sold ?it" "nfts s (di_nftContract ?it) = Some n" "nft_owners n (di_tokenId ?it) = d_this s"
      "d_end_receiver ?it \<noteq> addr0"
    and s': "s' = s\<lparr>bal := d_end_paid s ?it, logs := l, d_itemsSold := d_itemsSold s + 1,
       nfts := (nfts s)(di_nftContract ?it \<mapsto> moved_token n (di_tokenId ?it) (d_end_receiver ?it)),
       d_items := (d_items s)(i := ?it\<lparr>di_sold := True, di_owner := di_highestBidder ?it\<rparr>)\<rparr>"
    by blast
  have i: "i < d_itemIds s" using d_item_exists(1) [OF draft_okD(1) [OF ok] g(1)] .
  have "bal s (d_this s) \<le> d_end_paid s ?it (d_this s) + LISTING_PRICE + di_highestBid ?it"
    using move_eth_lower [of "bal s" "d_this s" "di_seller ?it" "di_highestBid ?it"]
      move_eth_lower [of "bal s" "d_this s" "d_owner s" LISTING_PRICE]
      move_eth_lower [of "move_eth (d_this s) (di_seller ?it) (di_highestBid ?it) (bal s)" "d_this s" "d_owner s" LISTING_PRICE]
    by (simp add: d_end_paid_def)
  then show ?thesis
    by (intro d_sold_kept [OF ok assms(2) i g(3) g(4,5,6), where ow = "di_highestBidder ?it"])
      (use g in \<open>auto simp: s'\<close>)
qed

lemma d_acceptOffer_kept:
  assumes ok: "draft_ok x (now, s)" and "now \<le> block_timestamp m" and out: "d_outside s (msg_sender m)"
    and "d_acceptOffer m i k s = Inr s'"
  shows "draft_ok x (block_timestamp m, s')"
proof -
  let ?it = "d_items s i" and ?to = "do_buyer (d_offers s i ! k)"
  note e = draft_okD(1) [OF ok]
  from d_acceptOffer_shape [OF assms(4) d_entriesD(1) [OF e]] obtain l n b where
    g: "msg_sender m = di_seller ?it" "\<not> di_sold ?it" "nfts s (di_nftContract ?it) = Some n"
      "nft_owners n (di_tokenId ?it) = d_this s" "?to \<noteq> addr0"
      "bal s (d_this s) \<le> b (d_this s) + LISTING_PRICE + sum_list (map do_price (d_offers s i))"
    and s': "s' = s\<lparr>bal := b, logs := l, d_itemsSold := d_itemsSold s + 1,
       nfts := (nfts s)(di_nftContract ?it \<mapsto> moved_token n (di_tokenId ?it) ?to),
       d_items := (d_items s)(i := ?it\<lparr>di_sold := True, di_owner := ?to\<rparr>)\<rparr>"
    by blast
  have i: "i < d_itemIds s" using out g(1) by (intro d_item_exists(3) [OF e]) (auto simp: d_outside_def)
  show ?thesis
    by (rule d_sold_kept [OF ok assms(2) i g(2) g(3,4,5), where ow = ?to]) (use g(6) in \<open>auto simp: s'\<close>)
qed

lemma d_owner_kept:
  assumes ok: "draft_ok x (now, s)" and "now \<le> now'"
  shows "draft_ok x (now', s\<lparr>d_owner := ow, logs := l\<rparr>)"
proof -
  note e = draft_okD(1) [OF ok]
  show ?thesis
    by (rule d_books_kept [OF assms, of 0])
      (use d_entriesD(4,5,6) [OF e] \<open>now \<le> now'\<close> in
        \<open>auto simp: d_item_ok_def d_fresh_def d_buyers_ok_def intro!: d_claim_frame\<close>)
qed

lemma d_exec_kept:
  assumes ok: "draft_ok x (now, s)" and "now \<le> block_timestamp m" and out: "d_outside s (msg_sender m)"
    and "d_exec F m c s = Inr s'"
  shows "draft_ok x (block_timestamp m, s')"
proof (cases c)
  case (DList ca t p)
  with assms(4) have "d_createMarketItem F m ca t p s = Inr s'" by simp
  from d_createMarketItem_shape [OF this] show ?thesis
    using d_listing_kept [OF ok assms(2) out, of "d_listing_item m ca t p (d_itemIds s)" ca t p undefined _ s'] by auto
next
  case (DAuction ca t p)
  with assms(4) have "d_createAuction m ca t p s = Inr s'" by simp
  from d_createAuction_shape [OF this] show ?thesis
    using d_listing_kept [OF ok assms(2) out, of "d_auction_item m ca t p (d_itemIds s) (block_timestamp m + AUCTION_DURATION)"
        ca t p "block_timestamp m + AUCTION_DURATION" _ s'] by auto
next
  case (DTransferOwnership a)
  with assms(4) have "d_transferOwnership m a s = Inr s'" by simp
  from d_ownership_shape(1) [OF this] show ?thesis using d_owner_kept [OF ok assms(2)] by blast
next
  case DRenounceOwnership
  with assms(4) have "d_renounceOwnership m s = Inr s'" by simp
  from d_ownership_shape(2) [OF this] show ?thesis using d_owner_kept [OF ok assms(2)] by blast
qed (use assms in \<open>auto intro: d_placeBid_kept d_withdrawBid_kept d_makeOffer_kept d_createMarketSale_kept
      d_endAuction_kept d_acceptOffer_kept\<close>)

section \<open>The machine\<close>

lemma d_entries_env [simp]: "d_entries (s\<lparr>nfts := N\<rparr>) = d_entries s" "d_entries (s\<lparr>bal := b\<rparr>) = d_entries s"
  by (simp_all add: d_entries_def d_item_ok_def d_fresh_def d_buyers_ok_def)

lemma d_claim_env [simp]: "d_claim now (s\<lparr>nfts := N\<rparr>) = d_claim now s" "d_claim now (s\<lparr>bal := b\<rparr>) = d_claim now s"
  by (auto simp: d_claim_def fun_eq_iff)

lemma draft_step_kept:
  assumes "draft_step F st st'" and "draft_ok x st"
  shows "draft_ok x st'"
  using assms
proof (induction rule: draft_step.induct)
  case (call s m now c s')
  then show ?case by (blast intro: d_exec_kept)
next
  case (token s a c n n' now)
  have a: "a \<noteq> d_this s" "d_this s \<noteq> addr0" and n: "ledger_ok n" "held_ok (d_this s) n"
    using token by (auto simp: draft_ok_def d_outside_def d_entries_def d_collections_ok_def)
  with token nft_step_kept [OF token(3) a n] show ?case
    by (auto simp: draft_ok_def d_solvent_def d_collections_ok_def)
next
  case (deploy s c nm sy bu mk cat ow n now)
  have "held_ok (d_this s) n"
    using deploy by (auto simp: new_NFTCollection_def held_ok_def can_move_defs draft_ok_def d_entries_def)
  with deploy ledger_ok_new [OF deploy(2)] show ?case
    by (auto simp: draft_ok_def d_solvent_def d_collections_ok_def)
next
  case (ether s b now)
  then show ?case
    unfolding draft_ok_def d_solvent_def by (auto simp: d_collections_ok_def intro: le_trans)
qed

lemma draft_ok_init:
  "this \<noteq> addr0 \<Longrightarrow> nfts ch = Map.empty \<Longrightarrow> draft_ok 0 (now, d_constructor m this fac ch)"
  by (simp add: draft_ok_def d_constructor_def d_entries_def d_fresh_def d_buyers_ok_def d_solvent_def d_claim_def
      d_collections_ok_def no_dItem_def)

text \<open>For every surplus and any first ids: no run of the machine eats into it.\<close>

interpretation draft: solvent_machine "draft_step F" "draft_ok x" "\<lambda>st. {..<n}" "\<lambda>st. d_claim (fst st) (snd st)"
    "\<lambda>st. bal (snd st) (d_this (snd st))" for F x and n :: nat
proof unfold_locales
  show "draft_step F st st' \<Longrightarrow> draft_ok x st \<Longrightarrow> draft_ok x st'" for st st'
    by (rule draft_step_kept)
  show "draft_ok x st \<Longrightarrow> sum (d_claim (fst st) (snd st)) {..<n} \<le> bal (snd st) (d_this (snd st))" for st
    unfolding draft_ok_def d_solvent_def by (meson add_leD1)
qed simp

lemma d_reachable_ok: "d_reachable F now s \<Longrightarrow> draft_ok 0 (now, s)"
  by (induction rule: d_reachable.induct) (auto intro: draft_ok_init draft_step_kept)

lemma d_reachable_run:
  "rtranclp (draft_step F) (now, s) (now', s') \<Longrightarrow> d_reachable F now s \<Longrightarrow> d_reachable F now' s'"
  by (induction "(now', s')" arbitrary: now' s' rule: rtranclp_induct) (auto intro: d_reachable.step)

lemma d_claim_covered: "d_reachable F now s \<Longrightarrow> d_claim now s i \<le> bal s (d_this s)"
  using draft.claim_covered [OF d_reachable_ok, of F now s i "Suc i"] by simp

end
