(* ===== verification/DraftCustody.thy ===== *)
theory DraftCustody
  imports DraftInv
begin

text \<open>
  Custody of the tokens for sale in the draft: which steps keep it and the one kind of call that
  loses it, a purchase that names the collection of another item.
\<close>

section \<open>Custody\<close>

definition d_holds :: "'f draft \<Rightarrow> address \<Rightarrow> nat \<Rightarrow> bool" where
  "d_holds s c t \<longleftrightarrow> (\<exists>n. nfts s c = Some n \<and> nft_owners n t = d_this s)"

definition d_open :: "'f draft \<Rightarrow> nat \<Rightarrow> bool" where
  "d_open s i \<longleftrightarrow> i < d_itemIds s \<and> \<not> di_sold (d_items s i)"

definition d_token :: "'f draft \<Rightarrow> nat \<Rightarrow> address \<times> nat" where
  "d_token s i = (di_nftContract (d_items s i), di_tokenId (d_items s i))"

text \<open>The contract holds the token of every item not sold, each for one item only.\<close>

definition d_custody :: "'f draft \<Rightarrow> bool" where
  "d_custody s \<longleftrightarrow>
     (\<forall>i. d_open s i \<longrightarrow> d_holds s (di_nftContract (d_items s i)) (di_tokenId (d_items s i))) \<and>
     (\<forall>i j. d_open s i \<longrightarrow> d_open s j \<longrightarrow> d_token s i = d_token s j \<longrightarrow> i = j)"

text \<open>A purchase that takes the token of another item that is not sold.\<close>

definition d_takes_other :: "dcall \<Rightarrow> 'f draft \<Rightarrow> bool" where
  "d_takes_other call s \<longleftrightarrow> (\<exists>c i j. call = DBuy c i \<and> j \<noteq> i \<and> d_open s j \<and> d_token s j = (c, di_tokenId (d_items s i)))"

lemma d_custodyD:
  assumes "d_custody s"
  shows "d_open s i \<Longrightarrow> d_holds s (di_nftContract (d_items s i)) (di_tokenId (d_items s i))"
    and "d_open s i \<Longrightarrow> d_open s j \<Longrightarrow> d_token s i = d_token s j \<Longrightarrow> i = j"
  using assms by (auto simp: d_custody_def)

lemma d_custody_cong:
  assumes "d_custody s" and "\<And>i. d_open s' i = d_open s i" and "\<And>i. d_open s i \<Longrightarrow> d_token s' i = d_token s i"
    and "\<And>c t. d_holds s c t \<Longrightarrow> d_holds s' c t"
  shows "d_custody s'"
  using assms unfolding d_custody_def by (auto simp: d_token_def)

lemma d_custody_in:
  assumes "d_custody s" and "nfts s c = Some n" and "nft_owners n t \<noteq> d_this s"
    and "nfts s' = (nfts s)(c \<mapsto> moved_token n t (d_this s))" and "d_this s' = d_this s"
    and "d_itemIds s' = d_itemIds s + 1" and "d_items s' = (d_items s)(d_itemIds s := it)"
    and "di_nftContract it = c" and "di_tokenId it = t"
  shows "d_custody s'"
proof -
  have holds: "d_holds s' c' t' = (d_holds s c' t' \<or> (c' = c \<and> t' = t))" for c' t'
    using assms(2-5) by (auto simp: d_holds_def)
  have "\<not> d_holds s c t" using assms(2,3) by (simp add: d_holds_def)
  then have other: "d_token s i \<noteq> (c, t)" if "d_open s i" for i
    using d_custodyD(1) [OF assms(1) that] by (auto simp: d_token_def)
  have old: "d_open s i \<and> d_token s' i = d_token s i" if "d_open s' i" "i \<noteq> d_itemIds s" for i
    using that assms(6,7) by (auto simp: d_open_def d_token_def)
  have new: "d_token s' (d_itemIds s) = (c, t)"
    using assms(7-9) by (simp add: d_token_def)
  show ?thesis
    unfolding d_custody_def
  proof (intro conjI allI impI)
    show "d_holds s' (di_nftContract (d_items s' i)) (di_tokenId (d_items s' i))" if "d_open s' i" for i
      using d_custodyD(1) [OF assms(1), of i] old [OF that] new
      by (cases "i = d_itemIds s") (auto simp: holds d_token_def)
    show "i = j" if "d_open s' i" "d_open s' j" "d_token s' i = d_token s' j" for i j
      using old [OF that(1)] old [OF that(2)] other new that(3) d_custodyD(2) [OF assms(1), of i j] by metis
  qed
qed

text \<open>An item is sold and a token leaves: custody is kept unless it is the token of another item.\<close>

lemma d_custody_out:
  assumes "d_custody s" and "nfts s c = Some n" and "nfts s' = (nfts s)(c \<mapsto> moved_token n t to)" and "to \<noteq> d_this s"
    and "d_this s' = d_this s" and "d_itemIds s' = d_itemIds s" and "d_items s' = (d_items s)(i := it)" and "di_sold it"
  shows "d_custody s' \<longleftrightarrow> (\<forall>j. d_open s j \<longrightarrow> j \<noteq> i \<longrightarrow> d_token s j \<noteq> (c, t))"
proof -
  have holds: "d_holds s' c' t' \<longleftrightarrow> d_holds s c' t' \<and> (c', t') \<noteq> (c, t)" for c' t'
    using assms(2-5) by (auto simp: d_holds_def)
  have op: "d_open s' j \<longleftrightarrow> d_open s j \<and> j \<noteq> i" and tok: "j \<noteq> i \<Longrightarrow> d_token s' j = d_token s j"
    and own: "d_token s' j = (di_nftContract (d_items s' j), di_tokenId (d_items s' j))" for j
    using assms(6-8) by (auto simp: d_open_def d_token_def)
  show ?thesis
  proof
    assume "d_custody s'"
    then show "\<forall>j. d_open s j \<longrightarrow> j \<noteq> i \<longrightarrow> d_token s j \<noteq> (c, t)"
      using d_custodyD(1) [of s'] op tok own holds by metis
  next
    assume no: "\<forall>j. d_open s j \<longrightarrow> j \<noteq> i \<longrightarrow> d_token s j \<noteq> (c, t)"
    show "d_custody s'"
      unfolding d_custody_def
    proof (intro conjI allI impI)
      show "d_holds s' (di_nftContract (d_items s' j)) (di_tokenId (d_items s' j))" if "d_open s' j" for j
        using that no op [of j] tok [of j] d_custodyD(1) [OF assms(1), of j] by (auto simp: holds d_token_def)
      show "j = k" if "d_open s' j" "d_open s' k" "d_token s' j = d_token s' k" for j k
        using that op tok d_custodyD(2) [OF assms(1), of j k] by metis
    qed
  qed
qed

section \<open>Which calls keep it\<close>

lemma d_own_token_out:
  assumes "d_custody s" and "d_open s i" and "nfts s (di_nftContract (d_items s i)) = Some n"
    and "nfts s' = (nfts s)(di_nftContract (d_items s i) \<mapsto> moved_token n (di_tokenId (d_items s i)) to)" and "to \<noteq> d_this s"
    and "d_this s' = d_this s" and "d_itemIds s' = d_itemIds s" and "d_items s' = (d_items s)(i := it)" and "di_sold it"
  shows "d_custody s'"
  using d_custody_out [OF assms(1,3-9)] d_custodyD(2) [OF assms(1) _ assms(2)] by (auto simp: d_token_def)

lemma d_buy_custody:
  assumes ok: "draft_ok x (now, s)" and cu: "d_custody s" and out: "d_outside s (msg_sender m)"
    and "d_createMarketSale F m c i s = Inr s'"
  shows "d_custody s' \<longleftrightarrow> \<not> d_takes_other (DBuy c i) s"
proof -
  from d_createMarketSale_shape [OF assms(4)] obtain n where "nfts s c = Some n"
    and s': "nfts s' = (nfts s)(c \<mapsto> moved_token n (di_tokenId (d_items s i)) (msg_sender m))"
      "d_this s' = d_this s" "d_itemIds s' = d_itemIds s"
      "d_items s' = (d_items s)(i := (d_items s i)\<lparr>di_owner := msg_sender m, di_sold := True\<rparr>)"
    by auto
  then show ?thesis
    using d_custody_out [OF cu _ s'(1) _ s'(2-4)] out by (auto simp: d_takes_other_def d_outside_def)
qed

lemma d_exec_custody:
  assumes ok: "draft_ok x (now, s)" and cu: "d_custody s" and out: "d_outside s (msg_sender m)"
    and ex: "d_exec F m c s = Inr s'"
  shows "d_custody s' \<longleftrightarrow> \<not> d_takes_other c s"
proof (cases "\<exists>ca i. c = DBuy ca i")
  case True
  then show ?thesis using d_buy_custody [OF ok cu out] ex by auto
next
  case False
  note e = draft_okD(1) [OF ok]
  have ne: "msg_sender m \<noteq> d_this s" using out by (simp add: d_outside_def)
  have same: "d_custody s'" if "nfts s' = nfts s" "d_this s' = d_this s" "d_itemIds s' = d_itemIds s"
      "\<And>j. di_sold (d_items s' j) = di_sold (d_items s j)" "\<And>j. d_token s' j = d_token s j"
    using that by (intro d_custody_cong [OF cu]) (auto simp: d_open_def d_holds_def)
  have "d_custody s'"
  proof (cases c)
    case (DList ca t p)
    with ex have "d_createMarketItem F m ca t p s = Inr s'" by simp
    from d_createMarketItem_shape [OF this] ne show ?thesis
      by (elim exE conjE, intro d_custody_in [OF cu, where t = t]) (auto simp: d_listing_item_def)
  next
    case (DAuction ca t p)
    with ex have "d_createAuction m ca t p s = Inr s'" by simp
    from d_createAuction_shape [OF this] ne show ?thesis
      by (elim exE conjE, intro d_custody_in [OF cu, where t = t]) (auto simp: d_auction_item_def)
  next
    case (DEnd i)
    with ex have ended: "d_endAuction m i s = Inr s'" by simp
    from d_endAuction_shape [OF ended] have op: "d_open s i" and rec: "d_end_receiver (d_items s i) \<noteq> d_this s"
      using d_item_exists(1) [OF e, of i] d_item_ok_def [of s i] d_entriesD(4) [OF e, of i]
      by (auto simp: d_open_def d_end_receiver_def)
    from d_endAuction_shape [OF ended] show ?thesis
      by (elim exE conjE, intro d_own_token_out [OF cu op _ _ rec]) auto
  next
    case (DAccept i k)
    with ex have acc: "d_acceptOffer m i k s = Inr s'" by simp
    note sh = d_acceptOffer_shape [OF acc d_entriesD(1) [OF e]]
    from sh out have op: "d_open s i" and rec: "do_buyer (d_offers s i ! k) \<noteq> d_this s"
      using d_item_exists(3) [OF e, of i] d_entriesD(6) [OF e, of i] by (auto simp: d_open_def d_outside_def d_buyers_ok_def)
    from sh show ?thesis
      by (elim exE conjE, intro d_own_token_out [OF cu op _ _ rec]) auto
  next
    case (DBid i)
    with ex have "d_placeBid m i s = Inr s'" by simp
    from d_placeBid_shape [OF this] show ?thesis by (elim exE conjE, intro same) (auto simp: d_token_def)
  next
    case (DWithdraw i)
    with ex have "d_withdrawBid m i s = Inr s'" by simp
    from d_withdrawBid_shape [OF this] show ?thesis by (intro same) (auto simp: d_token_def)
  next
    case (DOffer i t)
    with ex have "d_makeOffer m i t s = Inr s'" by simp
    from d_makeOffer_shape [OF this] show ?thesis by (intro same) (auto simp: d_token_def)
  next
    case (DTransferOwnership a)
    with ex have "d_transferOwnership m a s = Inr s'" by simp
    from d_ownership_shape(1) [OF this] show ?thesis by (intro same) (auto simp: d_token_def)
  next
    case DRenounceOwnership
    with ex have "d_renounceOwnership m s = Inr s'" by simp
    from d_ownership_shape(2) [OF this] show ?thesis by (intro same) (auto simp: d_token_def)
  qed (use False in auto)
  then show ?thesis using False by (auto simp: d_takes_other_def)
qed

text \<open>What other accounts do to the collections and to balances never loses it.\<close>

lemma d_custody_env:
  assumes "draft_ok x (now, s)" and cu: "d_custody s"
  shows "d_outside s a \<Longrightarrow> nfts s c = Some n \<Longrightarrow> nft_step (code s) a n n' \<Longrightarrow> d_custody (s\<lparr>nfts := (nfts s)(c \<mapsto> n')\<rparr>)"
    and "nfts s c = None \<Longrightarrow> d_custody (s\<lparr>nfts := (nfts s)(c \<mapsto> n)\<rparr>)" and "d_custody (s\<lparr>bal := b\<rparr>)"
proof -
  assume n: "d_outside s a" "nfts s c = Some n" "nft_step (code s) a n n'"
  have "a \<noteq> d_this s" "d_this s \<noteq> addr0" "ledger_ok n" "held_ok (d_this s) n"
    using assms(1) n by (auto simp: draft_ok_def d_outside_def d_entries_def d_collections_ok_def)
  from nft_step_kept [OF n(3) this] n(2) show "d_custody (s\<lparr>nfts := (nfts s)(c \<mapsto> n')\<rparr>)"
    by (intro d_custody_cong [OF cu]) (auto simp: d_open_def d_token_def d_holds_def)
qed (rule d_custody_cong [OF cu]; auto simp: d_open_def d_token_def d_holds_def)+

text \<open>
  Steps of a run in which no purchase takes the token of another item: over them custody is
  an invariant.
\<close>

inductive careful_step :: "'f factory \<Rightarrow> nat \<times> 'f draft \<Rightarrow> nat \<times> 'f draft \<Rightarrow> bool" for F where
  call: "d_outside s (msg_sender m) \<Longrightarrow> now \<le> block_timestamp m \<Longrightarrow> d_exec F m c s = Inr s' \<Longrightarrow>
    \<not> d_takes_other c s \<Longrightarrow> careful_step F (now, s) (block_timestamp m, s')"
| token: "d_outside s a \<Longrightarrow> nfts s c = Some n \<Longrightarrow> nft_step (code s) a n n' \<Longrightarrow>
    careful_step F (now, s) (now, s\<lparr>nfts := (nfts s)(c \<mapsto> n')\<rparr>)"
| deploy: "nfts s c = None \<Longrightarrow> new_NFTCollection nm sy bu mk cat ow = Inr n \<Longrightarrow>
    careful_step F (now, s) (now, s\<lparr>nfts := (nfts s)(c \<mapsto> n)\<rparr>)"
| ether: "bal s (d_this s) \<le> b (d_this s) \<Longrightarrow> careful_step F (now, s) (now, s\<lparr>bal := b\<rparr>)"

lemma careful_draft_step: "careful_step F st st' \<Longrightarrow> draft_step F st st'"
  by (induction rule: careful_step.induct) (auto intro: draft_step.intros)

interpretation careful: invariant_machine "careful_step F" "\<lambda>st. draft_ok x st \<and> d_custody (snd st)" for F x
proof
  show "draft_ok x st' \<and> d_custody (snd st')"
    if "careful_step F st st'" and inv: "draft_ok x st \<and> d_custody (snd st)" for st st'
  proof
    show "draft_ok x st'" using that by (blast intro: draft_step_kept careful_draft_step)
    show "d_custody (snd st')"
      using that(1) inv
      by (cases rule: careful_step.cases) (auto intro: d_custody_env d_exec_custody [THEN iffD2])
  qed
qed

end
