(* ===== verification/DraftProps.thy ===== *)
theory DraftProps
  imports DraftCustody
begin

text \<open>
  What the draft marketplace promises in every reachable state (it can pay what it owes, and its
  views and statistics are exact), when it keeps the tokens on sale, where its checks fall short, and
  a concrete history on which the hypotheses hold.
\<close>

section \<open>A concrete history\<close>

datatype d_move =
    MCall msg dcall
  | MToken address address nft_call
  | MMint address address string
  | MDeploy address address

fun d_move_exec :: "'f factory \<Rightarrow> d_move \<Rightarrow> nat \<times> 'f draft \<Rightarrow> (nat \<times> 'f draft) option" where
  "d_move_exec F (MCall m c) (now, s) =
     (if d_outside s (msg_sender m) \<and> now \<le> block_timestamp m
      then case d_exec F m c s of Inl e \<Rightarrow> None | Inr s' \<Rightarrow> Some (block_timestamp m, s') else None)"
| "d_move_exec F (MToken c a call) (now, s) =
     (if d_outside s a
      then case nfts s c of None \<Rightarrow> None | Some n \<Rightarrow> (case nft_exec (code s) a call n of Inl e \<Rightarrow> None
        | Inr (n', es) \<Rightarrow> Some (now, s\<lparr>nfts := (nfts s)(c \<mapsto> n')\<rparr>)) else None)"
| "d_move_exec F (MMint c a uri) (now, s) =
     (if d_outside s a
      then case nfts s c of None \<Rightarrow> None | Some n \<Rightarrow> (case mint_body (code s) n a a uri of Inl e \<Rightarrow> None
        | Inr (n', t, es) \<Rightarrow> Some (now, s\<lparr>nfts := (nfts s)(c \<mapsto> n')\<rparr>)) else None)"
| "d_move_exec F (MDeploy c ow) (now, s) =
     (if nfts s c = None
      then case new_NFTCollection ''N'' ''S'' ''b'' (d_this s) ''Art'' ow of Inl e \<Rightarrow> None
        | Inr n \<Rightarrow> Some (now, s\<lparr>nfts := (nfts s)(c \<mapsto> n)\<rparr>) else None)"

fun d_run :: "'f factory \<Rightarrow> d_move list \<Rightarrow> nat \<times> 'f draft \<Rightarrow> (nat \<times> 'f draft) option" where
  "d_run F [] st = Some st"
| "d_run F (x # xs) st = (case d_move_exec F x st of None \<Rightarrow> None | Some st' \<Rightarrow> d_run F xs st')"

lemma d_move_step: "d_move_exec F x st = Some st' \<Longrightarrow> draft_step F st st'"
  by (induction F x st rule: d_move_exec.induct)
    (auto split: if_splits sum.splits option.splits simp: d_outside_def
      intro: draft_step.intros nft_step.intros)

lemma d_run_reachable:
  "d_run F xs (now, s) = Some (now', s') \<Longrightarrow> d_reachable F now s \<Longrightarrow> d_reachable F now' s'"
proof (induction xs arbitrary: now s)
  case (Cons x xs)
  from Cons.prems(1) obtain st where st: "d_move_exec F x (now, s) = Some st" "d_run F xs st = Some (now', s')"
    by (auto split: option.splits)
  obtain now1 s1 where "st = (now1, s1)" by force
  with Cons.IH st d_move_step [OF st(1)] Cons.prems(2) show ?case
    by (blast intro: d_reachable.step)
qed simp

text \<open>A run without purchases is one that keeps custody.\<close>

fun d_buys :: "d_move \<Rightarrow> bool" where
  "d_buys (MCall m (DBuy c i)) = True"
| "d_buys _ = False"

lemma d_buys_iff: "d_buys x \<longleftrightarrow> (\<exists>m c i. x = MCall m (DBuy c i))"
  by (cases x rule: d_buys.cases) auto

lemma d_move_careful: "d_move_exec F x st = Some st' \<Longrightarrow> \<not> d_buys x \<Longrightarrow> careful_step F st st'"
  by (induction F x st rule: d_move_exec.induct)
    (auto split: if_splits sum.splits option.splits simp: d_outside_def d_takes_other_def d_buys_iff
      intro: careful_step.intros nft_step.intros)

lemma d_run_careful:
  "d_run F xs st = Some st' \<Longrightarrow> list_all (\<lambda>x. \<not> d_buys x) xs \<Longrightarrow> rtranclp (careful_step F) st st'"
proof (induction xs arbitrary: st)
  case (Cons x xs)
  then obtain st1 where "d_move_exec F x st = Some st1" "d_run F xs st1 = Some st'"
    by (auto split: option.splits)
  with Cons show ?case by (cases st1) (auto intro: converse_rtranclp_into_rtranclp d_move_careful)
qed simp

definition demo_factory :: "unit factory" where
  "demo_factory = \<lparr>fac_collections = (\<lambda>_ a. a), fac_updateCollectionStats = (\<lambda>f _ _ _. Inr f)\<rparr>"

definition demo_d_init :: "unit draft" where
  "demo_d_init = d_constructor \<lparr>msg_sender = 1, msg_value = 0, block_timestamp = 1000\<rparr> 9 ()
     \<lparr>bal = (\<lambda>a. if a = 2 \<or> a = 3 \<or> a = 4 then 10 ^ 18 else 0), accepts = (\<lambda>_. True), code = (\<lambda>_. NoCode),
      nfts = Map.empty, logs = []\<rparr>"

abbreviation d_msg :: "address \<Rightarrow> nat \<Rightarrow> nat \<Rightarrow> msg" where
  "d_msg a v t \<equiv> \<lparr>msg_sender = a, msg_value = v, block_timestamp = t\<rparr>"

text \<open>Two collections, one token of each: the first for a fixed price with two offers, the second
  in an auction with two bids, the second bid below the first.\<close>

definition demo_moves :: "d_move list" where
  "demo_moves =
     [MDeploy 100 2, MDeploy 200 2, MMint 100 2 ''u'', MMint 200 2 ''u'', MToken 100 2 (CallApprove 9 1), MToken 200 2 (CallApprove 9 1),
      MCall (d_msg 2 LISTING_PRICE 1000) (DList 100 1 70),
      MCall (d_msg 2 LISTING_PRICE 1000) (DAuction 200 1 90),
      MCall (d_msg 3 50 1000) (DOffer 0 5000), MCall (d_msg 4 60 1000) (DOffer 0 5000),
      MCall (d_msg 3 (3 * 10 ^ 16) 1000) (DBid 1), MCall (d_msg 4 (2 * 10 ^ 16) 1000) (DBid 1)]"

definition demo_d_expected :: "unit draft \<Rightarrow> bool" where
  "demo_d_expected s \<longleftrightarrow>
     d_this s = 9 \<and> d_owner s = 1 \<and> d_itemIds s = 2 \<and> d_itemsSold s = 0 \<and> accepts s 1 \<and> accepts s 2 \<and> accepts s 3 \<and> accepts s 4 \<and>
     d_items s 0 = \<lparr>di_itemId = 0, di_nftContract = 100, di_tokenId = 1, di_seller = 2, di_owner = 0, di_price = 70,
       di_isAuction = False, di_auctionEndTime = 0, di_highestBidder = 0, di_highestBid = 0, di_sold = False\<rparr> \<and>
     d_items s 1 = \<lparr>di_itemId = 1, di_nftContract = 200, di_tokenId = 1, di_seller = 2, di_owner = 0, di_price = 90,
       di_isAuction = True, di_auctionEndTime = 605800, di_highestBidder = 4, di_highestBid = 20000000000000000, di_sold = False\<rparr> \<and>
     d_pendingReturns s 1 3 = 30000000000000000 \<and> d_pendingReturns s 1 4 = 0 \<and>
     d_offers s 0 = [\<lparr>do_buyer = 3, do_price = 50, do_expirationTime = 5000\<rparr>, \<lparr>do_buyer = 4, do_price = 60, do_expirationTime = 5000\<rparr>] \<and>
     bal s 3 = 969999999999999950 \<and> bal s 2 = 999000000000000000 \<and> nfts s 3 = None \<and> nfts s 2 = None \<and> nfts s 4 = None \<and>
     d_holds s 100 1 \<and> d_holds s 200 1"

lemmas demo_d_defs = d_parts d_history_entry_def d_outside_def d_createMarketItem_def d_createMarketItem_body_def d_createMarketItem_checks_def
  d_createAuction_def d_createAuction_body_def d_createAuction_checks_def d_makeOffer_checks_def d_new_offer_def d_listing_item_def d_auction_item_def d_placeBid_def d_placeBid_body_def
  d_placeBid_checks_def d_makeOffer_def d_makeOffer_body_def d_nonReentrant_def d_set_item_def d_addPriceHistory_def
  d_constructor_def no_dItem_def LISTING_PRICE_def MIN_AUCTION_INCREMENT_def AUCTION_DURATION_def
  pay_in_def emit_def call_transferFrom_def transferFrom_def update_token_def checkAuthorized_def isAuthorized_def
  isApprovedForAll_def unchecked_inc_def unchecked_dec_def add256_def two256_def new_NFTCollection_def
  mint_body_def checkOwner_def safeMint_def mint_token_def setTokenURI_def checkOnERC721Received_def approve_def
  requireOwned_def demo_factory_def demo_d_init_def move_eth_def Let_def d_holds_def

lemma demo_d_ok:
  "case d_run demo_factory demo_moves (1000, demo_d_init) of None \<Rightarrow> False
   | Some (now, s) \<Rightarrow> now = 1000 \<and> demo_d_expected s"
  unfolding demo_moves_def demo_d_expected_def
  by (simp add: demo_d_defs)

definition demo_d :: "unit draft" where
  "demo_d = (case d_run demo_factory demo_moves (1000, demo_d_init) of Some (now, s) \<Rightarrow> s)"

lemma demo_d_run: "d_run demo_factory demo_moves (1000, demo_d_init) = Some (1000, demo_d)"
  using demo_d_ok by (auto simp: demo_d_def split: option.splits)

lemma demo_d_reachable: "d_reachable demo_factory 1000 demo_d"
  by (rule d_run_reachable [OF demo_d_run]) (simp add: demo_d_init_def d_reachable.init)

lemma demo_d_careful: "rtranclp (careful_step demo_factory) (1000, demo_d_init) (1000, demo_d)"
  by (rule d_run_careful [OF demo_d_run]) (simp add: demo_moves_def)

lemma demo_d_facts: "demo_d_expected demo_d"
  using demo_d_ok by (simp add: demo_d_run)

lemmas demo_d_simps = demo_d_facts [unfolded demo_d_expected_def]

lemmas demo_d_simps1 = demo_d_simps [unfolded One_nat_def]

section \<open>What the contract holds\<close>

lemma d_reachable_parts:
  assumes "d_reachable F now s"
  shows "d_entries s" and "d_solvent 0 now s" and "d_collections_ok s"
  using d_reachable_ok [OF assms] by (simp_all add: draft_ok_def)

text \<open>What the claim of an item that is not sold consists of.\<close>

lemma d_unsold_covered:
  assumes "d_reachable F now s" and "i < d_itemIds s" and "\<not> di_sold (d_items s i)"
  shows "LISTING_PRICE + di_highestBid (d_items s i) + sum_list (map do_price (d_offers s i)) \<le> bal s (d_this s)"
  using d_claim_covered [OF assms(1), of i] assms(2,3) by (simp add: d_claim_def)

text \<open>
  C12. Solvency of the draft marketplace: after any calls of any accounts, with any collections and ids as arguments,
  the contract's balance covers what it owes: for every item not sold the listing fee and the offers on it, for an id that is not
  yet an item the offers made on it, for every item the standing bid unless it is sold and its auction is over, and the refunds
  of outbid bidders. The token contracts are \<open>NFTCollection\<close> contracts, whose ids start from 1.
\<close>

theorem draft_solvent:
  assumes "d_reachable F now s"
  shows "(\<Sum>i < n.
      (if di_sold (d_items s i) then 0
       else (if i < d_itemIds s then LISTING_PRICE else 0) + sum_list (map do_price (d_offers s i))) +
      (if di_sold (d_items s i) \<and> di_auctionEndTime (d_items s i) \<le> now then 0 else di_highestBid (d_items s i)) +
      (\<Sum>a \<in> UNIV. d_pendingReturns s i a)) \<le> bal s (d_this s)"
  using d_reachable_parts(2) [OF assms] by (simp add: d_solvent_def d_claim_def)

theorem draft_solvent_witness:
  "(\<Sum>i < 5.
      (if di_sold (d_items demo_d i) then 0
       else (if i < d_itemIds demo_d then LISTING_PRICE else 0) + sum_list (map do_price (d_offers demo_d i))) +
      (if di_sold (d_items demo_d i) \<and> di_auctionEndTime (d_items demo_d i) \<le> 1000 then 0 else di_highestBid (d_items demo_d i)) +
      (\<Sum>a \<in> UNIV. d_pendingReturns demo_d i a)) \<le> bal demo_d 9"
  using draft_solvent [OF demo_d_reachable, of 5] by (simp add: demo_d_simps)

text \<open>
  Solvency rests on the token contract refusing an id that is not an item, not on a check of the draft. With a token
  contract that has a token 0 and counts the marketplace as its owner, anybody buys an item that was never listed for
  nothing; each such call pays a listing fee to the owner out of the balance, and raises the number of sold items.
\<close>

theorem draft_unlisted_sale_drains:
  assumes "d_fresh s i" and "\<not> d_entered s" and "msg_value m = 0" and "msg_sender m \<noteq> addr0" and "d_this s \<noteq> addr0"
    and "nfts s c = Some n" and "nft_owners n 0 = d_this s" and "LISTING_PRICE \<le> bal s (d_this s)"
    and "accepts s addr0" and "accepts s (d_owner s)" and "d_owner s \<noteq> d_this s" and "d_itemsSold s + 1 < two256"
    and stats: "\<And>f. is_ok (fac_updateCollectionStats F f c 0 True)"
  shows "\<exists>s'. d_createMarketSale F m c i s = Inr s' \<and> bal s' (d_this s) + LISTING_PRICE = bal s (d_this s) \<and>
    d_itemsSold s' = d_itemsSold s + 1 \<and> d_itemIds s' = d_itemIds s"
proof -
  have mv: "can_move n (d_this s) 0" using assms(5,7) by (simp add: can_move_defs)
  from stats [of "d_factory s"] obtain f where f: "fac_updateCollectionStats F (d_factory s) c 0 True = Inr f"
    by (auto simp: is_ok_iff)
  have "move_eth a b 0 f = f" for a b :: address and f :: "address \<Rightarrow> nat"
    by (simp add: move_eth_def)
  with assms(1-12) mv f show ?thesis
    by (simp add: d_createMarketSale_def d_createMarketSale_body_def d_createMarketSale_checks_def d_op_defs move_eth_simps
        d_fresh_def no_dItem_def)
qed

lemma d_open_sold_room:
  assumes "d_entries s" and "d_open s i"
  shows "d_itemsSold s + 1 < two256"
proof -
  have "{j. j < d_itemIds s \<and> di_sold (d_items s j)} \<subseteq> {..<d_itemIds s} - {i}"
    using assms(2) by (auto simp: d_open_def)
  then have "d_itemsSold s \<le> card ({..<d_itemIds s} - {i})"
    unfolding d_entriesD(7) [OF assms(1)] by (rule card_mono [rotated]) simp
  also have "\<dots> < d_itemIds s"
    using assms(2) by (simp add: d_open_def)
  finally show ?thesis using d_entriesD(3) [OF assms(1)] by simp
qed

lemma d_sale_succeeds:
  assumes "d_reachable F now s" and "i < d_itemIds s" and "\<not> di_sold (d_items s i)" and "\<not> di_isAuction (d_items s i)"
    and "msg_value m = di_price (d_items s i)" and "msg_value m \<le> bal s (msg_sender m)" and "d_outside s (msg_sender m)"
    and "d_holds s c (di_tokenId (d_items s i))"
    and "accepts s (di_seller (d_items s i))" and "accepts s (d_owner s)"
    and stats: "\<And>f. is_ok (fac_updateCollectionStats F f c (di_price (d_items s i)) True)"
  shows "\<exists>s'. d_createMarketSale F m c i s = Inr s'"
proof -
  let ?it = "d_items s i"
  note parts = d_reachable_parts [OF assms(1)]
  have op: "d_open s i" using assms(2,3) by (simp add: d_open_def)
  obtain n where n: "nfts s c = Some n" "nft_owners n (di_tokenId ?it) = d_this s" "can_move n (d_this s) (di_tokenId ?it)"
    using assms(8) d_entriesD(1) [OF parts(1)] by (auto simp: d_holds_def can_move_defs)
  have ne: "d_this s \<noteq> di_seller ?it" "msg_sender m \<noteq> d_this s" "msg_sender m \<noteq> addr0"
    using d_entriesD(4) [OF parts(1) assms(2)] assms(7) by (auto simp: d_item_ok_def d_outside_def)
  have fee: "LISTING_PRICE \<le> bal s (d_this s)"
    using d_unsold_covered [OF assms(1-3)] by simp
  from stats [of "d_factory s"] obtain f where f: "fac_updateCollectionStats F (d_factory s) c (di_price ?it) True = Inr f"
    by (auto simp: is_ok_iff)
  show ?thesis
    using assms(3-6,9,10) n ne fee f d_open_sold_room [OF parts(1) op] d_entriesD(2) [OF parts(1)]
    by (simp add: d_createMarketSale_def d_createMarketSale_body_def d_createMarketSale_checks_def d_op_defs move_eth_simps)
qed

text \<open>
  C13. Custody in the draft marketplace. As long as no purchase took the token of another item not sold, the contract owns the
  token of every item not sold, nobody else may move it, and no two of these items stand for one token; and the next call,
  of any account, loses this exactly when it is such a purchase: \<open>createMarketSale\<close> takes the collection from its caller.
  The token contracts are \<open>NFTCollection\<close> contracts.
\<close>

theorem draft_custody:
  assumes "this \<noteq> addr0" and "nfts ch = Map.empty"
    and "rtranclp (careful_step F) (t0, d_constructor m0 this fac ch) (now, s)"
    and "d_outside s (msg_sender m)" and "d_exec F m call s = Inr s'"
  shows "(\<forall>i < d_itemIds s. \<not> di_sold (d_items s i) \<longrightarrow>
      (\<exists>n. nfts s (di_nftContract (d_items s i)) = Some n \<and>
        ownerOf n (di_tokenId (d_items s i)) = Inr (d_this s) \<and>
        (\<forall>a. can_move n a (di_tokenId (d_items s i)) \<longrightarrow> a = d_this s)) \<and>
      (\<forall>j < d_itemIds s. \<not> di_sold (d_items s j) \<longrightarrow> j \<noteq> i \<longrightarrow>
        di_nftContract (d_items s j) \<noteq> di_nftContract (d_items s i) \<or> di_tokenId (d_items s j) \<noteq> di_tokenId (d_items s i))) \<and>
    (d_custody s' \<longleftrightarrow> \<not> (\<exists>i j. call = DBuy (di_nftContract (d_items s j)) i \<and> j \<noteq> i \<and> j < d_itemIds s \<and>
       \<not> di_sold (d_items s j) \<and> di_tokenId (d_items s j) = di_tokenId (d_items s i)))"
proof -
  have "draft_ok 0 (t0, d_constructor m0 this fac ch)" and "d_custody (d_constructor m0 this fac ch)"
    using draft_ok_init [OF assms(1,2)] by (simp_all add: d_custody_def d_open_def d_constructor_def)
  with careful.inv_run [OF assms(3), of 0] have ok: "draft_ok 0 (now, s)" and cu: "d_custody s" by simp_all
  have owned: "ownerOf n t = Inr (d_this s) \<and> (\<forall>a. can_move n a t \<longrightarrow> a = d_this s)"
    if "nfts s c = Some n" "nft_owners n t = d_this s" for c n t
    using that draft_okD(3) [OF ok] d_entriesD(1) [OF draft_okD(1) [OF ok]]
    by (auto simp: d_collections_ok_def ownerOf_def requireOwned_def held_ok_def Let_def)
  have "\<exists>n. nfts s (di_nftContract (d_items s i)) = Some n \<and> nft_owners n (di_tokenId (d_items s i)) = d_this s"
    if "i < d_itemIds s" "\<not> di_sold (d_items s i)" for i
    using d_custodyD(1) [OF cu, of i] that by (auto simp: d_holds_def d_open_def)
  moreover have "j = i" if "i < d_itemIds s" "\<not> di_sold (d_items s i)" "j < d_itemIds s" "\<not> di_sold (d_items s j)"
      "di_nftContract (d_items s j) = di_nftContract (d_items s i)" "di_tokenId (d_items s j) = di_tokenId (d_items s i)" for i j
    using d_custodyD(2) [OF cu, of j i] that by (simp add: d_open_def d_token_def)
  moreover have "d_takes_other call s \<longleftrightarrow> (\<exists>i j. call = DBuy (di_nftContract (d_items s j)) i \<and> j \<noteq> i \<and> j < d_itemIds s \<and>
       \<not> di_sold (d_items s j) \<and> di_tokenId (d_items s j) = di_tokenId (d_items s i))"
    by (auto simp: d_takes_other_def d_open_def d_token_def)
  ultimately show ?thesis
    using d_exec_custody [OF ok cu assms(4,5)] owned by blast
qed

theorem draft_custody_witness:
  "(\<exists>n. nfts demo_d 200 = Some n \<and> ownerOf n 1 = Inr 9 \<and> (\<forall>a. can_move n a 1 \<longrightarrow> a = 9)) \<and>
   (\<exists>s'. d_exec demo_factory (d_msg 3 70 1001) (DBuy 200 0) demo_d = Inr s' \<and> \<not> d_custody s') \<and>
   (\<exists>s'. d_exec demo_factory (d_msg 3 70 1001) (DBuy 100 0) demo_d = Inr s' \<and> d_custody s')"
proof -
  let ?m = "d_msg 3 70 1001"
  have run: "rtranclp (careful_step demo_factory)
      (1000, d_constructor (d_msg 1 0 1000) 9 () \<lparr>bal = (\<lambda>a. if a = 2 \<or> a = 3 \<or> a = 4 then 10 ^ 18 else 0), accepts = (\<lambda>_. True),
        code = (\<lambda>_. NoCode), nfts = Map.empty, logs = []\<rparr>) (1000, demo_d)"
    using demo_d_careful by (simp only: demo_d_init_def)
  have out: "d_outside demo_d 3" by (simp add: demo_d_simps d_outside_def)
  have "\<exists>s'. d_exec demo_factory ?m (DBuy c 0) demo_d = Inr s'" if "c = 100 \<or> c = 200" for c
    using d_sale_succeeds [OF demo_d_reachable, of 0 ?m c] out that by (auto simp: demo_d_simps1 demo_factory_def)
  then obtain s1 s2 where s: "d_exec demo_factory ?m (DBuy 200 0) demo_d = Inr s1" "d_exec demo_factory ?m (DBuy 100 0) demo_d = Inr s2"
    by blast
  note lost = draft_custody [OF _ _ run _ s(1)] and kept = draft_custody [OF _ _ run _ s(2)]
  have "(\<exists>i j. DBuy 200 0 = DBuy (di_nftContract (d_items demo_d j)) i \<and> j \<noteq> i \<and> j < d_itemIds demo_d \<and>
      \<not> di_sold (d_items demo_d j) \<and> di_tokenId (d_items demo_d j) = di_tokenId (d_items demo_d i))"
    by (intro exI [of _ 0] exI [of _ 1]) (simp add: demo_d_simps1)
  then have "\<not> d_custody s1" using lost out by simp
  moreover have "\<not> (\<exists>i j. DBuy 100 0 = DBuy (di_nftContract (d_items demo_d j)) i \<and> j \<noteq> i \<and> j < d_itemIds demo_d \<and>
      \<not> di_sold (d_items demo_d j) \<and> di_tokenId (d_items demo_d j) = di_tokenId (d_items demo_d i))"
    by (auto simp: demo_d_simps1 less_2_cases_iff)
  then have "d_custody s2" using kept out by simp
  moreover have "\<exists>n. nfts demo_d 200 = Some n \<and> ownerOf n 1 = Inr 9 \<and> (\<forall>a. can_move n a 1 \<longrightarrow> a = 9)"
    using spec [OF conjunct1 [OF kept], of 1] out by (simp add: demo_d_simps1)
  ultimately show ?thesis using s by blast
qed

section \<open>What users get out of it\<close>

text \<open>
  C15. Refunds in the draft marketplace: after any calls of any accounts, with any collections and ids as arguments, a bidder
  who has been outbid and whose account takes Ether gets the whole of the refund by one call, nobody else's refund changes, and a second call is refused. The token contracts are
  \<open>NFTCollection\<close> contracts.
\<close>

theorem draft_withdraw_pays:
  assumes "d_reachable F now s" and "0 < d_pendingReturns s i (msg_sender m)" and "accepts s (msg_sender m)"
    and "d_outside s (msg_sender m)" and "msg_value m = 0"
  shows "\<exists>s'. d_withdrawBid m i s = Inr s' \<and>
     bal s' (msg_sender m) = bal s (msg_sender m) + d_pendingReturns s i (msg_sender m) \<and>
     bal s' (d_this s) + d_pendingReturns s i (msg_sender m) = bal s (d_this s) \<and>
     (\<forall>j a. d_pendingReturns s' j a = (if j = i \<and> a = msg_sender m then 0 else d_pendingReturns s j a)) \<and>
     d_withdrawBid m i s' = Inl (Revert ''No funds to withdraw'')"
proof -
  note parts = d_reachable_parts [OF assms(1)]
  have ent: "\<not> d_entered s" using parts(1) by (rule d_entriesD)
  have "d_pendingReturns s i (msg_sender m) \<le> sum (d_pendingReturns s i) UNIV"
    by (rule member_le_sum) auto
  also have "\<dots> \<le> bal s (d_this s)"
    using d_claim_covered [OF assms(1), of i] by (simp add: d_claim_def)
  finally have le: "d_pendingReturns s i (msg_sender m) \<le> bal s (d_this s)" .
  have ne: "d_this s \<noteq> msg_sender m" using assms(4) by (auto simp: d_outside_def)
  show ?thesis
    using assms(2,3,5) ent le ne
    by (simp add: d_parts d_withdrawBid_def d_withdrawBid_body_def d_nonReentrant_def transfer_eth_def move_eth_simps)
qed

theorem draft_withdraw_pays_witness:
  "\<exists>s'. d_withdrawBid (d_msg 3 0 1001) 1 demo_d = Inr s' \<and> bal s' 3 = 999999999999999950 \<and>
     d_withdrawBid (d_msg 3 0 1001) 1 s' = Inl (Revert ''No funds to withdraw'')"
  using draft_withdraw_pays [OF demo_d_reachable, of 1 "d_msg 3 0 1001"]
  by (auto simp: demo_d_simps1 d_outside_def)

lemma d_token_out_ok:
  assumes "d_entries s" and "d_holds s (di_nftContract (d_items s i)) (di_tokenId (d_items s i))"
  obtains n where "nfts s (di_nftContract (d_items s i)) = Some n" "nft_owners n (di_tokenId (d_items s i)) = d_this s"
    "can_move n (d_this s) (di_tokenId (d_items s i))"
  using assms(2) d_entriesD(1) [OF assms(1)] by (auto simp: d_holds_def can_move_defs)

lemma d_endAuction_succeeds:
  assumes "d_reachable F now s" and "i < d_itemIds s" and "di_isAuction (d_items s i)" and "\<not> di_sold (d_items s i)"
    and "di_auctionEndTime (d_items s i) \<le> block_timestamp m" and "msg_value m = 0"
    and "d_holds s (di_nftContract (d_items s i)) (di_tokenId (d_items s i))"
    and "accepts s (di_seller (d_items s i))" and "accepts s (d_owner s)" and "d_owner s \<noteq> d_this s"
  shows "\<exists>s'. d_endAuction m i s = Inr s'"
proof -
  let ?it = "d_items s i"
  note parts = d_reachable_parts [OF assms(1)]
  have op: "d_open s i" using assms(2,4) by (simp add: d_open_def)
  obtain n where n: "nfts s (di_nftContract ?it) = Some n" "nft_owners n (di_tokenId ?it) = d_this s"
      "can_move n (d_this s) (di_tokenId ?it)"
    using d_token_out_ok [OF parts(1) assms(7)] .
  have "di_seller ?it \<noteq> addr0" "di_seller ?it \<noteq> d_this s" "d_this s \<noteq> di_seller ?it"
    using d_entriesD(4) [OF parts(1) assms(2)] by (auto simp: d_item_ok_def)
  moreover have "LISTING_PRICE + di_highestBid ?it \<le> bal s (d_this s)"
    using d_unsold_covered [OF assms(1,2,4)] by simp
  ultimately show ?thesis
    using assms(3-10) n d_entriesD(2) [OF parts(1)] d_open_sold_room [OF parts(1) op]
    by (cases "di_highestBidder ?it = addr0")
      (simp_all add: d_parts emit_def d_endAuction_def d_endAuction_body_def d_endAuction_checks_def d_settle_def d_nonReentrant_def
        d_set_item_def Let_def move_eth_simps)
qed

text \<open>
  C16. Ending an auction of the draft: in every reachable state in which the contract still holds the token of an
  auction whose time is over and which is not sold, anybody can end it. The token goes to the highest bidder and the bid to the seller,
  without a bid the token goes back; the listing fee goes to the marketplace's owner, and the refunds
  of the others stay untouched. It relies on the token not having been taken by a purchase that named another item's
  collection, and on seller and owner being two accounts that take Ether.
\<close>

theorem draft_auction_settles:
  assumes "d_reachable F now s" and "i < d_itemIds s" and "di_isAuction (d_items s i)" and "\<not> di_sold (d_items s i)"
    and "di_auctionEndTime (d_items s i) \<le> block_timestamp m" and "msg_value m = 0"
    and "d_holds s (di_nftContract (d_items s i)) (di_tokenId (d_items s i))"
    and "accepts s (di_seller (d_items s i))" and "accepts s (d_owner s)" and "d_owner s \<noteq> d_this s"
    and "d_owner s \<noteq> di_seller (d_items s i)"
  shows "\<exists>s' n. d_endAuction m i s = Inr s' \<and> nfts s' (di_nftContract (d_items s i)) = Some n \<and>
     nft_owners n (di_tokenId (d_items s i)) =
       (if di_highestBidder (d_items s i) = addr0 then di_seller (d_items s i) else di_highestBidder (d_items s i)) \<and>
     bal s' (di_seller (d_items s i)) = bal s (di_seller (d_items s i)) + di_highestBid (d_items s i) \<and>
     bal s' (d_owner s) = bal s (d_owner s) + LISTING_PRICE \<and>
     bal s' (d_this s) + LISTING_PRICE + di_highestBid (d_items s i) = bal s (d_this s) \<and>
     di_sold (d_items s' i) \<and> d_pendingReturns s' = d_pendingReturns s"
proof -
  let ?it = "d_items s i"
  have it: "d_item_ok s i" using d_entriesD(4) [OF d_reachable_parts(1) [OF assms(1)] assms(2)] .
  have le: "LISTING_PRICE + di_highestBid ?it \<le> bal s (d_this s)"
    using d_unsold_covered [OF assms(1,2,4)] by simp
  obtain s' where s': "d_endAuction m i s = Inr s'" using d_endAuction_succeeds [OF assms(1-10)] by blast
  show ?thesis
    using d_endAuction_shape [OF s'] s' it assms(10,11) le
    by (auto simp: d_end_paid_def d_end_receiver_def d_item_ok_def move_eth_simps)
qed

theorem draft_auction_settles_witness:
  "\<exists>s' n. d_endAuction (d_msg 3 0 700000) 1 demo_d = Inr s' \<and> nfts s' 200 = Some n \<and> nft_owners n 1 = 4 \<and>
     bal s' 2 = 1019000000000000000"
  using draft_auction_settles [OF demo_d_reachable, of 1 "d_msg 3 0 700000"] by (simp add: demo_d_simps1) blast

text \<open>What one account gets back in the refund loop: its own offers but the accepted one, not yet expired.\<close>

definition d_refunded :: "msg \<Rightarrow> nat \<Rightarrow> nat \<Rightarrow> dOffer list \<Rightarrow> address \<Rightarrow> nat" where
  "d_refunded m k i os a =
     (\<Sum>(j, off) \<leftarrow> enumerate i os. if j \<noteq> k \<and> block_timestamp m \<le> do_expirationTime off \<and> do_buyer off = a
      then do_price off else 0)"

lemma d_refund_loop_ok:
  assumes "\<And>off. off \<in> set os \<Longrightarrow> accepts s (do_buyer off) \<and> do_buyer off \<noteq> d_this s"
    and "d_refund_total m k i os \<le> bal s (d_this s)"
  shows "\<exists>b. d_refund_loop m k i os s = Inr (s\<lparr>bal := b\<rparr>) \<and> b (d_this s) + d_refund_total m k i os = bal s (d_this s) \<and>
     (\<forall>a. a \<noteq> d_this s \<longrightarrow> b a = bal s a + d_refunded m k i os a)"
  using assms
proof (induction os arbitrary: i s)
  case Nil
  then show ?case by (intro exI [of _ "bal s"]) (simp add: d_refunded_def)
next
  case (Cons off os)
  show ?case
  proof (cases "i \<noteq> k \<and> block_timestamp m \<le> do_expirationTime off")
    case True
    let ?b = "move_eth (d_this s) (do_buyer off) (do_price off) (bal s)"
    have ne: "do_buyer off \<noteq> d_this s" "accepts s (do_buyer off)" using Cons.prems(1) by auto
    have b: "?b (d_this s) = bal s (d_this s) - do_price off" "?b (do_buyer off) = bal s (do_buyer off) + do_price off"
      "\<And>a. a \<noteq> d_this s \<Longrightarrow> a \<noteq> do_buyer off \<Longrightarrow> ?b a = bal s a"
      using ne(1) by (simp_all add: move_eth_def Let_def)
    have v: "do_price off + d_refund_total m k (Suc i) os \<le> bal s (d_this s)"
      using Cons.prems(2) True by simp
    have "\<exists>b. d_refund_loop m k (Suc i) os (s\<lparr>bal := ?b\<rparr>) = Inr (s\<lparr>bal := ?b, bal := b\<rparr>) \<and>
        b (d_this s) + d_refund_total m k (Suc i) os = ?b (d_this s) \<and>
        (\<forall>a. a \<noteq> d_this s \<longrightarrow> b a = ?b a + d_refunded m k (Suc i) os a)"
      using Cons.IH [of "s\<lparr>bal := ?b\<rparr>" "Suc i"] Cons.prems(1) v b(1) by simp
    then obtain b' where b': "d_refund_loop m k (Suc i) os (s\<lparr>bal := ?b\<rparr>) = Inr (s\<lparr>bal := b'\<rparr>)"
        "b' (d_this s) + d_refund_total m k (Suc i) os = ?b (d_this s)"
        "\<And>a. a \<noteq> d_this s \<Longrightarrow> b' a = ?b a + d_refunded m k (Suc i) os a"
      by auto
    have "b' a = bal s a + d_refunded m k i (off # os) a" if "a \<noteq> d_this s" for a
      using b'(3) [OF that] True b(2) b(3) [OF that] by (cases "a = do_buyer off") (auto simp: d_refunded_def)
    with True b' v ne b(1) show ?thesis by (intro exI [of _ b']) (simp add: transfer_eth_def)
  next
    case False
    then have "d_refunded m k i (off # os) a = d_refunded m k (Suc i) os a" for a
      by (auto simp: d_refunded_def)
    with False Cons show ?thesis by auto
  qed
qed

text \<open>The state in which \<open>acceptOffer\<close> enters the refund loop: token moved, seller and owner paid.\<close>

definition d_accept_paid :: "'f draft \<Rightarrow> nat \<Rightarrow> nat \<Rightarrow> address \<Rightarrow> nat" where
  "d_accept_paid s i k = move_eth (d_this s) (d_owner s) LISTING_PRICE
     (move_eth (d_this s) (di_seller (d_items s i)) (do_price (d_offers s i ! k)) (bal s))"

definition d_accept_mid :: "'f draft \<Rightarrow> nat \<Rightarrow> nat \<Rightarrow> nft \<Rightarrow> 'f draft" where
  "d_accept_mid s i k n =
     (let it = d_items s i; off = d_offers s i ! k
      in s\<lparr>d_entered := True, d_itemsSold := d_itemsSold s + 1,
           d_items := (d_items s)(i := it\<lparr>di_sold := True, di_owner := do_buyer off\<rparr>),
           nfts := (nfts s)(di_nftContract it \<mapsto> moved_token n (di_tokenId it) (do_buyer off)),
           logs := logs s @ [(di_nftContract it,
             Event ''Transfer'' [EvAddr (d_this s), EvAddr (do_buyer off), EvNat (di_tokenId it)])],
           bal := d_accept_paid s i k\<rparr>)"

lemma d_acceptOffer_exec:
  assumes "d_entries s" and "d_open s i" and "k < length (d_offers s i)" and "msg_sender m = di_seller (d_items s i)"
    and "msg_value m = 0" and "block_timestamp m \<le> do_expirationTime (d_offers s i ! k)"
    and "nfts s (di_nftContract (d_items s i)) = Some n" and "nft_owners n (di_tokenId (d_items s i)) = d_this s"
    and "accepts s (di_seller (d_items s i))" and "accepts s (d_owner s)"
    and "LISTING_PRICE + do_price (d_offers s i ! k) \<le> bal s (d_this s)"
    and "d_refund_loop m k 0 (d_offers s i) (d_accept_mid s i k n) = Inr s5"
  shows "d_acceptOffer m i k s =
    Inr ((emit (d_this s) [ev_OfferAccepted i (do_buyer (d_offers s i ! k)) (do_price (d_offers s i ! k))] s5)\<lparr>d_entered := False\<rparr>)"
proof -
  have i: "i < d_itemIds s" and un: "\<not> di_sold (d_items s i)" using assms(2) by (auto simp: d_open_def)
  have it: "d_item_ok s i" using d_entriesD(4) [OF assms(1) i] .
  then have "do_buyer (d_offers s i ! k) \<noteq> addr0" and "d_this s \<noteq> di_seller (d_items s i)"
    using assms(3) d_entriesD(6) [OF assms(1), of i] by (auto simp: d_item_ok_def d_buyers_ok_def)
  moreover have "can_move n (d_this s) (di_tokenId (d_items s i))"
    using assms(8) d_entriesD(1) [OF assms(1)] by (simp add: can_move_defs)
  ultimately show ?thesis
    using assms(3-12) un d_open_sold_room [OF assms(1,2)] d_entriesD(2) [OF assms(1)]
    by (simp add: d_parts d_acceptOffer_def d_acceptOffer_body_def d_acceptOffer_checks_def d_nonReentrant_def d_set_item_def Let_def move_eth_simps
        emit_def d_accept_mid_def d_accept_paid_def)
qed

text \<open>
  C17. Accepting an offer of the draft: in every reachable state in which the contract still holds the token of an
  item not sold, its seller can accept an offer that has not expired. The token goes to its buyer and the offer to the seller, the listing fee to the owner, and
  every account gets back exactly its other offers on the item that have not expired. It relies on the token not
  having been taken by a purchase that named another item's collection, on seller, owner and all who made offers being accounts that
  take Ether (one that refuses blocks the sale), and on owner and seller being two accounts.
\<close>

theorem draft_accept_offer:
  assumes "d_reachable F now s" and "i < d_itemIds s" and "\<not> di_sold (d_items s i)" and "k < length (d_offers s i)"
    and "msg_sender m = di_seller (d_items s i)" and "msg_value m = 0"
    and "block_timestamp m \<le> do_expirationTime (d_offers s i ! k)"
    and "d_holds s (di_nftContract (d_items s i)) (di_tokenId (d_items s i))"
    and "accepts s (di_seller (d_items s i))" and "accepts s (d_owner s)"
    and "\<forall>off \<in> set (d_offers s i). accepts s (do_buyer off)"
    and "d_owner s \<noteq> d_this s" and "d_owner s \<noteq> di_seller (d_items s i)"
  shows "\<exists>s' n. d_acceptOffer m i k s = Inr s' \<and> nfts s' (di_nftContract (d_items s i)) = Some n \<and>
     nft_owners n (di_tokenId (d_items s i)) = do_buyer (d_offers s i ! k) \<and> di_sold (d_items s' i) \<and>
     (\<forall>a. a \<noteq> d_this s \<longrightarrow> bal s' a = bal s a +
        (\<Sum>(j, off) \<leftarrow> enumerate 0 (d_offers s i).
           if j \<noteq> k \<and> block_timestamp m \<le> do_expirationTime off \<and> do_buyer off = a then do_price off else 0) +
        (if a = di_seller (d_items s i) then do_price (d_offers s i ! k)
         else if a = d_owner s then LISTING_PRICE else 0))"
proof -
  let ?it = "d_items s i" and ?os = "d_offers s i" and ?b = "d_accept_paid s i k"
  note parts = d_reachable_parts [OF assms(1)]
  have op: "d_open s i" using assms(2,3) by (simp add: d_open_def)
  obtain n where n: "nfts s (di_nftContract ?it) = Some n" "nft_owners n (di_tokenId ?it) = d_this s"
    using d_token_out_ok [OF parts(1) assms(8)] by metis
  have it: "d_item_ok s i" and bu: "d_buyers_ok s i" using d_entriesD(4,6) [OF parts(1)] assms(2) by auto
  have le: "LISTING_PRICE + do_price (?os ! k) + d_refund_total m k 0 ?os \<le> bal s (d_this s)"
    using d_unsold_covered [OF assms(1-3)] d_refund_total_accepted [OF assms(4), of m 0] by simp
  have paid: "?b (d_this s) + LISTING_PRICE + do_price (?os ! k) = bal s (d_this s)"
    using le it assms(12) by (auto simp: d_accept_paid_def d_item_ok_def move_eth_simps)
  have others: "?b a = bal s a + (if a = di_seller ?it then do_price (?os ! k) else if a = d_owner s then LISTING_PRICE else 0)"
    if "a \<noteq> d_this s" for a
    using that it assms(12,13) by (auto simp: d_accept_paid_def d_item_ok_def move_eth_def Let_def)
  from bu le paid assms(11) obtain b where loop: "d_refund_loop m k 0 ?os (d_accept_mid s i k n) = Inr ((d_accept_mid s i k n)\<lparr>bal := b\<rparr>)"
    and b: "\<And>a. a \<noteq> d_this s \<Longrightarrow> b a = ?b a + d_refunded m k 0 ?os a"
    using d_refund_loop_ok [of ?os "d_accept_mid s i k n" m k 0] by (auto simp: d_buyers_ok_def d_accept_mid_def Let_def)
  from le have "LISTING_PRICE + do_price (?os ! k) \<le> bal s (d_this s)" by simp
  from d_acceptOffer_exec [OF parts(1) op assms(4-7) n assms(9,10) this loop] show ?thesis
    using b others by (intro exI conjI) (assumption, auto simp: d_accept_mid_def emit_def Let_def d_refunded_def)
qed

theorem draft_accept_offer_witness:
  "\<exists>s' n. d_acceptOffer (d_msg 2 0 2000) 0 1 demo_d = Inr s' \<and> nfts s' 100 = Some n \<and> nft_owners n 1 = 4 \<and>
     bal s' 3 = 970000000000000000 \<and> bal s' 2 = 999000000000000060"
proof -
  from draft_accept_offer [OF demo_d_reachable, of 0 1 "d_msg 2 0 2000"] obtain s' n where
    r: "d_acceptOffer (d_msg 2 0 2000) 0 1 demo_d = Inr s'" "nfts s' 100 = Some n" "nft_owners n 1 = 4"
    and b: "\<And>a. a \<noteq> 9 \<Longrightarrow> bal s' a = bal demo_d a + (if a = 3 then 50 else 0) + (if a = 2 then 60 else if a = 1 then LISTING_PRICE else 0)"
    by (auto simp: demo_d_simps1)
  from r b [of 2] b [of 3] show ?thesis by (auto simp: demo_d_simps)
qed

section \<open>Where the checks fall short\<close>

text \<open>
  A later bid can be lower than the standing one: \<open>placeBid\<close> of the draft compares a bid with the starting price, which
  no bid raises. In every reachable state a bid over the starting price by the increment is accepted before the
  deadline even when it is below the standing bid, and replaces it.
\<close>

theorem draft_bid_can_fall:
  assumes "d_reachable F now s" and "di_isAuction (d_items s i)" and "block_timestamp m < di_auctionEndTime (d_items s i)"
    and "di_price (d_items s i) + MIN_AUCTION_INCREMENT \<le> msg_value m" and "msg_value m < di_highestBid (d_items s i)"
    and "msg_value m \<le> bal s (msg_sender m)" and "msg_value m < two256"
    and "d_pendingReturns s i (di_highestBidder (d_items s i)) + di_highestBid (d_items s i) < two256"
  shows "\<exists>s'. d_placeBid m i s = Inr s' \<and> di_highestBidder (d_items s' i) = msg_sender m \<and>
     di_highestBid (d_items s' i) < di_highestBid (d_items s i)"
proof -
  note parts = d_reachable_parts [OF assms(1)]
  have "i < d_itemIds s" by (rule d_item_exists(1) [OF parts(1) assms(2)])
  then have "di_highestBidder (d_items s i) \<noteq> addr0"
    using assms(5) d_entriesD(4) [OF parts(1), of i] by (auto simp: d_item_ok_def)
  then show ?thesis
    using assms(2-8) d_entriesD(2) [OF parts(1)]
    by (simp add: d_placeBid_def d_placeBid_body_def d_placeBid_checks_def d_op_defs add256_def pay_in_def)
qed

theorem draft_bid_can_fall_witness:
  "\<exists>s'. d_placeBid (d_msg 3 (15 * 10 ^ 15) 1001) 1 demo_d = Inr s' \<and> di_highestBidder (d_items s' 1) = 3 \<and>
     di_highestBid (d_items s' 1) < 20000000000000000"
  using draft_bid_can_fall [OF demo_d_reachable, of 1 "d_msg 3 (15 * 10 ^ 15) 1001"]
  by (simp add: demo_d_simps1 MIN_AUCTION_INCREMENT_def two256_def)

text \<open>
  A purchase in the draft pays for one item and takes another: \<open>createMarketSale\<close> takes the collection from its caller. Whoever buys an unsold
  fixed-price item and names a collection in which the contract holds the token of the same number,
  for example in a running auction, gets that token for the price of the item, while the item's own token stays.
\<close>

theorem draft_wrong_collection:
  assumes "d_reachable F now s" and "i < d_itemIds s" and "\<not> di_sold (d_items s i)" and "\<not> di_isAuction (d_items s i)"
    and "msg_value m = di_price (d_items s i)" and "msg_value m \<le> bal s (msg_sender m)" and "d_outside s (msg_sender m)"
    and "d_holds s c (di_tokenId (d_items s i))" and "c \<noteq> di_nftContract (d_items s i)"
    and "d_holds s (di_nftContract (d_items s i)) (di_tokenId (d_items s i))"
    and "accepts s (di_seller (d_items s i))" and "accepts s (d_owner s)"
    and stats: "\<And>f. is_ok (fac_updateCollectionStats F f c (di_price (d_items s i)) True)"
  shows "\<exists>s' n. d_createMarketSale F m c i s = Inr s' \<and> nfts s' c = Some n \<and>
     nft_owners n (di_tokenId (d_items s i)) = msg_sender m \<and>
     d_holds s' (di_nftContract (d_items s i)) (di_tokenId (d_items s i))"
proof -
  obtain s' where s': "d_createMarketSale F m c i s = Inr s'"
    using d_sale_succeeds [OF assms(1-8,11,12) stats] by blast
  show ?thesis
    using d_createMarketSale_shape [OF s'] s' assms(9,10) by (auto simp: d_holds_def)
qed

theorem draft_wrong_collection_witness:
  "\<exists>s' n. d_createMarketSale demo_factory (d_msg 3 70 1001) 200 0 demo_d = Inr s' \<and> nfts s' 200 = Some n \<and>
     nft_owners n 1 = 3 \<and> d_holds s' 100 1"
  using draft_wrong_collection [OF demo_d_reachable, of 0 "d_msg 3 70 1001" 200]
  by (simp add: demo_d_simps1 demo_factory_def d_outside_def)

section \<open>Views and statistics\<close>

lemma length_filter_upt: "length (filter P [0..<n]) = card {i. i < n \<and> P i}"
  using distinct_card [of "filter P [0..<n]"] by (simp add: conj_commute)

lemma length_filter_not: "length (filter (\<lambda>x. \<not> P x) xs) + length (filter P xs) = length xs"
  by (induction xs) auto

text \<open>
  C23. The list views of the draft: after any calls of any accounts, with any collections and ids as arguments, each returns
  exactly its items in the order of their ids, without a panic. For the market items this rests on the count of sold items
  being right, since their array is allocated from it; the token contracts are \<open>NFTCollection\<close> contracts.
\<close>

theorem draft_views_exact:
  assumes "d_reachable F now s"
  shows "d_fetchMarketItems s = Inr [d_items s i. i \<leftarrow> [0..<d_itemIds s], \<not> di_sold (d_items s i)] \<and>
    d_fetchMyNFTs m s = Inr [d_items s i. i \<leftarrow> [0..<d_itemIds s], di_owner (d_items s i) = msg_sender m] \<and>
    d_fetchMyListedNFTs m s = Inr [d_items s i. i \<leftarrow> [0..<d_itemIds s], di_seller (d_items s i) = msg_sender m] \<and>
    d_fetchActiveAuctions m s = Inr [d_items s i. i \<leftarrow> [0..<d_itemIds s], di_isAuction (d_items s i) \<and>
      \<not> di_sold (d_items s i) \<and> block_timestamp m < di_auctionEndTime (d_items s i)]"
proof -
  have eq: "concat (map (\<lambda>i. if P i then [d_items s i] else []) xs) = map (d_items s) (filter P xs)" for P and xs
    by (induction xs) auto
  let ?un = "filter (\<lambda>i. \<not> di_sold (d_items s i)) [0..<d_itemIds s]"
  have "d_itemsSold s = length (filter (\<lambda>i. di_sold (d_items s i)) [0..<d_itemIds s])"
    using d_entriesD(7) [OF d_reachable_parts(1) [OF assms]] by (simp add: length_filter_upt)
  then have n: "d_itemsSold s \<le> d_itemIds s" "d_itemIds s - d_itemsSold s = length ?un"
    using length_filter_not [of "\<lambda>i. di_sold (d_items s i)" "[0..<d_itemIds s]"] by simp_all
  then have "d_fetchMarketItems s = Inr (map (d_items s) ?un)"
    by (simp add: d_fetchMarketItems_def d_unsold_fill_def sub256_def fill_loop_ok)
  then show ?thesis
    by (simp add: eq d_fetchMyNFTs_def d_mine_fill_def d_mine_count_def d_mine_def [abs_def] d_fetchMyListedNFTs_def
        d_listed_fill_def d_listed_count_def d_listed_def [abs_def] d_fetchActiveAuctions_def d_active_fill_def
        d_active_count_def d_active_def [abs_def] count_fill)
qed

theorem draft_views_exact_witness:
  "d_fetchMarketItems demo_d = Inr [d_items demo_d 0, d_items demo_d 1] \<and>
   d_fetchActiveAuctions (d_msg 5 0 1001) demo_d = Inr [d_items demo_d 1]"
  using draft_views_exact [OF demo_d_reachable, of "d_msg 5 0 1001"] by (simp add: demo_d_simps1 upt_rec)

lemma Min_insert_min: "finite A \<Longrightarrow> Min (insert (min p l) A) = Min (insert l (insert p A))"
  by (cases "A = {}") (auto simp: min_def)

lemma Max_insert_max: "finite A \<Longrightarrow> Max (insert (max p l) A) = Max (insert l (insert p A))"
  by (cases "A = {}") (auto simp: max_def)

lemma d_stats_loop_eq:
  assumes "ps = map ph_price (filter d_is_sale h)"
  shows "d_stats_loop h a =
    (if ps \<noteq> [] \<and> two256 \<le> pa_total a + sum_list ps then Inl panic_overflow
     else Inr \<lparr>pa_lowest = Min (insert (pa_lowest a) (set ps)), pa_highest = Max (insert (pa_highest a) (set ps)),
       pa_total = pa_total a + sum_list ps, pa_count = pa_count a + length ps\<rparr>)"
  using assms
proof (induction h arbitrary: a ps)
  case Nil
  then show ?case by simp
next
  case (Cons x h)
  let ?ps = "map ph_price (filter d_is_sale h)" and ?p = "ph_price x"
  let ?a = "\<lparr>pa_lowest = min ?p (pa_lowest a), pa_highest = max ?p (pa_highest a), pa_total = pa_total a + ?p,
    pa_count = Suc (pa_count a)\<rparr>"
  show ?case
  proof (cases "d_is_sale x")
    case True
    then have step: "d_stats_loop (x # h) a =
        (if pa_total a + ?p < two256 then d_stats_loop h ?a else Inl panic_overflow)"
      by (cases a) (auto simp: d_stats_step_def add256_def Let_def min_def max_def)
    have ps: "ps = ?p # ?ps" using Cons.prems True by simp
    have "Min (insert (min ?p (pa_lowest a)) (set ?ps)) = Min (insert (pa_lowest a) (set ps))"
      "Max (insert (max ?p (pa_highest a)) (set ?ps)) = Max (insert (pa_highest a) (set ps))"
      unfolding ps by (simp_all add: Min_insert_min Max_insert_max)
    then show ?thesis
      unfolding step using Cons.IH [of ?ps ?a] by (auto simp: ps add.assoc)
  next
    case False
    then have "d_stats_loop (x # h) a = d_stats_loop h a" and "ps = ?ps" using Cons.prems by simp_all
    then show ?thesis using Cons.IH [of ps a] by (simp only:)
  qed
qed

text \<open>
  C24. The price statistics of the draft, over the recorded sales of an item: the number of sales, the lowest, highest
  and average price, each 0 without a sale; the only failure is an overflow of the sum.
\<close>

theorem draft_price_stats:
  assumes "ps = map ph_price (filter d_is_sale (d_history s i))" and "\<forall>p \<in> set ps. p < uint256_max"
  shows "d_getItemPriceStats i s =
    (if sum_list ps < two256
     then Inr (if ps = [] then (0, 0, 0, 0)
               else (Min (set ps), Max (set ps), sum_list ps div length ps, length ps))
     else Inl panic_overflow)"
proof (cases "ps = []")
  case True
  then show ?thesis
    using d_stats_loop_eq [OF assms(1)] by (simp add: d_getItemPriceStats_def d_stats_result_def)
next
  case False
  then have "Min (set ps) < uint256_max" using assms(2) by auto
  then have "min uint256_max (Min (set ps)) = Min (set ps)" by simp
  then show ?thesis
    using False d_stats_loop_eq [OF assms(1)] \<open>Min (set ps) < uint256_max\<close>
    by (simp add: d_getItemPriceStats_def d_stats_result_def Let_def)
qed

definition demo_history :: "PriceHistory list" where
  "demo_history = [\<lparr>ph_timestamp = 1, ph_price = 5, ph_seller = 2, ph_buyer = 0, ph_actionType = LISTING\<rparr>,
     \<lparr>ph_timestamp = 2, ph_price = 8, ph_seller = 2, ph_buyer = 3, ph_actionType = SALE\<rparr>]"

theorem draft_price_stats_witness:
  "d_getItemPriceStats 0 (demo_d_init\<lparr>d_history := (\<lambda>_. demo_history)\<rparr>) = Inr (8, 8, 8, 1)"
  using draft_price_stats [of "[8]" "demo_d_init\<lparr>d_history := (\<lambda>_. demo_history)\<rparr>" 0]
  by (simp add: demo_history_def d_is_sale_def uint256_max_def two256_def)

text \<open>The backward search for a price finds the last entry not after the given time.\<close>

lemma d_find_loop_eq:
  "i \<le> length h \<Longrightarrow> d_find_loop h t i =
     (case rev (filter (\<lambda>e. ph_timestamp e \<le> t) (take i h)) of [] \<Rightarrow> 0 | e # _ \<Rightarrow> ph_price e)"
  by (induction i) (auto simp: take_Suc_conv_app_nth)

lemma draft_price_at_time:
  "d_findPriceAtTime h t =
     (let es = filter (\<lambda>e. ph_timestamp e \<le> t) h in if es = [] then 0 else ph_price (last es))"
  by (auto simp: d_findPriceAtTime_def d_find_loop_eq Let_def rev_swap last_rev [symmetric] hd_rev split: list.splits)

end
