(* ===== verification/DraftBooks.thy ===== *)
theory DraftBooks
  imports DraftProps
begin

text \<open>
  What the draft marketplace writes into an item's price history, call by call, and what therefore
  its statistics can show; the Ether of offers that a sale leaves behind; and what one
  offerer can block.
\<close>

section \<open>What each call records\<close>

fun d_recorded :: "msg \<Rightarrow> dcall \<Rightarrow> 'f draft \<Rightarrow> nat \<Rightarrow> PriceHistory list" where
  "d_recorded m (DList c t p) s i =
     (if i = d_itemIds s then [d_history_entry m p (msg_sender m) addr0 LISTING] else [])"
| "d_recorded m (DBuy c k) s i =
     (if i = k then [d_history_entry m (di_price (d_items s k)) (di_seller (d_items s k)) (msg_sender m) SALE] else [])"
| "d_recorded m (DBid k) s i =
     (if i = k then [d_history_entry m (msg_value m) (di_seller (d_items s k)) (msg_sender m) AUCTION_BID] else [])"
| "d_recorded m _ s i = []"

lemma d_exec_history:
  assumes "d_exec F m c s = Inr s'" and "d_this s \<noteq> addr0"
  shows "d_history s' i = d_history s i @ d_recorded m c s i"
proof (cases c)
  case (DList ca t p)
  then show ?thesis using assms(1)
    by (auto simp: d_createMarketItem_def d_createMarketItem_body_def d_op_defs)
next
  case (DBuy ca k)
  then show ?thesis using assms(1)
    by (auto simp: d_createMarketSale_def d_createMarketSale_body_def d_op_defs)
next
  case (DBid k)
  then show ?thesis using assms(1)
    by (auto simp: d_placeBid_def d_placeBid_body_def d_op_defs split: if_splits)
qed (use assms in \<open>auto dest!: d_createAuction_shape d_endAuction_shape d_withdrawBid_shape d_makeOffer_shape d_acceptOffer_shape
    d_ownership_shape\<close>)

text \<open>No call changes the price or the kind of an item that exists, or takes a sale back.\<close>

definition d_item_keeps :: "dItem \<Rightarrow> dItem \<Rightarrow> bool" where
  "d_item_keeps it it' \<longleftrightarrow> di_price it' = di_price it \<and> di_isAuction it' = di_isAuction it \<and> (di_sold it \<longrightarrow> di_sold it')"

lemma d_item_keeps_simps [simp]:
  "d_item_keeps it it" "d_item_keeps it (it\<lparr>di_owner := a, di_sold := True\<rparr>)"
  "d_item_keeps it (it\<lparr>di_sold := True, di_owner := a\<rparr>)"
  "d_item_keeps it (it\<lparr>di_highestBidder := a, di_highestBid := v\<rparr>)"
  by (simp_all add: d_item_keeps_def)

lemma d_exec_item:
  assumes "d_exec F m c s = Inr s'" and "d_this s \<noteq> addr0" and "i \<noteq> d_itemIds s"
  shows "d_item_keeps (d_items s i) (d_items s' i)"
proof (cases c)
  case (DList ca t p)
  then show ?thesis using assms d_createMarketItem_shape [of F m ca t p s s'] by auto
next
  case (DBuy ca k)
  then show ?thesis using assms d_createMarketSale_shape [of F m ca k s s'] by auto
next
  case (DAuction ca t p)
  then show ?thesis using assms d_createAuction_shape [of m ca t p s s'] by auto
next
  case (DBid k)
  then show ?thesis using assms d_placeBid_shape [of m k s s'] by auto
next
  case (DEnd k)
  then show ?thesis using assms d_endAuction_shape [of m k s s'] by auto
next
  case (DWithdraw k)
  then show ?thesis using assms d_withdrawBid_shape [of m k s s'] by auto
next
  case (DOffer k e)
  then show ?thesis using assms d_makeOffer_shape [of m k e s s'] by auto
next
  case (DAccept k l)
  then show ?thesis using assms d_acceptOffer_shape [of m k l s s'] by auto
qed (use assms in \<open>auto dest!: d_ownership_shape\<close>)

lemma d_buy_marks:
  assumes "d_exec F m (DBuy c i) s = Inr s'"
  shows "\<not> di_sold (d_items s i)" and "\<not> di_isAuction (d_items s i)" and "di_sold (d_items s' i)"
  using d_createMarketSale_shape [of F m c i s s'] assms by auto

section \<open>What the statistics can show\<close>

definition d_sales :: "'f draft \<Rightarrow> nat \<Rightarrow> PriceHistory list" where
  "d_sales s i = filter d_is_sale (d_history s i)"

definition d_sales_recorded :: "msg \<Rightarrow> dcall \<Rightarrow> 'f draft \<Rightarrow> nat \<Rightarrow> PriceHistory list" where
  "d_sales_recorded m c s i = filter d_is_sale (d_recorded m c s i)"

lemma d_exec_sales:
  assumes "d_exec F m c s = Inr s'" and "d_this s \<noteq> addr0"
  shows "d_sales s' i = d_sales s i @ d_sales_recorded m c s i"
  using d_exec_history [OF assms] by (simp add: d_sales_def d_sales_recorded_def)

lemma d_sales_recorded_simps [simp]:
  "d_sales_recorded m (DBuy c i) s i =
     [d_history_entry m (di_price (d_items s i)) (di_seller (d_items s i)) (msg_sender m) SALE]"
  "(\<And>ca. call \<noteq> DBuy ca i) \<Longrightarrow> d_sales_recorded m call s i = []"
  by (simp add: d_sales_recorded_def d_history_entry_def d_is_sale_def)
    (cases call; auto simp: d_sales_recorded_def d_history_entry_def d_is_sale_def)

text \<open>Nothing but a purchase at the asking price is recorded as a sale, and it at most once.\<close>

definition d_sales_ok :: "'f draft \<Rightarrow> nat \<Rightarrow> bool" where
  "d_sales_ok s i \<longleftrightarrow> d_sales s i = [] \<or>
     di_sold (d_items s i) \<and> \<not> di_isAuction (d_items s i) \<and> map ph_price (d_sales s i) = [di_price (d_items s i)]"

lemma d_exec_sales_ok:
  assumes "d_exec F m c s = Inr s'" and "draft_ok 0 (now, s)" and "d_sales_ok s i"
  shows "d_sales_ok s' i"
proof (cases "\<exists>ca. c = DBuy ca i")
  case True
  then obtain ca where c: "c = DBuy ca i" ..
  note e = draft_okD(1) [OF assms(2)]
  have this0: "d_this s \<noteq> addr0" using d_entriesD(1) [OF e] .
  have "d_createMarketSale F m ca i s = Inr s'" using assms(1) c by simp
  from d_createMarketSale_shape [OF this] have "i < d_itemIds s"
    using d_bought_exists [OF e draft_okD(3) [OF assms(2)]] by blast
  then have "i \<noteq> d_itemIds s" by simp
  from d_exec_item [OF assms(1) this0 this] d_buy_marks [of F m ca i s s'] d_exec_sales [OF assms(1) this0, of i] assms(1,3) c
  show ?thesis by (auto simp: d_sales_ok_def d_item_keeps_def d_history_entry_def)
next
  case False
  note e = draft_okD(1) [OF assms(2)]
  have this0: "d_this s \<noteq> addr0" using d_entriesD(1) [OF e] .
  have same: "d_sales s' i = d_sales s i"
    using d_exec_sales [OF assms(1) this0, of i] False by simp
  show ?thesis
  proof (cases "i = d_itemIds s")
    case True
    then have "d_sales s i = []"
      using assms(3) d_entriesD(5) [OF e, of i] by (auto simp: d_sales_ok_def d_fresh_def no_dItem_def)
    then show ?thesis using same by (simp add: d_sales_ok_def)
  next
    case False
    then show ?thesis
      using d_exec_item [OF assms(1) this0 False] assms(3) same by (auto simp: d_sales_ok_def d_item_keeps_def)
  qed
qed

lemma d_sales_env [simp]:
  "d_sales (s\<lparr>nfts := N\<rparr>) = d_sales s" "d_sales (s\<lparr>bal := b\<rparr>) = d_sales s"
  by (auto simp: d_sales_def fun_eq_iff)

interpretation sales: invariant_machine "draft_step F" "\<lambda>st. draft_ok 0 st \<and> (\<forall>i. d_sales_ok (snd st) i)" for F
proof
  show "draft_ok 0 st' \<and> (\<forall>i. d_sales_ok (snd st') i)"
    if "draft_step F st st'" "draft_ok 0 st \<and> (\<forall>i. d_sales_ok (snd st) i)" for st st'
    using that
  proof (intro conjI)
    show "draft_ok 0 st'" using that by (auto intro: draft_step_kept)
    show "\<forall>i. d_sales_ok (snd st') i"
      using that by (cases rule: draft_step.cases) (auto intro: d_exec_sales_ok simp: d_sales_ok_def [of "_\<lparr>nfts := _\<rparr>"] d_sales_ok_def [of "_\<lparr>bal := _\<rparr>"], auto simp: d_sales_ok_def)
  qed
qed

lemma d_reachable_sales:
  assumes "d_reachable F now s"
  shows "d_sales_ok s i"
proof -
  have "draft_ok 0 (now, s) \<and> (\<forall>i. d_sales_ok (snd (now, s)) i)"
    using assms
  proof (induction rule: d_reachable.induct)
    case (init this ch now m fac)
    then show ?case using draft_ok_init [OF init] by (simp add: d_sales_ok_def d_sales_def d_constructor_def)
  next
    case (step now s now' s')
    then show ?case using sales.inv_step [OF step(2)] by simp
  qed
  then show ?thesis by simp
qed

lemma d_stats_of_sales:
  shows "d_sales s i = [] \<Longrightarrow> d_getItemPriceStats i s = Inr (0, 0, 0, 0)"
    and "map ph_price (d_sales s i) = [p] \<Longrightarrow> p < uint256_max \<Longrightarrow> d_getItemPriceStats i s = Inr (p, p, p, 1)"
  using d_stats_loop_eq [OF refl, of "d_history s i"]
  by (auto simp: d_getItemPriceStats_def d_stats_result_def d_sales_def uint256_max_def)

text \<open>The statistics of an item are those of at most one sale, at the asking price of a fixed-price item.\<close>

theorem draft_statistics_one_sale:
  assumes "d_reachable F now s" and "di_price (d_items s i) < uint256_max"
  shows "d_getItemPriceStats i s = Inr (0, 0, 0, 0) \<or>
    di_sold (d_items s i) \<and> \<not> di_isAuction (d_items s i) \<and>
    d_getItemPriceStats i s = Inr (di_price (d_items s i), di_price (d_items s i), di_price (d_items s i), 1)"
  using d_reachable_sales [OF assms(1), of i] d_stats_of_sales [of s i] assms(2)
  by (auto simp: d_sales_ok_def)

text \<open>An item sold without a record of the sale stays so.\<close>

interpretation unrecorded: invariant_machine "draft_step F"
    "\<lambda>st. draft_ok 0 st \<and> di_sold (d_items (snd st) i) \<and> d_sales (snd st) i = []" for F i
proof
  fix st st'
  assume st: "draft_step F st st'" and inv: "draft_ok 0 st \<and> di_sold (d_items (snd st) i) \<and> d_sales (snd st) i = []"
  have ok: "draft_ok 0 st'" using st inv by (blast intro: draft_step_kept)
  have "di_sold (d_items (snd st') i) \<and> d_sales (snd st') i = []"
    using st
  proof (cases rule: draft_step.cases)
    case (call s m now c s')
    with inv have e: "d_entries s" and sold: "di_sold (d_items s i)" "d_sales s i = []"
      by (auto simp: draft_ok_def)
    have this0: "d_this s \<noteq> addr0" using d_entriesD(1) [OF e] .
    have "i \<noteq> d_itemIds s" using sold(1) d_entriesD(5) [OF e, of i] by (auto simp: d_fresh_def no_dItem_def)
    moreover have "c \<noteq> DBuy ca i" for ca
      using d_buy_marks(1) [of F m ca i s s'] sold(1) call by auto
    ultimately show ?thesis
      using d_exec_item [OF call(5) this0, of i] d_exec_sales [OF call(5) this0, of i] sold call(2)
      by (simp add: d_item_keeps_def)
  qed (use inv in auto)
  with ok show "draft_ok 0 st' \<and> di_sold (d_items (snd st') i) \<and> d_sales (snd st') i = []" by simp
qed

text \<open>
  C25. Sales the draft's statistics never show: an item that is sold by ending its auction or by accepting an
  offer has the statistics of an item never sold, in that state and in every later one, whatever calls are made, since
  neither function writes to the price history. The token contracts are \<open>NFTCollection\<close> contracts.
\<close>

theorem draft_sales_uncounted:
  assumes "d_reachable F now s" and "d_outside s (msg_sender m)" and "now \<le> block_timestamp m"
    and "d_endAuction m i s = Inr s1 \<or> d_acceptOffer m i k s = Inr s1"
    and "rtranclp (draft_step F) (block_timestamp m, s1) (later, s2)"
  shows "di_sold (d_items s2 i) \<and> d_getItemPriceStats i s2 = Inr (0, 0, 0, 0)"
proof -
  have this0: "d_this s \<noteq> addr0" using d_entriesD(1) [OF d_reachable_parts(1) [OF assms(1)]] .
  obtain c where c: "d_exec F m c s = Inr s1" "c = DEnd i \<or> c = DAccept i k"
    using assms(4) by (metis d_exec.simps(5,8))
  have unsold: "\<not> di_sold (d_items s i)" and sold: "di_sold (d_items s1 i)"
    using assms(4) d_endAuction_shape [of m i s s1] d_acceptOffer_shape [of m i k s s1] this0 by auto
  have "d_sales s1 i = []"
    using d_exec_sales [OF c(1) this0, of i] c(2) unsold d_reachable_sales [OF assms(1), of i] by (auto simp: d_sales_ok_def)
  moreover have "draft_ok 0 (block_timestamp m, s1)"
    by (rule d_exec_kept [OF d_reachable_ok [OF assms(1)] assms(3,2) c(1)])
  ultimately have "di_sold (d_items s2 i) \<and> d_sales s2 i = []"
    using unrecorded.inv_run [OF assms(5), of i] sold by simp
  then show ?thesis using d_stats_of_sales(1) by blast
qed

theorem draft_sales_uncounted_witness:
  "\<exists>s1. d_endAuction (d_msg 3 0 700000) 1 demo_d = Inr s1 \<and> di_sold (d_items s1 1) \<and>
     d_getItemPriceStats 1 s1 = Inr (0, 0, 0, 0)"
proof -
  obtain s1 where "d_endAuction (d_msg 3 0 700000) 1 demo_d = Inr s1"
    using d_endAuction_succeeds [OF demo_d_reachable, of 1 "d_msg 3 0 700000"] by (auto simp: demo_d_simps1)
  moreover have "d_outside demo_d 3" by (simp add: d_outside_def demo_d_simps)
  ultimately show ?thesis
    using draft_sales_uncounted [OF demo_d_reachable, of "d_msg 3 0 700000" 1 s1 0, OF _ _ _ rtranclp.rtrancl_refl] by simp
qed

section \<open>Offers on a sold item\<close>

text \<open>
  C18. Offers lost by a purchase: after a purchase of an item at its asking price, under whichever collection, in every later
  state, whatever calls are made, the contract holds the sum of the offers made on it beyond all it owes (as in
  \<open>draft_solvent\<close>; the token contracts are \<open>NFTCollection\<close> contracts). \<open>createMarketSale\<close> refunds no offer, and no
  other function pays one out once the item is sold: this Ether never leaves the contract.
\<close>

theorem draft_offers_locked:
  assumes "d_reachable F now s" and "d_outside s (msg_sender m)" and "now \<le> block_timestamp m"
    and "d_createMarketSale F m c i s = Inr s1"
    and "rtranclp (draft_step F) (block_timestamp m, s1) (later, s2)"
  shows "(\<Sum>j < n.
      (if di_sold (d_items s2 j) then 0
       else (if j < d_itemIds s2 then LISTING_PRICE else 0) + sum_list (map do_price (d_offers s2 j))) +
      (if di_sold (d_items s2 j) \<and> di_auctionEndTime (d_items s2 j) \<le> later then 0 else di_highestBid (d_items s2 j)) +
      (\<Sum>a \<in> UNIV. d_pendingReturns s2 j a)) + sum_list (map do_price (d_offers s i)) \<le> bal s2 (d_this s2)"
proof -
  have "draft_ok (0 + sum_list (map do_price (d_offers s i))) (block_timestamp m, s1)"
    by (rule d_createMarketSale_surplus [OF d_reachable_ok [OF assms(1)] assms(3,2,4)])
  from draft.inv_run [OF assms(5) this] show ?thesis
    by (simp add: draft_ok_def d_solvent_def d_claim_def)
qed

lemma fac_updateCollectionStats_demo [simp]: "fac_updateCollectionStats demo_factory f c p b = Inr f"
  by (simp add: demo_factory_def)

theorem draft_offers_locked_witness:
  "\<exists>s1. d_createMarketSale demo_factory (d_msg 3 70 1001) 100 0 demo_d = Inr s1 \<and> 110 \<le> bal s1 (d_this s1)"
proof -
  let ?m = "d_msg 3 70 1001"
  have out: "d_outside demo_d 3" by (simp add: d_outside_def demo_d_simps)
  obtain s1 where s1: "d_createMarketSale demo_factory ?m 100 0 demo_d = Inr s1"
    using d_sale_succeeds [OF demo_d_reachable, of 0 ?m 100] out
    by (auto simp: demo_d_simps1)
  from draft_offers_locked [OF demo_d_reachable _ _ s1 rtranclp.rtrancl_refl, of 0] out show ?thesis
    by (intro exI [of _ s1]) (simp add: demo_d_simps1 s1 [unfolded One_nat_def])
qed

text \<open>
  One offerer whose account refuses Ether, or a contract that does, blocks the acceptance of every other offer while its own has not
  expired: the refund loop reverts the call.
\<close>

lemma d_refund_loop_accepts:
  "d_refund_loop m k i os s = Inr s' \<Longrightarrow> j < length os \<Longrightarrow> i + j \<noteq> k \<Longrightarrow>
   block_timestamp m \<le> do_expirationTime (os ! j) \<Longrightarrow> accepts s (do_buyer (os ! j))"
proof (induction os arbitrary: i j s)
  case (Cons off os)
  show ?case
  proof (cases j)
    case 0
    then show ?thesis using Cons.prems by auto
  next
    case (Suc l)
    obtain s1 where "d_refund_loop m k (Suc i) os s1 = Inr s'" "accepts s1 = accepts s"
      using Cons.prems(1) by (auto split: if_splits)
    then show ?thesis using Cons.IH [of "Suc i" s1 l] Cons.prems(2-4) Suc by simp
  qed
qed simp

lemma d_accept_parts_accepts:
  "d_mark_accepted i it off s = Inr s' \<Longrightarrow> accepts s' = accepts s"
  "d_pay_accepted it off s = Inr s' \<Longrightarrow> accepts s' = accepts s"
  by (auto simp: d_parts d_set_item_def emit_def)

theorem draft_accept_blocked:
  assumes "j < length (d_offers s i)" and "j \<noteq> k" and "block_timestamp m \<le> do_expirationTime (d_offers s i ! j)"
    and "\<not> accepts s (do_buyer (d_offers s i ! j))"
  shows "\<not> is_ok (d_acceptOffer m i k s)"
proof
  assume "is_ok (d_acceptOffer m i k s)"
  then obtain off s1 s2 s3 where "d_mark_accepted i (d_items s i) off (s\<lparr>d_entered := True\<rparr>) = Inr s1"
    and "d_pay_accepted (d_items s i) off s1 = Inr s2" and loop: "d_refund_loop m k 0 (d_offers s i) s2 = Inr s3"
    by (auto simp: is_ok_iff d_acceptOffer_def d_acceptOffer_body_def d_nonReentrant_def Let_def)
  then have "accepts s2 = accepts s" by (auto dest!: d_accept_parts_accepts)
  then show False using d_refund_loop_accepts [OF loop, of j] assms by simp
qed

end
