(* ===== verification/DraftLife.thy ===== *)
theory DraftLife
  imports DraftBooks
begin

text \<open>
  The specification of the draft marketplace as a book of lots: each lot has a life of its own, from the
  offer over bids to the new holder, and a call changes at most one lot. The refinement is
  a simulation that forgets Ether, tokens, offers, refunds and statistics.
\<close>

section \<open>The book\<close>

text \<open>\<open>ForSale\<close> with seller and price; \<open>OnAuction\<close> with seller, starting price, end and standing bid.\<close>

datatype lot =
    Unlisted
  | ForSale address nat
  | OnAuction address nat nat "(address \<times> nat) option"
  | Gone address
  | Returned address

text \<open>
  A step of one lot at the time \<open>now\<close>, by the account \<open>a\<close>. \<open>sell_out\<close> is the way out of an auction that the
  draft leaves to the seller: an offer made on an id before it is an item can be accepted after the item
  has become an auction, since \<open>acceptOffer\<close> does not look at the kind of the item.
\<close>

inductive lot_step :: "nat \<Rightarrow> address \<Rightarrow> lot \<Rightarrow> lot \<Rightarrow> bool" for now a where
  list: "0 < p \<Longrightarrow> lot_step now a Unlisted (ForSale a p)"
| put_up: "0 < p \<Longrightarrow> lot_step now a Unlisted (OnAuction a p (now + AUCTION_DURATION) None)"
| buy: "lot_step now a (ForSale b p) (Gone a)"
| accept: "c \<noteq> addr0 \<Longrightarrow> lot_step now a (ForSale a p) (Gone c)"
| sell_out: "c \<noteq> addr0 \<Longrightarrow> lot_step now a (OnAuction a p e w) (Gone c)"
| bid: "now < e \<Longrightarrow> p + MIN_AUCTION_INCREMENT \<le> v \<Longrightarrow> lot_step now a (OnAuction b p e w) (OnAuction b p e (Some (a, v)))"
| settle: "e \<le> now \<Longrightarrow> lot_step now a (OnAuction b p e (Some (c, v))) (Gone c)"
| give_back: "e \<le> now \<Longrightarrow> lot_step now a (OnAuction b p e None) (Returned b)"

inductive_simps lot_step_final [simp]: "lot_step now a (Gone c) l" "lot_step now a (Returned c) l"

text \<open>A step of the book: time goes on, and at most one lot changes.\<close>

inductive book_step :: "nat \<times> (nat \<Rightarrow> lot) \<Rightarrow> nat \<times> (nat \<Rightarrow> lot) \<Rightarrow> bool" where
  wait: "now \<le> now' \<Longrightarrow> book_step (now, L) (now', L)"
| act: "now \<le> now' \<Longrightarrow> a \<noteq> addr0 \<Longrightarrow> lot_step now' a (L i) l \<Longrightarrow> book_step (now, L) (now', L(i := l))"

section \<open>The abstraction\<close>

definition lot_of :: "dItem \<Rightarrow> lot" where
  "lot_of it =
     (if di_seller it = addr0 then Unlisted
      else if di_sold it then (if di_owner it = addr0 then Returned (di_seller it) else Gone (di_owner it))
      else if di_isAuction it then OnAuction (di_seller it) (di_price it) (di_auctionEndTime it)
        (if di_highestBidder it = addr0 then None else Some (di_highestBidder it, di_highestBid it))
      else ForSale (di_seller it) (di_price it))"

definition book_of :: "nat \<times> 'f draft \<Rightarrow> nat \<times> (nat \<Rightarrow> lot)" where
  "book_of st = (fst st, \<lambda>i. lot_of (d_items (snd st) i))"

lemma book_of_same:
  assumes "d_items s' = d_items s" and "now \<le> now'"
  shows "book_step (book_of (now, s)) (book_of (now', s'))"
  using assms by (simp add: book_of_def book_step.wait)

lemma book_act:
  assumes "d_items s' = (d_items s)(i := it)" and "now \<le> now'" and "a \<noteq> addr0"
    and "lot_step now' a (lot_of (d_items s i)) (lot_of it)"
  shows "book_step (book_of (now, s)) (book_of (now', s'))"
proof -
  have "book_of (now', s') = (now', (snd (book_of (now, s)))(i := lot_of it))"
    using assms(1) by (auto simp: book_of_def fun_eq_iff)
  then show ?thesis
    using assms(2-4) book_step.act [of now now' a "snd (book_of (now, s))" i "lot_of it"] by (simp add: book_of_def)
qed

section \<open>Every call is a step of the book\<close>

text \<open>The lots of an item that does not exist yet and of one that does.\<close>

lemma lot_of_fresh: "d_entries s \<Longrightarrow> lot_of (d_items s (d_itemIds s)) = Unlisted"
  using d_entriesD(5) [of s "d_itemIds s"] by (simp add: d_fresh_def no_dItem_def lot_of_def)

lemma d_seller_exists: "d_entries s \<Longrightarrow> i < d_itemIds s \<Longrightarrow> di_seller (d_items s i) \<noteq> addr0"
  using d_entriesD(4) [of s i] by (simp add: d_item_ok_def)

text \<open>A bid on a lot that is gone takes the bidder's Ether and changes nothing else of the lot.\<close>

lemma lot_of_bid: "di_sold it \<Longrightarrow> lot_of (it\<lparr>di_highestBidder := a, di_highestBid := v\<rparr>) = lot_of it"
  by (simp add: lot_of_def)

lemma book_of_idle:
  assumes "d_items s' = (d_items s)(i := it)" and "lot_of it = lot_of (d_items s i)" and "now \<le> now'"
  shows "book_step (book_of (now, s)) (book_of (now', s'))"
proof -
  have "snd (book_of (now', s')) = snd (book_of (now, s))" using assms(1,2) by (auto simp: book_of_def fun_eq_iff)
  then show ?thesis using assms(3) by (simp add: book_of_def book_step.wait)
qed

lemma d_exec_book:
  assumes ok: "draft_ok x (now, s)" and le: "now \<le> block_timestamp m" and out: "d_outside s (msg_sender m)"
    and ex: "d_exec F m c s = Inr s'"
  shows "book_step (book_of (now, s)) (book_of (block_timestamp m, s'))"
proof -
  note e = draft_okD(1) [OF ok]
  have a: "msg_sender m \<noteq> addr0" using out by (simp add: d_outside_def)
  show ?thesis
  proof (cases c)
    case (DList ca t p)
    with ex have p: "0 < p" and s': "d_items s' = (d_items s)(d_itemIds s := d_listing_item m ca t p (d_itemIds s))"
      using d_createMarketItem_shape [of F m ca t p s s'] by auto
    have "lot_of (d_listing_item m ca t p (d_itemIds s)) = ForSale (msg_sender m) p"
      using a by (simp add: lot_of_def d_listing_item_def)
    then show ?thesis
      using lot_step.list [OF p] by (intro book_act [OF s' le a]) (simp add: lot_of_fresh [OF e])
  next
    case (DAuction ca t p)
    let ?until = "block_timestamp m + AUCTION_DURATION"
    from DAuction ex have p: "0 < p" and s': "d_items s' = (d_items s)(d_itemIds s := d_auction_item m ca t p (d_itemIds s) ?until)"
      using d_createAuction_shape [of m ca t p s s'] by auto
    have "lot_of (d_auction_item m ca t p (d_itemIds s) ?until) = OnAuction (msg_sender m) p ?until None"
      using a by (simp add: lot_of_def d_auction_item_def)
    then show ?thesis
      using lot_step.put_up [OF p] by (intro book_act [OF s' le a]) (simp add: lot_of_fresh [OF e])
  next
    case (DBuy ca i)
    with ex have g: "\<not> di_isAuction (d_items s i)" "\<not> di_sold (d_items s i)"
      and s': "d_items s' = (d_items s)(i := (d_items s i)\<lparr>di_owner := msg_sender m, di_sold := True\<rparr>)"
      and i: "i < d_itemIds s"
      using d_createMarketSale_shape [of F m ca i s s'] d_bought_exists [OF e draft_okD(3) [OF ok]] by auto
    show ?thesis
      using a g d_seller_exists [OF e i]
      by (intro book_act [OF s' le a]) (auto simp: lot_of_def intro: lot_step.buy)
  next
    case (DBid i)
    with ex have g: "di_isAuction (d_items s i)" "block_timestamp m < di_auctionEndTime (d_items s i)"
        "di_price (d_items s i) + MIN_AUCTION_INCREMENT \<le> msg_value m"
      and s': "d_items s' = (d_items s)(i := (d_items s i)\<lparr>di_highestBidder := msg_sender m, di_highestBid := msg_value m\<rparr>)"
      using d_placeBid_shape [of m i s s'] by auto
    show ?thesis
    proof (cases "di_sold (d_items s i)")
      case True
      then show ?thesis by (rule book_of_idle [OF s' lot_of_bid le])
    next
      case False
      then show ?thesis
        using a g d_seller_exists [OF e d_item_exists(1) [OF e g(1)]]
        by (intro book_act [OF s' le a]) (auto simp: lot_of_def intro!: lot_step.bid)
    qed
  next
    case (DEnd i)
    with ex have g: "di_isAuction (d_items s i)" "di_auctionEndTime (d_items s i) \<le> block_timestamp m" "\<not> di_sold (d_items s i)"
      and s': "d_items s' = (d_items s)(i := (d_items s i)\<lparr>di_sold := True, di_owner := di_highestBidder (d_items s i)\<rparr>)"
      using d_endAuction_shape [of m i s s'] by auto
    then show ?thesis
      using d_seller_exists [OF e d_item_exists(1) [OF e g(1)]]
      by (intro book_act [OF s' le a]) (auto simp: lot_of_def intro!: lot_step.settle lot_step.give_back)
  next
    case (DAccept i k)
    with ex have g: "msg_sender m = di_seller (d_items s i)" "\<not> di_sold (d_items s i)" "k < length (d_offers s i)"
        "do_buyer (d_offers s i ! k) \<noteq> addr0"
      and s': "d_items s' = (d_items s)(i := (d_items s i)\<lparr>di_sold := True, di_owner := do_buyer (d_offers s i ! k)\<rparr>)"
      using d_acceptOffer_shape [of m i k s s'] d_entriesD(1) [OF e] by auto
    then show ?thesis
      using a by (intro book_act [OF s' le a]) (auto simp: lot_of_def intro!: lot_step.accept lot_step.sell_out)
  next
    case (DWithdraw i)
    with ex have "d_items s' = d_items s" using d_withdrawBid_shape [of m i s s'] by auto
    then show ?thesis using le by (rule book_of_same)
  next
    case (DOffer i t)
    with ex have "d_items s' = d_items s" using d_makeOffer_shape [of m i t s s'] by auto
    then show ?thesis using le by (rule book_of_same)
  next
    case (DTransferOwnership b)
    with ex have "d_items s' = d_items s" using d_ownership_shape(1) [of m b s s'] by auto
    then show ?thesis using le by (rule book_of_same)
  next
    case DRenounceOwnership
    with ex have "d_items s' = d_items s" using d_ownership_shape(2) [of m s s'] by auto
    then show ?thesis using le by (rule book_of_same)
  qed
qed

lemma draft_step_book:
  assumes "draft_ok x st" and "draft_step F st st'"
  shows "book_step (book_of st) (book_of st')"
  using assms(2,1) by (induction rule: draft_step.induct) (auto intro: d_exec_book book_of_same)

interpretation book: simulation "draft_step F" "draft_ok x" book_step book_of for F x
  by unfold_locales (rule draft_step_book)

section \<open>Runs\<close>

definition book_run :: "nat \<times> (nat \<Rightarrow> lot) \<Rightarrow> nat \<times> (nat \<Rightarrow> lot) \<Rightarrow> bool" where
  "book_run = rtranclp book_step"

text \<open>
  C14. The draft is a book of lots: every run of the draft marketplace, by any accounts and any calls, is,
  with Ether, tokens, offers and statistics abstracted away, a run of the book, where each step changes at most one
  lot: a lot for sale goes to a buyer or to whom its seller accepts, a lot in an auction takes bids only before
  its end and goes after it to the last bidder or back, or at any time to whom its seller accepts, and one that is gone
  stays so. The token contracts are \<open>NFTCollection\<close> contracts.
\<close>

theorem draft_refines_book:
  assumes "d_reachable F now s" and "rtranclp (draft_step F) (now, s) (now', s')"
  shows "book_run (book_of (now, s)) (book_of (now', s'))"
  unfolding book_run_def by (rule book.sim_run [OF assms(2) d_reachable_ok [OF assms(1)]])

lemma demo_d_lot: "lot_of (d_items demo_d 1) = OnAuction 2 90 605800 (Some (4, 20000000000000000))"
  by (simp add: lot_of_def demo_d_simps1)

theorem draft_refines_book_witness:
  "\<exists>s1. d_endAuction (d_msg 3 0 700000) 1 demo_d = Inr s1 \<and> book_run (book_of (1000, demo_d)) (book_of (700000, s1)) \<and>
     snd (book_of (1000, demo_d)) 1 = OnAuction 2 90 605800 (Some (4, 20000000000000000)) \<and>
     snd (book_of (700000, s1)) 1 = Gone 4"
proof -
  let ?m = "d_msg 3 0 700000"
  obtain s1 where s1: "d_endAuction ?m 1 demo_d = Inr s1"
    using d_endAuction_succeeds [OF demo_d_reachable, of 1 ?m] by (auto simp: demo_d_simps1)
  have "draft_step demo_factory (1000, demo_d) (block_timestamp ?m, s1)"
    using s1 by (intro draft_step.call [where c = "DEnd 1"]) (simp_all add: d_outside_def demo_d_simps)
  then have run: "rtranclp (draft_step demo_factory) (1000, demo_d) (700000, s1)" by auto
  have "lot_of (d_items s1 1) = Gone 4"
    using d_endAuction_shape [OF s1] by (auto simp: lot_of_def demo_d_simps1)
  with s1 draft_refines_book [OF demo_d_reachable run] demo_d_lot show ?thesis
    by (intro exI [of _ s1]) (simp add: book_of_def)
qed

text \<open>What the book promises carries over: the end of a lot is final.\<close>

definition lot_final :: "lot \<Rightarrow> bool" where
  "lot_final l \<longleftrightarrow> (case l of Gone c \<Rightarrow> True | Returned c \<Rightarrow> True | _ \<Rightarrow> False)"

lemma lot_final_kept: "book_step b b' \<Longrightarrow> lot_final (snd b i) \<Longrightarrow> snd b' i = snd b i"
  by (induction rule: book_step.induct) (auto simp: lot_final_def split: lot.splits)

theorem draft_outcome_final:
  assumes "d_reachable F now s" and "rtranclp (draft_step F) (now, s) (now', s')" and "lot_final (lot_of (d_items s i))"
  shows "lot_of (d_items s' i) = lot_of (d_items s i)"
proof -
  have "snd (book_of (now', s')) i = lot_of (d_items s i)"
    using book.abs_invariant [OF assms(2) d_reachable_ok [OF assms(1)], of "\<lambda>b. snd b i = lot_of (d_items s i)"]
      assms(3) lot_final_kept by (metis book_of_def snd_conv)
  then show ?thesis by (simp add: book_of_def)
qed

end
