(* ===== verification/JsBase.thy ===== *)
theory JsBase
  imports Prelude "HOL-Library.Char_ord"
begin

text \<open>
  The part of JavaScript the server side uses: values, truthiness and \<open>||\<close>, property access that
  throws on \<open>undefined\<close> and \<open>null\<close>, \<open>parseInt\<close>, template literals, the string methods
  \<open>toLowerCase\<close>, \<open>includes\<close>, \<open>split\<close> and \<open>join\<close>, and errors as values. A character is a code
  unit below 256; a number is an integer that a double can hold, an infinity or \<open>NaN\<close>.
\<close>

section \<open>Values\<close>

datatype jsval =
    JUndef
  | JNull
  | JBool bool
  | JNum int
  | JNaN
  | JInf bool
  | JStr string
  | JBuf "nat list"
  | JArr "jsval list"
  | JObj "(string \<times> jsval) list"

fun truthy :: "jsval \<Rightarrow> bool" where
  "truthy JUndef = False"
| "truthy JNull = False"
| "truthy (JBool b) = b"
| "truthy (JNum n) = (n \<noteq> 0)"
| "truthy JNaN = False"
| "truthy (JInf neg) = True"
| "truthy (JStr s) = (s \<noteq> [])"
| "truthy (JBuf b) = True"
| "truthy (JArr xs) = True"
| "truthy (JObj kvs) = True"

definition js_or :: "jsval \<Rightarrow> jsval \<Rightarrow> jsval" where
  "js_or a b = (if truthy a then a else b)"

lemma js_or_simps [simp]:
  "truthy a \<Longrightarrow> js_or a b = a"
  "\<not> truthy a \<Longrightarrow> js_or a b = b"
  by (simp_all add: js_or_def)

lemma truthy_js_or: "truthy b \<Longrightarrow> truthy (js_or a b)"
  by (simp add: js_or_def)

section \<open>Errors\<close>

text \<open>
  An error object with the properties the code reads or writes. \<open>e_errors\<close> lists the messages in
  \<open>Object.values(err.errors)\<close>, \<open>None\<close> when \<open>err.errors\<close> is undefined.
\<close>

record jserr =
  e_name :: string
  e_message :: string
  e_statusCode :: jsval
  e_code :: jsval
  e_errmsg :: jsval
  e_errors :: "string list option"
  e_isOperational :: bool
  e_stack :: string

definition mk_err :: "string \<Rightarrow> string \<Rightarrow> jserr" where
  "mk_err nm msg = \<lparr>e_name = nm, e_message = msg, e_statusCode = JUndef, e_code = JUndef, e_errmsg = JUndef,
     e_errors = None, e_isOperational = False, e_stack = []\<rparr>"

definition new_Error :: "string \<Rightarrow> jserr" where
  "new_Error msg = mk_err ''Error'' msg"

definition TypeError :: "string \<Rightarrow> jserr" where
  "TypeError msg = mk_err ''TypeError'' msg"

definition ReferenceError :: "string \<Rightarrow> jserr" where
  "ReferenceError msg = mk_err ''ReferenceError'' msg"

lemma mk_err_sel [simp]:
  "e_name (mk_err nm msg) = nm" "e_message (mk_err nm msg) = msg"
  "e_statusCode (mk_err nm msg) = JUndef" "e_code (mk_err nm msg) = JUndef"
  "e_isOperational (mk_err nm msg) = False"
  by (simp_all add: mk_err_def)

definition read_of :: "string \<Rightarrow> string \<Rightarrow> jserr" where
  "read_of v k = TypeError (''Cannot read properties of '' @ v @ '' (reading '' @ [CHR 0x27] @ k @ [CHR 0x27] @ '')'')"

fun getp :: "jsval \<Rightarrow> string \<Rightarrow> jserr + jsval" where
  "getp JUndef k = Inl (read_of ''undefined'' k)"
| "getp JNull k = Inl (read_of ''null'' k)"
| "getp (JObj kvs) k = Inr (case map_of kvs k of None \<Rightarrow> JUndef | Some v \<Rightarrow> v)"
| "getp (JArr xs) k = Inr (if k = ''length'' then JNum (int (length xs)) else JUndef)"
| "getp (JStr s) k = Inr (if k = ''length'' then JNum (int (length s)) else JUndef)"
| "getp (JBuf b) k = Inr (if k = ''length'' then JNum (int (length b)) else JUndef)"
| "getp v k = Inr JUndef"

text \<open>A chain of accesses \<open>v.k1.k2\<close>.\<close>

fun getpath :: "jsval \<Rightarrow> string list \<Rightarrow> jserr + jsval" where
  "getpath v [] = Inr v"
| "getpath v (k # ks) = bindE (getp v k) (\<lambda>w. getpath w ks)"

lemma getp_fails_iff: "\<not> is_ok (getp v k) \<longleftrightarrow> v = JUndef \<or> v = JNull"
  by (cases v) auto

lemma getp_Inl:
  assumes "getp v k = Inl er"
  shows "e_name er = ''TypeError''" and "e_code er = JUndef" and "e_statusCode er = JUndef"
  using assms by (cases v; auto simp: read_of_def TypeError_def)+

text \<open>\<open>try { m } catch (e) { h(e) }\<close> for a computation with an error as a value.\<close>

definition catch :: "'e + 'a \<Rightarrow> ('e \<Rightarrow> 'f + 'a) \<Rightarrow> 'f + 'a" where
  "catch m h = (case m of Inl e \<Rightarrow> h e | Inr x \<Rightarrow> Inr x)"

lemma catch_simps [simp]:
  "catch (Inl e) h = h e"
  "catch (Inr x) h = Inr x"
  by (simp_all add: catch_def)

lemma catch_throw_iff:
  "catch m (\<lambda>e. Inl (g e)) = Inr x \<longleftrightarrow> m = Inr x"
  "catch m (\<lambda>e. Inl (g e)) = Inl e' \<longleftrightarrow> (\<exists>e. m = Inl e \<and> e' = g e)"
  by (cases m; auto)+

section \<open>Numbers as text\<close>

definition digit_char :: "nat \<Rightarrow> char" where
  "digit_char d = char_of (48 + d)"

fun show_nat :: "nat \<Rightarrow> string" where
  "show_nat n = (if n < 10 then [digit_char n] else show_nat (n div 10) @ [digit_char (n mod 10)])"

declare show_nat.simps [simp del]

definition show_int :: "int \<Rightarrow> string" where
  "show_int i = (if i < 0 then CHR ''-'' # show_nat (nat (- i)) else show_nat (nat i))"

definition js_ws :: "char \<Rightarrow> bool" where
  "js_ws c \<longleftrightarrow> of_char c \<in> {9, 10, 11, 12, 13, 32, 160 :: nat}"

definition js_trim :: "string \<Rightarrow> string" where
  "js_trim s = rev (dropWhile js_ws (rev (dropWhile js_ws s)))"

definition digit_of :: "nat \<Rightarrow> char \<Rightarrow> nat option" where
  "digit_of radix c =
     (let k = of_char c :: nat;
          d = (if 48 \<le> k \<and> k \<le> 57 then k - 48 else if 97 \<le> k \<and> k \<le> 122 then k - 87
               else if 65 \<le> k \<and> k \<le> 90 then k - 55 else radix)
      in if d < radix then Some d else None)"

definition digits_val :: "nat \<Rightarrow> string \<Rightarrow> nat" where
  "digits_val radix ds = foldl (\<lambda>acc c. acc * radix + the (digit_of radix c)) 0 ds"

definition strip_sign :: "string \<Rightarrow> bool \<times> string" where
  "strip_sign s = (case s of [] \<Rightarrow> (False, [])
     | c # cs \<Rightarrow> if c = CHR ''-'' then (True, cs) else if c = CHR ''+'' then (False, cs) else (False, s))"

definition strip_hex :: "string \<Rightarrow> nat \<times> string" where
  "strip_hex s = (case s of c # d # cs \<Rightarrow>
       if c = CHR ''0'' \<and> (d = CHR ''x'' \<or> d = CHR ''X'') then (16, cs) else (10, s)
     | _ \<Rightarrow> (10, s))"

text \<open>
  The double nearest to a natural number: of its binary digits the first 53 are kept, rounded to the nearest and to an
  even last digit when there are two. \<open>excess\<close> is the number of digits dropped. From \<open>2 ^ 1024\<close> on the result is
  an infinity.
\<close>

fun excess :: "nat \<Rightarrow> nat" where
  "excess n = (if n < 2 ^ 53 then 0 else Suc (excess (n div 2)))"

declare excess.simps [simp del]

definition to_double :: "nat \<Rightarrow> nat" where
  "to_double n =
     (let u = 2 ^ excess n; q = n div u; r = n mod u
      in (if 2 * r > u \<or> 2 * r = u \<and> odd q then q + 1 else q) * u)"

definition js_number :: "bool \<Rightarrow> nat \<Rightarrow> jsval" where
  "js_number neg n =
     (let d = to_double n in if d < 2 ^ 1024 then JNum (if neg then - int d else int d) else JInf neg)"

definition parseInt :: "string \<Rightarrow> jsval" where
  "parseInt s =
     (let (neg, t) = strip_sign (dropWhile js_ws s);
          (radix, u) = strip_hex t;
          ds = takeWhile (\<lambda>c. digit_of radix c \<noteq> None) u
      in if ds = [] then JNaN else js_number neg (digits_val radix ds))"

text \<open>
  The string an argument is converted to, in \<open>parseInt(x)\<close> and in a template literal. A number is written with all its
  digits; JavaScript does so up to \<open>2 ^ 53\<close>, and fills up with zeros or writes an exponent beyond.
\<close>

fun js_String :: "jsval \<Rightarrow> string" where
  "js_String JUndef = ''undefined''"
| "js_String JNull = ''null''"
| "js_String (JBool b) = (if b then ''true'' else ''false'')"
| "js_String (JNum n) = show_int n"
| "js_String JNaN = ''NaN''"
| "js_String (JInf neg) = (if neg then ''-Infinity'' else ''Infinity'')"
| "js_String (JStr s) = s"
| "js_String (JBuf b) = map char_of b"
| "js_String (JArr xs) = concat (case map js_String xs of [] \<Rightarrow> [] | y # ys \<Rightarrow> y # map (\<lambda>z. CHR '','' # z) ys)"
| "js_String (JObj kvs) = ''[object Object]''"

lemma digit_of_digit_char: "d < 10 \<Longrightarrow> digit_of 10 (digit_char d) = Some d"
  by (simp add: digit_of_def digit_char_def Let_def of_char_of)

lemma digit_char_not_ws: "d < 10 \<Longrightarrow> \<not> js_ws (digit_char d)"
  by (simp add: js_ws_def digit_char_def of_char_of)

lemma of_digit_char: "d < 10 \<Longrightarrow> of_char (digit_char d) = (48 + d :: nat)"
  by (simp add: digit_char_def of_char_of)

lemma show_nat_digits: "c \<in> set (show_nat n) \<Longrightarrow> \<exists>d < 10. c = digit_char d"
proof (induction n rule: show_nat.induct)
  case (1 n)
  show ?case
  proof (cases "n < 10")
    case True
    with 1(2) show ?thesis by (auto simp: show_nat.simps [of n])
  next
    case False
    with 1 have "c \<in> set (show_nat (n div 10)) \<or> c = digit_char (n mod 10)"
      by (auto simp: show_nat.simps [of n])
    moreover have "n mod 10 < 10" by simp
    ultimately show ?thesis using 1(1) [OF False] by blast
  qed
qed

lemma show_nat_ne [simp]: "show_nat n \<noteq> []"
  by (subst show_nat.simps) auto

lemma digits_val_show_nat: "digits_val 10 (show_nat n) = n"
proof (induction n rule: show_nat.induct)
  case (1 n)
  then show ?case
    by (subst show_nat.simps) (auto simp: digits_val_def digit_of_digit_char)
qed

lemma show_nat_Cons:
  obtains d ds where "show_nat n = digit_char d # ds" and "d < 10"
  by (metis list.exhaust list.set_intros(1) show_nat_digits show_nat_ne)

lemma digit_char_eq_iff: "d < 10 \<Longrightarrow> digit_char d = c \<longleftrightarrow> of_char c = 48 + d"
  by (metis char_of_eq_iff digit_char_def of_digit_char)

lemma to_double_small: "n \<le> 2 ^ 53 \<Longrightarrow> to_double n = n"
proof -
  assume n: "n \<le> 2 ^ 53"
  have e: "excess n = (if n < 2 ^ 53 then 0 else Suc (excess (n div 2)))" by (rule excess.simps)
  show ?thesis
  proof (cases "n < 2 ^ 53")
    case True
    with e show ?thesis by (simp add: to_double_def)
  next
    case False
    then have "n = 2 ^ 53" using n by simp
    moreover from this have "excess n = 1" by (simp add: excess.simps)
    ultimately show ?thesis by (simp add: to_double_def)
  qed
qed

lemma excess_le: "0 < n \<Longrightarrow> 2 ^ excess n \<le> n"
proof (induction n rule: excess.induct)
  case (1 n)
  show ?case
  proof (cases "n < 2 ^ 53")
    case True
    then show ?thesis using "1.prems" by (simp add: excess.simps [of n])
  next
    case False
    then have "2 ^ excess (n div 2) \<le> n div 2" by (intro "1.IH") simp_all
    then show ?thesis using False by (simp add: excess.simps [of n])
  qed
qed

lemma to_double_pos: "0 < n \<Longrightarrow> 0 < to_double n"
  using excess_le [of n] by (auto simp: to_double_def Let_def div_greater_zero_iff)

text \<open>The result is off by at most half of the last digit kept.\<close>

lemma to_double_near: "2 * n \<le> 2 * to_double n + 2 ^ excess n" "2 * to_double n \<le> 2 * n + 2 ^ excess n"
proof -
  define u q r :: nat where "u = 2 ^ excess n" and "q = n div u" and "r = n mod u"
  then have n: "n = q * u + r" and r: "r < u" by (simp_all add: div_mult_mod_eq)
  have d: "to_double n = q * u + (if 2 * r > u \<or> 2 * r = u \<and> odd q then u else 0)"
    by (simp add: to_double_def Let_def u_def q_def r_def)
  show "2 * n \<le> 2 * to_double n + 2 ^ excess n" "2 * to_double n \<le> 2 * n + 2 ^ excess n"
    using n r unfolding d u_def [symmetric] by (simp_all split: if_splits)
qed

lemma truthy_js_number [simp]: "0 < n \<Longrightarrow> truthy (js_number neg n)"
  using to_double_pos [of n] by (simp add: js_number_def Let_def)

lemma js_number_small: "n \<le> 2 ^ 53 \<Longrightarrow> js_number False n = JNum (int n)"
proof -
  assume n: "n \<le> 2 ^ 53"
  have "(2 :: nat) ^ 53 < 2 ^ 1024" by (rule power_strict_increasing) simp_all
  then have "n < 2 ^ 1024" using n by (rule order.strict_trans1 [rotated])
  then show ?thesis using to_double_small [OF n] by (simp add: js_number_def)
qed

lemma parseInt_show_nat [simp]: "parseInt (show_nat n) = js_number False n"
proof -
  obtain d ds where s: "show_nat n = digit_char d # ds" and d: "d < 10" by (rule show_nat_Cons)
  have "dropWhile js_ws (show_nat n) = show_nat n"
    using s d digit_char_not_ws by simp
  moreover have "strip_sign (show_nat n) = (False, show_nat n)"
    using s d by (simp add: strip_sign_def digit_char_eq_iff)
  moreover have "strip_hex (show_nat n) = (10, show_nat n)"
  proof (cases ds)
    case Nil
    then show ?thesis using s by (simp add: strip_hex_def)
  next
    case (Cons e es)
    then have "e \<in> set (show_nat n)" using s by simp
    then obtain k where "k < 10" "e = digit_char k" using show_nat_digits by blast
    then show ?thesis using s Cons by (auto simp: strip_hex_def digit_char_eq_iff)
  qed
  moreover have "takeWhile (\<lambda>c. digit_of 10 c \<noteq> None) (show_nat n) = show_nat n"
    by (subst takeWhile_eq_all_conv) (auto dest!: show_nat_digits simp: digit_of_digit_char)
  ultimately show ?thesis
    by (simp only: parseInt_def digits_val_show_nat Let_def prod.case) simp
qed

lemma parseInt_number: "parseInt s = JNaN \<or> (\<exists>k. parseInt s = JNum k) \<or> (\<exists>neg. parseInt s = JInf neg)"
  by (auto simp: parseInt_def js_number_def Let_def split: prod.splits)

section \<open>Strings\<close>

definition lower_char :: "char \<Rightarrow> char" where
  "lower_char c = (let k = of_char c :: nat in
     if (65 \<le> k \<and> k \<le> 90) \<or> (192 \<le> k \<and> k \<le> 222 \<and> k \<noteq> 215) then char_of (k + 32) else c)"

definition toLowerCase :: "string \<Rightarrow> string" where
  "toLowerCase s = map lower_char s"

lemma lower_char_idem: "lower_char (lower_char c) = lower_char c"
proof -
  have "(of_char c :: nat) < 256" by (cases c) simp
  then show ?thesis by (auto simp: lower_char_def Let_def of_char_of)
qed

lemma toLowerCase_idem [simp]: "toLowerCase (toLowerCase s) = toLowerCase s"
  by (simp add: toLowerCase_def lower_char_idem)

definition js_includes :: "string \<Rightarrow> string \<Rightarrow> bool" where
  "js_includes s p \<longleftrightarrow> p \<in> set (concat (map prefixes (suffixes s)))"

lemma js_includes_iff: "js_includes s p \<longleftrightarrow> sublist p s"
  by (auto simp: js_includes_def sublist_altdef')

text \<open>\<open>s.split(c)[0]\<close> for a one-character separator.\<close>

definition split_head :: "char \<Rightarrow> string \<Rightarrow> string" where
  "split_head c s = takeWhile (\<lambda>x. x \<noteq> c) s"

fun js_join :: "string \<Rightarrow> string list \<Rightarrow> string" where
  "js_join sep [] = []"
| "js_join sep [x] = x"
| "js_join sep (x # y # ys) = x @ sep @ js_join sep (y # ys)"

section \<open>The environment variables of the process\<close>

type_synonym env = "string \<Rightarrow> string option"

definition getenv :: "env \<Rightarrow> string \<Rightarrow> jsval" where
  "getenv e k = (case e k of None \<Rightarrow> JUndef | Some s \<Rightarrow> JStr s)"

definition parseEnv :: "env \<Rightarrow> string \<Rightarrow> jsval" where
  "parseEnv e k = parseInt (js_String (getenv e k))"

lemma getenv_simps [simp]:
  "e k = None \<Longrightarrow> getenv e k = JUndef"
  "e k = Some s \<Longrightarrow> getenv e k = JStr s"
  by (simp_all add: getenv_def)

lemma parseEnv_undef: "e k = None \<Longrightarrow> parseEnv e k = JNaN"
  by (simp add: parseEnv_def parseInt_def strip_sign_def strip_hex_def js_ws_def digit_of_def Let_def)

lemma parseEnv_num: "e k = Some (show_nat n) \<Longrightarrow> parseEnv e k = js_number False n"
  by (simp add: parseEnv_def)

end
