(* ===== verification/Middleware.thy ===== *)
theory Middleware
  imports JsBase
begin

text \<open>
  \<open>src/middlewares\<close>: the error middleware with its \<open>AppError\<close> class and the pattern that finds
  the duplicated value in a MongoDB message, the upload filter, the input check of an NFT, and the
  schema of \<open>src/validators/collection.validator.js\<close>.
\<close>

section \<open>Requests and responses\<close>

record request =
  rq_method :: string
  rq_originalUrl :: string
  rq_ip :: string
  rq_params :: jsval
  rq_body :: jsval
  rq_user :: jsval
  rq_file :: "nat list option"

text \<open>
  A JSON body, or the body of \<open>sendErrorDev\<close>, which shows the whole error object next to its
  message and stack.
\<close>

datatype body = JsonBody jsval | DevErrorBody jserr

record response =
  r_status :: jsval
  r_body :: body

section \<open>error.middleware.js\<close>

text \<open>\<open>trace\<close> is the text \<open>Error.captureStackTrace\<close> leaves in \<open>stack\<close>.\<close>

definition AppError :: "string \<Rightarrow> int \<Rightarrow> string \<Rightarrow> bool \<Rightarrow> string \<Rightarrow> jserr" where
  "AppError trace statusCode message isOperational stack =
     (new_Error message)\<lparr>e_statusCode := JNum statusCode, e_isOperational := isOperational,
        e_stack := (if stack \<noteq> [] then stack else trace)\<rparr>"

text \<open>\<open>new AppError(statusCode, message)\<close>, with the default arguments.\<close>

definition new_AppError :: "string \<Rightarrow> int \<Rightarrow> string \<Rightarrow> jserr" where
  "new_AppError trace statusCode message = AppError trace statusCode message True []"

text \<open>
  The pattern \<open>/(["'])(\\?.)*?\1/\<close>: after the opening quote \<open>q\<close> the lazy group tries the closing
  quote first, then one more \<open>\\?.\<close>, where the optional backslash is taken when it can be and
  given back when the rest does not match. The dot does not match a line terminator.
\<close>

definition newline_char :: "char \<Rightarrow> bool" where
  "newline_char c \<longleftrightarrow> of_char c \<in> {10, 13 :: nat}"

definition quote_char :: "char \<Rightarrow> bool" where
  "quote_char c \<longleftrightarrow> of_char c \<in> {34, 39 :: nat}"

fun match_tail :: "char \<Rightarrow> string \<Rightarrow> string option" where
  "match_tail q [] = None"
| "match_tail q (c # cs) =
     (if c = q then Some [c]
      else
        let dot = (if newline_char c then None else map_option (Cons c) (match_tail q cs))
        in case cs of
             d # ds \<Rightarrow>
               if of_char c = (92 :: nat) \<and> \<not> newline_char d
               then (case match_tail q ds of Some r \<Rightarrow> Some (c # d # r) | None \<Rightarrow> dot)
               else dot
           | [] \<Rightarrow> dot)"

fun match_quoted :: "string \<Rightarrow> string option" where
  "match_quoted [] = None"
| "match_quoted (c # cs) =
     (if quote_char c
      then (case match_tail c cs of Some r \<Rightarrow> Some (c # r) | None \<Rightarrow> match_quoted cs)
      else match_quoted cs)"

text \<open>\<open>err.errmsg.match(...)[0]\<close>, with the \<open>TypeError\<close>s it can end in.\<close>

definition duplicate_value :: "jsval \<Rightarrow> jserr + string" where
  "duplicate_value errmsg = (case errmsg of
       JStr s \<Rightarrow> (case match_quoted s of Some v \<Rightarrow> Inr v | None \<Rightarrow> Inl (read_of ''null'' ''0''))
     | JUndef \<Rightarrow> Inl (read_of ''undefined'' ''match'')
     | JNull \<Rightarrow> Inl (read_of ''null'' ''match'')
     | _ \<Rightarrow> Inl (TypeError ''err.errmsg.match is not a function''))"

definition classify_validation :: "string \<Rightarrow> jserr \<Rightarrow> jserr + jserr" where
  "classify_validation trace err =
     (if e_name err = ''ValidationError''
      then (case e_errors err of
          None \<Rightarrow> Inl (TypeError ''Cannot convert undefined or null to object'')
        | Some errors \<Rightarrow> Inr (new_AppError trace 400 (''Invalid input data. '' @ js_join ''. '' errors)))
      else Inr err)"

definition classify_duplicate :: "string \<Rightarrow> jserr \<Rightarrow> jserr + jserr" where
  "classify_duplicate trace err =
     (if e_code err = JNum 11000
      then bindE (duplicate_value (e_errmsg err)) (\<lambda>value.
        Inr (new_AppError trace 400 (''Duplicate field value: '' @ value @ ''. Please use another value!'')))
      else Inr err)"

definition classify_token :: "string \<Rightarrow> jserr \<Rightarrow> jserr" where
  "classify_token trace err =
     (let err1 = (if e_name err = ''JsonWebTokenError''
                  then new_AppError trace 401 ''Invalid token. Please log in again!'' else err)
      in if e_name err1 = ''TokenExpiredError''
         then new_AppError trace 401 ''Your token has expired! Please log in again.'' else err1)"

definition sendErrorDev :: "jserr \<Rightarrow> response" where
  "sendErrorDev err = \<lparr>r_status = e_statusCode err, r_body = DevErrorBody err\<rparr>"

text \<open>The response, and the lines logged for an unexpected error.\<close>

definition sendErrorProd :: "jserr \<Rightarrow> (string \<times> jserr) list \<times> response" where
  "sendErrorProd err =
     (if e_isOperational err
      then ([], \<lparr>r_status = e_statusCode err,
            r_body = JsonBody (JObj [(''status'', JStr ''error''), (''message'', JStr (e_message err))])\<rparr>)
      else ([(''ERROR'', err)], \<lparr>r_status = JNum 500,
            r_body = JsonBody (JObj [(''status'', JStr ''error''), (''message'', JStr ''Something went very wrong!'')])\<rparr>))"

record error_log =
  el_message :: string
  el_stack :: string
  el_statusCode :: jsval
  el_method :: string
  el_url :: string
  el_ip :: string
  el_userId :: jsval

definition log_entry :: "request \<Rightarrow> jserr \<Rightarrow> error_log" where
  "log_entry req err =
     \<lparr>el_message = e_message err, el_stack = e_stack err, el_statusCode = e_statusCode err,
      el_method = rq_method req, el_url = rq_originalUrl req, el_ip = rq_ip req,
      el_userId = (if truthy (rq_user req)
                   then (case getp (rq_user req) ''id'' of Inr v \<Rightarrow> v | Inl _ \<Rightarrow> JUndef)
                   else JStr ''unauthenticated'')\<rparr>"

definition with_defaults :: "jserr \<Rightarrow> jserr" where
  "with_defaults err = err\<lparr>e_statusCode := js_or (e_statusCode err) (JNum 500),
     e_message := (if e_message err = [] then ''Internal Server Error'' else e_message err)\<rparr>"

text \<open>The error the response is about, or the exception thrown while classifying.\<close>

definition classify :: "string \<Rightarrow> jserr \<Rightarrow> jserr + jserr" where
  "classify trace err =
     bindE (classify_validation trace (with_defaults err)) (\<lambda>err1.
     bindE (classify_duplicate trace err1) (\<lambda>err2. Inr (classify_token trace err2)))"

text \<open>
  The middleware: the log entry written first, then the exception thrown or the lines logged and
  the response sent, if any.
\<close>

definition errorMiddleware ::
  "env \<Rightarrow> string \<Rightarrow> jserr \<Rightarrow> request \<Rightarrow> error_log \<times> (jserr + (string \<times> jserr) list \<times> response option)" where
  "errorMiddleware e trace err req =
     (log_entry req (with_defaults err),
      bindE (classify trace err) (\<lambda>err'.
        if e ''NODE_ENV'' = Some ''development'' then Inr ([], Some (sendErrorDev err'))
        else if e ''NODE_ENV'' = Some ''production''
        then (case sendErrorProd err' of (ls, r) \<Rightarrow> Inr (ls, Some r))
        else Inr ([], None)))"

definition answer :: "error_log \<times> (jserr + (string \<times> jserr) list \<times> response option) \<Rightarrow> response option" where
  "answer r = (case snd r of Inl _ \<Rightarrow> None | Inr (ls, a) \<Rightarrow> a)"

section \<open>upload.middleware.js\<close>

definition allowedTypes :: "string list" where
  "allowedTypes = [''image/jpeg'', ''image/png'', ''image/gif'', ''image/webp'']"

text \<open>The two arguments of the callback: the error or \<open>null\<close>, and whether the file is accepted.\<close>

definition fileFilter :: "string \<Rightarrow> jserr option \<times> bool" where
  "fileFilter mimetype =
     (if mimetype \<notin> set allowedTypes
      then (Some ((new_Error ''Invalid file type. Only JPEG, PNG, GIF, and WEBP are allowed.'')
              \<lparr>e_code := JStr ''INVALID_FILE_TYPE''\<rparr>), False)
      else (None, True))"

definition fileSize_limit :: nat where
  "fileSize_limit = 5 * 1024 * 1024"

section \<open>validation.middleware.js\<close>

definition validateNFTInput :: "jsval \<Rightarrow> jserr + string option" where
  "validateNFTInput nftData =
     bindE (getp nftData ''name'') (\<lambda>name.
       if \<not> truthy name then Inr (Some ''Name is required'')
       else bindE (getp nftData ''image'') (\<lambda>image.
         bindE (getp nftData ''imageUrl'') (\<lambda>imageUrl.
           if \<not> truthy image \<and> \<not> truthy imageUrl then Inr (Some ''Image or imageUrl is required'')
           else bindE (getp nftData ''attributes'') (\<lambda>attributes.
             if truthy attributes \<and> (case attributes of JArr _ \<Rightarrow> False | _ \<Rightarrow> True)
             then Inr (Some ''Attributes must be an array'') else Inr None))))"

section \<open>collection.validator.js\<close>

datatype joi_rule = Required | OptionalKey | MinLen nat | MaxLen nat | Valid "string list" | Uri

definition validateCollection_schema :: "(string \<times> joi_rule list) list" where
  "validateCollection_schema =
    [(''name'', [Required, MinLen 3, MaxLen 50]),
     (''symbol'', [Required, MinLen 2, MaxLen 10]),
     (''description'', [MaxLen 1000]),
     (''category'', [Required, Valid [''art'', ''gaming'', ''music'', ''sports'', ''photography'']]),
     (''websiteUrl'', [Uri, OptionalKey]),
     (''discordUrl'', [Uri, OptionalKey]),
     (''twitterUrl'', [Uri, OptionalKey])]"

text \<open>
  \<open>schema.validate(data)\<close> of the package \<open>joi\<close> is the parameter \<open>validate\<close>: the message of the
  first detail of the error, or none.
\<close>

definition validateCollection ::
  "((string \<times> joi_rule list) list \<Rightarrow> jsval \<Rightarrow> string option) \<Rightarrow> jsval \<Rightarrow> string option" where
  "validateCollection validate data = validate validateCollection_schema data"

section \<open>The pattern\<close>

definition quoted_at :: "string \<Rightarrow> string \<Rightarrow> string \<Rightarrow> string \<Rightarrow> bool" where
  "quoted_at s a v b \<longleftrightarrow> s = a @ v @ b \<and>
     (\<exists>q m. v = q # m @ [q] \<and> quote_char q \<and> list_all (\<lambda>c. \<not> newline_char c) m)"

lemma match_tail_Cons:
  assumes "match_tail q (c # cs) = Some r" and "c \<noteq> q"
  shows "(\<exists>r'. \<not> newline_char c \<and> match_tail q cs = Some r' \<and> r = c # r') \<or>
    (\<exists>d ds r'. cs = d # ds \<and> of_char c = (92 :: nat) \<and> \<not> newline_char d \<and> match_tail q ds = Some r' \<and> r = c # d # r')"
  using assms(1) unfolding match_tail.simps(2) [of q c cs] Let_def if_not_P [OF assms(2)]
  by (cases cs) (auto simp del: match_tail.simps split: if_splits option.splits)

lemma match_tail_sound:
  "match_tail q cs = Some r \<Longrightarrow> \<exists>m b. cs = r @ b \<and> r = m @ [q] \<and> list_all (\<lambda>c. \<not> newline_char c) m"
proof (induction q cs arbitrary: r rule: match_tail.induct)
  case (1 q)
  then show ?case by simp
next
  case (2 q c cs)
  have dot: "\<exists>m b. c # cs = r @ b \<and> r = m @ [q] \<and> list_all (\<lambda>c. \<not> newline_char c) m"
    if h: "\<not> newline_char c" "match_tail q cs = Some r'" "r = c # r'" "c \<noteq> q" for r'
  proof -
    obtain m b where "cs = r' @ b" "r' = m @ [q]" "list_all (\<lambda>c. \<not> newline_char c) m"
      using 2(1) [OF h(4,1,2)] by blast
    then have "c # cs = r @ b \<and> r = (c # m) @ [q] \<and> list_all (\<lambda>c. \<not> newline_char c) (c # m)"
      using h by simp
    then show ?thesis by blast
  qed
  have esc: "\<exists>m b. c # cs = r @ b \<and> r = m @ [q] \<and> list_all (\<lambda>c. \<not> newline_char c) m"
    if h: "cs = d # ds" "of_char c = (92 :: nat)" "\<not> newline_char d" "match_tail q ds = Some r'" "r = c # d # r'" "c \<noteq> q"
    for d ds r'
  proof -
    obtain m b where "ds = r' @ b" "r' = m @ [q]" "list_all (\<lambda>c. \<not> newline_char c) m"
      using 2(2) [OF h(6) refl h(1)] h by blast
    then have "c # cs = r @ b \<and> r = (c # d # m) @ [q] \<and> list_all (\<lambda>c. \<not> newline_char c) (c # d # m)"
      using h by (simp add: newline_char_def)
    then show ?thesis by blast
  qed
  show ?case
  proof (cases "c = q")
    case True
    then show ?thesis using 2(3) by (intro exI [of _ "[]"] exI [of _ cs]) simp
  next
    case False
    then show ?thesis
      using match_tail_Cons [OF 2(3) False] dot esc by blast
  qed
qed

lemma match_tail_complete:
  "list_all (\<lambda>c. \<not> newline_char c) m \<Longrightarrow> match_tail q (m @ q # b) \<noteq> None"
proof (induction m)
  case Nil
  then show ?case by simp
next
  case (Cons c m)
  then obtain r where "match_tail q (m @ q # b) = Some r" and "\<not> newline_char c" by auto
  then show ?case
    by (cases "m @ q # b") (simp_all add: Let_def split: option.split)
qed

lemma match_quoted_sound: "match_quoted s = Some v \<Longrightarrow> \<exists>a b. quoted_at s a v b"
proof (induction s)
  case Nil
  then show ?case by simp
next
  case (Cons c cs)
  show ?case
  proof (cases "quote_char c \<and> match_tail c cs \<noteq> None")
    case True
    then obtain r where r: "match_tail c cs = Some r" "v = c # r" using Cons.prems by auto
    then obtain m b where "cs = r @ b" "r = m @ [c]" "list_all (\<lambda>c. \<not> newline_char c) m"
      using match_tail_sound by blast
    then have "quoted_at (c # cs) [] v b" using r True by (simp add: quoted_at_def)
    then show ?thesis by blast
  next
    case False
    then have "match_quoted cs = Some v" using Cons.prems by (auto split: if_splits)
    then obtain a b where "quoted_at cs a v b" using Cons.IH by blast
    then have "quoted_at (c # cs) (c # a) v b" by (simp add: quoted_at_def)
    then show ?thesis by blast
  qed
qed

lemma match_quoted_complete: "quoted_at s a v b \<Longrightarrow> match_quoted s \<noteq> None"
proof (induction s arbitrary: a)
  case Nil
  then show ?case by (auto simp: quoted_at_def)
next
  case (Cons c cs)
  show ?case
  proof (cases a)
    case Nil
    with Cons.prems obtain m where "quote_char c" "cs = m @ c # b" "list_all (\<lambda>c. \<not> newline_char c) m"
      by (auto simp: quoted_at_def)
    then show ?thesis using match_tail_complete [of m c b] by auto
  next
    case (Cons x xs)
    with Cons.prems have "quoted_at cs xs v b" by (auto simp: quoted_at_def)
    then have "match_quoted cs \<noteq> None" by (rule Cons.IH)
    then show ?thesis by (auto split: option.splits)
  qed
qed

text \<open>
  C27. The pattern that looks for the duplicated value finds one exactly when the message has two
  equal quotes on one line, and what it finds is a part of the message enclosed in equal quotes.
\<close>

theorem duplicate_value_found:
  "case match_quoted s of
     Some v \<Rightarrow> (\<exists>a b. quoted_at s a v b)
   | None \<Rightarrow> (\<nexists>a v b. quoted_at s a v b)"
proof (cases "match_quoted s")
  case None
  then show ?thesis using match_quoted_complete [of s] by auto
next
  case (Some v)
  then show ?thesis using match_quoted_sound [of s v] by simp
qed

section \<open>The response to an error\<close>

lemma classify_plain:
  assumes "e_name err \<notin> {''ValidationError'', ''JsonWebTokenError'', ''TokenExpiredError''}"
    and "e_code err \<noteq> JNum 11000"
  shows "classify trace err = Inr (with_defaults err)"
  using assms
  by (simp add: classify_def classify_validation_def classify_duplicate_def classify_token_def with_defaults_def)

text \<open>
  C28. Production hides internals: an error that is not operational and is none of the known kinds
  is answered with status 500 and a fixed text, whatever the error says, and is logged.
\<close>

theorem production_hides_errors:
  assumes "e ''NODE_ENV'' = Some ''production''" and "\<not> e_isOperational err"
    and "e_name err \<notin> {''ValidationError'', ''JsonWebTokenError'', ''TokenExpiredError''}"
    and "e_code err \<noteq> JNum 11000"
  shows "errorMiddleware e trace err req =
    (log_entry req (with_defaults err),
     Inr ([(''ERROR'', with_defaults err)],
       Some \<lparr>r_status = JNum 500, r_body = JsonBody (JObj [(''status'', JStr ''error''),
         (''message'', JStr ''Something went very wrong!'')])\<rparr>))"
  using assms classify_plain [OF assms(3,4)]
  by (simp add: errorMiddleware_def sendErrorProd_def with_defaults_def)

definition demo_request :: request where
  "demo_request = \<lparr>rq_method = ''GET'', rq_originalUrl = ''/x'', rq_ip = ''::1'', rq_params = JObj [], rq_body = JObj [],
     rq_user = JUndef, rq_file = None\<rparr>"

theorem production_hides_errors_witness:
  "answer (errorMiddleware (\<lambda>_. Some ''production'') ''at f'' (TypeError ''password is hunter2'') demo_request) =
    Some \<lparr>r_status = JNum 500, r_body = JsonBody (JObj [(''status'', JStr ''error''),
      (''message'', JStr ''Something went very wrong!'')])\<rparr>"
  using production_hides_errors [of "\<lambda>_. Some ''production''" "TypeError ''password is hunter2''" "''at f''" demo_request]
  by (simp add: answer_def TypeError_def mk_err_def)

text \<open>
  Known errors in production: a validation error is answered with 400 and its messages joined,
  a duplicate key with 400 and the quoted value, an invalid token and an expired token with 401.
\<close>

definition error_body :: "int \<Rightarrow> string \<Rightarrow> response" where
  "error_body status msg = \<lparr>r_status = JNum status,
     r_body = JsonBody (JObj [(''status'', JStr ''error''), (''message'', JStr msg)])\<rparr>"

lemmas error_defs = answer_def errorMiddleware_def classify_def classify_validation_def classify_duplicate_def
  classify_token_def sendErrorProd_def with_defaults_def new_AppError_def AppError_def new_Error_def mk_err_def
  error_body_def

theorem known_errors_answered:
  assumes "e ''NODE_ENV'' = Some ''production''"
  shows "(e_name err = ''ValidationError'' \<and> e_errors err = Some ms \<longrightarrow>
      answer (errorMiddleware e trace err req) = Some (error_body 400 (''Invalid input data. '' @ js_join ''. '' ms))) \<and>
    (e_name err \<noteq> ''ValidationError'' \<and> e_code err = JNum 11000 \<and> e_errmsg err = JStr s \<and> quoted_at s a v b \<longrightarrow>
      (\<exists>a' v' b'. quoted_at s a' v' b' \<and> answer (errorMiddleware e trace err req) =
        Some (error_body 400 (''Duplicate field value: '' @ v' @ ''. Please use another value!'')))) \<and>
    (e_code err \<noteq> JNum 11000 \<and> e_name err = ''JsonWebTokenError'' \<longrightarrow>
      answer (errorMiddleware e trace err req) = Some (error_body 401 ''Invalid token. Please log in again!'')) \<and>
    (e_code err \<noteq> JNum 11000 \<and> e_name err = ''TokenExpiredError'' \<longrightarrow>
      answer (errorMiddleware e trace err req) = Some (error_body 401 ''Your token has expired! Please log in again.''))"
proof (intro conjI impI; elim conjE)
  assume err: "e_name err \<noteq> ''ValidationError''" "e_code err = JNum 11000" "e_errmsg err = JStr s" "quoted_at s a v b"
  then obtain v' where v': "match_quoted s = Some v'" using match_quoted_complete by blast
  then have "answer (errorMiddleware e trace err req) =
      Some (error_body 400 (''Duplicate field value: '' @ v' @ ''. Please use another value!''))"
    using err assms by (simp add: error_defs duplicate_value_def)
  then show "\<exists>a' v' b'. quoted_at s a' v' b' \<and> answer (errorMiddleware e trace err req) =
      Some (error_body 400 (''Duplicate field value: '' @ v' @ ''. Please use another value!''))"
    using match_quoted_sound [OF v'] by blast
qed (use assms in \<open>simp_all add: error_defs\<close>)

definition demo_dup :: jserr where
  "demo_dup = (mk_err ''MongoError'' ''E11000'')\<lparr>e_code := JNum 11000,
     e_errmsg := JStr (''dup key: '' @ CHR 0x22 # ''bob'' @ [CHR 0x22])\<rparr>"

theorem known_errors_answered_witness:
  "\<exists>a v b. quoted_at (''dup key: '' @ CHR 0x22 # ''bob'' @ [CHR 0x22]) a v b \<and>
    answer (errorMiddleware (\<lambda>_. Some ''production'') ''at f'' demo_dup demo_request) =
    Some (error_body 400 (''Duplicate field value: '' @ v @ ''. Please use another value!''))"
proof -
  let ?s = "''dup key: '' @ CHR 0x22 # ''bob'' @ [CHR 0x22]"
  have q: "quoted_at ?s ''dup key: '' (CHR 0x22 # ''bob'' @ [CHR 0x22]) []"
    by (auto simp: quoted_at_def quote_char_def newline_char_def)
  have d: "e_name demo_dup \<noteq> ''ValidationError''" "e_code demo_dup = JNum 11000" "e_errmsg demo_dup = JStr ?s"
    by (simp_all add: demo_dup_def mk_err_def)
  from known_errors_answered [of "\<lambda>_. Some ''production''", THEN conjunct2, THEN conjunct1, rule_format, OF refl conjI, OF d(1) conjI, OF d(2) conjI, OF d(3) q]
  show ?thesis .
qed

text \<open>
  No answer outside the two named environments: when \<open>NODE_ENV\<close> is unset or anything but
  \<open>development\<close> and \<open>production\<close>, the error middleware sends no response to any error.
\<close>

theorem errors_unanswered:
  assumes "e ''NODE_ENV'' \<notin> {Some ''development'', Some ''production''}"
  shows "answer (errorMiddleware e trace err req) = None"
  using assms by (auto simp: answer_def errorMiddleware_def split: sum.splits)

theorem errors_unanswered_witness:
  "answer (errorMiddleware (\<lambda>_. None) ''at f'' (new_Error ''boom'') demo_request) = None"
  by (rule errors_unanswered) simp

end
