(* ===== verification/Services.thy ===== *)
theory Services
  imports Middleware
begin

text \<open>
  The services behind the controllers: \<open>nft.service.js\<close>, \<open>collection.service.js\<close>,
  \<open>pinata.service.js\<close> and the commented-out \<open>ipfs.service.js\<close>. The packages they call (\<open>ethers\<close>,
  \<open>mongoose\<close>, the Pinata SDK, \<open>axios\<close>) and the contract ABIs, which the build generates, are
  records of functions passed to every definition; a call that reaches the chain or the database
  returns the new state of it also when it fails.
\<close>

section \<open>Shared pieces\<close>

definition js_lower :: "jsval \<Rightarrow> jserr + string" where
  "js_lower v = (case v of JStr s \<Rightarrow> Inr (toLowerCase s)
     | JUndef \<Rightarrow> Inl (read_of ''undefined'' ''toLowerCase'')
     | JNull \<Rightarrow> Inl (read_of ''null'' ''toLowerCase'')
     | _ \<Rightarrow> Inl (TypeError ''toLowerCase is not a function''))"

definition ipfs_uri :: "jsval \<Rightarrow> string" where
  "ipfs_uri h = ''ipfs://'' @ js_String h"

text \<open>A stateful call followed by the rest, and a \<open>try\<close> whose handler rethrows.\<close>

definition bindS :: "('e + 'a) \<times> 's \<Rightarrow> ('a \<Rightarrow> 's \<Rightarrow> ('e + 'b) \<times> 's) \<Rightarrow> ('e + 'b) \<times> 's" where
  "bindS m f = (case m of (Inl er, s) \<Rightarrow> (Inl er, s) | (Inr x, s) \<Rightarrow> f x s)"

definition rethrow :: "('e \<Rightarrow> 'e) \<Rightarrow> ('e + 'a) \<times> 's \<Rightarrow> ('e + 'a) \<times> 's" where
  "rethrow g m = (case m of (Inl er, s) \<Rightarrow> (Inl (g er), s) | (Inr x, s) \<Rightarrow> (Inr x, s))"

lemma bindS_simps [simp]:
  "bindS (Inl er, s) f = (Inl er, s)"
  "bindS (Inr x, s) f = f x s"
  by (simp_all add: bindS_def)

lemma rethrow_simps [simp]:
  "rethrow g (Inl er, s) = (Inl (g er), s)"
  "rethrow g (Inr x, s) = (Inr x, s)"
  by (simp_all add: rethrow_def)

lemma bindS_Inr_iff:
  "bindS m f = (Inr y, s') \<longleftrightarrow> (\<exists>x s. m = (Inr x, s) \<and> f x s = (Inr y, s'))"
  by (auto simp: bindS_def split: prod.splits sum.splits)

lemma rethrow_Inr_iff: "rethrow g m = (Inr x, s) \<longleftrightarrow> m = (Inr x, s)"
  by (auto simp: rethrow_def split: prod.splits sum.splits)

lemma rethrow_Inl_iff: "rethrow g m = (Inl er', s) \<longleftrightarrow> (\<exists>er. m = (Inl er, s) \<and> er' = g er)"
  by (auto simp: rethrow_def split: prod.splits sum.splits)

lemma lift_Inr_iff:
  "(case m of (r, c) \<Rightarrow> (r, g c)) = (Inr x, s) \<longleftrightarrow> (\<exists>c. m = (Inr x, c) \<and> s = g c)"
  by (cases m) auto

section \<open>collection.service.js\<close>

text \<open>
  \<open>'c\<close> is the chain, \<open>'tx\<close> a pending transaction, \<open>'l\<close> a log of a receipt, \<open>'d\<close> the database.
  \<open>fac_parseLog\<close> gives the name and the arguments of an event, or nothing for a log of another
  contract.
\<close>

record ('c, 'tx, 'l, 'd) coll_deps =
  new_Wallet :: "jsval \<Rightarrow> jserr + unit"
  fac_createCollection :: "jsval \<Rightarrow> jsval \<Rightarrow> jsval \<Rightarrow> 'c \<Rightarrow> (jserr + 'tx) \<times> 'c"
  tx_wait :: "'tx \<Rightarrow> 'c \<Rightarrow> (jserr + 'l list) \<times> 'c"
  fac_parseLog :: "'l \<Rightarrow> jserr + (string \<times> jsval) option"
  new_Collection :: "jsval \<Rightarrow> jserr + jsval"
  coll_save :: "jsval \<Rightarrow> 'd \<Rightarrow> (jserr + unit) \<times> 'd"
  coll_find :: "jsval \<Rightarrow> jsval \<Rightarrow> string \<Rightarrow> 'd \<Rightarrow> jserr + jsval list"

text \<open>The constructor: a provider, then the factory contract over it.\<close>

definition CollectionService_constructor ::
  "(jsval \<Rightarrow> jserr + 'p) \<Rightarrow> (jsval \<Rightarrow> 'p \<Rightarrow> jserr + 'k) \<Rightarrow> env \<Rightarrow> jserr + 'p \<times> 'k" where
  "CollectionService_constructor new_provider new_contract e =
     bindE (new_provider (getenv e ''RPC_URL'')) (\<lambda>provider.
     bindE (new_contract (getenv e ''FACTORY_ADDRESS'') provider) (\<lambda>factory. Inr (provider, factory)))"

text \<open>\<open>receipt.logs.find(log => parseLog(log)?.name === "CollectionCreated")\<close>.\<close>

fun find_created :: "('l \<Rightarrow> jserr + (string \<times> jsval) option) \<Rightarrow> 'l list \<Rightarrow> jserr + 'l option" where
  "find_created parse [] = Inr None"
| "find_created parse (l # ls) =
     bindE (parse l) (\<lambda>ev. case ev of
         Some (nm, args) \<Rightarrow> if nm = ''CollectionCreated'' then Inr (Some l) else find_created parse ls
       | None \<Rightarrow> find_created parse ls)"

definition created_address :: "('l \<Rightarrow> jserr + (string \<times> jsval) option) \<Rightarrow> string \<Rightarrow> 'l list \<Rightarrow> jserr + jsval" where
  "created_address parse trace logs =
     bindE (find_created parse logs) (\<lambda>event. case event of
         None \<Rightarrow> Inl (new_AppError trace 500 ''Collection creation event not found'')
       | Some l \<Rightarrow> bindE (parse l) (\<lambda>ev. case ev of
             Some (nm, args) \<Rightarrow> getp args ''collectionAddress''
           | None \<Rightarrow> Inl (read_of ''null'' ''args'')))"

definition collection_doc :: "(string \<Rightarrow> jsval) \<Rightarrow> jsval \<Rightarrow> jsval \<Rightarrow> jsval" where
  "collection_doc data collectionAddress userAddress = JObj
    [(''name'', data ''name''), (''symbol'', data ''symbol''), (''description'', data ''description''),
     (''contractAddress'', collectionAddress), (''creator'', userAddress), (''category'', data ''category''),
     (''websiteUrl'', data ''websiteUrl''), (''discordUrl'', data ''discordUrl''), (''twitterUrl'', data ''twitterUrl'')]"

text \<open>The properties of a request body; \<open>data.x\<close> throws when the body is missing.\<close>

definition field :: "jsval \<Rightarrow> string \<Rightarrow> jsval" where
  "field v k = (case getp v k of Inr w \<Rightarrow> w | Inl _ \<Rightarrow> JUndef)"

definition createCollection_try ::
  "('c, 'tx, 'l, 'd) coll_deps \<Rightarrow> env \<Rightarrow> string \<Rightarrow> jsval \<Rightarrow> jsval \<Rightarrow> 'c \<times> 'd \<Rightarrow> (jserr + jsval) \<times> 'c \<times> 'd" where
  "createCollection_try D e trace data userAddress w =
     bindS (new_Wallet D (getenv e ''PRIVATE_KEY''), w) (\<lambda>_ w0.
     bindS (getp data ''name'', w0) (\<lambda>_ (c, d).
     bindS (case fac_createCollection D (field data ''name'') (field data ''symbol'') (field data ''category'') c of
              (r, c1) \<Rightarrow> (r, (c1, d))) (\<lambda>tx (c1, d1).
     bindS (case tx_wait D tx c1 of (r, c2) \<Rightarrow> (r, (c2, d1))) (\<lambda>logs w2.
     bindS (created_address (fac_parseLog D) trace logs, w2) (\<lambda>collectionAddress w3.
     bindS (new_Collection D (collection_doc (field data) collectionAddress userAddress), w3) (\<lambda>collection (c3, d3).
     bindS (case coll_save D collection d3 of (r, d4) \<Rightarrow> (r, (c3, d4))) (\<lambda>_ w4.
       (Inr collection, w4))))))))"

definition service_createCollection ::
  "('c, 'tx, 'l, 'd) coll_deps \<Rightarrow> env \<Rightarrow> string \<Rightarrow> jsval \<Rightarrow> jsval \<Rightarrow> 'c \<times> 'd \<Rightarrow> (jserr + jsval) \<times> 'c \<times> 'd" where
  "service_createCollection D e trace data userAddress w =
     rethrow (\<lambda>error. new_AppError trace 500 (''Failed to create collection: '' @ e_message error))
       (createCollection_try D e trace data userAddress w)"

definition getAllCollections :: "('c, 'tx, 'l, 'd) coll_deps \<Rightarrow> string \<Rightarrow> jsval \<Rightarrow> 'd \<Rightarrow> jserr + jsval list" where
  "getAllCollections D trace query d =
     catch (coll_find D query (JObj [(''createdAt'', JNum (-1))]) ''-__v'' d)
       (\<lambda>error. Inl (new_AppError trace 500 (''Failed to fetch collections: '' @ e_message error)))"

section \<open>nft.service.js\<close>

text \<open>
  \<open>nft_creator\<close> is \<open>collectionContract.creator\<close>, present only when the ABI of \<open>NFTCollection\<close> has
  such a function, and \<open>uploadToIPFS\<close> what \<open>ipfs.service.js\<close> exports under that name, if anything.
\<close>

record ('c, 'tx, 'i, 'd) nft_deps =
  nft_Contract :: "jsval \<Rightarrow> jserr + unit"
  nft_creator :: "(jsval \<Rightarrow> 'c \<Rightarrow> jserr + jsval) option"
  uploadToIPFS :: "(jsval \<Rightarrow> 'i \<Rightarrow> (jserr + jsval) \<times> 'i) option"
  nft_mint_tx :: "jsval \<Rightarrow> jsval list \<Rightarrow> 'c \<Rightarrow> (jserr + 'tx) \<times> 'c"
  nft_wait :: "'tx \<Rightarrow> 'c \<Rightarrow> (jserr + ((string \<times> jsval) list \<times> jsval)) \<times> 'c"
  new_NFT :: "jsval \<Rightarrow> jserr + jsval"
  nft_save :: "jsval \<Rightarrow> 'd \<Rightarrow> (jserr + unit) \<times> 'd"
  nft_findOne :: "jsval \<Rightarrow> 'd \<Rightarrow> jserr + jsval"

text \<open>The constructor: a provider, then the wallet that signs.\<close>

definition NFTService_constructor ::
  "(jsval \<Rightarrow> jserr + 'p) \<Rightarrow> (jsval \<Rightarrow> 'p \<Rightarrow> jserr + 'w) \<Rightarrow> env \<Rightarrow> jserr + 'p \<times> 'w" where
  "NFTService_constructor new_provider new_wallet e =
     bindE (new_provider (getenv e ''SEPOLIA_RPC_URL'')) (\<lambda>provider.
     bindE (new_wallet (getenv e ''PRIVATE_KEY'') provider) (\<lambda>signer. Inr (provider, signer)))"

record ('c, 'i, 'd) nft_world =
  w_chain :: 'c
  w_ipfs :: 'i
  w_db :: 'd

definition check_creator ::
  "('c, 'tx, 'i, 'd) nft_deps \<Rightarrow> jsval \<Rightarrow> jsval \<Rightarrow> 'c \<Rightarrow> jserr + unit" where
  "check_creator D collectionAddress creatorAddress c =
     bindE (nft_Contract D collectionAddress) (\<lambda>_.
     case nft_creator D of
       None \<Rightarrow> Inl (TypeError ''collectionContract.creator is not a function'')
     | Some creator \<Rightarrow>
         bindE (creator collectionAddress c) (\<lambda>cr.
         bindE (js_lower cr) (\<lambda>a.
         bindE (js_lower creatorAddress) (\<lambda>b.
           require (a = b) (new_Error ''Only collection creator can mint NFTs'') (Inr ())))))"

definition upload ::
  "('c, 'tx, 'i, 'd) nft_deps \<Rightarrow> jsval \<Rightarrow> ('c, 'i, 'd) nft_world \<Rightarrow> (jserr + jsval) \<times> ('c, 'i, 'd) nft_world" where
  "upload D v w = (case uploadToIPFS D of
       None \<Rightarrow> (Inl (TypeError ''uploadToIPFS is not a function''), w)
     | Some f \<Rightarrow> (case f v (w_ipfs w) of (r, i) \<Rightarrow> (r, w\<lparr>w_ipfs := i\<rparr>)))"

definition nft_metadata :: "jsval \<Rightarrow> jsval \<Rightarrow> jsval" where
  "nft_metadata nftData imageHash = JObj
    [(''name'', field nftData ''name''), (''description'', field nftData ''description''),
     (''image'', JStr (ipfs_uri imageHash)), (''attributes'', js_or (field nftData ''attributes'') (JArr [])),
     (''external_url'', field nftData ''external_url''), (''background_color'', field nftData ''background_color''),
     (''animation_url'', field nftData ''animation_url'')]"

text \<open>\<open>receipt.events.find(e => e.event === "NFTMinted").args.tokenId.toNumber()\<close>.\<close>

definition minted_tokenId :: "(string \<times> jsval) list \<Rightarrow> jserr + jsval" where
  "minted_tokenId events = (case find (\<lambda>ev. fst ev = ''NFTMinted'') events of
       None \<Rightarrow> Inl (read_of ''undefined'' ''args'')
     | Some (_, args) \<Rightarrow> bindE (getp args ''tokenId'') (\<lambda>t.
         case t of JUndef \<Rightarrow> Inl (read_of ''undefined'' ''toNumber'') | _ \<Rightarrow> Inr t))"

definition nft_doc :: "jsval \<Rightarrow> jsval \<Rightarrow> jsval \<Rightarrow> jsval \<Rightarrow> jsval \<Rightarrow> string \<Rightarrow> jsval \<Rightarrow> jsval" where
  "nft_doc tokenId nftData imageHash collectionAddress creatorAddress uri metadata = JObj
    [(''tokenId'', tokenId), (''name'', field nftData ''name''), (''description'', field nftData ''description''),
     (''image'', JStr (ipfs_uri imageHash)), (''collectionAddress'', collectionAddress),
     (''creator'', creatorAddress), (''tokenURI'', JStr uri), (''metadata'', metadata)]"

record mint_result =
  mr_success :: bool
  mr_tokenId :: jsval
  mr_tokenURI :: string
  mr_transactionHash :: jsval
  mr_nft :: jsval

definition mintNFT_try ::
  "('c, 'tx, 'i, 'd) nft_deps \<Rightarrow> jsval \<Rightarrow> jsval \<Rightarrow> jsval \<Rightarrow> ('c, 'i, 'd) nft_world \<Rightarrow>
   (jserr + mint_result) \<times> ('c, 'i, 'd) nft_world" where
  "mintNFT_try D collectionAddress nftData creatorAddress w =
     bindS (check_creator D collectionAddress creatorAddress (w_chain w), w) (\<lambda>_ w.
     bindS (getp nftData ''image'', w) (\<lambda>image w.
     bindS (upload D image w) (\<lambda>imageHash w.
     let metadata = nft_metadata nftData imageHash in
     bindS (upload D metadata w) (\<lambda>metadataHash w.
     let uri = ipfs_uri metadataHash in
     bindS (case nft_mint_tx D collectionAddress [JStr uri] (w_chain w) of (r, c) \<Rightarrow> (r, w\<lparr>w_chain := c\<rparr>)) (\<lambda>tx w.
     bindS (case nft_wait D tx (w_chain w) of (r, c) \<Rightarrow> (r, w\<lparr>w_chain := c\<rparr>)) (\<lambda>receipt w.
     bindS (minted_tokenId (fst receipt), w) (\<lambda>tokenId w.
     bindS (new_NFT D (nft_doc tokenId nftData imageHash collectionAddress creatorAddress uri metadata), w) (\<lambda>nft w.
     bindS (case nft_save D nft (w_db w) of (r, d) \<Rightarrow> (r, w\<lparr>w_db := d\<rparr>)) (\<lambda>_ w.
       (Inr \<lparr>mr_success = True, mr_tokenId = tokenId, mr_tokenURI = uri,
             mr_transactionHash = snd receipt, mr_nft = nft\<rparr>, w))))))))))"

definition mintNFT ::
  "('c, 'tx, 'i, 'd) nft_deps \<Rightarrow> jsval \<Rightarrow> jsval \<Rightarrow> jsval \<Rightarrow> ('c, 'i, 'd) nft_world \<Rightarrow>
   (jserr + mint_result) \<times> ('c, 'i, 'd) nft_world" where
  "mintNFT D collectionAddress nftData creatorAddress w =
     rethrow (\<lambda>error. new_Error (''Failed to mint NFT: '' @ e_message error))
       (mintNFT_try D collectionAddress nftData creatorAddress w)"

definition getNFTMetadata :: "('c, 'tx, 'i, 'd) nft_deps \<Rightarrow> jsval \<Rightarrow> jsval \<Rightarrow> 'd \<Rightarrow> jserr + jsval" where
  "getNFTMetadata D collectionAddress tokenId d =
     catch (bindE (nft_findOne D (JObj [(''collectionAddress'', collectionAddress), (''tokenId'', tokenId)]) d) (\<lambda>nft.
              require (truthy nft) (new_Error ''NFT not found'') (Inr nft)))
       (\<lambda>error. Inl (new_Error (''Failed to get NFT metadata: '' @ e_message error)))"

section \<open>pinata.service.js\<close>

record pinata_sdk =
  pinFileToIPFS :: "jsval \<Rightarrow> jsval \<Rightarrow> jserr + jsval"
  pinJSONToIPFS :: "jsval \<Rightarrow> jsval \<Rightarrow> jserr + jsval"

definition pinata_options :: "jsval \<Rightarrow> jsval" where
  "pinata_options nm = JObj [(''pinataMetadata'', JObj [(''name'', nm)])]"

definition uploadImage :: "pinata_sdk \<Rightarrow> jsval \<Rightarrow> jsval \<Rightarrow> jserr + string" where
  "uploadImage P fileBuffer fileName =
     catch (bindE (pinFileToIPFS P fileBuffer (pinata_options fileName)) (\<lambda>result.
              bindE (getp result ''IpfsHash'') (\<lambda>h. Inr (ipfs_uri h))))
       (\<lambda>error. Inl (new_Error (''Failed to upload to IPFS: '' @ e_message error)))"

definition uploadMetadata :: "pinata_sdk \<Rightarrow> jsval \<Rightarrow> jserr + string" where
  "uploadMetadata P metadata =
     catch (bindE (getp metadata ''name'') (\<lambda>nm.
            bindE (pinJSONToIPFS P metadata (pinata_options (JStr (js_String nm @ ''-metadata'')))) (\<lambda>result.
              bindE (getp result ''IpfsHash'') (\<lambda>h. Inr (ipfs_uri h)))))
       (\<lambda>error. Inl (new_Error (''Failed to upload metadata to IPFS: '' @ e_message error)))"

section \<open>ipfs.service.js (commented out in the source)\<close>

text \<open>\<open>axios.post(url, payload, config)\<close> is the parameter; a form with one file is its buffer.\<close>

type_synonym axios_post = "string \<Rightarrow> jsval \<Rightarrow> (string \<times> jsval) list \<Rightarrow> jserr + jsval"

definition pinata_headers :: "env \<Rightarrow> (string \<times> jsval) list" where
  "pinata_headers e = [(''pinata_api_key'', getenv e ''PINATA_API_KEY''),
     (''pinata_secret_api_key'', getenv e ''PINATA_SECRET_KEY'')]"

definition response_hash :: "jsval \<Rightarrow> jserr + jsval" where
  "response_hash response = bindE (getp response ''data'') (\<lambda>d. getp d ''IpfsHash'')"

definition uploadFileToIPFS :: "axios_post \<Rightarrow> string \<Rightarrow> env \<Rightarrow> jsval \<Rightarrow> jserr + jsval" where
  "uploadFileToIPFS post boundary e fileBuffer =
     catch (bindE (post ''https://api.pinata.cloud/pinning/pinFileToIPFS''
              (JObj [(''file'', fileBuffer), (''filename'', JStr ''nft-image.png'')])
              ((''Content-Type'', JStr (''multipart/form-data; boundary='' @ boundary)) # pinata_headers e)) response_hash)
       (\<lambda>error. Inl (new_Error (''File Upload Error: '' @ e_message error)))"

definition uploadJSONToIPFS :: "axios_post \<Rightarrow> env \<Rightarrow> jsval \<Rightarrow> jserr + jsval" where
  "uploadJSONToIPFS post e jsonData =
     catch (bindE (post ''https://api.pinata.cloud/pinning/pinJSONToIPFS'' jsonData (pinata_headers e)) response_hash)
       (\<lambda>error. Inl (new_Error (''JSON Upload Error: '' @ e_message error)))"

text \<open>\<open>typeof data === "string" || typeof data === "object"\<close>; \<open>typeof null\<close> is \<open>"object"\<close>.\<close>

fun string_or_object :: "jsval \<Rightarrow> bool" where
  "string_or_object (JStr s) = True"
| "string_or_object (JArr xs) = True"
| "string_or_object (JObj kvs) = True"
| "string_or_object (JBuf b) = True"
| "string_or_object JNull = True"
| "string_or_object _ = False"

definition ipfs_upload :: "axios_post \<Rightarrow> string \<Rightarrow> env \<Rightarrow> jsval \<Rightarrow> jserr + jsval" where
  "ipfs_upload post boundary e data =
     catch (case data of
         JBuf b \<Rightarrow> uploadFileToIPFS post boundary e data
       | _ \<Rightarrow> if string_or_object data then uploadJSONToIPFS post e data
              else Inl (new_Error ''Unsupported data type for IPFS upload''))
       (\<lambda>error. Inl (new_Error (''IPFS Upload Error: '' @ e_message error)))"

end
