(* ===== verification/Scripts.thy ===== *)
theory Scripts
  imports MarketInv SearchCode Services
begin

text \<open>
  The Hardhat scripts, run against the model of the marketplace: \<open>scripts/interact.js\<close>,
  \<open>scripts/createMarketItem.js\<close>, \<open>scripts/createMarketSale.js\<close>, \<open>deploy/01_deploy_marketplace.js\<close>
  and \<open>utils/verify.js\<close>. A transaction or a view that reverts throws; what earlier transactions did
  stays. Console output is left out except for the values the scripts compute. The address a new
  collection gets and the conversion of a JavaScript value to an address by \<open>ethers\<close> are arguments.
\<close>

section \<open>Transactions and views\<close>

definition revert_text :: "revert \<Rightarrow> string" where
  "revert_text r = (case r of Revert m \<Rightarrow> ''execution reverted: '' @ m | Panic k \<Rightarrow> ''execution reverted: Panic due to '' @ show_nat k
     | CustomError m \<Rightarrow> ''execution reverted (custom error): '' @ m | CallFailed \<Rightarrow> ''transaction reverted without a reason'')"

definition reverted :: "revert \<Rightarrow> jserr" where
  "reverted r = mk_err ''Error'' (revert_text r)"

definition tx :: "msg \<Rightarrow> mcall \<Rightarrow> market \<Rightarrow> (jserr + unit) \<times> market" where
  "tx m c s = (case exec m c s of Inl r \<Rightarrow> (Inl (reverted r), s) | Inr s' \<Rightarrow> (Inr (), s'))"

definition view :: "revert + 'a \<Rightarrow> market \<Rightarrow> (jserr + 'a) \<times> market" where
  "view r s = (case r of Inl e \<Rightarrow> (Inl (reverted e), s) | Inr x \<Rightarrow> (Inr x, s))"

definition nft_view :: "address \<Rightarrow> (nft \<Rightarrow> revert + 'a) \<Rightarrow> market \<Rightarrow> (jserr + 'a) \<times> market" where
  "nft_view a f s = view (case nfts s a of None \<Rightarrow> Inl CallFailed | Some n \<Rightarrow> f n) s"

abbreviation mk_msg :: "address \<Rightarrow> nat \<Rightarrow> nat \<Rightarrow> msg" where
  "mk_msg a v ts \<equiv> \<lparr>msg_sender = a, msg_value = v, block_timestamp = ts\<rparr>"

definition one_tenth_ether :: nat where
  "one_tenth_ether = 10 ^ 17"

section \<open>scripts/interact.js\<close>

definition base_uri :: string where
  "base_uri = ''ipfs://QmQ4uN6aPnaMSktcajD1m9U6rnrrgYGVWN6bDi24NXED1p''"

definition token_uri :: string where
  "token_uri = ''ipfs://QmaFuGuPyjK5aB7DK2GpZid4rwPmmvwECEaqyYJkhqNo6B''"

text \<open>
  Creating the two collections and choosing the last one. The checks that the returned data has an
  address and that it is well formed always hold for data decoded from the contract.
\<close>

definition interact_collections :: "address \<Rightarrow> address \<Rightarrow> address \<Rightarrow> nat \<Rightarrow> market \<Rightarrow> (jserr + address) \<times> market" where
  "interact_collections deployer ca1 ca2 ts s =
     bindS (tx (mk_msg deployer 0 ts) (CreateCollection ca1 ''Test Collection'' ''TEST'' base_uri ''Art'') s) (\<lambda>_ s.
     bindS (tx (mk_msg deployer 0 ts) (CreateCollection ca2 ''Test Collection 2'' ''TEST2'' base_uri ''Gaming'') s) (\<lambda>_ s.
     bindS (view (fetchUserCreatedCollections deployer s) s) (\<lambda>userCollections s.
     bindS (view (fetchCollections s) s) (\<lambda>collections s.
       if collections = [] then (Inl (new_Error ''No collections found after creation''), s)
       else let collectionAddress = col_collectionAddress (cd_basic (last collections))
            in if code s collectionAddress = NoCode
               then (Inl (new_Error ''No contract found at the collection address''), s)
               else (Inr collectionAddress, s)))))"

definition interact_mint :: "address \<Rightarrow> address \<Rightarrow> nat \<Rightarrow> market \<Rightarrow> (jserr + nat list) \<times> market" where
  "interact_mint deployer nftContract ts s =
     bindS (view (getCollectionDetails nftContract s) s) (\<lambda>initialCollection s.
     bindS (tx (mk_msg deployer 0 ts) (Mint nftContract deployer token_uri) s) (\<lambda>_ s.
     bindS (view (getCollectionDetails nftContract s) s) (\<lambda>collectionAfterFirstMint s.
     bindS (tx (mk_msg deployer 0 ts) (Mint nftContract deployer token_uri) s) (\<lambda>_ s.
     bindS (view (getCollectionDetails nftContract s) s) (\<lambda>collectionAfterSecondMint s.
     bindS (nft_view nftContract (\<lambda>n. Inr (totalSupply n)) s) (\<lambda>nftContractTotalSupply s.
       if nftContractTotalSupply \<noteq> col_totalSupply collectionAfterSecondMint
       then (Inl (new_Error ''Total supply mismatch between NFT contract and marketplace!''), s)
       else bindS (nft_view nftContract (\<lambda>n. ownerOf n 1) s) (\<lambda>firstTokenOwner s.
            bindS (nft_view nftContract (\<lambda>n. ownerOf n 2) s) (\<lambda>secondTokenOwner s.
              (Inr [col_totalSupply initialCollection, col_totalSupply collectionAfterFirstMint,
                    col_totalSupply collectionAfterSecondMint], s)))))))))"

definition interact_list :: "address \<Rightarrow> address \<Rightarrow> nat \<Rightarrow> market \<Rightarrow> (jserr + MarketItem list) \<times> market" where
  "interact_list deployer nftContract ts s =
     bindS (tx (mk_msg deployer 0 ts) (NftCall nftContract (CallApprove (this_addr s) 1)) s) (\<lambda>_ s.
     bindS (nft_view nftContract (\<lambda>n. getApproved n 1) s) (\<lambda>approved s.
     bindS (tx (mk_msg deployer (listingFee s) ts) (CreateMarketItem nftContract 1 one_tenth_ether) s) (\<lambda>_ s.
       view (fetchCollectionItems nftContract s) s)))"

definition interact_buy :: "address \<Rightarrow> address \<Rightarrow> nat \<Rightarrow> market \<Rightarrow> (jserr + address \<times> MarketItem list) \<times> market" where
  "interact_buy buyer nftContract ts s =
     bindS (tx (mk_msg buyer one_tenth_ether ts) (CreateMarketSale nftContract 1) s) (\<lambda>_ s.
     bindS (nft_view nftContract (\<lambda>n. ownerOf n 1) s) (\<lambda>newOwner s.
     bindS (view (fetchUserPurchasedItems buyer s) s) (\<lambda>purchasedItems s.
       (Inr (newOwner, purchasedItems), s))))"

record formatted_result =
  fr_address :: address
  fr_name :: string
  fr_symbol :: string
  fr_category :: string
  fr_totalSupply :: string
  fr_floorPrice :: string
  fr_isActive :: bool

definition formatSearchResults :: "(nat \<Rightarrow> string) \<Rightarrow> SearchResult list \<Rightarrow> formatted_result list" where
  "formatSearchResults formatEther results = map (\<lambda>result.
     \<lparr>fr_address = sr_collectionAddress result, fr_name = sr_name result, fr_symbol = sr_symbol result,
      fr_category = sr_category result, fr_totalSupply = show_nat (sr_totalSupply result),
      fr_floorPrice = formatEther (sr_floorPrice result), fr_isActive = sr_isActive result\<rparr>) results"

text \<open>The three searches, and the inner \<open>try\<close> block, whose errors are only printed.\<close>

definition interact_search :: "(nat \<Rightarrow> string) \<Rightarrow> market \<Rightarrow> (jserr + formatted_result list list) \<times> market" where
  "interact_search formatEther s =
     bindS (view (searchCollections ''Test'' s) s) (\<lambda>basic s.
     bindS (view (searchCollections [] s) s) (\<lambda>allResults s.
     bindS (view (searchCollections ''TEST'' s) s) (\<lambda>symbol s.
       (Inr (map (formatSearchResults formatEther) [basic, allResults, symbol]), s))))"

definition interact_category_search :: "market \<Rightarrow> (jserr + nat \<times> Collection list \<times> Collection list) \<times> market" where
  "interact_category_search s =
     bindS (view (fetchCollections s) s) (\<lambda>allCollections s.
     bindS (view (fetchCollectionsByCategory ''Art'' s) s) (\<lambda>searchResults s.
     bindS (view (fetchCollectionsByCategory ''Art'' s) s) (\<lambda>artCollections s.
       (Inr (length allCollections, searchResults, artCollections), s))))"

definition interact_try ::
  "(nat \<Rightarrow> string) \<Rightarrow> address \<Rightarrow> address \<Rightarrow> address \<Rightarrow> address \<Rightarrow> nat \<Rightarrow> market \<Rightarrow> (jserr + unit) \<times> market" where
  "interact_try formatEther deployer buyer ca1 ca2 ts s =
     bindS (interact_collections deployer ca1 ca2 ts s) (\<lambda>nftContract s.
     bindS (interact_mint deployer nftContract ts s) (\<lambda>supplies s.
     bindS (interact_list deployer nftContract ts s) (\<lambda>items s.
     bindS (interact_buy buyer nftContract ts s) (\<lambda>purchase s.
     bindS (interact_search formatEther s) (\<lambda>found s.
       (Inr (), snd (interact_category_search s)))))))"

text \<open>\<open>main\<close> prints the error of its \<open>try\<close> block and returns; the process then exits with code 0.\<close>

definition interact_main ::
  "(nat \<Rightarrow> string) \<Rightarrow> address \<Rightarrow> address \<Rightarrow> address \<Rightarrow> address \<Rightarrow> nat \<Rightarrow> market \<Rightarrow> nat \<times> jserr option \<times> market" where
  "interact_main formatEther deployer buyer ca1 ca2 ts s =
     (case interact_try formatEther deployer buyer ca1 ca2 ts s of
        (Inl error, s') \<Rightarrow> (0, Some error, s')
      | (Inr _, s') \<Rightarrow> (0, None, s'))"

section \<open>scripts/createMarketItem.js and scripts/createMarketSale.js\<close>

text \<open>
  A decoded \<open>CollectionDetails\<close> as the scripts see it; \<open>addr\<close> gives the text of an address. An
  absent name reads as \<open>undefined\<close>.
\<close>

definition details_json :: "(address \<Rightarrow> string) \<Rightarrow> CollectionDetails \<Rightarrow> jsval" where
  "details_json addr d =
     (let c = cd_basic d in JObj
       [(''basic'', JObj [(''collectionAddress'', JStr (addr (col_collectionAddress c))), (''name'', JStr (col_name c)),
           (''symbol'', JStr (col_symbol c)), (''category'', JStr (col_category c)), (''owner'', JStr (addr (col_owner c))),
           (''isActive'', JBool (col_isActive c)), (''createdAt'', JNum (int (col_createdAt c))),
           (''baseURI'', JStr (col_baseURI c)), (''totalSupply'', JNum (int (col_totalSupply c)))]),
        (''floorPrice'', JNum (int (cd_floorPrice d))), (''totalVolume'', JNum (int (cd_totalVolume d))),
        (''ownerCount'', JNum (int (cd_ownerCount d)))])"

text \<open>\<open>collections[collections.length - 1].collectionAddress\<close>.\<close>

definition latest_address :: "(address \<Rightarrow> string) \<Rightarrow> CollectionDetails list \<Rightarrow> jserr + jsval" where
  "latest_address addr cols =
     getp (if cols = [] then JUndef else details_json addr (last cols)) ''collectionAddress''"

text \<open>\<open>to_address\<close> is the conversion of an argument of type address by \<open>ethers\<close>.\<close>

definition createMarketItem_script ::
  "(address \<Rightarrow> string) \<Rightarrow> (jsval \<Rightarrow> jserr + address) \<Rightarrow> address \<Rightarrow> address \<Rightarrow> nat \<Rightarrow> market \<Rightarrow>
   (jserr + MarketItem list) \<times> market" where
  "createMarketItem_script addr to_address deployer ca ts s =
     bindS (tx (mk_msg deployer 0 ts) (CreateCollection ca ''NFT Collection'' ''MNC'' base_uri ''Art'') s) (\<lambda>_ s.
     bindS (view (fetchCollections s) s) (\<lambda>collections s.
     bindS (latest_address addr collections, s) (\<lambda>collectionAddress s.
     bindS (to_address collectionAddress, s) (\<lambda>collection s.
     bindS (tx (mk_msg deployer 0 ts) (Mint collection deployer ''ipfs://your-token-uri'') s) (\<lambda>_ s.
     bindS (tx (mk_msg deployer 0 ts) (NftCall collection (CallApprove (this_addr s) 1)) s) (\<lambda>_ s.
     bindS (to_address collectionAddress, s) (\<lambda>a s.
     bindS (tx (mk_msg deployer (listingFee s) ts) (CreateMarketItem a 1 one_tenth_ether) s) (\<lambda>_ s.
       view (fetchCollectionItems a s) s))))))))"

definition createMarketSale_script ::
  "(address \<Rightarrow> string) \<Rightarrow> (jsval \<Rightarrow> jserr + address) \<Rightarrow> market \<Rightarrow> (jserr + MarketItem list) \<times> market" where
  "createMarketSale_script addr to_address s =
     bindS (view (fetchCollections s) s) (\<lambda>collections s.
     bindS (latest_address addr collections, s) (\<lambda>collectionAddress s.
     bindS (to_address collectionAddress, s) (\<lambda>a s.
       view (fetchCollectionItems a s) s)))"

text \<open>The part of \<open>createMarketSale.js\<close> that is commented out: \<open>None\<close> when it prints why not and returns.\<close>

definition createMarketSale_rest ::
  "address \<Rightarrow> address \<Rightarrow> MarketItem list \<Rightarrow> nat \<Rightarrow> market \<Rightarrow> (jserr + address option) \<times> market" where
  "createMarketSale_rest buyer a items ts s = (case items of
       [] \<Rightarrow> (Inr None, s)
     | item # _ \<Rightarrow>
         if \<not> mi_isOnSale item then (Inr None, s)
         else if bal s buyer < mi_price item then (Inr None, s)
         else if mi_seller item = buyer then (Inr None, s)
         else bindS (tx (mk_msg buyer (mi_price item) ts) (CreateMarketSale a (mi_tokenId item)) s) (\<lambda>_ s.
              bindS (nft_view a (\<lambda>n. ownerOf n (mi_tokenId item)) s) (\<lambda>newOwner s. (Inr (Some newOwner), s))))"

text \<open>\<open>main().then(exit 0).catch(exit 1)\<close>.\<close>

definition exit_code :: "(jserr + 'a) \<times> 's \<Rightarrow> nat" where
  "exit_code r = (case fst r of Inl _ \<Rightarrow> 1 | Inr _ \<Rightarrow> 0)"

section \<open>deploy/01_deploy_marketplace.js and utils/verify.js\<close>

text \<open>What a failed verification task prints; \<open>run_verify\<close> is Hardhat's task \<open>verify:verify\<close>.\<close>

definition verify_message :: "string \<Rightarrow> jserr + unit \<Rightarrow> string list" where
  "verify_message already r = (case r of
       Inr _ \<Rightarrow> []
     | Inl error \<Rightarrow> if js_includes (toLowerCase (e_message error)) ''already verified'' then [already]
                    else [e_message error])"

definition verify :: "(jsval \<Rightarrow> jsval list \<Rightarrow> jserr + unit) \<Rightarrow> jsval \<Rightarrow> jsval list \<Rightarrow> string list" where
  "verify run_verify contractAddress args =
     ''Verifying contract...'' # verify_message ''Already verified!'' (run_verify contractAddress args)"

record deploy_options =
  dep_name :: string
  dep_from :: jsval
  dep_args :: "jsval list"
  dep_waitConfirmations :: jsval

definition deploy_marketplace ::
  "(deploy_options \<Rightarrow> jserr + jsval) \<Rightarrow> (jsval \<Rightarrow> jsval list \<Rightarrow> jserr + unit) \<Rightarrow> string \<Rightarrow> jsval \<Rightarrow> jsval \<Rightarrow> jserr + string list" where
  "deploy_marketplace deploy run_verify network_name network_config deployer =
     bindE (getp network_config ''blockConfirmations'') (\<lambda>conf.
     bindE (deploy \<lparr>dep_name = ''NFTMarketplace'', dep_from = deployer, dep_args = [],
                    dep_waitConfirmations = js_or conf (JNum 1)\<rparr>) (\<lambda>address.
       Inr ([''Deploying contracts with account:'', ''NFTMarketplace deployed to:''] @
         (if network_name \<noteq> ''hardhat'' \<and> network_name \<noteq> ''localhost''
          then verify_message ''Contract already verified!'' (run_verify address []) else []))))"

end
