(* ===== verification/ScriptProps.thy ===== *)
theory ScriptProps
  imports Search Scripts
begin

text \<open>
  What the scripts do on the marketplace: \<open>interact.js\<close> goes through from deployment to purchase,
  and the two older scripts stop where they read an address from the wrong place.
\<close>

lemma view_state [simp]: "snd (view r s) = s"
  by (simp add: view_def split: sum.split)

lemma bindS_view_state: "(\<And>x. snd (f x s) = s) \<Longrightarrow> snd (bindS (view r s) f) = s"
  by (simp add: view_def split: sum.split)

lemma interact_category_search_state [simp]: "snd (interact_category_search s) = s"
  unfolding interact_category_search_def by (intro bindS_view_state) simp

text \<open>The searches of \<open>interact.js\<close> never fail, whatever the state.\<close>

lemma interact_search_ok [simp]: "bindS (interact_search f s) (\<lambda>r s'. k s') = k s"
  by (simp add: interact_search_def searchCollections_def searchWithFilters_eq view_def)

lemmas script_defs = interact_main_def interact_try_def interact_collections_def interact_mint_def interact_list_def
  interact_buy_def tx_def view_def nft_view_def fetchUserCreatedCollections_def fetchCollections_def
  fetchCollectionDetails_def getCollectionDetails_def ownerOf_def getApproved_def fetchCollectionItems_def
  createMarketSale_def createMarketSale_body_def transfer_eth_def fetchUserPurchasedItems_def listed_tokens_def
  one_tenth_ether_def

text \<open>
  C26. The interaction script on a newly deployed marketplace: with two funded accounts and two fresh
  collection addresses, every transaction and view of \<open>interact.js\<close> succeeds. It ends without an error,
  with both collections registered, the first minted token with the buyer and the second with the deployer,
  the price moved from the buyer to the deployer and the listing fee to the marketplace.
\<close>

theorem interact_end_to_end:
  fixes this deployer buyer ca1 ca2 :: address
  assumes new: "new_NFTMarketplace m this ch = Inr s"
    and ch: "nfts ch = Map.empty" "code ch ca1 = NoCode" "code ch ca2 = NoCode" "code ch deployer = NoCode"
      "accepts ch deployer" "500000000000000 \<le> bal ch deployer" "one_tenth_ether \<le> bal ch buyer"
    and d: "distinct [0, this, deployer, buyer, ca1, ca2]"
  shows "case interact_main f deployer buyer ca1 ca2 ts s of (rc, error, s') \<Rightarrow>
    error = None \<and> collectionAddresses s' = [ca1, ca2] \<and>
    (\<exists>n. nfts s' ca2 = Some n \<and> nft_owners n 1 = buyer \<and> nft_owners n 2 = deployer \<and> totalSupply n = 2) \<and>
    userPurchaseCount s' buyer = 1 \<and> bal s' this = bal s this + 500000000000000 \<and>
    bal s' buyer + one_tenth_ether = bal s buyer \<and>
    bal s' deployer + 500000000000000 = bal s deployer + one_tenth_ether"
proof -
  from new_NFTMarketplace_shape [OF new] obtain l where
    s: "s = (empty_market this (msg_sender m) ch)\<lparr>logs := l, categories := initial_categories,
      categoryExists := (\<lambda>c. c \<in> set initial_categories)\<rparr>" by blast
  have d': "distinct [ca2, ca1, buyer, deployer, this, 0]" using d by auto
  show ?thesis
    using d d' ch unfolding s by (simp add: demo_defs script_defs)
qed

theorem interact_end_to_end_witness:
  "case interact_main (\<lambda>_. []) 2 3 100 200 1000 demo_new of (rc, error, s') \<Rightarrow>
    error = None \<and> collectionAddresses s' = [100, 200] \<and>
    (\<exists>n. nfts s' 200 = Some n \<and> nft_owners n 1 = 3 \<and> nft_owners n 2 = 2 \<and> totalSupply n = 2) \<and>
    userPurchaseCount s' 3 = 1 \<and> bal s' 9 = bal demo_new 9 + 500000000000000 \<and>
    bal s' 3 + one_tenth_ether = bal demo_new 3 \<and>
    bal s' 2 + 500000000000000 = bal demo_new 2 + one_tenth_ether"
  using interact_end_to_end [OF demo_new_eq, of 100 200 2 3 "\<lambda>_. []" 1000]
  by (simp add: demo_chain_def one_tenth_ether_def)

text \<open>
  The two older scripts read \<open>collectionAddress\<close> from the details record instead of its \<open>basic\<close> part.
\<close>

lemma latest_address_undefined: "latest_address addr cols = Inr JUndef \<or> (\<exists>er. latest_address addr cols = Inl er)"
  by (auto simp: latest_address_def details_json_def Let_def)

lemma latest_address_stops:
  assumes "to_address JUndef = Inl er"
  shows "\<exists>er'. bindS (latest_address addr cols, s) (\<lambda>v s. bindS (to_address v, s) (k v)) = (Inl er', s)"
  using latest_address_undefined [of addr cols] assms by auto

lemma fetch_then_stops:
  assumes "to_address JUndef = Inl er"
  shows "\<exists>er'. bindS (view (fetchCollections s) s) (\<lambda>cols s. bindS (latest_address addr cols, s)
    (\<lambda>v s. bindS (to_address v, s) (k v))) = (Inl er', s)"
  using latest_address_stops [of to_address, OF assms] by (cases "fetchCollections s") (simp_all add: view_def)

text \<open>
  The listing script never lists anything: as long as \<open>ethers\<close> refuses \<open>undefined\<close> as an address,
  \<open>createMarketItem.js\<close> fails on every marketplace, leaving behind at most the collection it has
  created, and \<open>createMarketSale.js\<close> fails and changes nothing; both exit with code 1.
\<close>

theorem listing_scripts_fail:
  assumes "to_address JUndef = Inl er"
  shows "exit_code (createMarketItem_script addr to_address deployer ca ts s) = 1 \<and>
    (snd (createMarketItem_script addr to_address deployer ca ts s) = s \<or>
     exec (mk_msg deployer 0 ts) (CreateCollection ca ''NFT Collection'' ''MNC'' base_uri ''Art'') s =
       Inr (snd (createMarketItem_script addr to_address deployer ca ts s))) \<and>
    exit_code (createMarketSale_script addr to_address s) = 1 \<and>
    snd (createMarketSale_script addr to_address s) = s"
proof -
  have sale: "\<exists>er'. createMarketSale_script addr to_address s = (Inl er', s)"
    unfolding createMarketSale_script_def by (rule fetch_then_stops [of to_address, OF assms])
  let ?c = "exec (mk_msg deployer 0 ts) (CreateCollection ca ''NFT Collection'' ''MNC'' base_uri ''Art'') s"
  show ?thesis
  proof (cases ?c)
    case (Inl r)
    then have "createMarketItem_script addr to_address deployer ca ts s = (Inl (reverted r), s)"
      by (simp only: createMarketItem_script_def tx_def sum.case bindS_simps)
    with sale show ?thesis by (auto simp: exit_code_def)
  next
    case (Inr s')
    then have "\<exists>er'. createMarketItem_script addr to_address deployer ca ts s = (Inl er', s')"
      unfolding createMarketItem_script_def tx_def by (simp only: sum.case bindS_simps) (rule fetch_then_stops [of to_address, OF assms])
    with sale Inr show ?thesis by (auto simp: exit_code_def simp del: exec.simps)
  qed
qed

theorem listing_scripts_fail_witness:
  "exit_code (createMarketItem_script (\<lambda>_. ''0x'') (\<lambda>v. case v of JStr x \<Rightarrow> Inr 100 | _ \<Rightarrow> Inl (new_Error ''invalid address'')) 2 100 1000 demo_new) = 1"
  using listing_scripts_fail [of "\<lambda>v. case v of JStr x \<Rightarrow> Inr 100 | _ \<Rightarrow> Inl (new_Error ''invalid address'')" _ "\<lambda>_. ''0x''" 2 100 1000 demo_new]
  by simp

end
