(* ===== verification/Config.thy ===== *)
theory Config
  imports JsBase
begin

text \<open>
  The configuration modules: \<open>src/config/index.js\<close> (one object per environment, built from the
  environment variables), \<open>src/config/pinata.js\<close>, \<open>hardhat.config.js\<close> and
  \<open>helper-hardhat-config.js\<close>. Objects are association lists in source order.
\<close>

section \<open>src/config/index.js\<close>

definition db_options :: jsval where
  "db_options = JObj [(''useNewUrlParser'', JBool True), (''useUnifiedTopology'', JBool True),
     (''useCreateIndex'', JBool True), (''useFindAndModify'', JBool False)]"

definition development :: "env \<Rightarrow> jsval" where
  "development e = JObj
    [(''env'', JStr ''development''),
     (''app'', JObj
       [(''port'', js_or (parseEnv e ''DEV_APP_PORT'') (JNum 3000)),
        (''jwtSecret'', getenv e ''DEV_JWT_SECRET''),
        (''jwtExpirationInterval'', js_or (getenv e ''DEV_JWT_EXPIRATION_MINUTES'') (JNum 30)),
        (''corsOrigin'', js_or (getenv e ''DEV_CORS_ORIGIN'') (JStr ''http://localhost:3000''))]),
     (''db'', JObj [(''uri'', getenv e ''DEV_MONGODB_URI''), (''options'', db_options)]),
     (''blockchain'', JObj
       [(''providerUrl'', getenv e ''DEV_BLOCKCHAIN_PROVIDER_URL''),
        (''networkId'', js_or (parseEnv e ''DEV_NETWORK_ID'') (JNum 1337)),
        (''gasPrice'', js_or (getenv e ''DEV_GAS_PRICE'') (JStr ''20000000000'')),
        (''gasLimit'', js_or (parseEnv e ''DEV_GAS_LIMIT'') (JNum 6721975)),
        (''contractAddress'', getenv e ''DEV_CONTRACT_ADDRESS'')]),
     (''ipfs'', JObj
       [(''host'', js_or (getenv e ''DEV_IPFS_HOST'') (JStr ''ipfs.infura.io'')),
        (''port'', js_or (parseEnv e ''DEV_IPFS_PORT'') (JNum 5001)),
        (''protocol'', js_or (getenv e ''DEV_IPFS_PROTOCOL'') (JStr ''https''))]),
     (''email'', JObj
       [(''smtp'', JObj
          [(''host'', getenv e ''DEV_SMTP_HOST''),
           (''port'', js_or (parseEnv e ''DEV_SMTP_PORT'') (JNum 587)),
           (''auth'', JObj [(''user'', getenv e ''DEV_SMTP_USERNAME''), (''pass'', getenv e ''DEV_SMTP_PASSWORD'')])]),
        (''secure'', JBool (getenv e ''EMAIL_SECURE'' = JStr ''true'')),
        (''from'', getenv e ''DEV_EMAIL_FROM''),
        (''clientUrl'', getenv e ''CLIENT_URL'')]),
     (''logging'', JObj
       [(''level'', js_or (getenv e ''DEV_LOG_LEVEL'') (JStr ''debug'')),
        (''filename'', js_or (getenv e ''DEV_LOG_FILENAME'') (JStr ''app.log''))])]"

definition test_config :: "env \<Rightarrow> jsval" where
  "test_config e = JObj
    [(''env'', JStr ''test''),
     (''app'', JObj
       [(''port'', js_or (parseEnv e ''TEST_APP_PORT'') (JNum 3001)),
        (''jwtSecret'', getenv e ''TEST_JWT_SECRET''),
        (''jwtExpirationInterval'', js_or (getenv e ''TEST_JWT_EXPIRATION_MINUTES'') (JNum 30)),
        (''corsOrigin'', js_or (getenv e ''TEST_CORS_ORIGIN'') (JStr ''http://localhost:3001''))]),
     (''db'', JObj [(''uri'', getenv e ''TEST_MONGODB_URI''), (''options'', db_options)]),
     (''blockchain'', JObj
       [(''providerUrl'', getenv e ''TEST_BLOCKCHAIN_PROVIDER_URL''),
        (''networkId'', js_or (parseEnv e ''TEST_NETWORK_ID'') (JNum 1337)),
        (''gasPrice'', js_or (getenv e ''TEST_GAS_PRICE'') (JStr ''20000000000'')),
        (''gasLimit'', js_or (parseEnv e ''TEST_GAS_LIMIT'') (JNum 6721975)),
        (''contractAddress'', getenv e ''TEST_CONTRACT_ADDRESS'')]),
     (''ipfs'', JObj
       [(''host'', js_or (getenv e ''TEST_IPFS_HOST'') (JStr ''ipfs.infura.io'')),
        (''port'', js_or (parseEnv e ''TEST_IPFS_PORT'') (JNum 5001)),
        (''protocol'', js_or (getenv e ''TEST_IPFS_PROTOCOL'') (JStr ''https''))]),
     (''email'', JObj
       [(''smtp'', JObj
          [(''host'', getenv e ''TEST_SMTP_HOST''),
           (''port'', js_or (parseEnv e ''TEST_SMTP_PORT'') (JNum 587)),
           (''auth'', JObj [(''user'', getenv e ''TEST_SMTP_USERNAME''), (''pass'', getenv e ''TEST_SMTP_PASSWORD'')])]),
        (''from'', getenv e ''TEST_EMAIL_FROM'')]),
     (''logging'', JObj
       [(''level'', js_or (getenv e ''TEST_LOG_LEVEL'') (JStr ''debug'')),
        (''filename'', js_or (getenv e ''TEST_LOG_FILENAME'') (JStr ''test.log''))])]"

definition production :: "env \<Rightarrow> jsval" where
  "production e = JObj
    [(''env'', JStr ''production''),
     (''app'', JObj
       [(''port'', js_or (parseEnv e ''PROD_APP_PORT'') (JNum 3000)),
        (''jwtSecret'', getenv e ''PROD_JWT_SECRET''),
        (''jwtExpirationInterval'', js_or (getenv e ''PROD_JWT_EXPIRATION_MINUTES'') (JNum 30)),
        (''corsOrigin'', getenv e ''PROD_CORS_ORIGIN'')]),
     (''db'', JObj [(''uri'', getenv e ''PROD_MONGODB_URI''), (''options'', db_options)]),
     (''blockchain'', JObj
       [(''providerUrl'', getenv e ''PROD_BLOCKCHAIN_PROVIDER_URL''),
        (''networkId'', js_or (parseEnv e ''PROD_NETWORK_ID'') (JNum 1)),
        (''gasPrice'', js_or (getenv e ''PROD_GAS_PRICE'') (JStr ''20000000000'')),
        (''gasLimit'', js_or (parseEnv e ''PROD_GAS_LIMIT'') (JNum 6721975)),
        (''contractAddress'', getenv e ''PROD_CONTRACT_ADDRESS'')]),
     (''ipfs'', JObj
       [(''host'', js_or (getenv e ''PROD_IPFS_HOST'') (JStr ''ipfs.infura.io'')),
        (''port'', js_or (parseEnv e ''PROD_IPFS_PORT'') (JNum 5001)),
        (''protocol'', js_or (getenv e ''PROD_IPFS_PROTOCOL'') (JStr ''https''))]),
     (''email'', JObj
       [(''smtp'', JObj
          [(''host'', getenv e ''PROD_SMTP_HOST''),
           (''port'', js_or (parseEnv e ''PROD_SMTP_PORT'') (JNum 587)),
           (''auth'', JObj [(''user'', getenv e ''PROD_SMTP_USERNAME''), (''pass'', getenv e ''PROD_SMTP_PASSWORD'')])]),
        (''from'', getenv e ''PROD_EMAIL_FROM'')]),
     (''logging'', JObj
       [(''level'', js_or (getenv e ''PROD_LOG_LEVEL'') (JStr ''info'')),
        (''filename'', js_or (getenv e ''PROD_LOG_FILENAME'') (JStr ''app.log''))])]"

text \<open>
  \<open>config[env]\<close>. A name the object literal lacks is \<open>undefined\<close>, unless \<open>Object.prototype\<close> has
  it: then the value is an object or function without any of the configuration's properties.
\<close>

definition proto_names :: "string list" where
  "proto_names = [''constructor'', ''__proto__'', ''__defineGetter__'', ''__defineSetter__'', ''hasOwnProperty'',
     ''__lookupGetter__'', ''__lookupSetter__'', ''isPrototypeOf'', ''propertyIsEnumerable'',
     ''toString'', ''valueOf'', ''toLocaleString'']"

definition config_env :: "env \<Rightarrow> string" where
  "config_env e = js_String (js_or (getenv e ''NODE_ENV'') (JStr ''development''))"

definition config :: "env \<Rightarrow> jsval" where
  "config e =
     (if config_env e = ''development'' then development e
      else if config_env e = ''test'' then test_config e
      else if config_env e = ''production'' then production e
      else if config_env e \<in> set proto_names then JObj []
      else JUndef)"

section \<open>src/config/pinata.js\<close>

text \<open>The SDK's constructor is the parameter; a missing key is passed on as \<open>undefined\<close>.\<close>

definition pinata_client :: "(jsval \<Rightarrow> jsval \<Rightarrow> jserr + 'p) \<Rightarrow> env \<Rightarrow> jserr + 'p" where
  "pinata_client pinataSDK e = pinataSDK (getenv e ''PINATA_API_KEY'') (getenv e ''PINATA_SECRET_KEY'')"

section \<open>hardhat.config.js and helper-hardhat-config.js\<close>

definition networks :: "env \<Rightarrow> (string \<times> jsval) list" where
  "networks e =
    [(''hardhat'', JObj [(''chainId'', JNum 31337)]),
     (''localhost'', JObj [(''chainId'', JNum 31337)]),
     (''sepolia'', JObj
       [(''url'', js_or (getenv e ''SEPOLIA_RPC_URL'') (JStr [])),
        (''accounts'', JArr (if getenv e ''PRIVATE_KEY'' \<noteq> JUndef then [getenv e ''PRIVATE_KEY''] else [])),
        (''chainId'', JNum 11155111),
        (''blockConfirmations'', JNum 6),
        (''gasPrice'', JNum 3000000000),
        (''gas'', JNum 2100000),
        (''saveDeployments'', JBool True)])]"

definition hardhat_config :: "env \<Rightarrow> jsval" where
  "hardhat_config e = JObj
    [(''solidity'', JObj [(''version'', JStr ''0.8.28''),
       (''settings'', JObj [(''optimizer'', JObj [(''enabled'', JBool True), (''runs'', JNum 200)])])]),
     (''defaultNetwork'', JStr ''hardhat''),
     (''networks'', JObj (networks e)),
     (''namedAccounts'', JObj [(''deployer'', JObj [(''default'', JNum 0)]), (''user'', JObj [(''default'', JNum 1)])]),
     (''etherscan'', JObj [(''apiKey'', js_or (getenv e ''ETHERSCAN_API_KEY'') (JStr []))]),
     (''paths'', JObj [(''deploy'', JStr ''deploy''), (''deployments'', JStr ''deployment'')]),
     (''mocha'', JObj [(''timeout'', JNum 500000)])]"

text \<open>
  The first version of the file, kept there as a comment: the account list holds \<open>undefined\<close> when no
  key is set.
\<close>

definition hardhat_config_old :: "env \<Rightarrow> jsval" where
  "hardhat_config_old e = JObj
    [(''solidity'', JObj [(''version'', JStr ''0.8.28''),
       (''settings'', JObj [(''optimizer'', JObj [(''enabled'', JBool True), (''runs'', JNum 200)]), (''viaIR'', JBool True)])]),
     (''networks'', JObj [(''sepolia'', JObj [(''url'', getenv e ''SEPOLIA_RPC_URL''),
       (''accounts'', JArr [getenv e ''PRIVATE_KEY''])])]),
     (''etherscan'', JObj [(''apiKey'', getenv e ''ETHERSCAN_API_KEY'')]),
     (''paths'', JObj [(''sources'', JStr ''./contracts''), (''tests'', JStr ''./test''), (''cache'', JStr ''./cache''),
       (''artifacts'', JStr ''./artifacts'')])]"

definition networkConfig :: "(nat \<times> jsval) list" where
  "networkConfig =
    [(31337, JObj [(''name'', JStr ''localhost'')]),
     (11155111, JObj [(''name'', JStr ''sepolia''), (''blockConfirmations'', JNum 6)])]"

definition developmentChains :: "string list" where
  "developmentChains = [''hardhat'', ''localhost'']"

section \<open>Properties\<close>

text \<open>The numeric settings of an environment: the path in the object and the suffix of the variable.\<close>

definition numeric_settings :: "(string list \<times> string) list" where
  "numeric_settings =
    [([''app'', ''port''], ''_APP_PORT''), ([''blockchain'', ''networkId''], ''_NETWORK_ID''),
     ([''blockchain'', ''gasLimit''], ''_GAS_LIMIT''), ([''ipfs'', ''port''], ''_IPFS_PORT''),
     ([''email'', ''smtp'', ''port''], ''_SMTP_PORT'')]"

fun env_prefix :: "string \<Rightarrow> string" where
  "env_prefix nm = (if nm = ''test'' then ''TEST'' else if nm = ''production'' then ''PROD'' else ''DEV'')"

lemma config_known:
  "config_env e = ''development'' \<Longrightarrow> config e = development e"
  "config_env e = ''test'' \<Longrightarrow> config e = test_config e"
  "config_env e = ''production'' \<Longrightarrow> config e = production e"
  by (simp_all add: config_def)

lemmas env_objects = development_def test_config_def production_def

lemma settings_dev:
  "getpath (development e) [''app'', ''port''] = Inr (js_or (parseEnv e (''DEV'' @ ''_APP_PORT'')) (JNum 3000))"
  "getpath (development e) [''blockchain'', ''networkId''] = Inr (js_or (parseEnv e (''DEV'' @ ''_NETWORK_ID'')) (JNum 1337))"
  "getpath (development e) [''blockchain'', ''gasLimit''] = Inr (js_or (parseEnv e (''DEV'' @ ''_GAS_LIMIT'')) (JNum 6721975))"
  "getpath (development e) [''ipfs'', ''port''] = Inr (js_or (parseEnv e (''DEV'' @ ''_IPFS_PORT'')) (JNum 5001))"
  "getpath (development e) [''email'', ''smtp'', ''port''] = Inr (js_or (parseEnv e (''DEV'' @ ''_SMTP_PORT'')) (JNum 587))"
  by (simp_all add: development_def del: js_or_simps getenv_simps)

lemma settings_test:
  "getpath (test_config e) [''app'', ''port''] = Inr (js_or (parseEnv e (''TEST'' @ ''_APP_PORT'')) (JNum 3001))"
  "getpath (test_config e) [''blockchain'', ''networkId''] = Inr (js_or (parseEnv e (''TEST'' @ ''_NETWORK_ID'')) (JNum 1337))"
  "getpath (test_config e) [''blockchain'', ''gasLimit''] = Inr (js_or (parseEnv e (''TEST'' @ ''_GAS_LIMIT'')) (JNum 6721975))"
  "getpath (test_config e) [''ipfs'', ''port''] = Inr (js_or (parseEnv e (''TEST'' @ ''_IPFS_PORT'')) (JNum 5001))"
  "getpath (test_config e) [''email'', ''smtp'', ''port''] = Inr (js_or (parseEnv e (''TEST'' @ ''_SMTP_PORT'')) (JNum 587))"
  by (simp_all add: test_config_def del: js_or_simps getenv_simps)

lemma settings_prod:
  "getpath (production e) [''app'', ''port''] = Inr (js_or (parseEnv e (''PROD'' @ ''_APP_PORT'')) (JNum 3000))"
  "getpath (production e) [''blockchain'', ''networkId''] = Inr (js_or (parseEnv e (''PROD'' @ ''_NETWORK_ID'')) (JNum 1))"
  "getpath (production e) [''blockchain'', ''gasLimit''] = Inr (js_or (parseEnv e (''PROD'' @ ''_GAS_LIMIT'')) (JNum 6721975))"
  "getpath (production e) [''ipfs'', ''port''] = Inr (js_or (parseEnv e (''PROD'' @ ''_IPFS_PORT'')) (JNum 5001))"
  "getpath (production e) [''email'', ''smtp'', ''port''] = Inr (js_or (parseEnv e (''PROD'' @ ''_SMTP_PORT'')) (JNum 587))"
  by (simp_all add: production_def del: js_or_simps getenv_simps)

lemma setting_dev:
  assumes "(path, suf) \<in> set numeric_settings"
  shows "\<exists>d. getpath (development e) path = Inr (js_or (parseEnv e (''DEV'' @ suf)) (JNum d)) \<and> d \<noteq> 0"
proof -
  have "list_all (\<lambda>(path, suf). \<exists>d. getpath (development e) path =
      Inr (js_or (parseEnv e (''DEV'' @ suf)) (JNum d)) \<and> d \<noteq> 0) numeric_settings"
    unfolding numeric_settings_def list.pred_inject prod.case
    by (intro conjI exI, (rule settings_dev, simp)+, simp)
  with assms show ?thesis unfolding list_all_iff by blast
qed

lemma setting_test:
  assumes "(path, suf) \<in> set numeric_settings"
  shows "\<exists>d. getpath (test_config e) path = Inr (js_or (parseEnv e (''TEST'' @ suf)) (JNum d)) \<and> d \<noteq> 0"
proof -
  have "list_all (\<lambda>(path, suf). \<exists>d. getpath (test_config e) path =
      Inr (js_or (parseEnv e (''TEST'' @ suf)) (JNum d)) \<and> d \<noteq> 0) numeric_settings"
    unfolding numeric_settings_def list.pred_inject prod.case
    by (intro conjI exI, (rule settings_test, simp)+, simp)
  with assms show ?thesis unfolding list_all_iff by blast
qed

lemma setting_prod:
  assumes "(path, suf) \<in> set numeric_settings"
  shows "\<exists>d. getpath (production e) path = Inr (js_or (parseEnv e (''PROD'' @ suf)) (JNum d)) \<and> d \<noteq> 0"
proof -
  have "list_all (\<lambda>(path, suf). \<exists>d. getpath (production e) path =
      Inr (js_or (parseEnv e (''PROD'' @ suf)) (JNum d)) \<and> d \<noteq> 0) numeric_settings"
    unfolding numeric_settings_def list.pred_inject prod.case
    by (intro conjI exI, (rule settings_prod, simp)+, simp)
  with assms show ?thesis unfolding list_all_iff by blast
qed

lemma setting_from_env:
  assumes "config_env e \<in> {''development'', ''test'', ''production''}" and "(path, suf) \<in> set numeric_settings"
  shows "\<exists>d. getpath (config e) path = Inr (js_or (parseEnv e (env_prefix (config_env e) @ suf)) (JNum d)) \<and> d \<noteq> 0"
proof -
  consider "config_env e = ''development''" | "config_env e = ''test''" | "config_env e = ''production''"
    using assms(1) by blast
  then show ?thesis
  proof cases
    case 1
    then show ?thesis using setting_dev [OF assms(2), of e] config_known(1) [OF 1] by simp
  next
    case 2
    then show ?thesis using setting_test [OF assms(2), of e] config_known(2) [OF 2] by simp
  next
    case 3
    then show ?thesis using setting_prod [OF assms(2), of e] config_known(3) [OF 3] by simp
  qed
qed

text \<open>
  C36. Numeric settings: in every environment, a port, network id, gas limit or SMTP port that is
  set to the decimal text of a positive number is the double nearest to it, which is exactly that number up to
  \<open>2 ^ 53\<close>; in any other case the setting is still a non-zero number or an infinity, never \<open>NaN\<close> or \<open>undefined\<close>.
\<close>

theorem numeric_settings_parsed:
  assumes "config_env e \<in> {''development'', ''test'', ''production''}" and "(path, suf) \<in> set numeric_settings"
  shows "((\<exists>k. k \<noteq> 0 \<and> getpath (config e) path = Inr (JNum k)) \<or> (\<exists>neg. getpath (config e) path = Inr (JInf neg))) \<and>
    (\<forall>n. 0 < n \<longrightarrow> e (env_prefix (config_env e) @ suf) = Some (show_nat n) \<longrightarrow>
       getpath (config e) path = Inr (js_number False n) \<and>
       (n \<le> 2 ^ 53 \<longrightarrow> getpath (config e) path = Inr (JNum (int n))))"
proof -
  obtain d where d: "d \<noteq> 0" and
    g: "getpath (config e) path = Inr (js_or (parseEnv e (env_prefix (config_env e) @ suf)) (JNum d))"
    using setting_from_env [OF assms] by blast
  have "(\<exists>k. k \<noteq> 0 \<and> js_or (parseEnv e v) (JNum d) = JNum k) \<or> (\<exists>neg. js_or (parseEnv e v) (JNum d) = JInf neg)" for v
    using d parseInt_number [of "js_String (getenv e v)"] by (auto simp: parseEnv_def js_or_def)
  then show ?thesis using g by (auto simp: parseEnv_num js_number_small)
qed

text \<open>Above that bound digits are lost.\<close>

lemma to_double_rounds: "to_double 9007199254740993 = 9007199254740992"
  by (simp add: to_double_def excess.simps)

theorem numeric_settings_parsed_witness:
  "getpath (config (\<lambda>k. if k = ''TEST_APP_PORT'' then Some (show_nat 8080)
     else if k = ''NODE_ENV'' then Some ''test'' else None)) [''app'', ''port''] = Inr (JNum 8080)"
proof -
  let ?e = "\<lambda>k. if k = ''TEST_APP_PORT'' then Some (show_nat 8080)
     else if k = ''NODE_ENV'' then Some ''test'' else None"
  have env: "config_env ?e = ''test''" by (simp add: config_env_def getenv_def)
  have "([''app'', ''port''], ''_APP_PORT'') \<in> set numeric_settings" by (simp add: numeric_settings_def)
  then have "\<forall>n. 0 < n \<longrightarrow> ?e (env_prefix (config_env ?e) @ ''_APP_PORT'') = Some (show_nat n) \<longrightarrow>
      getpath (config ?e) [''app'', ''port''] = Inr (js_number False n) \<and>
      (n \<le> 2 ^ 53 \<longrightarrow> getpath (config ?e) [''app'', ''port''] = Inr (JNum (int n)))"
    using numeric_settings_parsed [of ?e "[''app'', ''port'']" "''_APP_PORT''"] unfolding env by blast
  then show ?thesis unfolding env by (drule_tac x = 8080 in spec) simp
qed

end
