(* ===== verification/ServiceProps.thy ===== *)
theory ServiceProps
  imports Services
begin

text \<open>
  What the services guarantee about the order of their effects on IPFS, the chain and the
  database, and about the errors they report.
\<close>

section \<open>Creating a collection\<close>

lemma find_created_Some:
  "find_created parse logs = Inr (Some l) \<Longrightarrow>
   \<exists>pre post args. logs = pre @ l # post \<and> parse l = Inr (Some (''CollectionCreated'', args)) \<and>
     list_all (\<lambda>k. \<forall>a. parse k \<noteq> Inr (Some (''CollectionCreated'', a))) pre"
proof (induction logs)
  case Nil
  then show ?case by simp
next
  case (Cons k ks)
  then obtain ev where ev: "parse k = Inr ev" by auto
  show ?case
  proof (cases "\<exists>args. ev = Some (''CollectionCreated'', args)")
    case True
    then have "k = l" using Cons.prems ev by auto
    with True ev show ?thesis by (intro exI [of _ "[]"] exI [of _ ks]) auto
  next
    case False
    then have "find_created parse ks = Inr (Some l)"
      using Cons.prems ev by (auto split: option.splits prod.splits if_splits)
    then obtain pre post args where ks: "ks = pre @ l # post" "parse l = Inr (Some (''CollectionCreated'', args))"
      "list_all (\<lambda>k. \<forall>a. parse k \<noteq> Inr (Some (''CollectionCreated'', a))) pre"
      using Cons.IH by blast
    with False ev show ?thesis by (intro exI [of _ "k # pre"] exI [of _ post]) auto
  qed
qed

lemma created_address_Inr:
  assumes "created_address parse trace logs = Inr addr"
  shows "\<exists>pre l post args. logs = pre @ l # post \<and> parse l = Inr (Some (''CollectionCreated'', args)) \<and>
    list_all (\<lambda>k. \<forall>a. parse k \<noteq> Inr (Some (''CollectionCreated'', a))) pre \<and>
    getp args ''collectionAddress'' = Inr addr"
proof -
  obtain l where l: "find_created parse logs = Inr (Some l)"
    using assms by (auto simp: created_address_def split: option.splits)
  note found = find_created_Some [OF l]
  then show ?thesis using assms l by (fastforce simp: created_address_def)
qed

text \<open>
  A collection is stored only after its transaction is mined, under the address that the first
  \<open>CollectionCreated\<close> event of the receipt names and with the caller as creator.
\<close>

theorem createCollection_stores_mined:
  assumes "service_createCollection D e trace data user (c, d) = (Inr coll, (c', d'))"
  shows "\<exists>tx c1 logs pre l post args addr.
    fac_createCollection D (field data ''name'') (field data ''symbol'') (field data ''category'') c = (Inr tx, c1) \<and>
    tx_wait D tx c1 = (Inr logs, c') \<and> logs = pre @ l # post \<and>
    fac_parseLog D l = Inr (Some (''CollectionCreated'', args)) \<and>
    list_all (\<lambda>k. \<forall>a. fac_parseLog D k \<noteq> Inr (Some (''CollectionCreated'', a))) pre \<and>
    getp args ''collectionAddress'' = Inr addr \<and>
    new_Collection D (collection_doc (field data) addr user) = Inr coll \<and>
    coll_save D coll d = (Inr (), d')"
proof -
  obtain tx c1 logs addr where
    steps: "fac_createCollection D (field data ''name'') (field data ''symbol'') (field data ''category'') c = (Inr tx, c1)"
      "tx_wait D tx c1 = (Inr logs, c')" "new_Collection D (collection_doc (field data) addr user) = Inr coll"
      "coll_save D coll d = (Inr (), d')"
    and addr: "created_address (fac_parseLog D) trace logs = Inr addr"
    using assms
    by (auto simp: service_createCollection_def rethrow_Inr_iff createCollection_try_def bindS_Inr_iff
        lift_Inr_iff)
  show ?thesis using created_address_Inr [OF addr] steps by blast
qed

definition demo_coll :: "(nat, nat, string \<times> jsval, jsval list) coll_deps" where
  "demo_coll = \<lparr>new_Wallet = (\<lambda>_. Inr ()), fac_createCollection = (\<lambda>_ _ _ c. (Inr c, Suc c)),
     tx_wait = (\<lambda>tx c. (Inr [(''Transfer'', JObj []), (''CollectionCreated'', JObj [(''collectionAddress'', JStr ''0xC0'')])], c)),
     fac_parseLog = (\<lambda>l. Inr (Some l)), new_Collection = Inr, coll_save = (\<lambda>doc d. (Inr (), doc # d)),
     coll_find = (\<lambda>_ _ _ d. Inr d)\<rparr>"

definition demo_body :: jsval where
  "demo_body = JObj [(''name'', JStr ''Apes''), (''symbol'', JStr ''AP''), (''category'', JStr ''art'')]"

lemma demo_createCollection:
  "service_createCollection demo_coll (\<lambda>_. None) [] demo_body (JStr ''0xA1'') (0, []) =
    (Inr (collection_doc (field demo_body) (JStr ''0xC0'') (JStr ''0xA1'')),
     (1, [collection_doc (field demo_body) (JStr ''0xC0'') (JStr ''0xA1'')]))"
  by (simp add: service_createCollection_def createCollection_try_def demo_coll_def demo_body_def
      created_address_def)

theorem createCollection_stores_mined_witness:
  "\<exists>tx c1 logs addr. fac_createCollection demo_coll (JStr ''Apes'') (JStr ''AP'') (JStr ''art'') 0 = (Inr tx, c1) \<and>
    tx_wait demo_coll tx c1 = (Inr logs, 1) \<and>
    new_Collection demo_coll (collection_doc (field demo_body) addr (JStr ''0xA1'')) =
      Inr (collection_doc (field demo_body) (JStr ''0xC0'') (JStr ''0xA1''))"
  using createCollection_stores_mined [OF demo_createCollection]
  by (auto simp: field_def demo_body_def)

text \<open>
  No rollback: when the transaction is mined and only saving the document fails, the caller
  gets an error with status 500 while the chain keeps the new collection and the database has no
  trace of it.
\<close>

theorem createCollection_no_rollback:
  assumes "new_Wallet D (getenv e ''PRIVATE_KEY'') = Inr ()" and "is_ok (getp data ''name'')"
    and "fac_createCollection D (field data ''name'') (field data ''symbol'') (field data ''category'') c = (Inr tx, c1)"
    and "tx_wait D tx c1 = (Inr logs, c2)" and "created_address (fac_parseLog D) trace logs = Inr addr"
    and "new_Collection D (collection_doc (field data) addr user) = Inr coll"
    and "coll_save D coll d = (Inl er, d)"
  shows "service_createCollection D e trace data user (c, d) =
    (Inl (new_AppError trace 500 (''Failed to create collection: '' @ e_message er)), (c2, d))"
proof -
  obtain v where "getp data ''name'' = Inr v" using assms(2) by (auto simp: is_ok_iff)
  then show ?thesis
    using assms by (simp add: service_createCollection_def createCollection_try_def)
qed

theorem createCollection_no_rollback_witness:
  "service_createCollection (demo_coll\<lparr>coll_save := \<lambda>doc d. (Inl (new_Error ''E11000''), d)\<rparr>) (\<lambda>_. None) []
     demo_body (JStr ''0xA1'') (0, []) =
   (Inl (new_AppError [] 500 (''Failed to create collection: '' @ ''E11000'')), (1, []))"
proof -
  let ?D = "demo_coll\<lparr>coll_save := \<lambda>doc d. (Inl (new_Error ''E11000''), d)\<rparr>"
  have "service_createCollection ?D (\<lambda>_. None) [] demo_body (JStr ''0xA1'') (0, []) =
      (Inl (new_AppError [] 500 (''Failed to create collection: '' @ e_message (new_Error ''E11000''))), (1, []))"
    by (rule createCollection_no_rollback [where tx = 0 and ?c1.0 = 1 and addr = "JStr ''0xC0''" and
          logs = "[(''Transfer'', JObj []), (''CollectionCreated'', JObj [(''collectionAddress'', JStr ''0xC0'')])]" and
          coll = "collection_doc (field demo_body) (JStr ''0xC0'') (JStr ''0xA1'')"])
      (simp_all add: demo_coll_def demo_body_def created_address_def)
  then show ?thesis by (simp add: new_Error_def)
qed

text \<open>
  Every failure of the service is an operational error with status 500 whose message starts
  with a fixed text, and a failure before the transaction leaves chain and database unchanged.
\<close>

theorem createCollection_errors:
  assumes "service_createCollection D e trace data user w = (Inl er, w')"
  shows "e_statusCode er = JNum 500 \<and> e_isOperational er \<and>
    (\<exists>m. e_message er = ''Failed to create collection: '' @ m) \<and>
    (\<not> is_ok (new_Wallet D (getenv e ''PRIVATE_KEY'')) \<or> \<not> is_ok (getp data ''name'') \<longrightarrow> w' = w)"
proof -
  obtain er0 where er0: "createCollection_try D e trace data user w = (Inl er0, w')"
    and er: "er = new_AppError trace 500 (''Failed to create collection: '' @ e_message er0)"
    using assms by (auto simp: service_createCollection_def rethrow_Inl_iff)
  have "w' = w" if "\<not> is_ok (new_Wallet D (getenv e ''PRIVATE_KEY'')) \<or> \<not> is_ok (getp data ''name'')"
    using that er0 by (auto simp: createCollection_try_def not_is_ok_iff bindS_def split: sum.splits prod.splits)
  then show ?thesis by (auto simp: er new_AppError_def AppError_def new_Error_def mk_err_def)
qed

theorem createCollection_errors_witness:
  "\<exists>er. service_createCollection demo_coll (\<lambda>_. None) [] JUndef JUndef (0, []) = (Inl er, (0, [])) \<and>
    e_statusCode er = JNum 500 \<and> (\<exists>m. e_message er = ''Failed to create collection: '' @ m)"
proof -
  obtain er w' where er: "service_createCollection demo_coll (\<lambda>_. None) [] JUndef JUndef (0, []) = (Inl er, w')"
    by (simp add: service_createCollection_def createCollection_try_def demo_coll_def)
  from createCollection_errors [OF er] er show ?thesis by (auto simp: demo_coll_def)
qed

section \<open>Minting\<close>

text \<open>
  Minting cannot work in this repository: as long as the ABI has no \<open>creator\<close> function or
  \<open>ipfs.service.js\<close> exports no \<open>uploadToIPFS\<close>, \<open>mintNFT\<close> fails for every request, and it leaves
  IPFS, chain and database unchanged.
\<close>

theorem mintNFT_blocked:
  assumes "nft_creator D = None \<or> uploadToIPFS D = None"
  shows "\<exists>m. mintNFT D collectionAddress nftData creatorAddress w =
    (Inl (new_Error (''Failed to mint NFT: '' @ m)), w)"
proof -
  obtain er where "mintNFT_try D collectionAddress nftData creatorAddress w = (Inl er, w)"
  proof (cases "check_creator D collectionAddress creatorAddress (w_chain w)")
    case (Inl er)
    then show ?thesis using that by (simp add: mintNFT_try_def)
  next
    case (Inr u)
    then have "nft_creator D \<noteq> None"
      by (auto simp: check_creator_def split: option.splits)
    then have none: "uploadToIPFS D = None" using assms by (cases "nft_creator D") simp_all
    show ?thesis
    proof (cases "getp nftData ''image''")
      case (Inl er)
      then show ?thesis using that Inr by (simp add: mintNFT_try_def \<open>check_creator D _ _ _ = _\<close>)
    next
      case (Inr image)
      then show ?thesis
        using that none \<open>check_creator D _ _ _ = _\<close> by (simp add: mintNFT_try_def upload_def)
    qed
  qed
  then show ?thesis by (auto simp: mintNFT_def)
qed

definition demo_nft :: "(nat, nat, jsval list, jsval list) nft_deps" where
  "demo_nft = \<lparr>nft_Contract = (\<lambda>_. Inr ()), nft_creator = Some (\<lambda>_ _. Inr (JStr ''0xABC'')),
     uploadToIPFS = Some (\<lambda>v i. (Inr (JStr (''Qm'' @ show_nat (length i))), v # i)),
     nft_mint_tx = (\<lambda>_ _ c. (Inr c, Suc c)),
     nft_wait = (\<lambda>tx c. (Inr ([(''NFTMinted'', JObj [(''tokenId'', JNum (int c))])], JStr ''0xhash''), c)),
     new_NFT = Inr, nft_save = (\<lambda>doc d. (Inr (), doc # d)), nft_findOne = (\<lambda>_ d. Inr (case d of [] \<Rightarrow> JNull | x # _ \<Rightarrow> x))\<rparr>"

theorem mintNFT_blocked_witness:
  "\<exists>m. mintNFT (demo_nft\<lparr>uploadToIPFS := None\<rparr>) (JStr ''0xC0'') (JObj []) (JStr ''0xabc'')
     \<lparr>w_chain = 0, w_ipfs = [], w_db = []\<rparr> =
    (Inl (new_Error (''Failed to mint NFT: '' @ m)), \<lparr>w_chain = 0, w_ipfs = [], w_db = []\<rparr>)"
  by (rule mintNFT_blocked) simp

lemma js_lower_Inr_iff: "js_lower v = Inr a \<longleftrightarrow> (\<exists>s. v = JStr s \<and> a = toLowerCase s)"
  by (auto simp: js_lower_def split: jsval.splits)

lemma check_creator_Inr:
  assumes "check_creator D ca cr c = Inr u"
  shows "\<exists>f a b. nft_creator D = Some f \<and> f ca c = Inr (JStr a) \<and> cr = JStr b \<and> toLowerCase a = toLowerCase b"
  using assms by (auto simp: check_creator_def js_lower_Inr_iff split: option.splits)

lemma upload_Inr:
  "upload D v w = (Inr h, w') \<Longrightarrow>
   \<exists>f i. uploadToIPFS D = Some f \<and> f v (w_ipfs w) = (Inr h, i) \<and> w' = w\<lparr>w_ipfs := i\<rparr>"
  by (auto simp: upload_def split: option.splits prod.splits)

text \<open>
  A successful mint: the caller is the collection's creator up to the case of the address, the
  image and then the metadata that names it were uploaded, exactly one mint transaction with the
  metadata's URI was sent and mined, and the stored document carries the token id of the
  \<open>NFTMinted\<close> event, that URI and the caller.
\<close>

theorem mintNFT_success:
  assumes "mintNFT D ca data cr w = (Inr r, w')"
  shows "\<exists>f a b up h1 i1 h2 i2 tx c1 receipt c2 t nft.
    nft_creator D = Some f \<and> f ca (w_chain w) = Inr (JStr a) \<and> cr = JStr b \<and> toLowerCase a = toLowerCase b \<and>
    uploadToIPFS D = Some up \<and> up (field data ''image'') (w_ipfs w) = (Inr h1, i1) \<and>
    up (nft_metadata data h1) i1 = (Inr h2, i2) \<and>
    nft_mint_tx D ca [JStr (ipfs_uri h2)] (w_chain w) = (Inr tx, c1) \<and> nft_wait D tx c1 = (Inr receipt, c2) \<and>
    minted_tokenId (fst receipt) = Inr t \<and>
    new_NFT D (nft_doc t data h1 ca cr (ipfs_uri h2) (nft_metadata data h1)) = Inr nft \<and>
    nft_save D nft (w_db w) = (Inr (), w_db w') \<and>
    r = \<lparr>mr_success = True, mr_tokenId = t, mr_tokenURI = ipfs_uri h2, mr_transactionHash = snd receipt, mr_nft = nft\<rparr> \<and>
    w_chain w' = c2 \<and> w_ipfs w' = i2"
proof -
  obtain u image where chk: "check_creator D ca cr (w_chain w) = Inr u" and img: "getp data ''image'' = Inr image"
    and rest: "bindS (upload D image w) (\<lambda>h1 w. bindS (upload D (nft_metadata data h1) w) (\<lambda>h2 w.
      bindS (case nft_mint_tx D ca [JStr (ipfs_uri h2)] (w_chain w) of (r, c) \<Rightarrow> (r, w\<lparr>w_chain := c\<rparr>)) (\<lambda>tx w.
      bindS (case nft_wait D tx (w_chain w) of (r, c) \<Rightarrow> (r, w\<lparr>w_chain := c\<rparr>)) (\<lambda>receipt w.
      bindS (minted_tokenId (fst receipt), w) (\<lambda>tokenId w.
      bindS (new_NFT D (nft_doc tokenId data h1 ca cr (ipfs_uri h2) (nft_metadata data h1)), w) (\<lambda>nft w.
      bindS (case nft_save D nft (w_db w) of (r, d) \<Rightarrow> (r, w\<lparr>w_db := d\<rparr>)) (\<lambda>_ w.
       (Inr \<lparr>mr_success = True, mr_tokenId = tokenId, mr_tokenURI = ipfs_uri h2,
             mr_transactionHash = snd receipt, mr_nft = nft\<rparr>, w)))))))) = (Inr r, w')"
    using assms by (auto simp: mintNFT_def rethrow_Inr_iff mintNFT_try_def bindS_Inr_iff Let_def)
  have fld: "field data ''image'' = image" using img by (simp add: field_def)
  show ?thesis
    using rest check_creator_Inr [OF chk] unfolding fld
    by (clarsimp simp: bindS_Inr_iff lift_Inr_iff dest!: upload_Inr)
qed

lemma demo_lower:
  "toLowerCase ''0xABC'' = ''0xabc''" "toLowerCase ''0xabc'' = ''0xabc''" "toLowerCase ''0xdef'' = ''0xdef''"
  by code_simp+

lemma demo_mint:
  "\<exists>r w'. mintNFT demo_nft (JStr ''0xC0'') (JObj [(''name'', JStr ''One''), (''image'', JBuf [1])]) (JStr ''0xabc'')
     \<lparr>w_chain = 0, w_ipfs = [], w_db = []\<rparr> = (Inr r, w')"
  by (simp add: mintNFT_def mintNFT_try_def demo_nft_def check_creator_def js_lower_def demo_lower
      upload_def minted_tokenId_def Let_def)

theorem mintNFT_success_witness:
  "\<exists>r w' nft. mintNFT demo_nft (JStr ''0xC0'') (JObj [(''name'', JStr ''One''), (''image'', JBuf [1])]) (JStr ''0xabc'')
     \<lparr>w_chain = 0, w_ipfs = [], w_db = []\<rparr> = (Inr r, w') \<and> mr_nft r = nft \<and>
     nft_save demo_nft nft [] = (Inr (), w_db w')"
proof -
  obtain r w' where m: "mintNFT demo_nft (JStr ''0xC0'') (JObj [(''name'', JStr ''One''), (''image'', JBuf [1])])
      (JStr ''0xabc'') \<lparr>w_chain = 0, w_ipfs = [], w_db = []\<rparr> = (Inr r, w')"
    using demo_mint by blast
  then show ?thesis using mintNFT_success [OF m] by auto
qed

text \<open>
  Only the creator mints: when the collection's creator is another account, \<open>mintNFT\<close> fails
  before anything is uploaded, sent or stored.
\<close>

theorem mintNFT_only_creator:
  assumes "nft_creator D = Some f" and "f ca (w_chain w) = Inr (JStr a)" and "toLowerCase a \<noteq> toLowerCase b"
    and "nft_Contract D ca = Inr ()"
  shows "mintNFT D ca data (JStr b) w =
    (Inl (new_Error (''Failed to mint NFT: '' @ ''Only collection creator can mint NFTs'')), w)"
  using assms
  by (simp add: mintNFT_def mintNFT_try_def check_creator_def js_lower_def new_Error_def)

theorem mintNFT_only_creator_witness:
  "mintNFT demo_nft (JStr ''0xC0'') (JObj []) (JStr ''0xdef'') \<lparr>w_chain = 0, w_ipfs = [], w_db = []\<rparr> =
    (Inl (new_Error (''Failed to mint NFT: '' @ ''Only collection creator can mint NFTs'')),
     \<lparr>w_chain = 0, w_ipfs = [], w_db = []\<rparr>)"
  by (rule mintNFT_only_creator [where a = "''0xABC''" and f = "\<lambda>_ _. Inr (JStr ''0xABC'')"])
    (simp_all add: demo_nft_def demo_lower)

section \<open>Uploads\<close>

text \<open>
  The IPFS service routes by type: a buffer goes to the file endpoint, a string, an array, an
  object or \<open>null\<close> to the JSON endpoint, anything else is refused without a request; every error
  carries the prefixes of the layers it passed.
\<close>

theorem ipfs_upload_routes:
  "ipfs_upload post boundary e data =
    (case data of
       JBuf b \<Rightarrow> catch (uploadFileToIPFS post boundary e data)
         (\<lambda>er. Inl (new_Error (''IPFS Upload Error: '' @ e_message er)))
     | JUndef \<Rightarrow> Inl (new_Error ''IPFS Upload Error: Unsupported data type for IPFS upload'')
     | JBool b \<Rightarrow> Inl (new_Error ''IPFS Upload Error: Unsupported data type for IPFS upload'')
     | JNum n \<Rightarrow> Inl (new_Error ''IPFS Upload Error: Unsupported data type for IPFS upload'')
     | JNaN \<Rightarrow> Inl (new_Error ''IPFS Upload Error: Unsupported data type for IPFS upload'')
     | JInf neg \<Rightarrow> Inl (new_Error ''IPFS Upload Error: Unsupported data type for IPFS upload'')
     | _ \<Rightarrow> (case post ''https://api.pinata.cloud/pinning/pinJSONToIPFS'' data (pinata_headers e) of
           Inl er \<Rightarrow> Inl (new_Error (''IPFS Upload Error: JSON Upload Error: '' @ e_message er))
         | Inr resp \<Rightarrow> catch (response_hash resp)
             (\<lambda>er. Inl (new_Error (''IPFS Upload Error: JSON Upload Error: '' @ e_message er)))))"
  by (cases data; simp add: ipfs_upload_def uploadJSONToIPFS_def new_Error_def catch_def split: sum.split)

end
