(* ===== verification/Http.thy ===== *)
theory Http
  imports Config ServiceProps
begin

text \<open>
  The HTTP side: \<open>src/controllers\<close>, \<open>src/routes\<close> and \<open>src/app.js\<close>. A handler either answers or
  passes on, with or without an error; the stacks of middleware are lists in the order of the
  \<open>use\<close> calls. Express itself and the authentication middleware, which is not in the repository,
  are parameters.
\<close>

section \<open>Controllers\<close>

datatype outcome = Respond response | Pass "jserr option"

definition json_response :: "int \<Rightarrow> (string \<times> jsval) list \<Rightarrow> outcome" where
  "json_response status kvs = Respond \<lparr>r_status = JNum status, r_body = JsonBody (JObj kvs)\<rparr>"

type_synonym validator = "(string \<times> joi_rule list) list \<Rightarrow> jsval \<Rightarrow> string option"

definition ctrl_createCollection ::
  "validator \<Rightarrow> ('c, 'tx, 'l, 'd) coll_deps \<Rightarrow> env \<Rightarrow> string \<Rightarrow> request \<Rightarrow> 'c \<times> 'd \<Rightarrow> outcome \<times> 'c \<times> 'd" where
  "ctrl_createCollection validate D e trace req w =
     (case validateCollection validate (rq_body req) of
        Some message \<Rightarrow> (Pass (Some (new_AppError trace 400 message)), w)
      | None \<Rightarrow> (case getp (rq_user req) ''address'' of
            Inl error \<Rightarrow> (Pass (Some error), w)
          | Inr address \<Rightarrow> (case service_createCollection D e trace (rq_body req) address w of
                (Inl error, w') \<Rightarrow> (Pass (Some error), w')
              | (Inr collection, w') \<Rightarrow>
                  (json_response 201 [(''status'', JStr ''success''), (''data'', collection)], w'))))"

definition ctrl_getAllCollections :: "('c, 'tx, 'l, 'd) coll_deps \<Rightarrow> string \<Rightarrow> 'd \<Rightarrow> outcome" where
  "ctrl_getAllCollections D trace d =
     (case getAllCollections D trace (JObj []) d of
        Inl error \<Rightarrow> Pass (Some error)
      | Inr collections \<Rightarrow> json_response 200 [(''status'', JStr ''success''),
          (''results'', JNum (int (length collections))), (''data'', JArr collections)])"




definition ctrl_getNFTMetadata :: "('c, 'tx, 'i, 'd) nft_deps \<Rightarrow> request \<Rightarrow> 'd \<Rightarrow> outcome" where
  "ctrl_getNFTMetadata D req d =
     (case bindE (getp (rq_params req) ''collectionAddress'') (\<lambda>collectionAddress.
           bindE (getp (rq_params req) ''tokenId'') (\<lambda>tokenId. getNFTMetadata D collectionAddress tokenId d)) of
        Inl error \<Rightarrow> json_response 404 [(''error'', JStr (e_message error))]
      | Inr metadata \<Rightarrow> Respond \<lparr>r_status = JNum 200, r_body = JsonBody metadata\<rparr>)"

section \<open>Routes and the application\<close>

text \<open>
  A layer of a stack: for one method and path, or for every request below a prefix. The name says
  which handler or middleware it holds.
\<close>

datatype layer = OnRoute string string "string list" | OnPrefix string string

definition collection_routes :: "layer list" where
  "collection_routes = [OnRoute ''POST'' ''/'' [''authenticate'', ''createCollection''],
     OnRoute ''GET'' ''/'' [''getAllCollections'']]"

definition nft_routes :: "layer list" where
  "nft_routes = [OnRoute ''POST'' ''/:collectionAddress/mint'' [''upload.single'', ''mintNFT'']]"

definition API_VERSION :: string where
  "API_VERSION = ''/api/v1''"

definition index_routes :: "layer list" where
  "index_routes = [OnRoute ''GET'' ''/health'' [''health''], OnPrefix (API_VERSION @ ''/collections'') ''collectionRoutes'',
     OnPrefix ''/'' ''notFound'']"

definition health_handler :: outcome where
  "health_handler = json_response 200 [(''status'', JStr ''OK''), (''message'', JStr ''Server is running'')]"

definition router_notFound :: outcome where
  "router_notFound = json_response 404 [(''error'', JStr ''Not Found'')]"

definition hpp_whitelist :: "string list" where
  "hpp_whitelist = [''price'', ''createdAt'', ''updatedAt'']"

definition rate_window_ms :: nat where
  "rate_window_ms = 15 * 60 * 1000"

definition rate_max :: nat where
  "rate_max = 100"

definition app_stack :: "layer list" where
  "app_stack = [OnPrefix ''/'' ''helmet'', OnPrefix ''/'' ''cors'', OnPrefix ''/'' ''json'', OnPrefix ''/'' ''urlencoded'',
     OnPrefix ''/'' ''compression'', OnPrefix ''/'' ''morgan'', OnPrefix ''/'' ''mongoSanitize'', OnPrefix ''/'' ''xss'',
     OnPrefix ''/'' ''hpp'', OnPrefix ''/api'' ''limiter'', OnPrefix ''/api-docs'' ''swagger'',
     OnPrefix ''/'' ''routes'', OnPrefix ''/'' ''appNotFound'', OnPrefix ''/'' ''errorMiddleware'']"

text \<open>The 404 handler of \<open>app.js\<close> sets \<open>status\<close>, which the error middleware does not read.\<close>

definition app_notFound :: "request \<Rightarrow> outcome" where
  "app_notFound req = Pass (Some (new_Error (''Not Found - '' @ rq_originalUrl req)))"

text \<open>What the client of a handler gets: its own answer, or that of the error middleware.\<close>

definition client_answer :: "env \<Rightarrow> string \<Rightarrow> request \<Rightarrow> outcome \<Rightarrow> response option" where
  "client_answer e trace req out = (case out of
       Respond r \<Rightarrow> Some r
     | Pass None \<Rightarrow> None
     | Pass (Some err) \<Rightarrow> answer (errorMiddleware e trace err req))"

section \<open>Properties\<close>

lemma answer_plain:
  assumes "e_name err \<in> {''Error'', ''TypeError''}" and "e_code err = JUndef"
    and "e ''NODE_ENV'' \<in> {Some ''development'', Some ''production''}"
  shows "\<exists>r. answer (errorMiddleware e trace err req) = Some r \<and>
    (r_status r = js_or (e_statusCode err) (JNum 500) \<or> \<not> e_isOperational err \<and> r_status r = JNum 500)"
proof -
  have "classify trace err = Inr (with_defaults err)" by (rule classify_plain) (use assms in auto)
  then show ?thesis
    using assms(3)
    by (auto simp: answer_def errorMiddleware_def sendErrorDev_def sendErrorProd_def with_defaults_def)
qed

lemma AppError_fields:
  "e_name (new_AppError trace k msg) = ''Error''" "e_code (new_AppError trace k msg) = JUndef"
  "e_statusCode (new_AppError trace k msg) = JNum k" "e_isOperational (new_AppError trace k msg)"
  by (simp_all add: new_AppError_def AppError_def new_Error_def mk_err_def)

text \<open>With any other \<open>NODE_ENV\<close> no error is answered.\<close>

lemma answer_unset:
  "e ''NODE_ENV'' \<notin> {Some ''development'', Some ''production''} \<Longrightarrow> answer (errorMiddleware e trace err req) = None"
  by (cases "classify trace err") (auto simp: answer_def errorMiddleware_def)

text \<open>
  C30. A request that reaches the handler for creating a collection gets status 201 exactly when the collection was created and
  stored. Otherwise, with \<open>NODE_ENV\<close> development or production, it gets 400 when the body fails
  validation and 500 when anything else fails; with any other \<open>NODE_ENV\<close> it gets no answer at all.
  A body that fails validation reaches neither chain nor database.
\<close>

theorem createCollection_answered:
  assumes "ctrl_createCollection validate D e trace req w = (out, w')"
  shows "(if validateCollection validate (rq_body req) = None \<and> (\<exists>address coll. getp (rq_user req) ''address'' = Inr address \<and>
        service_createCollection D e trace (rq_body req) address w = (Inr coll, w'))
     then \<exists>r. client_answer e trace req out = Some r \<and> r_status r = JNum 201
     else if e ''NODE_ENV'' \<in> {Some ''development'', Some ''production''}
     then \<exists>r. client_answer e trace req out = Some r \<and>
       r_status r = (if validateCollection validate (rq_body req) \<noteq> None then JNum 400 else JNum 500)
     else client_answer e trace req out = None) \<and>
    (validateCollection validate (rq_body req) \<noteq> None \<longrightarrow> w' = w)"
proof -
  consider (invalid) msg where "validateCollection validate (rq_body req) = Some msg" "out = Pass (Some (new_AppError trace 400 msg))" "w' = w"
    | (user) er where "validateCollection validate (rq_body req) = None" "getp (rq_user req) ''address'' = Inl er" "out = Pass (Some er)"
    | (service) address er where "validateCollection validate (rq_body req) = None" "getp (rq_user req) ''address'' = Inr address"
        "service_createCollection D e trace (rq_body req) address w = (Inl er, w')" "out = Pass (Some er)"
    | (created) address coll where "validateCollection validate (rq_body req) = None" "getp (rq_user req) ''address'' = Inr address"
        "service_createCollection D e trace (rq_body req) address w = (Inr coll, w')"
        "out = json_response 201 [(''status'', JStr ''success''), (''data'', coll)]"
    using assms by (auto simp: ctrl_createCollection_def split: option.splits sum.splits prod.splits)
  then show ?thesis
  proof cases
    case invalid
    show ?thesis
    proof (cases "e ''NODE_ENV'' \<in> {Some ''development'', Some ''production''}")
      case True
      then show ?thesis
        using invalid answer_plain [of "new_AppError trace 400 msg" e trace req] by (auto simp: client_answer_def AppError_fields)
    qed (use invalid answer_unset in \<open>simp add: client_answer_def\<close>)
  next
    case user
    show ?thesis
    proof (cases "e ''NODE_ENV'' \<in> {Some ''development'', Some ''production''}")
      case True
      then show ?thesis
        using user getp_Inl [OF user(2)] answer_plain [of er e trace req] by (auto simp: client_answer_def)
    qed (use user answer_unset in \<open>simp add: client_answer_def\<close>)
  next
    case service
    then obtain m where er: "er = new_AppError trace 500 m"
      by (auto simp: service_createCollection_def rethrow_Inl_iff)
    show ?thesis
    proof (cases "e ''NODE_ENV'' \<in> {Some ''development'', Some ''production''}")
      case True
      then show ?thesis
        using service answer_plain [of er e trace req] by (auto simp: client_answer_def er AppError_fields)
    qed (use service answer_unset in \<open>simp add: client_answer_def\<close>)
  next
    case created
    then show ?thesis by (simp add: client_answer_def json_response_def)
  qed
qed

definition demo_post :: request where
  "demo_post = demo_request\<lparr>rq_method := ''POST'', rq_body := demo_body, rq_user := JObj [(''address'', JStr ''0xA1'')]\<rparr>"

theorem createCollection_answered_witness:
  "\<exists>out w' r. ctrl_createCollection (\<lambda>_ _. None) demo_coll (\<lambda>_. Some ''production'') [] demo_post (0, []) = (out, w') \<and>
    client_answer (\<lambda>_. Some ''production'') [] demo_post out = Some r \<and> r_status r = JNum 201"
proof -
  obtain out w' where c: "ctrl_createCollection (\<lambda>_ _. None) demo_coll (\<lambda>_. Some ''production'') [] demo_post (0, []) = (out, w')"
    by (cases "ctrl_createCollection (\<lambda>_ _. None) demo_coll (\<lambda>_. Some ''production'') [] demo_post (0, [])") blast
  have ok: "\<exists>coll. service_createCollection demo_coll (\<lambda>_. Some ''production'') [] (rq_body demo_post) (JStr ''0xA1'') (0, []) = (Inr coll, w')"
    using c by (auto simp: ctrl_createCollection_def validateCollection_def demo_post_def service_createCollection_def
        createCollection_try_def demo_coll_def demo_body_def created_address_def)
  have u: "getp (rq_user demo_post) ''address'' = Inr (JStr ''0xA1'')" by (simp add: demo_post_def)
  show ?thesis
    using createCollection_answered [OF c] ok u c by (auto simp: validateCollection_def)
qed



text \<open>
  The 404 handler of \<open>app.js\<close> is never reached: whatever the request, the router mounted before
  it has a layer that answers, its own 404 handler at the latest. It relies on Express only in that
  a stack is searched in order and that a layer mounted at the root matches every request.
\<close>

theorem app_notFound_unreachable:
  assumes first_match: "\<And>ls. dispatch ls meth url = find (\<lambda>l. layer_matches l meth url) ls"
    and root_matches: "\<And>nm. layer_matches (OnPrefix ''/'' nm) meth url"
  shows "(\<exists>l. dispatch index_routes meth url = Some l) \<and>
    (\<exists>pre post. app_stack = pre @ OnPrefix ''/'' ''routes'' # post \<and> OnPrefix ''/'' ''appNotFound'' \<notin> set pre \<and>
       OnPrefix ''/'' ''appNotFound'' \<in> set post)"
proof
  have "dispatch index_routes meth url \<noteq> None"
    using root_matches by (auto simp: first_match find_None_iff index_routes_def)
  then show "\<exists>l. dispatch index_routes meth url = Some l" by blast
  show "\<exists>pre post. app_stack = pre @ OnPrefix ''/'' ''routes'' # post \<and> OnPrefix ''/'' ''appNotFound'' \<notin> set pre \<and>
      OnPrefix ''/'' ''appNotFound'' \<in> set post"
    by (intro exI [of _ "take 11 app_stack"] exI [of _ "drop 12 app_stack"]) (simp add: app_stack_def)
qed

definition demo_matches :: "layer \<Rightarrow> string \<Rightarrow> string \<Rightarrow> bool" where
  "demo_matches l meth url = (case l of OnRoute m p _ \<Rightarrow> m = meth \<and> p = url | OnPrefix p _ \<Rightarrow> prefix p url \<or> p = ''/'')"

theorem app_notFound_unreachable_witness:
  "\<exists>l. find (\<lambda>l. demo_matches l ''GET'' ''/nope'') index_routes = Some l"
  using app_notFound_unreachable [of "\<lambda>ls m u. find (\<lambda>l. demo_matches l m u) ls" "''GET''" "''/nope''" demo_matches]
  by (auto simp: demo_matches_def)

end
