(* ===== verification/EmailPattern.thy ===== *)
theory EmailPattern
  imports JsBase
begin

text \<open>
  The pattern \<open>/^\w+([.-]?\w+)*@\w+([.-]?\w+)*(\.\w{2,3})+$/\<close> that \<open>user.model.js\<close> puts on the
  email path: regular expressions with their language, an executable matcher by derivatives, and
  what the pattern accepts in plain terms.
\<close>

section \<open>Regular expressions\<close>

datatype char_class = WordC | SepC | Only char

definition word_char :: "char \<Rightarrow> bool" where
  "word_char c \<longleftrightarrow> (let k = of_char c :: nat in
     (48 \<le> k \<and> k \<le> 57) \<or> (65 \<le> k \<and> k \<le> 90) \<or> (97 \<le> k \<and> k \<le> 122) \<or> k = 95)"

definition sep_char :: "char \<Rightarrow> bool" where
  "sep_char c \<longleftrightarrow> c = CHR ''.'' \<or> c = CHR ''-''"

fun in_class :: "char_class \<Rightarrow> char \<Rightarrow> bool" where
  "in_class WordC c = word_char c"
| "in_class SepC c = sep_char c"
| "in_class (Only d) c = (c = d)"

datatype rx = Never | Empty | Sym char_class | Seq rx rx | Alt rx rx | Many rx

inductive_set many :: "string set \<Rightarrow> string set" for A where
  none: "[] \<in> many A"
| more: "x \<in> A \<Longrightarrow> y \<in> many A \<Longrightarrow> x @ y \<in> many A"

primrec lang :: "rx \<Rightarrow> string set" where
  "lang Never = {}"
| "lang Empty = {[]}"
| "lang (Sym k) = {[c] | c. in_class k c}"
| "lang (Seq r s) = {x @ y | x y. x \<in> lang r \<and> y \<in> lang s}"
| "lang (Alt r s) = lang r \<union> lang s"
| "lang (Many r) = many (lang r)"

primrec accepts_empty :: "rx \<Rightarrow> bool" where
  "accepts_empty Never = False"
| "accepts_empty Empty = True"
| "accepts_empty (Sym k) = False"
| "accepts_empty (Seq r s) = (accepts_empty r \<and> accepts_empty s)"
| "accepts_empty (Alt r s) = (accepts_empty r \<or> accepts_empty s)"
| "accepts_empty (Many r) = True"

primrec after_char :: "char \<Rightarrow> rx \<Rightarrow> rx" where
  "after_char c Never = Never"
| "after_char c Empty = Never"
| "after_char c (Sym k) = (if in_class k c then Empty else Never)"
| "after_char c (Seq r s) =
     (if accepts_empty r then Alt (Seq (after_char c r) s) (after_char c s) else Seq (after_char c r) s)"
| "after_char c (Alt r s) = Alt (after_char c r) (after_char c s)"
| "after_char c (Many r) = Seq (after_char c r) (Many r)"

fun rx_test :: "rx \<Rightarrow> string \<Rightarrow> bool" where
  "rx_test r [] = accepts_empty r"
| "rx_test r (c # cs) = rx_test (after_char c r) cs"

lemma accepts_empty_iff: "accepts_empty r \<longleftrightarrow> [] \<in> lang r"
  by (induction r) (auto intro: many.none)

lemma many_Cons: "c # s \<in> many A \<longleftrightarrow> (\<exists>x y. s = x @ y \<and> c # x \<in> A \<and> y \<in> many A)"
proof
  assume "c # s \<in> many A"
  then show "\<exists>x y. s = x @ y \<and> c # x \<in> A \<and> y \<in> many A"
  proof (induction "c # s" arbitrary: s)
    case (more x y)
    then show ?case by (cases x) auto
  qed
next
  assume "\<exists>x y. s = x @ y \<and> c # x \<in> A \<and> y \<in> many A"
  then obtain x y where "s = x @ y" "c # x \<in> A" "y \<in> many A" by blast
  then show "c # s \<in> many A" using many.more [of "c # x" A y] by simp
qed

lemma after_char_iff: "s \<in> lang (after_char c r) \<longleftrightarrow> c # s \<in> lang r"
proof (induction r arbitrary: s)
  case (Seq r1 r2)
  have "c # s \<in> lang (Seq r1 r2) \<longleftrightarrow>
      (\<exists>x y. s = x @ y \<and> c # x \<in> lang r1 \<and> y \<in> lang r2) \<or> ([] \<in> lang r1 \<and> c # s \<in> lang r2)"
    by (auto simp: Cons_eq_append_conv)
  then show ?case using Seq by (auto simp: accepts_empty_iff)
next
  case (Many r)
  then show ?case by (auto simp: many_Cons)
qed auto

lemma rx_test_iff: "rx_test r s \<longleftrightarrow> s \<in> lang r"
  by (induction r s rule: rx_test.induct) (auto simp: accepts_empty_iff after_char_iff)

lemma Seq_intro: "x \<in> lang r \<Longrightarrow> y \<in> lang s \<Longrightarrow> x @ y \<in> lang (Seq r s)"
  by auto

lemma Seq_Sym_iff: "x \<in> lang (Seq (Sym k) r) \<longleftrightarrow> (\<exists>c y. x = c # y \<and> in_class k c \<and> y \<in> lang r)"
proof
  assume "\<exists>c y. x = c # y \<and> in_class k c \<and> y \<in> lang r"
  then obtain c y where "x = [c] @ y" "[c] \<in> lang (Sym k)" "y \<in> lang r" by auto
  then show "x \<in> lang (Seq (Sym k) r)" by (metis Seq_intro)
qed auto

section \<open>The email pattern\<close>

abbreviation Plus :: "rx \<Rightarrow> rx" where
  "Plus r \<equiv> Seq r (Many r)"

definition word_rx :: rx where
  "word_rx = Plus (Sym WordC)"

definition name_rx :: rx where
  "name_rx = Seq word_rx (Many (Seq (Alt Empty (Sym SepC)) word_rx))"

definition suffix_rx :: rx where
  "suffix_rx = Seq (Sym (Only CHR ''.'')) (Seq (Sym WordC) (Seq (Sym WordC) (Alt Empty (Sym WordC))))"

definition email_rx :: rx where
  "email_rx = Seq name_rx (Seq (Sym (Only CHR ''@'')) (Seq name_rx (Plus suffix_rx)))"

section \<open>What it accepts\<close>

text \<open>Words joined by single dots or hyphens.\<close>

fun joined_words :: "string \<Rightarrow> bool" and joined_rest :: "string \<Rightarrow> bool" where
  "joined_words [] = False"
| "joined_words (c # cs) = (word_char c \<and> joined_rest cs)"
| "joined_rest [] = True"
| "joined_rest (c # cs) = (if word_char c then joined_rest cs else sep_char c \<and> joined_words cs)"

definition valid_email :: "string \<Rightarrow> bool" where
  "valid_email s \<longleftrightarrow> (\<exists>l d w. s = l @ ''@'' @ d @ ''.'' @ w \<and> joined_words l \<and> joined_words d \<and>
     list_all word_char w \<and> length w \<in> {2, 3})"

lemma sep_not_word: "sep_char c \<Longrightarrow> \<not> word_char c"
  by (auto simp: sep_char_def word_char_def)

lemma word_append: "list_all word_char w \<Longrightarrow> joined_rest (w @ y) = joined_rest y"
  by (induction w) auto

lemma many_class: "x \<in> many {[c] | c. P c} \<Longrightarrow> list_all P x"
  by (induction rule: many.induct) auto

lemma word_rx_lang: "x \<in> lang word_rx \<longleftrightarrow> x \<noteq> [] \<and> list_all word_char x"
proof
  assume "x \<in> lang word_rx"
  then show "x \<noteq> [] \<and> list_all word_char x" by (auto simp: word_rx_def dest: many_class)
next
  have *: "list_all word_char x \<Longrightarrow> x \<in> many {[c] | c. word_char c}" for x
  proof (induction x)
    case Nil
    show ?case by (rule many.none)
  next
    case (Cons c x)
    then show ?case using many.more [of "[c]"] by simp
  qed
  assume "x \<noteq> [] \<and> list_all word_char x"
  then obtain c cs where "x = [c] @ cs" "word_char c" "list_all word_char cs" by (cases x) auto
  then show "x \<in> lang word_rx" using * [of cs] by (auto simp: word_rx_def Seq_Sym_iff simp del: lang.simps(4))
qed

lemma joined_words_append: "x \<noteq> [] \<Longrightarrow> list_all word_char x \<Longrightarrow> joined_words (x @ y) = joined_rest y"
  by (cases x) (auto simp: word_append)

lemma piece_append:
  assumes "x \<in> lang (Seq (Alt Empty (Sym SepC)) word_rx)"
  shows "joined_rest (x @ y) = joined_rest y"
proof -
  obtain p w where x: "x = p @ w" and p: "p = [] \<or> (\<exists>c. p = [c] \<and> sep_char c)" and "w \<in> lang word_rx"
    using assms by auto
  then have w: "w \<noteq> []" "list_all word_char w" by (auto simp: word_rx_lang)
  show ?thesis using p w
    by (auto simp: x word_append joined_words_append dest: sep_not_word)
qed

lemma many_pieces: "joined_rest s \<longleftrightarrow> s \<in> many (lang (Seq (Alt Empty (Sym SepC)) word_rx))"
proof
  assume "s \<in> many (lang (Seq (Alt Empty (Sym SepC)) word_rx))"
  then show "joined_rest s"
    by (induction rule: many.induct) (simp_all only: piece_append joined_rest.simps)
next
  let ?A = "lang (Seq (Alt Empty (Sym SepC)) word_rx)"
  have one: "word_char c \<Longrightarrow> [c] \<in> ?A" for c
    unfolding lang.simps(4) [of "Alt Empty (Sym SepC)"] mem_Collect_eq
    by (intro exI [of _ "[]"] exI [of _ "[c]"]) (simp add: word_rx_lang)
  have two: "sep_char d \<Longrightarrow> word_char c \<Longrightarrow> [d, c] \<in> ?A" for c d
    unfolding lang.simps(4) [of "Alt Empty (Sym SepC)"] mem_Collect_eq
    by (intro exI [of _ "[d]"] exI [of _ "[c]"]) (simp add: word_rx_lang)
  show "joined_rest s \<Longrightarrow> s \<in> many ?A"
  proof (induction s rule: length_induct)
    case (1 s)
    show ?case
    proof (cases s)
      case Nil
      then show ?thesis by (simp add: many.none)
    next
      case (Cons c cs)
      show ?thesis
      proof (cases "word_char c")
        case True
        then have "cs \<in> many ?A" using 1 Cons by auto
        then show ?thesis using many.more [OF one [OF True]] Cons by simp
      next
        case False
        then obtain b bs where "sep_char c" "cs = b # bs" "word_char b" "joined_rest bs"
          using 1(2) Cons by (cases cs) auto
        moreover from this have "bs \<in> many ?A" using 1(1) Cons by auto
        ultimately show ?thesis using many.more [OF two] Cons by fastforce
      qed
    qed
  qed
qed

lemma name_rx_lang: "s \<in> lang name_rx \<longleftrightarrow> joined_words s"
proof
  assume "s \<in> lang name_rx"
  then obtain w y where "s = w @ y" "w \<in> lang word_rx" "y \<in> many (lang (Seq (Alt Empty (Sym SepC)) word_rx))"
    unfolding name_rx_def lang.simps(4) [of word_rx] lang.simps(6) by blast
  then show "joined_words s" using many_pieces by (auto simp: word_rx_lang joined_words_append)
next
  assume "joined_words s"
  then obtain c cs where s: "s = [c] @ cs" "word_char c" "joined_rest cs" by (cases s) auto
  then have "[c] \<in> lang word_rx" and "cs \<in> many (lang (Seq (Alt Empty (Sym SepC)) word_rx))"
    using many_pieces by (auto simp: word_rx_lang)
  then show "s \<in> lang name_rx"
    unfolding name_rx_def lang.simps(4) [of word_rx] lang.simps(6) s(1) by blast
qed

lemma two_or_three:
  "(list_all P w \<and> length w \<in> {2, 3}) \<longleftrightarrow> (\<exists>a b r. w = a # b # r \<and> P a \<and> P b \<and> (r = [] \<or> (\<exists>c. r = [c] \<and> P c)))"
  by (cases w rule: remdups_adj.cases) (auto simp: length_Suc_conv numeral_2_eq_2 numeral_3_eq_3)

lemma suffix_rx_lang:
  "x \<in> lang suffix_rx \<longleftrightarrow> (\<exists>w. x = CHR ''.'' # w \<and> list_all word_char w \<and> length w \<in> {2, 3})"
  unfolding two_or_three suffix_rx_def Seq_Sym_iff in_class.simps
  by (simp add: disj_commute del: disj_not1) (iprover)

lemma suffix_joined: "joined_words d \<Longrightarrow> x \<in> lang suffix_rx \<Longrightarrow> joined_words (d @ x)"
proof -
  assume d: "joined_words d" and x: "x \<in> lang suffix_rx"
  have "x \<in> lang (Seq (Alt Empty (Sym SepC)) word_rx)"
  proof -
    obtain w where w: "x = CHR ''.'' # w" "list_all word_char w" "length w \<in> {2, 3}"
      using x suffix_rx_lang by blast
    then have "x = ''.'' @ w" "w \<in> lang word_rx" by (auto simp: word_rx_lang)
    moreover have "''.'' \<in> lang (Alt Empty (Sym SepC))" by (simp add: sep_char_def)
    ultimately show ?thesis using Seq_intro by metis
  qed
  then have more: "many (lang (Seq (Alt Empty (Sym SepC)) word_rx)) \<noteq> {} \<and> joined_rest (x @ []) = joined_rest []"
    using piece_append many.none by blast
  have "joined_words r \<Longrightarrow> joined_words (r @ x)" and "joined_rest r \<Longrightarrow> joined_rest (r @ x)" for r
    by (induction r and r rule: joined_words_joined_rest.induct) (use more in auto)
  then show ?thesis using d by blast
qed

lemma last_suffix:
  assumes "z \<in> many (lang suffix_rx)" and "joined_words d" and "y \<in> lang suffix_rx"
  shows "\<exists>d' y'. d @ y @ z = d' @ y' \<and> joined_words d' \<and> y' \<in> lang suffix_rx"
  using assms
proof (induction arbitrary: d y rule: many.induct)
  case none
  then show ?case by auto
next
  case (more a b)
  then show ?case using suffix_joined [of d y] by (metis append.assoc)
qed

text \<open>
  C37. The email pattern accepts exactly the addresses made of words joined by single dots or hyphens,
  an at sign, again words joined by single dots or hyphens, and a last dot followed by two or three
  word characters.
\<close>

theorem email_pattern:
  "rx_test email_rx s \<longleftrightarrow> valid_email s"
proof -
  have dom: "(\<exists>d y z. x = d @ y @ z \<and> joined_words d \<and> y \<in> lang suffix_rx \<and> z \<in> many (lang suffix_rx)) \<longleftrightarrow>
      (\<exists>d y. x = d @ y \<and> joined_words d \<and> y \<in> lang suffix_rx)" for x
    using last_suffix many.none by (metis append.right_neutral)
  have "s \<in> lang email_rx \<longleftrightarrow> (\<exists>l x. s = l @ ''@'' @ x \<and> joined_words l \<and>
      (\<exists>d y z. x = d @ y @ z \<and> joined_words d \<and> y \<in> lang suffix_rx \<and> z \<in> many (lang suffix_rx)))"
    unfolding email_rx_def lang.simps mem_Collect_eq name_rx_lang in_class.simps by blast
  also have "\<dots> \<longleftrightarrow> (\<exists>l x. s = l @ ''@'' @ x \<and> joined_words l \<and>
      (\<exists>d y. x = d @ y \<and> joined_words d \<and> y \<in> lang suffix_rx))"
    by (simp only: dom)
  also have "\<dots> \<longleftrightarrow> valid_email s"
    unfolding suffix_rx_lang valid_email_def append.simps by blast
  finally show ?thesis by (simp add: rx_test_iff)
qed

end
