(* ===== verification/Models.thy ===== *)
theory Models
  imports EmailPattern
begin

text \<open>
  \<open>src/models\<close>: the three Mongoose schemas as data, and the hooks, virtuals, methods and statics of
  \<open>user.model.js\<close>. The packages \<open>bcryptjs\<close>, \<open>crypto\<close> and \<open>jsonwebtoken\<close> are the record
  \<open>crypto_deps\<close>; what the code relies on is a named hypothesis of the properties.
\<close>

section \<open>Schemas\<close>

text \<open>The options of one path; \<open>sf_required\<close> holds the message, empty for plain \<open>true\<close>.\<close>

record schema_field =
  sf_type :: string
  sf_required :: "string option"
  sf_unique :: bool
  sf_sparse :: bool
  sf_trim :: bool
  sf_lowercase :: bool
  sf_hidden :: bool
  sf_enum :: "string list option"
  sf_minlength :: "(nat \<times> string) option"
  sf_maxlength :: "(nat \<times> string) option"
  sf_match :: "(rx \<times> string) option"
  sf_default :: jsval
  sf_ref :: "string option"

definition of_type :: "string \<Rightarrow> schema_field" where
  "of_type t = \<lparr>sf_type = t, sf_required = None, sf_unique = False, sf_sparse = False, sf_trim = False,
     sf_lowercase = False, sf_hidden = False, sf_enum = None, sf_minlength = None, sf_maxlength = None,
     sf_match = None, sf_default = JUndef, sf_ref = None\<rparr>"

definition CollectionSchema :: "(string \<times> schema_field) list" where
  "CollectionSchema =
    [(''name'', (of_type ''String'')\<lparr>sf_required := Some ''Collection name is required'', sf_trim := True\<rparr>),
     (''symbol'', (of_type ''String'')\<lparr>sf_required := Some ''Collection symbol is required'', sf_trim := True\<rparr>),
     (''description'', of_type ''String''),
     (''contractAddress'', (of_type ''String'')\<lparr>sf_required := Some [], sf_unique := True, sf_lowercase := True\<rparr>),
     (''creator'', (of_type ''String'')\<lparr>sf_required := Some [], sf_lowercase := True\<rparr>),
     (''category'', (of_type ''String'')\<lparr>sf_required := Some ''Category is required'',
        sf_enum := Some [''art'', ''gaming'', ''music'', ''sports'', ''photography'']\<rparr>),
     (''isVerified'', (of_type ''Boolean'')\<lparr>sf_default := JBool False\<rparr>),
     (''profileImage'', of_type ''String''), (''bannerImage'', of_type ''String''),
     (''websiteUrl'', of_type ''String''), (''discordUrl'', of_type ''String''), (''twitterUrl'', of_type ''String'')]"

definition NFTSchema :: "(string \<times> schema_field) list" where
  "NFTSchema =
    [(''tokenId'', (of_type ''Number'')\<lparr>sf_required := Some [], sf_unique := True\<rparr>),
     (''name'', (of_type ''String'')\<lparr>sf_required := Some []\<rparr>),
     (''description'', of_type ''String''), (''image'', of_type ''String''),
     (''collectionAddress'', (of_type ''String'')\<lparr>sf_required := Some []\<rparr>),
     (''creator'', (of_type ''String'')\<lparr>sf_required := Some []\<rparr>),
     (''tokenURI'', (of_type ''String'')\<lparr>sf_required := Some []\<rparr>),
     (''metadata'', of_type ''Object''),
     (''createdAt'', (of_type ''Date'')\<lparr>sf_default := JStr ''Date.now''\<rparr>)]"

definition UserSchema :: "(string \<times> schema_field) list" where
  "UserSchema =
    [(''username'', (of_type ''String'')\<lparr>sf_required := Some ''Please provide a username'', sf_unique := True,
        sf_trim := True, sf_minlength := Some (3, ''Username must be at least 3 characters long''),
        sf_maxlength := Some (30, ''Username cannot exceed 30 characters'')\<rparr>),
     (''email'', (of_type ''String'')\<lparr>sf_required := Some ''Please provide an email'', sf_unique := True,
        sf_lowercase := True,
        sf_match := Some (email_rx, ''Please provide a valid email'')\<rparr>),
     (''password'', (of_type ''String'')\<lparr>sf_required := Some ''Please provide a password'',
        sf_minlength := Some (8, ''Password must be at least 8 characters long''), sf_hidden := True\<rparr>),
     (''role'', (of_type ''String'')\<lparr>sf_enum := Some [''user'', ''admin''], sf_default := JStr ''user''\<rparr>),
     (''profileImage'', (of_type ''String'')\<lparr>sf_default := JStr ''default.jpg''\<rparr>),
     (''bio'', (of_type ''String'')\<lparr>sf_maxlength := Some (500, ''Bio cannot exceed 500 characters'')\<rparr>),
     (''walletAddress'', (of_type ''String'')\<lparr>sf_unique := True, sf_sparse := True\<rparr>),
     (''nftsOwned'', (of_type ''[ObjectId]'')\<lparr>sf_ref := Some ''NFT''\<rparr>),
     (''nftsCreated'', (of_type ''[ObjectId]'')\<lparr>sf_ref := Some ''NFT''\<rparr>),
     (''followers'', (of_type ''[ObjectId]'')\<lparr>sf_ref := Some ''User''\<rparr>),
     (''following'', (of_type ''[ObjectId]'')\<lparr>sf_ref := Some ''User''\<rparr>),
     (''passwordResetToken'', of_type ''String''), (''passwordResetExpires'', of_type ''Date''),
     (''accountActivationToken'', of_type ''String''), (''accountActivationExpires'', of_type ''Date''),
     (''isActive'', (of_type ''Boolean'')\<lparr>sf_default := JBool False\<rparr>),
     (''lastLogin'', of_type ''Date'')]"

section \<open>Users\<close>

record user_doc =
  u_id :: string
  u_password :: string
  u_password_modified :: bool
  u_nftsOwned :: "string list"
  u_passwordResetToken :: "string option"
  u_passwordResetExpires :: "nat option"
  u_accountActivationToken :: "string option"
  u_accountActivationExpires :: "nat option"
  u_others :: "(string \<times> jsval) list"

text \<open>
  \<open>cr_random\<close> is the hexadecimal text of the next 20 random bytes and \<open>cr_salt\<close> the next salt, both
  with the generator's new state.
\<close>

record 'g crypto_deps =
  cr_salt :: "nat \<Rightarrow> 'g \<Rightarrow> string \<times> 'g"
  cr_hash :: "string \<Rightarrow> string \<Rightarrow> string"
  cr_compare :: "string \<Rightarrow> string \<Rightarrow> bool"
  cr_random :: "'g \<Rightarrow> string \<times> 'g"
  cr_sha256 :: "string \<Rightarrow> string"
  cr_jwt_sign :: "jsval \<Rightarrow> jsval \<Rightarrow> jsval \<Rightarrow> jserr + string"

definition fullName :: "user_doc \<Rightarrow> string" where
  "fullName u = (let g = (\<lambda>k. case map_of (u_others u) k of None \<Rightarrow> JUndef | Some v \<Rightarrow> v)
     in js_String (g ''firstName'') @ '' '' @ js_String (g ''lastName''))"

definition pre_save :: "'g crypto_deps \<Rightarrow> user_doc \<Rightarrow> 'g \<Rightarrow> user_doc \<times> 'g" where
  "pre_save C u g =
     (if \<not> u_password_modified u then (u, g)
      else (case cr_salt C 10 g of (salt, g') \<Rightarrow> (u\<lparr>u_password := cr_hash C (u_password u) salt\<rparr>, g')))"

definition isPasswordCorrect :: "'g crypto_deps \<Rightarrow> user_doc \<Rightarrow> string \<Rightarrow> bool" where
  "isPasswordCorrect C u candidatePassword = cr_compare C candidatePassword (u_password u)"

definition generateAuthToken :: "'g crypto_deps \<Rightarrow> env \<Rightarrow> user_doc \<Rightarrow> jserr + string" where
  "generateAuthToken C e u =
     cr_jwt_sign C (JObj [(''id'', JStr (u_id u))]) (getenv e ''JWT_SECRET'')
       (JObj [(''expiresIn'', getenv e ''JWT_EXPIRE'')])"

definition generatePasswordResetToken :: "'g crypto_deps \<Rightarrow> nat \<Rightarrow> user_doc \<Rightarrow> 'g \<Rightarrow> string \<times> user_doc \<times> 'g" where
  "generatePasswordResetToken C now u g =
     (case cr_random C g of (resetToken, g') \<Rightarrow>
        (resetToken,
         u\<lparr>u_passwordResetToken := Some (cr_sha256 C resetToken),
           u_passwordResetExpires := Some (now + 10 * 60 * 1000)\<rparr>, g'))"

definition generateAccountActivationToken :: "'g crypto_deps \<Rightarrow> nat \<Rightarrow> user_doc \<Rightarrow> 'g \<Rightarrow> string \<times> user_doc \<times> 'g" where
  "generateAccountActivationToken C now u g =
     (case cr_random C g of (activationToken, g') \<Rightarrow>
        (activationToken,
         u\<lparr>u_accountActivationToken := Some (cr_sha256 C activationToken),
           u_accountActivationExpires := Some (now + 24 * 60 * 60 * 1000)\<rparr>, g'))"

text \<open>\<open>getNFTCount\<close>: \<open>findById\<close> answers \<open>null\<close> for an unknown id, and reading it throws.\<close>

definition getNFTCount :: "(string \<Rightarrow> jserr + user_doc option) \<Rightarrow> string \<Rightarrow> jserr + nat" where
  "getNFTCount findById userId =
     bindE (findById userId) (\<lambda>user. case user of
         None \<Rightarrow> Inl (read_of ''null'' ''nftsOwned'')
       | Some u \<Rightarrow> Inr (length (u_nftsOwned u)))"

definition comparePassword :: "'g crypto_deps \<Rightarrow> user_doc \<Rightarrow> string \<Rightarrow> bool" where
  "comparePassword C u candidatePassword = cr_compare C candidatePassword (u_password u)"

text \<open>
  Loading the module: the names it declares, and the \<open>ReferenceError\<close> of a statement that assigns
  to a method of a schema no name is bound to.
\<close>

definition user_module_names :: "string list" where
  "user_module_names = [''mongoose'', ''bcrypt'', ''crypto'', ''jwt'', ''UserSchema'', ''User'']"

definition user_module_load :: "jserr + unit" where
  "user_module_load =
     (if ''userSchema'' \<in> set user_module_names then Inr () else Inl (ReferenceError ''userSchema is not defined''))"

section \<open>Properties\<close>

text \<open>
  A sequence of saves of one document: \<open>Some p\<close> sets a new password before saving, \<open>None\<close> saves
  other changes. Saving clears the modification marks.
\<close>

definition save_once :: "'g crypto_deps \<Rightarrow> string option \<Rightarrow> user_doc \<times> 'g \<Rightarrow> user_doc \<times> 'g" where
  "save_once C p s =
     (case s of (u, g) \<Rightarrow>
        let u1 = (case p of None \<Rightarrow> u | Some q \<Rightarrow> u\<lparr>u_password := q, u_password_modified := True\<rparr>)
        in case pre_save C u1 g of (u2, g') \<Rightarrow> (u2\<lparr>u_password_modified := False\<rparr>, g'))"

lemma save_unmodified:
  "\<not> u_password_modified u \<Longrightarrow> save_once C None (u, g) = (u, g)"
  by (simp add: save_once_def pre_save_def)

lemma saves_unmodified:
  "\<not> u_password_modified u \<Longrightarrow> set ps \<subseteq> {None} \<Longrightarrow> foldl (\<lambda>s p. save_once C p s) (u, g) ps = (u, g)"
  by (induction ps) (auto simp: save_unmodified)

text \<open>
  C38. Passwords: after a password is set and saved, and after any number of further saves that do
  not touch it, the stored value is one hash of it, never a hash of a hash, and the password is
  accepted. It relies on \<open>bcrypt\<close> only in that a password compares equal to its own hash.
\<close>

theorem password_round_trip:
  assumes bcrypt: "\<And>q salt. cr_compare C q (cr_hash C q salt)"
    and "set ps \<subseteq> {None}"
    and "foldl (\<lambda>s p. save_once C p s) (u, g) (Some pw # ps) = (u', g')"
  shows "isPasswordCorrect C u' pw \<and> comparePassword C u' pw \<and> (\<exists>salt. u_password u' = cr_hash C pw salt)"
proof -
  obtain salt g1 where salt: "cr_salt C 10 g = (salt, g1)" by force
  have first: "save_once C (Some pw) (u, g) =
      (u\<lparr>u_password := cr_hash C pw salt, u_password_modified := False\<rparr>, g1)"
    by (simp add: save_once_def pre_save_def salt)
  have "u' = u\<lparr>u_password := cr_hash C pw salt, u_password_modified := False\<rparr>"
    using assms(3) saves_unmodified [OF _ assms(2), of "u\<lparr>u_password := cr_hash C pw salt, u_password_modified := False\<rparr>" C g1]
    by (simp add: first)
  then show ?thesis using bcrypt by (auto simp: isPasswordCorrect_def comparePassword_def)
qed

definition demo_crypto :: "nat crypto_deps" where
  "demo_crypto = \<lparr>cr_salt = (\<lambda>_ g. (show_nat g, Suc g)), cr_hash = (\<lambda>p s. s @ ''$'' @ p),
     cr_compare = (\<lambda>p h. suffix (''$'' @ p) h), cr_random = (\<lambda>g. (show_nat g, Suc g)),
     cr_sha256 = rev, cr_jwt_sign = (\<lambda>_ _ _. Inr ''token'')\<rparr>"

definition demo_user :: user_doc where
  "demo_user = \<lparr>u_id = ''1'', u_password = [], u_password_modified = False, u_nftsOwned = [], u_passwordResetToken = None,
     u_passwordResetExpires = None, u_accountActivationToken = None, u_accountActivationExpires = None, u_others = []\<rparr>"

theorem password_round_trip_witness:
  "\<exists>u' g'. foldl (\<lambda>s p. save_once demo_crypto p s) (demo_user, 3) [Some ''hunter22'', None, None] = (u', g') \<and>
    isPasswordCorrect demo_crypto u' ''hunter22''"
proof -
  obtain u' g' where r: "foldl (\<lambda>s p. save_once demo_crypto p s) (demo_user, 3) [Some ''hunter22'', None, None] = (u', g')"
    by force
  have "cr_compare demo_crypto q (cr_hash demo_crypto q salt)" for q salt
    by (simp add: demo_crypto_def suffix_def)
  from password_round_trip [of demo_crypto "[None, None]", OF this _ r] r show ?thesis by simp
qed

text \<open>
  Reset and activation tokens: what is stored is the SHA-256 digest of the token returned, so a
  presented token can be checked, and the token itself is not kept; a reset token lives ten minutes,
  an activation token a day, and making one leaves the other and the password alone.
\<close>

theorem tokens_stored_hashed:
  "(case generatePasswordResetToken C now u g of (tok, u', g') \<Rightarrow>
      u_passwordResetToken u' = Some (cr_sha256 C tok) \<and> u_passwordResetExpires u' = Some (now + 600000) \<and>
      u_password u' = u_password u \<and> u_accountActivationToken u' = u_accountActivationToken u \<and>
      u_accountActivationExpires u' = u_accountActivationExpires u) \<and>
   (case generateAccountActivationToken C now u g of (tok, u', g') \<Rightarrow>
      u_accountActivationToken u' = Some (cr_sha256 C tok) \<and> u_accountActivationExpires u' = Some (now + 86400000) \<and>
      u_password u' = u_password u \<and> u_passwordResetToken u' = u_passwordResetToken u \<and>
      u_passwordResetExpires u' = u_passwordResetExpires u)"
  by (simp add: generatePasswordResetToken_def generateAccountActivationToken_def split: prod.split)

end
