(* ===== verification/Documents.thy ===== *)
theory Documents
  imports Http Models
begin

text \<open>
  The way of a collection from the request to the database: what the Joi schema of
  \<open>collection.validator.js\<close> lets through against what the Mongoose schema of
  \<open>collection.model.js\<close> asks for, and against the categories of the contract.
\<close>

section \<open>What the validator promises\<close>

text \<open>
  The documented meaning of the Joi rules of the schema, as far as it is needed: a string key is
  absent only if it is not required, is never empty, and obeys its length and value rules. Joi
  does not trim unless asked to. The form of a URI is left open.
\<close>

fun rule_ok :: "string \<Rightarrow> joi_rule \<Rightarrow> bool" where
  "rule_ok s (MinLen n) \<longleftrightarrow> n \<le> length s"
| "rule_ok s (MaxLen n) \<longleftrightarrow> length s \<le> n"
| "rule_ok s (Valid xs) \<longleftrightarrow> s \<in> set xs"
| "rule_ok s _ \<longleftrightarrow> True"

definition key_ok :: "joi_rule list \<Rightarrow> jsval \<Rightarrow> bool" where
  "key_ok rules v \<longleftrightarrow> (case v of JUndef \<Rightarrow> Required \<notin> set rules
     | JStr s \<Rightarrow> s \<noteq> [] \<and> list_all (rule_ok s) rules | _ \<Rightarrow> False)"

definition body_ok :: "(string \<times> joi_rule list) list \<Rightarrow> jsval \<Rightarrow> bool" where
  "body_ok schema data \<longleftrightarrow> (case data of JUndef \<Rightarrow> True
     | JObj kvs \<Rightarrow> list_all (\<lambda>(k, rules). key_ok rules (field data k)) schema | _ \<Rightarrow> False)"

definition joi_contract :: "validator \<Rightarrow> bool" where
  "joi_contract validate \<longleftrightarrow> (\<forall>schema data. validate schema data = None \<longrightarrow> body_ok schema data)"

text \<open>
  The other direction, also documented, for objects without keys that the schema does not name or that have a \<open>Uri\<close> rule:
  what obeys the rules is accepted. Joi turns a body that is a string into an object where it can; no such
  body reaches it, since the JSON parser of Express is strict.
\<close>

definition joi_accepts :: "validator \<Rightarrow> bool" where
  "joi_accepts validate \<longleftrightarrow> (\<forall>schema kvs. distinct (map fst kvs) \<and>
     list_all (\<lambda>(k, v). \<exists>rules. (k, rules) \<in> set schema \<and> Uri \<notin> set rules) kvs \<and> body_ok schema (JObj kvs) \<longrightarrow>
     validate schema (JObj kvs) = None)"

section \<open>What the document schema asks for\<close>

text \<open>The setters \<open>trim\<close> and \<open>lowercase\<close> of a path, then its type and its validators \<open>required\<close> and \<open>enum\<close>.\<close>

definition set_value :: "schema_field \<Rightarrow> string \<Rightarrow> string" where
  "set_value f s = (let t = (if sf_trim f then js_trim s else s) in if sf_lowercase f then toLowerCase t else t)"

definition value_typed :: "schema_field \<Rightarrow> jsval \<Rightarrow> bool" where
  "value_typed f v \<longleftrightarrow> (case v of JUndef \<Rightarrow> sf_required f = None
     | JStr s \<Rightarrow> sf_type f = ''String'' \<and> (sf_required f \<noteq> None \<longrightarrow> set_value f s \<noteq> []) \<and>
         (case sf_enum f of None \<Rightarrow> True | Some es \<Rightarrow> set_value f s \<in> set es)
     | JNum n \<Rightarrow> sf_type f = ''Number''
     | JInf neg \<Rightarrow> sf_type f = ''Number''
     | JBool b \<Rightarrow> sf_type f = ''Boolean''
     | JObj kvs \<Rightarrow> sf_type f = ''Object''
     | _ \<Rightarrow> False)"

text \<open>
  A document fits a schema, without a cast: every key is a path of the schema and every path
  has a value of its type that passes its validators.
\<close>

definition doc_typed :: "(string \<times> schema_field) list \<Rightarrow> jsval \<Rightarrow> bool" where
  "doc_typed schema doc \<longleftrightarrow> (case doc of
       JObj kvs \<Rightarrow> list_all (\<lambda>(k, v). k \<in> fst ` set schema) kvs \<and> list_all (\<lambda>(k, f). value_typed f (field doc k)) schema
     | _ \<Rightarrow> False)"

fun filled :: "jsval \<Rightarrow> bool" where
  "filled (JStr s) \<longleftrightarrow> s \<noteq> []"
| "filled _ \<longleftrightarrow> False"

fun blank :: "jsval \<Rightarrow> bool" where
  "blank (JStr s) \<longleftrightarrow> list_all js_ws s"
| "blank _ \<longleftrightarrow> False"

lemma dropWhile_all: "dropWhile P s = [] \<longleftrightarrow> list_all P s"
  by (induction s) auto

lemma list_all_dropWhile: "list_all P (dropWhile P s) \<longleftrightarrow> list_all P s"
  by (induction s) auto

lemma js_trim_empty [simp]: "js_trim s = [] \<longleftrightarrow> list_all js_ws s"
  by (simp add: js_trim_def list_all_iff [symmetric] list_all_dropWhile)

lemma toLowerCase_empty [simp]: "toLowerCase s = [] \<longleftrightarrow> s = []"
  by (simp add: toLowerCase_def)

lemma key_ok_required:
  "key_ok (Required # rules) v \<longleftrightarrow> (\<exists>s. v = JStr s \<and> s \<noteq> [] \<and> list_all (rule_ok s) rules)"
  by (cases v) (auto simp: key_ok_def)

lemma key_ok_optional:
  "Required \<notin> set rules \<Longrightarrow> key_ok rules v \<longleftrightarrow> v = JUndef \<or> (\<exists>s. v = JStr s \<and> s \<noteq> [] \<and> list_all (rule_ok s) rules)"
  by (cases v) (auto simp: key_ok_def)

lemmas schema_sels = CollectionSchema_def of_type_def

text \<open>A validated body has exactly this shape.\<close>

definition api_categories :: "string list" where
  "api_categories = [''art'', ''gaming'', ''music'', ''sports'', ''photography'']"

lemma validated_body:
  assumes "joi_contract validate" and "validateCollection validate body = None" and "is_ok (getp body ''name'')"
  obtains nm sy cat where "field body ''name'' = JStr nm" and "3 \<le> length nm" and "field body ''symbol'' = JStr sy"
    and "2 \<le> length sy" and "field body ''category'' = JStr cat" and "cat \<in> set api_categories"
    and "field body ''description'' = JUndef \<or> filled (field body ''description'')"
    and "field body ''websiteUrl'' = JUndef \<or> filled (field body ''websiteUrl'')"
    and "field body ''discordUrl'' = JUndef \<or> filled (field body ''discordUrl'')"
    and "field body ''twitterUrl'' = JUndef \<or> filled (field body ''twitterUrl'')"
proof -
  have "body_ok validateCollection_schema body"
    using assms(1,2) by (simp add: joi_contract_def validateCollection_def)
  then have "list_all (\<lambda>(k, rules). key_ok rules (field body k)) validateCollection_schema"
    using assms(3) by (cases body) (simp_all add: body_ok_def)
  then have keys: "key_ok [Required, MinLen 3, MaxLen 50] (field body ''name'')"
      "key_ok [Required, MinLen 2, MaxLen 10] (field body ''symbol'')" "key_ok [MaxLen 1000] (field body ''description'')"
      "key_ok [Required, Valid api_categories] (field body ''category'')"
      "key_ok [Uri, OptionalKey] (field body ''websiteUrl'')" "key_ok [Uri, OptionalKey] (field body ''discordUrl'')"
      "key_ok [Uri, OptionalKey] (field body ''twitterUrl'')"
    unfolding validateCollection_schema_def api_categories_def list.pred_inject prod.case by simp_all
  obtain nm where nm: "field body ''name'' = JStr nm" "3 \<le> length nm"
    using keys(1) by (auto simp: key_ok_required)
  obtain sy where sy: "field body ''symbol'' = JStr sy" "2 \<le> length sy"
    using keys(2) by (auto simp: key_ok_required)
  obtain cat where cat: "field body ''category'' = JStr cat" "cat \<in> set api_categories"
    using keys(4) unfolding key_ok_required list.pred_inject rule_ok.simps by blast
  have o: "Required \<notin> set rules \<Longrightarrow> key_ok rules v \<Longrightarrow> v = JUndef \<or> filled v" for rules v
    by (auto simp: key_ok_optional)
  show ?thesis
    by (rule that [OF nm sy cat o [OF _ keys(3)] o [OF _ keys(5)] o [OF _ keys(6)] o [OF _ keys(7)]]) simp_all
qed

lemma collection_doc_field:
  "field (collection_doc f a u) ''name'' = f ''name''" "field (collection_doc f a u) ''symbol'' = f ''symbol''"
  "field (collection_doc f a u) ''description'' = f ''description''"
  "field (collection_doc f a u) ''contractAddress'' = a" "field (collection_doc f a u) ''creator'' = u"
  "field (collection_doc f a u) ''category'' = f ''category''" "field (collection_doc f a u) ''websiteUrl'' = f ''websiteUrl''"
  "field (collection_doc f a u) ''discordUrl'' = f ''discordUrl''" "field (collection_doc f a u) ''twitterUrl'' = f ''twitterUrl''"
  "field (collection_doc f a u) ''isVerified'' = JUndef" "field (collection_doc f a u) ''profileImage'' = JUndef"
  "field (collection_doc f a u) ''bannerImage'' = JUndef"
  by (simp_all add: collection_doc_def field_def)

text \<open>The four kinds of path the schema has.\<close>

lemma value_typed_paths:
  "value_typed ((of_type ''String'')\<lparr>sf_required := Some msg, sf_trim := True\<rparr>) v \<longleftrightarrow> filled v \<and> \<not> blank v"
  "value_typed ((of_type ''String'')\<lparr>sf_required := Some msg, sf_lowercase := True\<rparr>) v \<longleftrightarrow> filled v"
  "value_typed ((of_type ''String'')\<lparr>sf_required := Some msg, sf_unique := True, sf_lowercase := True\<rparr>) v \<longleftrightarrow> filled v"
  "value_typed ((of_type ''String'')\<lparr>sf_required := Some msg, sf_enum := Some es\<rparr>) (JStr s) \<longleftrightarrow> s \<noteq> [] \<and> s \<in> set es"
  "v = JUndef \<or> filled v \<Longrightarrow> value_typed (of_type ''String'') v"
  "value_typed ((of_type ''Boolean'')\<lparr>sf_default := d\<rparr>) JUndef"
  "value_typed (of_type ''String'') JUndef"
  by (cases v; auto simp: value_typed_def of_type_def set_value_def Let_def)+

lemma collection_doc_typed:
  assumes "joi_contract validate" and "validateCollection validate body = None" and "is_ok (getp body ''name'')"
  shows "doc_typed CollectionSchema (collection_doc (field body) addr user) \<longleftrightarrow>
    filled addr \<and> filled user \<and> \<not> blank (field body ''name'') \<and> \<not> blank (field body ''symbol'')"
proof -
  obtain nm sy cat where
    b: "field body ''name'' = JStr nm" "field body ''symbol'' = JStr sy" "field body ''category'' = JStr cat"
    and ne: "3 \<le> length nm" "2 \<le> length sy" and cat: "cat \<in> set api_categories"
    and opt: "field body ''description'' = JUndef \<or> filled (field body ''description'')"
      "field body ''websiteUrl'' = JUndef \<or> filled (field body ''websiteUrl'')"
      "field body ''discordUrl'' = JUndef \<or> filled (field body ''discordUrl'')"
      "field body ''twitterUrl'' = JUndef \<or> filled (field body ''twitterUrl'')"
    by (rule validated_body [OF assms])
  have category: "cat \<noteq> [] \<and> cat \<in> set api_categories" using cat by (auto simp: api_categories_def)
  have ne': "nm \<noteq> []" "sy \<noteq> []" using ne by auto
  have "doc_typed CollectionSchema (collection_doc (field body) addr user) \<longleftrightarrow>
      list_all (\<lambda>(k, f). value_typed f (field (collection_doc (field body) addr user) k)) CollectionSchema"
    by (simp add: doc_typed_def collection_doc_def CollectionSchema_def)
  also have "\<dots> \<longleftrightarrow> filled addr \<and> filled user \<and> \<not> list_all js_ws nm \<and> \<not> list_all js_ws sy"
    using b opt category unfolding CollectionSchema_def list.pred_inject collection_doc_field prod.case
    by (simp add: value_typed_paths api_categories_def [symmetric] ne' conj_ac)
  finally show ?thesis using b by simp
qed

section \<open>Properties\<close>

text \<open>
  C31. Stored documents are typed: a request that is answered stored exactly one document, built from the
  validated body, the address of the event and the caller's address; of everything the model's
  schema asks for, the validator leaves open only that the two addresses are there and that
  name and symbol are not blank.
\<close>

theorem stored_collection_typed:
  assumes "joi_contract validate"
    and "ctrl_createCollection validate D e trace req (c, d) = (Respond r, (c', d'))"
  shows "\<exists>addr user coll. getp (rq_user req) ''address'' = Inr user \<and>
    new_Collection D (collection_doc (field (rq_body req)) addr user) = Inr coll \<and> coll_save D coll d = (Inr (), d') \<and>
    (doc_typed CollectionSchema (collection_doc (field (rq_body req)) addr user) \<longleftrightarrow>
       filled addr \<and> filled user \<and> \<not> blank (field (rq_body req) ''name'') \<and> \<not> blank (field (rq_body req) ''symbol''))"
proof -
  obtain user coll where v: "validateCollection validate (rq_body req) = None" and u: "getp (rq_user req) ''address'' = Inr user"
    and svc: "service_createCollection D e trace (rq_body req) user (c, d) = (Inr coll, (c', d'))"
    using assms(2) by (auto simp: ctrl_createCollection_def split: option.splits sum.splits prod.splits)
  from svc obtain addr where "is_ok (getp (rq_body req) ''name'')"
    "new_Collection D (collection_doc (field (rq_body req)) addr user) = Inr coll" "coll_save D coll d = (Inr (), d')"
    by (auto simp: service_createCollection_def rethrow_Inr_iff createCollection_try_def bindS_Inr_iff lift_Inr_iff is_ok_iff)
  with u collection_doc_typed [OF assms(1) v] show ?thesis by blast
qed

text \<open>A validator that meets the contract, and a model that stores only what fits its schema.\<close>

definition joi_check :: validator where
  "joi_check schema data = (if body_ok schema data then None else Some ''invalid'')"

lemma joi_check_contract: "joi_contract joi_check"
  by (simp add: joi_contract_def joi_check_def)

lemma joi_check_accepts: "joi_accepts joi_check"
  by (simp add: joi_accepts_def joi_check_def)

definition strict_coll :: "(nat, nat, string \<times> jsval, jsval list) coll_deps" where
  "strict_coll = demo_coll\<lparr>coll_save := (\<lambda>doc d. if doc_typed CollectionSchema doc then (Inr (), doc # d)
     else (Inl (new_Error ''Collection validation failed''), d))\<rparr>"

definition post_of :: "string \<Rightarrow> request" where
  "post_of nm = demo_post\<lparr>rq_body := JObj [(''name'', JStr nm), (''symbol'', JStr ''AP''), (''category'', JStr ''art'')]\<rparr>"

lemma post_of_validated: "3 \<le> length nm \<Longrightarrow> length nm \<le> 50 \<Longrightarrow> validateCollection joi_check (rq_body (post_of nm)) = None"
  by (auto simp: validateCollection_def joi_check_def body_ok_def validateCollection_schema_def key_ok_def post_of_def field_def)

text \<open>
  The documented behaviour of saving a document: one whose values are text is refused, and the
  database is left alone, when it does not fit the schema.
\<close>

definition text_doc :: "jsval \<Rightarrow> bool" where
  "text_doc doc \<longleftrightarrow> (case doc of
       JObj kvs \<Rightarrow> list_all (\<lambda>(k, v). case v of JUndef \<Rightarrow> True | JStr s \<Rightarrow> True | _ \<Rightarrow> False) kvs
     | _ \<Rightarrow> False)"

definition model_contract :: "('c, 'tx, 'l, 'd) coll_deps \<Rightarrow> bool" where
  "model_contract D \<longleftrightarrow> (\<forall>doc coll d. new_Collection D doc = Inr coll \<and> text_doc doc \<and> \<not> doc_typed CollectionSchema doc \<longrightarrow>
     (\<exists>er. coll_save D coll d = (Inl er, d)))"

lemma filled_text: "v = JUndef \<or> filled v \<Longrightarrow> (case v of JUndef \<Rightarrow> True | JStr s \<Rightarrow> True | _ \<Rightarrow> False)"
  by (cases v) auto

lemma collection_doc_text:
  assumes "joi_contract validate" and "validateCollection validate body = None" and "is_ok (getp body ''name'')"
  shows "text_doc (collection_doc (field body) (JStr a) (JStr u))"
proof -
  obtain nm sy cat where
    "field body ''name'' = JStr nm" "field body ''symbol'' = JStr sy" "field body ''category'' = JStr cat"
    and opt: "field body ''description'' = JUndef \<or> filled (field body ''description'')"
      "field body ''websiteUrl'' = JUndef \<or> filled (field body ''websiteUrl'')"
      "field body ''discordUrl'' = JUndef \<or> filled (field body ''discordUrl'')"
      "field body ''twitterUrl'' = JUndef \<or> filled (field body ''twitterUrl'')"
    by (rule validated_body [OF assms])
  with opt [THEN filled_text] show ?thesis by (simp add: text_doc_def collection_doc_def)
qed

text \<open>A validated body whose name the model refuses: by the time it does, the transaction is mined.\<close>

lemma blank_name_refused:
  assumes "joi_contract validate" and "model_contract D" and "validateCollection validate (rq_body req) = None"
    and "getp (rq_user req) ''address'' = Inr (JStr u)" and "blank (field (rq_body req) ''name'')"
    and "new_Wallet D (getenv e ''PRIVATE_KEY'') = Inr ()"
    and "fac_createCollection D (field (rq_body req) ''name'') (field (rq_body req) ''symbol'') (field (rq_body req) ''category'') c = (Inr tx, c1)"
    and "tx_wait D tx c1 = (Inr logs, c2)" and "created_address (fac_parseLog D) trace logs = Inr (JStr a)"
    and "new_Collection D (collection_doc (field (rq_body req)) (JStr a) (JStr u)) = Inr coll"
    and "e ''NODE_ENV'' \<in> {Some ''development'', Some ''production''}"
  shows "\<exists>out r. ctrl_createCollection validate D e trace req (c, d) = (out, (c2, d)) \<and>
    client_answer e trace req out = Some r \<and> r_status r = JNum 500"
proof -
  let ?body = "rq_body req"
  obtain v where nm: "getp ?body ''name'' = Inr v"
    using assms(5) by (cases "getp ?body ''name''") (auto simp: field_def)
  then have ok: "is_ok (getp ?body ''name'')" by (simp add: is_ok_iff)
  have "\<not> doc_typed CollectionSchema (collection_doc (field ?body) (JStr a) (JStr u))"
    using collection_doc_typed [OF assms(1,3) ok] assms(5) by simp
  then obtain er where "coll_save D coll d = (Inl er, d)"
    using assms(2,10) collection_doc_text [OF assms(1,3) ok] unfolding model_contract_def by blast
  then have svc: "service_createCollection D e trace ?body (JStr u) (c, d) =
      (Inl (new_AppError trace 500 (''Failed to create collection: '' @ e_message er)), (c2, d))"
    using assms(6-10) nm by (simp add: service_createCollection_def createCollection_try_def)
  let ?er = "new_AppError trace 500 (''Failed to create collection: '' @ e_message er)"
  obtain r where "answer (errorMiddleware e trace ?er req) = Some r" "r_status r = JNum 500"
    using assms(11) answer_plain [of ?er e trace req] by (auto simp: AppError_fields)
  then show ?thesis
    using assms(3,4) svc by (auto simp: ctrl_createCollection_def client_answer_def)
qed

lemma plain_body_accepted:
  assumes "joi_accepts validate" and "3 \<le> length nm" and "length nm \<le> 50" and "2 \<le> length sy" and "length sy \<le> 10"
    and "cat \<in> set api_categories"
  shows "validateCollection validate (JObj [(''name'', JStr nm), (''symbol'', JStr sy), (''category'', JStr cat)]) = None"
proof -
  let ?body = "JObj [(''name'', JStr nm), (''symbol'', JStr sy), (''category'', JStr cat)]"
  have "body_ok validateCollection_schema ?body"
    using assms(2-6) unfolding body_ok_def validateCollection_schema_def api_categories_def
    by (auto simp: key_ok_def field_def)
  then show ?thesis
    using assms(1) unfolding joi_accepts_def validateCollection_def
    by (simp add: validateCollection_schema_def)
qed

text \<open>
  C32. Blank names: a name of 3 to 50 spaces, with a symbol and category of the right form, passes the validator, since Joi
  does not trim, but not the model, which trims; by then the transaction is mined. With \<open>NODE_ENV\<close> development or production the
  client gets status 500; the chain has the collection and the database does not.
\<close>

theorem blank_name_mined:
  assumes "joi_contract validate" and "joi_accepts validate" and "model_contract D"
    and "rq_body req = JObj [(''name'', JStr nm), (''symbol'', JStr sy), (''category'', JStr cat)]"
    and "list_all js_ws nm" and "3 \<le> length nm" and "length nm \<le> 50" and "2 \<le> length sy" and "length sy \<le> 10"
    and "cat \<in> set api_categories" and "getp (rq_user req) ''address'' = Inr (JStr u)"
    and "new_Wallet D (getenv e ''PRIVATE_KEY'') = Inr ()"
    and "fac_createCollection D (JStr nm) (JStr sy) (JStr cat) c = (Inr tx, c1)"
    and "tx_wait D tx c1 = (Inr logs, c2)" and "created_address (fac_parseLog D) trace logs = Inr (JStr a)"
    and "new_Collection D (collection_doc (field (rq_body req)) (JStr a) (JStr u)) = Inr coll"
    and "e ''NODE_ENV'' \<in> {Some ''development'', Some ''production''}"
  shows "validateCollection validate (rq_body req) = None \<and>
    (\<exists>out r. ctrl_createCollection validate D e trace req (c, d) = (out, (c2, d)) \<and>
      client_answer e trace req out = Some r \<and> r_status r = JNum 500)"
proof -
  have v: "validateCollection validate (rq_body req) = None"
    unfolding assms(4) by (rule plain_body_accepted [OF assms(2,6-10)])
  have f: "field (rq_body req) ''name'' = JStr nm" "field (rq_body req) ''symbol'' = JStr sy" "field (rq_body req) ''category'' = JStr cat"
    by (simp_all add: assms(4) field_def)
  have "blank (field (rq_body req) ''name'')" using assms(5) f by simp
  from blank_name_refused [OF assms(1,3) v assms(11) this assms(12) _ assms(14-17)] v f assms(13) show ?thesis by simp
qed

lemma post_of_fields:
  "field (rq_body (post_of nm)) ''name'' = JStr nm" "field (rq_body (post_of nm)) ''symbol'' = JStr ''AP''"
  "field (rq_body (post_of nm)) ''category'' = JStr ''art''" "getp (rq_body (post_of nm)) ''name'' = Inr (JStr nm)"
  "getp (rq_user (post_of nm)) ''address'' = Inr (JStr ''0xA1'')"
  by (simp_all add: post_of_def demo_post_def field_def)

lemma strict_coll_sels:
  "new_Wallet strict_coll k = Inr ()" "fac_createCollection strict_coll x y z c = (Inr c, Suc c)"
  "tx_wait strict_coll tx c = (Inr [(''Transfer'', JObj []), (''CollectionCreated'', JObj [(''collectionAddress'', JStr ''0xC0'')])], c)"
  "new_Collection strict_coll doc = Inr doc"
  "created_address (fac_parseLog strict_coll) trace [(''Transfer'', JObj []), (''CollectionCreated'', JObj [(''collectionAddress'', JStr ''0xC0'')])] =
     Inr (JStr ''0xC0'')"
  "coll_save strict_coll doc d = (if doc_typed CollectionSchema doc then (Inr (), doc # d)
     else (Inl (new_Error ''Collection validation failed''), d))"
  by (simp_all add: strict_coll_def demo_coll_def created_address_def)

lemma strict_coll_contract: "model_contract strict_coll"
  by (auto simp: model_contract_def strict_coll_sels)

theorem stored_collection_typed_witness:
  "\<exists>r doc. ctrl_createCollection joi_check strict_coll (\<lambda>_. None) [] (post_of ''Apes'') (0, []) = (Respond r, (1, [doc])) \<and>
    doc_typed CollectionSchema doc \<and> coll_save strict_coll doc [] = (Inr (), [doc])"
proof -
  let ?req = "post_of ''Apes''"
  let ?doc = "collection_doc (field (rq_body ?req)) (JStr ''0xC0'') (JStr ''0xA1'')"
  have v: "validateCollection joi_check (rq_body ?req) = None" by (rule post_of_validated) simp_all
  have typed: "doc_typed CollectionSchema ?doc"
    using collection_doc_typed [OF joi_check_contract v] by (simp add: post_of_fields js_ws_def)
  have c: "ctrl_createCollection joi_check strict_coll (\<lambda>_. None) [] ?req (0, []) =
      (Respond \<lparr>r_status = JNum 201, r_body = JsonBody (JObj [(''status'', JStr ''success''), (''data'', ?doc)])\<rparr>, (1, [?doc]))"
    using v typed by (simp add: ctrl_createCollection_def service_createCollection_def createCollection_try_def post_of_fields
        strict_coll_sels json_response_def)
  from stored_collection_typed [OF joi_check_contract c] have "coll_save strict_coll ?doc [] = (Inr (), [?doc])"
    by (auto simp: strict_coll_sels split: if_splits)
  with c typed show ?thesis by blast
qed

theorem blank_name_mined_witness:
  "validateCollection joi_check (rq_body (post_of ''   '')) = None \<and>
   (\<exists>out r. ctrl_createCollection joi_check strict_coll (\<lambda>_. Some ''production'') [] (post_of ''   '') (0, []) = (out, (1, [])) \<and>
    client_answer (\<lambda>_. Some ''production'') [] (post_of ''   '') out = Some r \<and> r_status r = JNum 500)"
  by (rule blank_name_mined [OF joi_check_contract joi_check_accepts strict_coll_contract,
        where nm = "''   ''" and sy = "''AP''" and cat = "''art''" and u = "''0xA1''" and a = "''0xC0''" and tx = 0 and ?c1.0 = 1
        and coll = "collection_doc (field (rq_body (post_of ''   ''))) (JStr ''0xC0'') (JStr ''0xA1'')"
        and logs = "[(''Transfer'', JObj []), (''CollectionCreated'', JObj [(''collectionAddress'', JStr ''0xC0'')])]"])
    (simp_all add: post_of_fields strict_coll_sels js_ws_def api_categories_def, simp add: post_of_def)

end
