(* ===== verification/Backend.thy ===== *)
theory Backend
  imports Config
begin

text \<open>
  The two services that no controller calls yet: \<open>email.service.js\<close>, over the mail transport, the
  file system and the template compiler as parameters, and the live part of
  \<open>blockchain.service.js\<close>, over the Web3 package.
\<close>

section \<open>email.service.js\<close>

record mail =
  m_from :: jsval
  m_to :: jsval
  m_subject :: string
  m_html :: string
  m_attachments :: "(string \<times> string \<times> string) list"

text \<open>\<open>em_readFile\<close> reads a template by path, \<open>em_compile\<close> turns its text into a function.\<close>

record mail_deps =
  em_sendMail :: "mail \<Rightarrow> jserr + jsval"
  em_readFile :: "string \<Rightarrow> jserr + string"
  em_compile :: "string \<Rightarrow> jserr + (jsval \<Rightarrow> jserr + string)"

record mail_state =
  ms_sent :: "mail list"
  ms_log :: "string list"

definition EmailService_constructor :: "(jsval \<Rightarrow> jserr + 't) \<Rightarrow> jsval \<Rightarrow> jserr + 't" where
  "EmailService_constructor createTransport cfg =
     bindE (getpath cfg [''email'', ''smtp'', ''host'']) (\<lambda>host.
     bindE (getpath cfg [''email'', ''smtp'', ''port'']) (\<lambda>port.
     bindE (getpath cfg [''email'', ''secure'']) (\<lambda>secure.
     bindE (getpath cfg [''smtp'', ''auth'']) (\<lambda>auth.
       createTransport (JObj [(''host'', host), (''port'', port), (''secure'', secure), (''auth'', auth)])))))"

definition log_line :: "string \<Rightarrow> mail_state \<Rightarrow> mail_state" where
  "log_line l s = s\<lparr>ms_log := ms_log s @ [l]\<rparr>"

definition sendEmail ::
  "mail_deps \<Rightarrow> jsval \<Rightarrow> jsval \<Rightarrow> string \<Rightarrow> string \<Rightarrow> (string \<times> string \<times> string) list \<Rightarrow> mail_state \<Rightarrow>
   (jserr + jsval) \<times> mail_state" where
  "sendEmail D cfg to subject html attachments s =
     (case bindE (getpath cfg [''email'', ''from'']) (\<lambda>from.
             let mailOptions = \<lparr>m_from = from, m_to = to, m_subject = subject, m_html = html,
                                m_attachments = attachments\<rparr>
             in bindE (em_sendMail D mailOptions) (\<lambda>info. Inr (mailOptions, info))) of
        Inl error \<Rightarrow> (Inl (new_Error ''Failed to send email''), log_line ''Error sending email:'' s)
      | Inr (mailOptions, info) \<Rightarrow>
          (let s1 = s\<lparr>ms_sent := ms_sent s @ [mailOptions]\<rparr>
           in case getp info ''messageId'' of
                Inl error \<Rightarrow> (Inl (new_Error ''Failed to send email''), log_line ''Error sending email:'' s1)
              | Inr mid \<Rightarrow> (Inr info, log_line (''Email sent: '' @ js_String mid) s1)))"

text \<open>\<open>srcdir\<close> is the directory above \<open>__dirname\<close>.\<close>

definition loadTemplate :: "mail_deps \<Rightarrow> string \<Rightarrow> string \<Rightarrow> jserr + (jsval \<Rightarrow> jserr + string)" where
  "loadTemplate D srcdir templateName =
     bindE (em_readFile D (srcdir @ ''/templates/'' @ templateName @ ''.hbs'')) (em_compile D)"

definition user_name :: "jsval \<Rightarrow> jserr + jsval" where
  "user_name to = (case to of JStr s \<Rightarrow> Inr (JStr (split_head (CHR ''@'') s))
     | JUndef \<Rightarrow> Inl (read_of ''undefined'' ''split'')
     | JNull \<Rightarrow> Inl (read_of ''null'' ''split'')
     | _ \<Rightarrow> Inl (TypeError ''to.split is not a function''))"

text \<open>The \<open>catch\<close> block of the four methods: a log line, then a new error.\<close>

definition mail_failed :: "string \<Rightarrow> string \<Rightarrow> mail_state \<Rightarrow> (jserr + unit) \<times> mail_state" where
  "mail_failed line msg s = (Inl (new_Error msg), log_line line s)"

definition then_send ::
  "jserr + string \<Rightarrow> (string \<Rightarrow> mail_state \<Rightarrow> (jserr + jsval) \<times> mail_state) \<Rightarrow> string \<Rightarrow> string \<Rightarrow> mail_state \<Rightarrow>
   (jserr + unit) \<times> mail_state" where
  "then_send html send line msg s = (case html of
       Inl error \<Rightarrow> mail_failed line msg s
     | Inr h \<Rightarrow> (case send h s of
           (Inl error, s1) \<Rightarrow> mail_failed line msg s1
         | (Inr info, s1) \<Rightarrow> (Inr (), s1)))"

definition sendWelcomeEmail :: "mail_deps \<Rightarrow> string \<Rightarrow> jsval \<Rightarrow> jsval \<Rightarrow> mail_state \<Rightarrow> (jserr + unit) \<times> mail_state" where
  "sendWelcomeEmail D srcdir cfg to s =
     then_send
       (bindE (loadTemplate D srcdir ''welcome'') (\<lambda>template.
        bindE (user_name to) (\<lambda>nm.
        bindE (getpath cfg [''email'', ''clientUrl'']) (\<lambda>url.
          template (JObj [(''name'', nm), (''loginUrl'', JStr (js_String url @ ''/login''))])))))
       (\<lambda>html. sendEmail D cfg to ''Welcome to NFT Marketplace!'' html
          [(''welcome.jpg'', srcdir @ ''/assets/welcome.jpg'', ''welcome-image'')])
       ''Error sending welcome email:'' ''Failed to send welcome email'' s"

definition sendPasswordResetEmail ::
  "mail_deps \<Rightarrow> string \<Rightarrow> jsval \<Rightarrow> jsval \<Rightarrow> jsval \<Rightarrow> mail_state \<Rightarrow> (jserr + unit) \<times> mail_state" where
  "sendPasswordResetEmail D srcdir cfg to resetLink s =
     then_send
       (bindE (loadTemplate D srcdir ''passwordReset'') (\<lambda>template.
        bindE (user_name to) (\<lambda>nm.
          template (JObj [(''name'', nm), (''resetLink'', resetLink), (''expirationTime'', JStr ''1 hour'')]))))
       (\<lambda>html. sendEmail D cfg to ''Reset Your NFT Marketplace Password'' html [])
       ''Error sending password reset email:'' ''Failed to send password reset email'' s"

definition sendNFTSaleConfirmation ::
  "mail_deps \<Rightarrow> string \<Rightarrow> jsval \<Rightarrow> jsval \<Rightarrow> jsval \<Rightarrow> mail_state \<Rightarrow> (jserr + unit) \<times> mail_state" where
  "sendNFTSaleConfirmation D srcdir cfg to nftDetails s =
     then_send
       (bindE (loadTemplate D srcdir ''nftSaleConfirmation'') (\<lambda>template.
        bindE (user_name to) (\<lambda>nm.
        bindE (getp nftDetails ''name'') (\<lambda>nftName.
        bindE (getp nftDetails ''price'') (\<lambda>price.
        bindE (getp nftDetails ''buyer'') (\<lambda>buyer.
        bindE (getp nftDetails ''transactionId'') (\<lambda>transactionId.
        bindE (getp cfg ''clientUrl'') (\<lambda>url.
          template (JObj [(''name'', nm), (''nftName'', nftName), (''price'', price), (''buyer'', buyer),
            (''transactionId'', transactionId), (''marketplaceUrl'', JStr (js_String url @ ''/marketplace''))])))))))))
       (\<lambda>html. sendEmail D cfg to ''Your NFT Has Been Sold!'' html
          [(''nft-sold.jpg'', srcdir @ ''/assets/nft-sold.jpg'', ''nft-sold-image'')])
       ''Error sending NFT sale confirmation email:'' ''Failed to send NFT sale confirmation email'' s"

definition sendNewBidNotification ::
  "mail_deps \<Rightarrow> string \<Rightarrow> jsval \<Rightarrow> jsval \<Rightarrow> jsval \<Rightarrow> mail_state \<Rightarrow> (jserr + unit) \<times> mail_state" where
  "sendNewBidNotification D srcdir cfg to bidDetails s =
     then_send
       (bindE (loadTemplate D srcdir ''newBidNotification'') (\<lambda>template.
        bindE (user_name to) (\<lambda>nm.
        bindE (getp bidDetails ''nftName'') (\<lambda>nftName.
        bindE (getp bidDetails ''bidAmount'') (\<lambda>bidAmount.
        bindE (getp bidDetails ''bidder'') (\<lambda>bidder.
        bindE (getp bidDetails ''auctionEndTime'') (\<lambda>auctionEndTime.
        bindE (getp cfg ''clientUrl'') (\<lambda>url.
        bindE (getp bidDetails ''nftId'') (\<lambda>nftId.
          template (JObj [(''name'', nm), (''nftName'', nftName), (''bidAmount'', bidAmount), (''bidder'', bidder),
            (''auctionEndTime'', auctionEndTime),
            (''nftUrl'', JStr (js_String url @ ''/nft/'' @ js_String nftId))]))))))))))
       (\<lambda>html. sendEmail D cfg to ''New Bid on Your NFT!'' html [])
       ''Error sending new bid notification email:'' ''Failed to send new bid notification email'' s"

section \<open>blockchain.service.js\<close>

record chain_tx =
  tx_from :: jsval
  tx_to :: jsval
  tx_nonce :: nat
  tx_gasPrice :: nat
  tx_gasLimit :: nat
  tx_data :: string

text \<open>\<open>bs_encodeABI\<close> is \<open>contract.methods.f(args).encodeABI()\<close>; the rest are calls to the node.\<close>

record 'c web3_deps =
  bs_getTransactionCount :: "jsval \<Rightarrow> 'c \<Rightarrow> jserr + nat"
  bs_getGasPrice :: "'c \<Rightarrow> jserr + nat"
  bs_encodeABI :: "string \<Rightarrow> jsval list \<Rightarrow> jserr + string"
  bs_signTransaction :: "chain_tx \<Rightarrow> jsval \<Rightarrow> jserr + string"
  bs_sendSigned :: "string \<Rightarrow> 'c \<Rightarrow> (jserr + jsval) \<times> 'c"

text \<open>
  The constructor: a Web3 object over an HTTP provider, and the contract at the configured address;
  \<open>conf\<close> is the imported configuration and \<open>abi\<close> the result of requiring the generated ABI file.
\<close>

definition BlockchainService_constructor ::
  "(jsval \<Rightarrow> jserr + 'w) \<Rightarrow> jserr + 'a \<Rightarrow> ('w \<Rightarrow> 'a \<Rightarrow> jsval \<Rightarrow> jserr + 'k) \<Rightarrow> (string \<Rightarrow> jsval) \<Rightarrow> jserr + 'w \<times> 'k" where
  "BlockchainService_constructor new_web3 abi new_contract conf =
     bindE (new_web3 (conf ''providerUrl'')) (\<lambda>web3.
     bindE abi (\<lambda>contractAbi.
     bindE (new_contract web3 contractAbi (conf ''contractAddress'')) (\<lambda>contract. Inr (web3, contract))))"

text \<open>
  The body the two methods share: read the nonce of \<open>sender\<close> and the gas price, build the
  transaction, sign it with \<open>key\<close>, send it, log and return its hash.
\<close>

definition send_method ::
  "'c web3_deps \<Rightarrow> jsval \<Rightarrow> jsval \<Rightarrow> jsval \<Rightarrow> string \<Rightarrow> jsval list \<Rightarrow> string \<Rightarrow> 'c \<times> string list \<Rightarrow>
   (jserr + jsval) \<times> 'c \<times> string list" where
  "send_method D sender contractAddress key method args line w =
     (case w of (c, ls) \<Rightarrow>
        (case bindE (bs_getTransactionCount D sender c) (\<lambda>nonce.
              bindE (bs_getGasPrice D c) (\<lambda>gasPrice.
              bindE (bs_encodeABI D method args) (\<lambda>data.
                bs_signTransaction D \<lparr>tx_from = sender, tx_to = contractAddress, tx_nonce = nonce,
                  tx_gasPrice = gasPrice, tx_gasLimit = 500000, tx_data = data\<rparr> key))) of
           Inl error \<Rightarrow> (Inl error, c, ls)
         | Inr raw \<Rightarrow> (case bs_sendSigned D raw c of
               (Inl error, c1) \<Rightarrow> (Inl error, c1, ls)
             | (Inr receipt, c1) \<Rightarrow> (case getp receipt ''transactionHash'' of
                   Inl error \<Rightarrow> (Inl error, c1, ls)
                 | Inr h \<Rightarrow> (Inr h, c1, ls @ [line @ js_String h])))))"

definition log_failure :: "string \<Rightarrow> (jserr + jsval) \<times> 'c \<times> string list \<Rightarrow> (jserr + jsval) \<times> 'c \<times> string list" where
  "log_failure line r = (case r of (Inl error, c, ls) \<Rightarrow> (Inl error, c, ls @ [line]) | (Inr h, c, ls) \<Rightarrow> (Inr h, c, ls))"

definition service_mintNFT ::
  "'c web3_deps \<Rightarrow> (string \<Rightarrow> jsval) \<Rightarrow> jsval \<Rightarrow> jsval \<Rightarrow> jsval \<Rightarrow> 'c \<times> string list \<Rightarrow> (jserr + jsval) \<times> 'c \<times> string list" where
  "service_mintNFT D conf tokenId ipfsHash creatorAddress w =
     log_failure ''Error minting NFT:''
       (send_method D (conf ''ownerAddress'') (conf ''contractAddress'') (conf ''ownerPrivateKey'') ''mintNFT''
          [creatorAddress, tokenId, ipfsHash] ''NFT minted: '' w)"

definition service_transferNFT ::
  "'c web3_deps \<Rightarrow> (string \<Rightarrow> jsval) \<Rightarrow> jsval \<Rightarrow> jsval \<Rightarrow> jsval \<Rightarrow> 'c \<times> string list \<Rightarrow> (jserr + jsval) \<times> 'c \<times> string list" where
  "service_transferNFT D conf fromAddress toAddress tokenId w =
     log_failure ''Error transferring NFT:''
       (send_method D fromAddress (conf ''contractAddress'') (conf ''userPrivateKey'') ''transferFrom''
          [fromAddress, toAddress, tokenId] ''NFT transferred: '' w)"

section \<open>Properties\<close>

lemma getpath_Inl: "getpath v ks = Inl er \<Longrightarrow> e_name er = ''TypeError''"
  by (induction v ks rule: getpath.induct) (auto simp: bindE_Inl_iff dest: getp_Inl(1))

lemma no_smtp_section:
  "getp (development e) ''smtp'' = Inr JUndef" "getp (test_config e) ''smtp'' = Inr JUndef"
  "getp (production e) ''smtp'' = Inr JUndef"
  by (simp_all add: env_objects del: getenv_simps js_or_simps)

lemma no_clientUrl:
  "getp (development e) ''clientUrl'' = Inr JUndef" "getp (test_config e) ''clientUrl'' = Inr JUndef"
  "getp (production e) ''clientUrl'' = Inr JUndef"
  by (simp_all add: env_objects del: getenv_simps js_or_simps)

lemma smtp_auth_fails: "\<exists>er. getpath (config e) [''smtp'', ''auth''] = Inl er"
proof -
  have "getp (config e) ''smtp'' = Inr JUndef \<or> (\<exists>er. getp (config e) ''smtp'' = Inl er)"
    unfolding config_def using no_smtp_section by simp
  then show ?thesis by auto
qed

text \<open>
  The email service cannot be loaded: its constructor reads \<open>config.smtp.auth\<close>, and no
  environment has a section \<open>smtp\<close> at that level, so for every setting of the environment
  variables it throws a \<open>TypeError\<close> and builds no transport.
\<close>

theorem email_service_fails_to_load:
  "\<exists>er. EmailService_constructor createTransport (config e) = Inl er \<and> e_name er = ''TypeError''"
proof -
  obtain er where auth: "getpath (config e) [''smtp'', ''auth''] = Inl er" using smtp_auth_fails by blast
  show ?thesis
    unfolding EmailService_constructor_def auth
    by (cases "getpath (config e) [''email'', ''smtp'', ''host'']";
        cases "getpath (config e) [''email'', ''smtp'', ''port'']";
        cases "getpath (config e) [''email'', ''secure'']")
      (auto simp del: getpath.simps dest: getpath_Inl simp: getpath_Inl [OF auth])
qed

lemma sendEmail_Inr:
  assumes "sendEmail D cfg to subject html att s = (Inr info, s')"
  shows "\<exists>from. em_sendMail D \<lparr>m_from = from, m_to = to, m_subject = subject, m_html = html, m_attachments = att\<rparr> = Inr info \<and>
    getpath cfg [''email'', ''from''] = Inr from \<and>
    ms_sent s' = ms_sent s @ [\<lparr>m_from = from, m_to = to, m_subject = subject, m_html = html, m_attachments = att\<rparr>]"
  using assms
  by (auto simp: sendEmail_def log_line_def Let_def simp del: getpath.simps split: sum.splits prod.splits)

lemma then_send_Inr:
  "then_send html send line msg s = (Inr (), s') \<Longrightarrow> \<exists>h info. html = Inr h \<and> send h s = (Inr info, s')"
  by (auto simp: then_send_def mail_failed_def split: sum.splits prod.splits)

text \<open>
  The sale mail: when it is sent, exactly one mail goes to the given address, made from the sale
  template; but the link in it is built from \<open>config.clientUrl\<close>, which no environment defines, so
  it always reads \<open>undefined/marketplace\<close>.
\<close>

theorem sale_mail_link:
  assumes "config_env e \<in> {''development'', ''test'', ''production''}"
    and "sendNFTSaleConfirmation D srcdir (config e) to details s = (Inr (), s')"
  shows "\<exists>template ctx html from. loadTemplate D srcdir ''nftSaleConfirmation'' = Inr template \<and>
    getp ctx ''marketplaceUrl'' = Inr (JStr ''undefined/marketplace'') \<and> template ctx = Inr html \<and>
    ms_sent s' = ms_sent s @ [\<lparr>m_from = from, m_to = to, m_subject = ''Your NFT Has Been Sold!'', m_html = html,
      m_attachments = [(''nft-sold.jpg'', srcdir @ ''/assets/nft-sold.jpg'', ''nft-sold-image'')]\<rparr>]"
proof -
  have url: "getp (config e) ''clientUrl'' = Inr JUndef"
    using assms(1) no_clientUrl config_known by auto
  note ts = then_send_Inr [OF assms(2) [unfolded sendNFTSaleConfirmation_def url]]
  obtain html info where
    h: "bindE (loadTemplate D srcdir ''nftSaleConfirmation'') (\<lambda>template.
        bindE (user_name to) (\<lambda>nm.
        bindE (getp details ''name'') (\<lambda>nftName.
        bindE (getp details ''price'') (\<lambda>price.
        bindE (getp details ''buyer'') (\<lambda>buyer.
        bindE (getp details ''transactionId'') (\<lambda>transactionId.
        bindE (Inr JUndef) (\<lambda>url.
          template (JObj [(''name'', nm), (''nftName'', nftName), (''price'', price), (''buyer'', buyer),
            (''transactionId'', transactionId), (''marketplaceUrl'', JStr (js_String url @ ''/marketplace''))])))))))) = Inr html"
    and m: "sendEmail D (config e) to ''Your NFT Has Been Sold!'' html
        [(''nft-sold.jpg'', srcdir @ ''/assets/nft-sold.jpg'', ''nft-sold-image'')] s = (Inr info, s')"
    using ts by blast
  obtain template nm a b c d where
    t: "loadTemplate D srcdir ''nftSaleConfirmation'' = Inr template"
      "template (JObj [(''name'', nm), (''nftName'', a), (''price'', b), (''buyer'', c), (''transactionId'', d),
         (''marketplaceUrl'', JStr ''undefined/marketplace'')]) = Inr html"
    using h by auto
  obtain frm where "ms_sent s' = ms_sent s @ [\<lparr>m_from = frm, m_to = to, m_subject = ''Your NFT Has Been Sold!'',
      m_html = html, m_attachments = [(''nft-sold.jpg'', srcdir @ ''/assets/nft-sold.jpg'', ''nft-sold-image'')]\<rparr>]"
    using sendEmail_Inr [OF m] by (elim exE conjE) (rule that)
  moreover have "getp (JObj [(''name'', nm), (''nftName'', a), (''price'', b), (''buyer'', c), (''transactionId'', d),
      (''marketplaceUrl'', JStr ''undefined/marketplace'')]) ''marketplaceUrl'' = Inr (JStr ''undefined/marketplace'')"
    by simp
  ultimately show ?thesis using t by (intro exI conjI)
qed

definition demo_mailer :: mail_deps where
  "demo_mailer = \<lparr>em_sendMail = (\<lambda>_. Inr (JObj [(''messageId'', JStr ''1'')])), em_readFile = (\<lambda>p. Inr p),
     em_compile = (\<lambda>t. Inr (\<lambda>ctx. Inr t))\<rparr>"

definition demo_sale :: jsval where
  "demo_sale = JObj [(''name'', JStr ''One''), (''price'', JNum 5), (''buyer'', JStr ''0xB''), (''transactionId'', JStr ''0xT'')]"

lemma demo_sale_sent:
  "\<exists>s'. sendNFTSaleConfirmation demo_mailer ''src'' (config (\<lambda>_. None)) (JStr ''a@b'') demo_sale \<lparr>ms_sent = [], ms_log = []\<rparr> = (Inr (), s')"
proof -
  have c: "config (\<lambda>_. None) = development (\<lambda>_. None)"
    by (rule config_known(1)) (simp add: config_env_def)
  have f: "getpath (development (\<lambda>_. None)) [''email'', ''from''] = Inr JUndef"
    by (simp add: development_def del: js_or_simps)
  show ?thesis
    unfolding c
    by (simp add: sendNFTSaleConfirmation_def then_send_def loadTemplate_def demo_mailer_def user_name_def
        demo_sale_def no_clientUrl sendEmail_def f Let_def del: getpath.simps)
qed

theorem sale_mail_link_witness:
  "\<exists>s' from html. sendNFTSaleConfirmation demo_mailer ''src'' (config (\<lambda>_. None)) (JStr ''a@b'') demo_sale
      \<lparr>ms_sent = [], ms_log = []\<rparr> = (Inr (), s') \<and>
    ms_sent s' = [\<lparr>m_from = from, m_to = JStr ''a@b'', m_subject = ''Your NFT Has Been Sold!'', m_html = html,
      m_attachments = [(''nft-sold.jpg'', ''src'' @ ''/assets/nft-sold.jpg'', ''nft-sold-image'')]\<rparr>]"
proof -
  obtain s' where s': "sendNFTSaleConfirmation demo_mailer ''src'' (config (\<lambda>_. None)) (JStr ''a@b'') demo_sale
      \<lparr>ms_sent = [], ms_log = []\<rparr> = (Inr (), s')" using demo_sale_sent by blast
  have "config_env (\<lambda>_. None) \<in> {''development'', ''test'', ''production''}"
    by (simp add: config_env_def)
  from sale_mail_link [OF this s'] s' show ?thesis by auto
qed

text \<open>
  One transaction per mint: when \<open>mintNFT\<close> of the blockchain service returns a hash, exactly one
  transaction was signed and sent, with the owner's current nonce, the node's gas price, a gas limit
  of 500000 and the encoded call; a failure before signing leaves the chain as it was and is passed
  on unchanged after one log line.
\<close>

theorem service_mint_one_tx:
  assumes "service_mintNFT D conf tokenId ipfsHash creator (c, ls) = (r, (c', ls'))"
  shows "(\<forall>h. r = Inr h \<longrightarrow> (\<exists>nonce gp data raw receipt.
      bs_getTransactionCount D (conf ''ownerAddress'') c = Inr nonce \<and> bs_getGasPrice D c = Inr gp \<and>
      bs_encodeABI D ''mintNFT'' [creator, tokenId, ipfsHash] = Inr data \<and>
      bs_signTransaction D \<lparr>tx_from = conf ''ownerAddress'', tx_to = conf ''contractAddress'', tx_nonce = nonce,
        tx_gasPrice = gp, tx_gasLimit = 500000, tx_data = data\<rparr> (conf ''ownerPrivateKey'') = Inr raw \<and>
      bs_sendSigned D raw c = (Inr receipt, c') \<and> getp receipt ''transactionHash'' = Inr h \<and>
      ls' = ls @ [''NFT minted: '' @ js_String h])) \<and>
    (\<forall>er. r = Inl er \<longrightarrow> ls' = ls @ [''Error minting NFT:'']) \<and>
    (\<forall>er. bs_getTransactionCount D (conf ''ownerAddress'') c = Inl er \<longrightarrow> r = Inl er \<and> c' = c)"
  using assms
  by (auto simp: service_mintNFT_def log_failure_def send_method_def split: sum.splits prod.splits)

definition demo_web3 :: "nat web3_deps" where
  "demo_web3 = \<lparr>bs_getTransactionCount = (\<lambda>_ c. Inr c), bs_getGasPrice = (\<lambda>_. Inr 9), bs_encodeABI = (\<lambda>m _. Inr m),
     bs_signTransaction = (\<lambda>tx _. Inr (tx_data tx)),
     bs_sendSigned = (\<lambda>raw c. (Inr (JObj [(''transactionHash'', JStr raw)]), Suc c))\<rparr>"

theorem service_mint_one_tx_witness:
  "\<exists>c' ls'. service_mintNFT demo_web3 (\<lambda>_. JUndef) (JNum 1) (JStr ''Qm'') (JStr ''0xA'') (4, []) = (Inr (JStr ''mintNFT''), (c', ls')) \<and>
    (\<exists>nonce. bs_getTransactionCount demo_web3 JUndef 4 = Inr nonce) \<and> ls' = [''NFT minted: '' @ ''mintNFT'']"
proof -
  obtain c' ls' where r: "service_mintNFT demo_web3 (\<lambda>_. JUndef) (JNum 1) (JStr ''Qm'') (JStr ''0xA'') (4, []) =
      (Inr (JStr ''mintNFT''), (c', ls'))"
    by (simp add: service_mintNFT_def log_failure_def send_method_def demo_web3_def)
  from service_mint_one_tx [OF r] r show ?thesis by auto
qed

end
