(* ===== verification/Loading.thy ===== *)
theory Loading
  imports Http Backend Models
begin

text \<open>
  Loading the server: the \<open>require\<close> calls and the top-level statements of the modules under
  \<open>src/src\<close>, in the order they run, over the module cache of Node. Packages and the files the
  modules name but the repository does not contain are parameters.
\<close>

section \<open>Files and the module cache\<close>

text \<open>The last four are named by a \<open>require\<close>, but not in the repository.\<close>

datatype src_file =
    Server | App | RoutesIndex | CollectionRoute | NftRoute | CollectionController | NftController
  | CollectionService | NftService | PinataService | IpfsService | EmailServiceFile
  | CollectionModel | NftModel | UserModel | ErrorMiddleware | UploadMiddleware | ValidationMiddleware
  | CollectionValidator | BlockchainConfig | BlockchainService | LoggerFile | Database | ConfigIndex | ConfigPinata | SwaggerJson
  | AuthRoute | AuthMiddleware | FactoryArtifact | CollectionArtifact

text \<open>
  The process while it loads: the files in the module cache, in the order they began to run, and the
  calls that reach outside.
\<close>

record load_state =
  ld_cache :: "src_file list"
  ld_effects :: "string list"

type_synonym loader = "load_state \<Rightarrow> (jserr + unit) \<times> load_state"

text \<open>
  \<open>nw_package\<close> is the error of requiring a package, if any, \<open>nw_file\<close> what running a file from
  outside the repository gives, \<open>None\<close> if it is not there; \<open>nw_esm\<close> says whether this Node reads a file with
  \<open>import\<close> statements as an ES module; the others are constructors of packages.
\<close>

record node_world =
  nw_env :: env
  nw_esm :: bool
  nw_package :: "string \<Rightarrow> jserr option"
  nw_file :: "src_file \<Rightarrow> (jserr + unit) option"
  nw_JsonRpcProvider :: "jsval \<Rightarrow> jserr + unit"
  nw_Contract :: "jsval \<Rightarrow> unit \<Rightarrow> jserr + unit"
  nw_Wallet :: "jsval \<Rightarrow> unit \<Rightarrow> jserr + unit"
  nw_createTransport :: "jsval \<Rightarrow> jserr + unit"
  nw_pinataSDK :: "jsval \<Rightarrow> jsval \<Rightarrow> jserr + unit"

definition module_not_found :: "string \<Rightarrow> jserr" where
  "module_not_found request = (new_Error (''Cannot find module '' @ [CHR 0x27] @ request @ [CHR 0x27]))
     \<lparr>e_code := JStr ''MODULE_NOT_FOUND''\<rparr>"

definition run_code :: "jserr + 'a \<Rightarrow> loader" where
  "run_code r s = (case r of Inl er \<Rightarrow> (Inl er, s) | Inr _ \<Rightarrow> (Inr (), s))"

definition effect :: "string \<Rightarrow> loader" where
  "effect x s = (Inr (), s\<lparr>ld_effects := ld_effects s @ [x]\<rparr>)"

text \<open>A file runs once; one that throws is taken out of the cache again.\<close>

definition load_file :: "src_file \<Rightarrow> loader \<Rightarrow> loader" where
  "load_file f body s =
     (if f \<in> set (ld_cache s) then (Inr (), s)
      else (case body (s\<lparr>ld_cache := ld_cache s @ [f]\<rparr>) of
          (Inl er, s') \<Rightarrow> (Inl er, s'\<lparr>ld_cache := removeAll f (ld_cache s')\<rparr>)
        | (Inr u, s') \<Rightarrow> (Inr (), s')))"

definition package :: "node_world \<Rightarrow> string \<Rightarrow> loader" where
  "package N p = run_code (case nw_package N p of Some er \<Rightarrow> Inl er | None \<Rightarrow> Inr ())"

definition outside_file :: "node_world \<Rightarrow> string \<Rightarrow> src_file \<Rightarrow> loader" where
  "outside_file N request f = (case nw_file N f of
       None \<Rightarrow> run_code (Inl (module_not_found request) :: jserr + unit)
     | Some r \<Rightarrow> load_file f (run_code r))"

text \<open>The statements of a file, one after the other, until one throws.\<close>

fun seqL :: "loader list \<Rightarrow> loader" where
  "seqL [] s = (Inr (), s)"
| "seqL (l # ls) s = bindS (l s) (\<lambda>_. seqL ls)"

section \<open>The modules\<close>

definition logger_module :: "node_world \<Rightarrow> loader" where
  "logger_module N = load_file LoggerFile (seqL
     [package N ''winston'', package N ''winston-daily-rotate-file'', effect ''createLogger''])"

definition config_module :: "node_world \<Rightarrow> loader" where
  "config_module N = load_file ConfigIndex (seqL [package N ''dotenv'', package N ''path'', effect ''dotenv.config''])"

definition database_module :: "node_world \<Rightarrow> loader" where
  "database_module N = load_file Database (seqL [package N ''mongoose'', logger_module N])"

definition error_module :: "node_world \<Rightarrow> loader" where
  "error_module N = load_file ErrorMiddleware (seqL [logger_module N])"

definition collection_model_module :: "node_world \<Rightarrow> loader" where
  "collection_model_module N = load_file CollectionModel (seqL [package N ''mongoose'', effect ''model Collection''])"

definition collection_service_module :: "node_world \<Rightarrow> loader" where
  "collection_service_module N = load_file CollectionService (seqL
     [package N ''ethers'', collection_model_module N,
      outside_file N ''../../artifacts/contracts/NFTCollectionFactory.sol/NFTCollectionFactory.json'' FactoryArtifact,
      error_module N,
      run_code (CollectionService_constructor (nw_JsonRpcProvider N) (nw_Contract N) (nw_env N))])"

definition validator_module :: "node_world \<Rightarrow> loader" where
  "validator_module N = load_file CollectionValidator (seqL [package N ''joi''])"

definition collection_controller_module :: "node_world \<Rightarrow> loader" where
  "collection_controller_module N = load_file CollectionController (seqL
     [collection_service_module N, validator_module N, error_module N])"

definition collection_route_module :: "node_world \<Rightarrow> loader" where
  "collection_route_module N = load_file CollectionRoute (seqL
     [package N ''express'', collection_controller_module N,
      outside_file N ''../../../middlewares/auth.middleware'' AuthMiddleware])"

definition routes_module :: "node_world \<Rightarrow> loader" where
  "routes_module N = load_file RoutesIndex (seqL
     [package N ''express'', outside_file N ''./api/v1/auth.route'' AuthRoute, collection_route_module N])"

definition app_packages :: "string list" where
  "app_packages = [''express'', ''helmet'', ''cors'', ''compression'', ''morgan'', ''express-rate-limit'',
     ''express-mongo-sanitize'', ''xss-clean'', ''hpp'', ''swagger-ui-express'', ''yamljs'']"

text \<open>
  \<open>db.connect()\<close> is a call of an asynchronous function that is not awaited: the effect is the call, not an
  established connection.
\<close>

definition app_module :: "node_world \<Rightarrow> loader" where
  "app_module N = load_file App (seqL (map (package N) app_packages @
     [load_file SwaggerJson (seqL []), routes_module N, error_module N, logger_module N, database_module N,
      effect ''db.connect'']))"

definition server_module :: "node_world \<Rightarrow> loader" where
  "server_module N = load_file Server (seqL
     [package N ''http'', package N ''socket.io'', package N ''mongoose'', logger_module N,
      package N ''dotenv'', effect ''dotenv.config'', config_module N, app_module N,
      run_code (getpath (config (nw_env N)) [''app'', ''corsOrigin'']),
      run_code (getpath (config (nw_env N)) [''app'', ''port'']),
      effect ''listen'', effect ''on SIGTERM'', effect ''on unhandledRejection''])"

text \<open>The modules the server does not reach.\<close>

definition nft_model_module :: "node_world \<Rightarrow> loader" where
  "nft_model_module N = load_file NftModel (seqL [package N ''mongoose'', effect ''model NFT''])"

definition ipfs_module :: loader where
  "ipfs_module = load_file IpfsService (seqL [])"

definition nft_service_module :: "node_world \<Rightarrow> loader" where
  "nft_service_module N = load_file NftService (seqL
     [package N ''ethers'',
      outside_file N ''../../artifacts/contracts/NFTCollection.sol/NFTCollection.json'' CollectionArtifact,
      nft_model_module N, ipfs_module,
      run_code (NFTService_constructor (nw_JsonRpcProvider N) (nw_Wallet N) (nw_env N))])"

definition nft_controller_module :: "node_world \<Rightarrow> loader" where
  "nft_controller_module N = load_file NftController (seqL
     [nft_service_module N, load_file ValidationMiddleware (seqL [])])"

definition nft_route_module :: "node_world \<Rightarrow> loader" where
  "nft_route_module N = load_file NftRoute (seqL [package N ''express'', package N ''multer'', nft_controller_module N])"

definition upload_module :: "node_world \<Rightarrow> loader" where
  "upload_module N = load_file UploadMiddleware (seqL [package N ''multer'', package N ''path''])"

definition pinata_module :: "node_world \<Rightarrow> loader" where
  "pinata_module N = load_file ConfigPinata (seqL
     [package N ''@pinata/sdk'', package N ''dotenv'', effect ''dotenv.config'',
      run_code (pinata_client (nw_pinataSDK N) (nw_env N))])"

definition pinata_service_module :: "node_world \<Rightarrow> loader" where
  "pinata_service_module N = load_file PinataService (seqL [pinata_module N])"

definition email_module :: "node_world \<Rightarrow> loader" where
  "email_module N = load_file EmailServiceFile (seqL
     [package N ''nodemailer'', config_module N, logger_module N, package N ''fs'', package N ''path'', package N ''handlebars'',
      run_code (EmailService_constructor (nw_createTransport N) (config (nw_env N)))])"

definition user_model_module :: "node_world \<Rightarrow> loader" where
  "user_model_module N = load_file UserModel (seqL
     [package N ''mongoose'', package N ''bcryptjs'', package N ''crypto'', package N ''jsonwebtoken'',
      run_code user_module_load, effect ''model User''])"

text \<open>
  \<open>config/blockchain.js\<close> mixes its \<open>import\<close> statements into a package of CommonJS files. Read as CommonJS it does not
  parse. Read as an ES module its imports are resolved before anything runs, and there a relative path is taken
  as it is written, so \<open>../utils/logger\<close> does not find \<open>logger.js\<close>; the error's message names the request here.
\<close>

definition import_outside_module :: jserr where
  "import_outside_module = mk_err ''SyntaxError'' ''Cannot use import statement outside a module''"

definition esm_not_found :: "string \<Rightarrow> jserr" where
  "esm_not_found request = (module_not_found request)\<lparr>e_code := JStr ''ERR_MODULE_NOT_FOUND''\<rparr>"

definition blockchain_config_module :: "node_world \<Rightarrow> loader" where
  "blockchain_config_module N = load_file BlockchainConfig
     (if nw_esm N
      then seqL [package N ''web3'', package N ''@truffle/hdwallet-provider'',
        run_code (Inl (esm_not_found ''../utils/logger'') :: jserr + unit)]
      else run_code (Inl import_outside_module :: jserr + unit))"

text \<open>The requires of \<open>blockchain.service.js\<close>; what follows them is never reached.\<close>

definition blockchain_service_module :: "node_world \<Rightarrow> loader" where
  "blockchain_service_module N = load_file BlockchainService (seqL
     [package N ''web3'', blockchain_config_module N, logger_module N])"

section \<open>What loading does\<close>

definition fresh :: load_state where
  "fresh = \<lparr>ld_cache = [], ld_effects = []\<rparr>"

text \<open>Every package is installed and works, and so does each file from outside that is there.\<close>

definition good_world :: "node_world \<Rightarrow> bool" where
  "good_world N \<longleftrightarrow> nw_package N = (\<lambda>_. None) \<and> (\<forall>f. nw_file N f = None \<or> nw_file N f = Some (Inr ())) \<and>
     nw_JsonRpcProvider N = (\<lambda>_. Inr ()) \<and> nw_Contract N = (\<lambda>_ _. Inr ()) \<and>
     nw_env N ''NODE_ENV'' \<in> {None, Some ''development'', Some ''test'', Some ''production''}"

lemmas load_simps = load_file_def effect_def run_code_def outside_file_def

lemma package_good: "good_world N \<Longrightarrow> package N p s = (Inr (), s)"
  by (simp add: package_def good_world_def run_code_def)

lemma packages_good: "good_world N \<Longrightarrow> seqL (map (package N) ps @ ls) s = seqL ls s"
  by (induction ps) (simp_all add: package_good)

lemma outside_good:
  assumes "good_world N"
  shows "outside_file N r f s = (if nw_file N f = None then (Inl (module_not_found r), s)
     else if f \<in> set (ld_cache s) then (Inr (), s) else (Inr (), s\<lparr>ld_cache := ld_cache s @ [f]\<rparr>))"
proof -
  have "nw_file N f = None \<or> nw_file N f = Some (Inr ())" using assms unfolding good_world_def by blast
  then show ?thesis by (elim disjE) (simp_all add: outside_file_def load_file_def run_code_def)
qed

lemma config_app_good:
  assumes "good_world N"
  shows "\<exists>c p. getpath (config (nw_env N)) [''app'', ''corsOrigin''] = Inr c \<and> getpath (config (nw_env N)) [''app'', ''port''] = Inr p"
  using assms
  by (auto simp: good_world_def config_def config_env_def development_def test_config_def production_def)

lemma collection_service_good:
  "good_world N \<Longrightarrow> run_code (CollectionService_constructor (nw_JsonRpcProvider N) (nw_Contract N) (nw_env N)) s = (Inr (), s)"
  by (simp add: run_code_def CollectionService_constructor_def good_world_def)

text \<open>The state in which the routes are reached, and what loading them gives.\<close>

definition before_routes :: load_state where
  "before_routes = \<lparr>ld_cache = [Server, LoggerFile, ConfigIndex, App, SwaggerJson],
     ld_effects = [''createLogger'', ''dotenv.config'', ''dotenv.config'']\<rparr>"

lemma routes_load:
  assumes "good_world N"
  shows "routes_module N before_routes =
    (if nw_file N AuthRoute = None then (Inl (module_not_found ''./api/v1/auth.route''), before_routes)
     else if nw_file N FactoryArtifact = None
     then (Inl (module_not_found ''../../artifacts/contracts/NFTCollectionFactory.sol/NFTCollectionFactory.json''),
       before_routes\<lparr>ld_cache := ld_cache before_routes @ [AuthRoute, CollectionModel],
         ld_effects := ld_effects before_routes @ [''model Collection'']\<rparr>)
     else if nw_file N AuthMiddleware = None
     then (Inl (module_not_found ''../../../middlewares/auth.middleware''),
       before_routes\<lparr>ld_cache := ld_cache before_routes @ [AuthRoute, CollectionController, CollectionService,
           CollectionModel, FactoryArtifact, ErrorMiddleware, CollectionValidator],
         ld_effects := ld_effects before_routes @ [''model Collection'']\<rparr>)
     else (Inr (), before_routes\<lparr>ld_cache := ld_cache before_routes @ [RoutesIndex, AuthRoute, CollectionRoute,
           CollectionController, CollectionService, CollectionModel, FactoryArtifact, ErrorMiddleware, CollectionValidator,
           AuthMiddleware],
         ld_effects := ld_effects before_routes @ [''model Collection'']\<rparr>))"
  by (simp add: routes_module_def collection_route_module_def collection_controller_module_def collection_service_module_def
      validator_module_def error_module_def logger_module_def collection_model_module_def load_file_def effect_def
      package_good [OF assms] outside_good [OF assms] collection_service_good [OF assms] before_routes_def)

lemma app_load:
  assumes "good_world N"
  shows "app_module N \<lparr>ld_cache = [Server, LoggerFile, ConfigIndex], ld_effects = ld_effects before_routes\<rparr> =
    (case routes_module N before_routes of
       (Inl er, s) \<Rightarrow> (Inl er, s\<lparr>ld_cache := removeAll App (ld_cache s)\<rparr>)
     | (Inr _, s) \<Rightarrow> (Inr (), s\<lparr>ld_cache := ld_cache s @ [Database], ld_effects := ld_effects s @ [''db.connect'']\<rparr>))"
proof -
  have start: "app_module N \<lparr>ld_cache = [Server, LoggerFile, ConfigIndex], ld_effects = ld_effects before_routes\<rparr> =
    load_file App (\<lambda>_. seqL [routes_module N, error_module N, logger_module N, database_module N, effect ''db.connect''] before_routes)
      \<lparr>ld_cache = [Server, LoggerFile, ConfigIndex], ld_effects = ld_effects before_routes\<rparr>"
    by (simp add: app_module_def load_file_def packages_good [OF assms] before_routes_def)
  show ?thesis
    unfolding start load_file_def seqL.simps routes_load [OF assms]
    by (simp add: load_file_def error_module_def logger_module_def database_module_def package_good [OF assms] effect_def
        before_routes_def)
qed

text \<open>
  C29. Starting the server: with every package installed and the environment in order, loading
  \<open>server.js\<close> succeeds exactly when the two authentication modules and the artifact of the
  collection factory, none of which is in the repository or built from it, are supplied; then
  each module has run once, in a fixed order, none of the NFT, email or user modules among
  them, and \<open>db.connect()\<close> is called, without waiting for the connection, before \<open>listen\<close> is called. Otherwise
  it ends with \<open>MODULE_NOT_FOUND\<close>, and neither of the two has been called.
\<close>

theorem server_start:
  assumes "good_world N"
  shows "(case server_module N fresh of
      (Inr _, s) \<Rightarrow> nw_file N AuthRoute \<noteq> None \<and> nw_file N AuthMiddleware \<noteq> None \<and> nw_file N FactoryArtifact \<noteq> None \<and>
        ld_cache s = [Server, LoggerFile, ConfigIndex, App, SwaggerJson, RoutesIndex, AuthRoute, CollectionRoute,
          CollectionController, CollectionService, CollectionModel, FactoryArtifact, ErrorMiddleware, CollectionValidator,
          AuthMiddleware, Database] \<and>
        ld_effects s = [''createLogger'', ''dotenv.config'', ''dotenv.config'', ''model Collection'', ''db.connect'', ''listen'',
          ''on SIGTERM'', ''on unhandledRejection'']
    | (Inl er, s) \<Rightarrow> (nw_file N AuthRoute = None \<or> nw_file N AuthMiddleware = None \<or> nw_file N FactoryArtifact = None) \<and>
        e_code er = JStr ''MODULE_NOT_FOUND'' \<and> ''db.connect'' \<notin> set (ld_effects s) \<and> ''listen'' \<notin> set (ld_effects s))"
proof -
  obtain c p where cfg: "getpath (config (nw_env N)) [''app'', ''corsOrigin''] = Inr c" "getpath (config (nw_env N)) [''app'', ''port''] = Inr p"
    using config_app_good [OF assms] by blast
  have start: "server_module N fresh = load_file Server (\<lambda>_. seqL [app_module N,
      run_code (getpath (config (nw_env N)) [''app'', ''corsOrigin'']), run_code (getpath (config (nw_env N)) [''app'', ''port'']),
      effect ''listen'', effect ''on SIGTERM'', effect ''on unhandledRejection'']
      \<lparr>ld_cache = [Server, LoggerFile, ConfigIndex], ld_effects = ld_effects before_routes\<rparr>) fresh"
    by (simp add: server_module_def logger_module_def config_module_def load_file_def package_good [OF assms] effect_def
        fresh_def before_routes_def del: getpath.simps)
  show ?thesis
    unfolding start seqL.simps app_load [OF assms] routes_load [OF assms] cfg
    by (auto simp: load_file_def effect_def run_code_def before_routes_def fresh_def module_not_found_def)
qed

definition demo_world :: "(src_file \<Rightarrow> (jserr + unit) option) \<Rightarrow> node_world" where
  "demo_world files = \<lparr>nw_env = (\<lambda>_. None), nw_esm = False, nw_package = (\<lambda>_. None), nw_file = files, nw_JsonRpcProvider = (\<lambda>_. Inr ()),
     nw_Contract = (\<lambda>_ _. Inr ()), nw_Wallet = (\<lambda>_ _. Inr ()), nw_createTransport = (\<lambda>_. Inr ()),
     nw_pinataSDK = (\<lambda>_ _. Inr ())\<rparr>"

theorem server_start_witness:
  "(\<exists>er s. server_module (demo_world (\<lambda>_. None)) fresh = (Inl er, s) \<and> e_code er = JStr ''MODULE_NOT_FOUND'' \<and>
      ''listen'' \<notin> set (ld_effects s)) \<and>
   (\<exists>s. server_module (demo_world (\<lambda>_. Some (Inr ()))) fresh = (Inr (), s) \<and> last (ld_cache s) = Database)"
proof (intro conjI)
  have g: "good_world (demo_world (\<lambda>_. None))" "good_world (demo_world (\<lambda>_. Some (Inr ())))"
    by (auto simp: good_world_def demo_world_def)
  show "\<exists>er s. server_module (demo_world (\<lambda>_. None)) fresh = (Inl er, s) \<and> e_code er = JStr ''MODULE_NOT_FOUND'' \<and>
      ''listen'' \<notin> set (ld_effects s)"
    using server_start [OF g(1)] by (auto simp: demo_world_def split: prod.splits sum.splits)
  show "\<exists>s. server_module (demo_world (\<lambda>_. Some (Inr ()))) fresh = (Inr (), s) \<and> last (ld_cache s) = Database"
    using server_start [OF g(2)] by (auto simp: demo_world_def split: prod.splits sum.splits)
qed

text \<open>
  Modules that cannot be loaded in any environment, whatever is installed: the email service,
  whose constructor reads a section the configuration lacks; the user model, which assigns to
  a name that is not declared; the blockchain configuration, and with it the blockchain service.
\<close>

lemma seqL_fails_last:
  assumes "\<And>s. \<exists>er. fst (l s) = Inl er"
  shows "\<exists>er. fst (seqL (ls @ l # ls') s) = Inl er"
proof (induction ls arbitrary: s)
  case Nil
  obtain er s' where "l s = (Inl er, s')" using assms [of s] by (cases "l s") auto
  then show ?case by simp
next
  case (Cons m ls)
  show ?case
  proof (cases "m s")
    case (Pair r s')
    then show ?thesis using Cons by (cases r) auto
  qed
qed

lemma load_file_fails:
  assumes "f \<notin> set (ld_cache s)" and "\<And>s. \<exists>er. fst (body s) = Inl er"
  shows "\<exists>er. fst (load_file f body s) = Inl er"
proof -
  obtain er s' where "body (s\<lparr>ld_cache := ld_cache s @ [f]\<rparr>) = (Inl er, s')"
    using assms(2) [of "s\<lparr>ld_cache := ld_cache s @ [f]\<rparr>"] by (cases "body (s\<lparr>ld_cache := ld_cache s @ [f]\<rparr>)") auto
  then show ?thesis using assms(1) by (simp add: load_file_def)
qed

theorem email_module_fails:
  assumes "EmailServiceFile \<notin> set (ld_cache s)"
  shows "\<exists>er. fst (email_module N s) = Inl er"
  unfolding email_module_def
proof (rule load_file_fails [OF assms])
  fix s
  obtain er where "EmailService_constructor (nw_createTransport N) (config (nw_env N)) = Inl er"
    using email_service_fails_to_load by blast
  then have l: "\<exists>er. fst (run_code (EmailService_constructor (nw_createTransport N) (config (nw_env N))) s) = Inl er" for s
    by (simp add: run_code_def)
  show "\<exists>er. fst (seqL [package N ''nodemailer'', config_module N, logger_module N, package N ''fs'', package N ''path'',
      package N ''handlebars'', run_code (EmailService_constructor (nw_createTransport N) (config (nw_env N)))] s) = Inl er"
    using seqL_fails_last [OF l, where ls = "[package N ''nodemailer'', config_module N, logger_module N, package N ''fs'', package N ''path'',
      package N ''handlebars'']" and ls' = "[]" and s = s] by simp
qed

theorem user_model_module_fails:
  assumes "UserModel \<notin> set (ld_cache s)"
  shows "\<exists>er. fst (user_model_module N s) = Inl er"
  unfolding user_model_module_def
proof (rule load_file_fails [OF assms])
  fix s
  have l: "\<exists>er. fst (run_code user_module_load s) = Inl er" for s
    by (simp add: run_code_def user_module_load_def user_module_names_def)
  show "\<exists>er. fst (seqL [package N ''mongoose'', package N ''bcryptjs'', package N ''crypto'', package N ''jsonwebtoken'',
      run_code user_module_load, effect ''model User''] s) = Inl er"
    using seqL_fails_last [OF l, where ls = "[package N ''mongoose'', package N ''bcryptjs'', package N ''crypto'',
      package N ''jsonwebtoken'']" and ls' = "[effect ''model User'']" and s = s] by simp
qed

lemma blockchain_config_fails:
  assumes "BlockchainConfig \<notin> set (ld_cache s)"
  shows "\<exists>er s'. blockchain_config_module N s = (Inl er, s')"
proof -
  have l: "\<exists>er. fst (run_code (Inl e :: jserr + unit) s) = Inl er" for e s by (simp add: run_code_def)
  have "\<exists>er. fst (blockchain_config_module N s) = Inl er"
    unfolding blockchain_config_module_def
  proof (rule load_file_fails [OF assms])
    fix s
    show "\<exists>er. fst ((if nw_esm N
        then seqL [package N ''web3'', package N ''@truffle/hdwallet-provider'', run_code (Inl (esm_not_found ''../utils/logger'') :: jserr + unit)]
        else run_code (Inl import_outside_module :: jserr + unit)) s) = Inl er"
      using seqL_fails_last [OF l, where ls = "[package N ''web3'', package N ''@truffle/hdwallet-provider'']" and ls' = "[]"] l
      by simp
  qed
  then show ?thesis by (cases "blockchain_config_module N s") auto
qed

theorem blockchain_service_module_fails:
  assumes "BlockchainService \<notin> set (ld_cache s)" and "BlockchainConfig \<notin> set (ld_cache s)"
  shows "\<exists>er. fst (blockchain_service_module N s) = Inl er"
proof -
  let ?s = "s\<lparr>ld_cache := ld_cache s @ [BlockchainService]\<rparr>"
  obtain er s' where "blockchain_config_module N ?s = (Inl er, s')"
    using blockchain_config_fails [of ?s N] assms(2) by auto
  then show ?thesis
    using assms(1) by (simp add: blockchain_service_module_def load_file_def package_def run_code_def split: option.splits)
qed

end
