(* ===== verification/ChainConfig.thy ===== *)
theory ChainConfig
  imports JsBase Complex_Main
begin

text \<open>
  \<open>src/config/blockchain.js\<close>: the wallet provider and the Web3 object built once on first use,
  the capped gas price, and the retry loop of \<open>sendTransaction\<close>. The packages \<open>web3\<close> and
  \<open>hdwallet-provider\<close> and the network behind them are the record \<open>web3lib\<close>, an argument of every
  definition; the answer to a request may depend on how many were made before.
\<close>

section \<open>Numeric conversion of a string\<close>

text \<open>
  \<open>ToNumber\<close>, which the comparison \<open>attempts < RETRY_ATTEMPTS\<close> applies to the string: the exact value of the text, before it
  is rounded to a double.
\<close>

datatype jsnumber = NaN | NegInf | PosInf | Fin rat

definition is_dec :: "char \<Rightarrow> bool" where
  "is_dec c \<longleftrightarrow> digit_of 10 c \<noteq> None"

definition radix_prefix :: "string \<Rightarrow> nat option" where
  "radix_prefix s = (case s of c # d # cs \<Rightarrow>
       if c \<noteq> CHR ''0'' then None
       else if d = CHR ''x'' \<or> d = CHR ''X'' then Some 16
       else if d = CHR ''o'' \<or> d = CHR ''O'' then Some 8
       else if d = CHR ''b'' \<or> d = CHR ''B'' then Some 2 else None
     | _ \<Rightarrow> None)"

definition exponent :: "string \<Rightarrow> int option" where
  "exponent s = (case s of [] \<Rightarrow> Some 0
     | c # cs \<Rightarrow> if c \<noteq> CHR ''e'' \<and> c \<noteq> CHR ''E'' then None
       else let (neg, ds) = strip_sign cs
            in if ds \<noteq> [] \<and> list_all is_dec ds
               then Some (if neg then - int (digits_val 10 ds) else int (digits_val 10 ds)) else None)"

definition decimal :: "string \<Rightarrow> jsnumber" where
  "decimal s =
     (let (neg, t) = strip_sign s;
          ip = takeWhile is_dec t; r = dropWhile is_dec t;
          (fp, r') = (case r of c # cs \<Rightarrow> if c = CHR ''.'' then (takeWhile is_dec cs, dropWhile is_dec cs) else ([], r)
                      | [] \<Rightarrow> ([], []));
          m = rat_of_nat (digits_val 10 (ip @ fp)) / 10 ^ length fp
      in if ip @ fp = [] then NaN
         else case exponent r' of None \<Rightarrow> NaN
           | Some x \<Rightarrow> let v = (if x < 0 then m / 10 ^ nat (- x) else m * 10 ^ nat x) in Fin (if neg then - v else v))"

definition js_Number :: "jsval \<Rightarrow> jsnumber" where
  "js_Number v = (case v of
       JStr s \<Rightarrow>
         let t = js_trim s
         in if t = [] then Fin 0
            else if t = ''Infinity'' \<or> t = ''+Infinity'' then PosInf
            else if t = ''-Infinity'' then NegInf
            else (case radix_prefix t of
                 Some radix \<Rightarrow> let ds = drop 2 t in
                   if ds \<noteq> [] \<and> list_all (\<lambda>c. digit_of radix c \<noteq> None) ds
                   then Fin (rat_of_nat (digits_val radix ds)) else NaN
               | None \<Rightarrow> decimal t)
     | JNum n \<Rightarrow> Fin (rat_of_int n)
     | JInf neg \<Rightarrow> if neg then NegInf else PosInf
     | JBool b \<Rightarrow> Fin (if b then 1 else 0)
     | JNull \<Rightarrow> Fin 0
     | _ \<Rightarrow> NaN)"

fun num_lt :: "nat \<Rightarrow> jsnumber \<Rightarrow> bool" where
  "num_lt k NaN = False"
| "num_lt k NegInf = False"
| "num_lt k PosInf = True"
| "num_lt k (Fin q) = (rat_of_nat k < q)"

fun num_ge :: "nat \<Rightarrow> jsnumber \<Rightarrow> bool" where
  "num_ge k NaN = False"
| "num_ge k NegInf = True"
| "num_ge k PosInf = False"
| "num_ge k (Fin q) = (q \<le> rat_of_nat k)"

section \<open>The module's state and functions\<close>

record ('p, 'w, 'tx, 'r) web3lib =
  new_HDWalletProvider :: "jsval \<Rightarrow> jserr + 'p"
  new_Web3 :: "'p \<Rightarrow> jserr + 'w"
  eth_extend :: "'w \<Rightarrow> jserr + unit"
  eth_getGasPrice :: "'w \<Rightarrow> nat \<Rightarrow> jserr + nat"
  eth_sendTransaction :: "'w \<Rightarrow> 'tx \<Rightarrow> nat \<Rightarrow> jserr + 'r"
  utils_toWei :: "jsval \<Rightarrow> string \<Rightarrow> jserr + nat"

text \<open>
  \<open>bc_wallets\<close> counts the wallet providers built, \<open>bc_requests\<close> the requests sent to the node,
  \<open>bc_warnings\<close> the lines passed to \<open>warn\<close>.
\<close>

record ('p, 'w) bc_state =
  bc_provider :: "'p option"
  bc_web3 :: "'w option"
  bc_wallets :: nat
  bc_requests :: nat
  bc_warnings :: "string list"

definition bc_init :: "('p, 'w) bc_state" where
  "bc_init = \<lparr>bc_provider = None, bc_web3 = None, bc_wallets = 0, bc_requests = 0, bc_warnings = []\<rparr>"

definition wallet_options :: "env \<Rightarrow> jsval" where
  "wallet_options e = JObj
    [(''mnemonic'', getenv e ''MNEMONIC''),
     (''providerOrUrl'', JStr (''https://'' @ js_String (getenv e ''NETWORK'') @ ''.infura.io/v3/'' @
        js_String (getenv e ''INFURA_PROJECT_ID''))),
     (''addressIndex'', JNum 0), (''numberOfAddresses'', JNum 1), (''shareNonce'', JBool True),
     (''derivationPath'', JStr (''m/44'' @ [CHR 0x27] @ ''/60'' @ [CHR 0x27] @ ''/0'' @ [CHR 0x27] @ ''/0/''))]"

definition getProvider ::
  "('p, 'w, 'tx, 'r) web3lib \<Rightarrow> env \<Rightarrow> ('p, 'w) bc_state \<Rightarrow> (jserr + 'p) \<times> ('p, 'w) bc_state" where
  "getProvider L e s = (case bc_provider s of
       Some p \<Rightarrow> (Inr p, s)
     | None \<Rightarrow> (case new_HDWalletProvider L (wallet_options e) of
           Inl er \<Rightarrow> (Inl er, s)
         | Inr p \<Rightarrow> (Inr p, s\<lparr>bc_provider := Some p, bc_wallets := Suc (bc_wallets s)\<rparr>)))"

definition getWeb3 ::
  "('p, 'w, 'tx, 'r) web3lib \<Rightarrow> env \<Rightarrow> ('p, 'w) bc_state \<Rightarrow> (jserr + 'w) \<times> ('p, 'w) bc_state" where
  "getWeb3 L e s = (case bc_web3 s of
       Some w \<Rightarrow> (Inr w, s)
     | None \<Rightarrow> (case getProvider L e s of
           (Inl er, s1) \<Rightarrow> (Inl er, s1)
         | (Inr p, s1) \<Rightarrow> (case new_Web3 L p of
               Inl er \<Rightarrow> (Inl er, s1)
             | Inr w \<Rightarrow> (bindE (eth_extend L w) (\<lambda>_. Inr w), s1\<lparr>bc_web3 := Some w\<rparr>))))"

definition getGasPrice ::
  "('p, 'w, 'tx, 'r) web3lib \<Rightarrow> env \<Rightarrow> ('p, 'w) bc_state \<Rightarrow> (jserr + nat) \<times> ('p, 'w) bc_state" where
  "getGasPrice L e s = (case getWeb3 L e s of
       (Inl er, s1) \<Rightarrow> (Inl er, s1)
     | (Inr w, s1) \<Rightarrow>
         (bindE (eth_getGasPrice L w (bc_requests s1)) (\<lambda>g.
            bindE (utils_toWei L (getenv e ''GAS_PRICE_GWEI'') ''gwei'') (\<lambda>cap. Inr (min g cap))),
          s1\<lparr>bc_requests := Suc (bc_requests s1)\<rparr>))"

datatype 'r sent = Returned 'r | ReturnedUndefined | Thrown jserr

text \<open>The body of the \<open>try\<close> block of \<open>sendTransaction\<close>, and what its \<open>catch\<close> block logs.\<close>

definition attempt ::
  "('p, 'w, 'tx, 'r) web3lib \<Rightarrow> env \<Rightarrow> 'tx \<Rightarrow> ('p, 'w) bc_state \<Rightarrow> (jserr + 'r) \<times> ('p, 'w) bc_state" where
  "attempt L e tx s = (case getWeb3 L e s of
       (Inl er, s1) \<Rightarrow> (Inl er, s1)
     | (Inr w, s1) \<Rightarrow> (eth_sendTransaction L w tx (bc_requests s1), s1\<lparr>bc_requests := Suc (bc_requests s1)\<rparr>))"

definition warn_failed :: "env \<Rightarrow> nat \<Rightarrow> jserr \<Rightarrow> ('p, 'w) bc_state \<Rightarrow> ('p, 'w) bc_state" where
  "warn_failed e attempts er s = s\<lparr>bc_warnings := bc_warnings s @
     [''Transaction failed. Attempt '' @ show_nat (attempts + 1) @ ''/'' @
      js_String (getenv e ''RETRY_ATTEMPTS'') @ ''. Error: '' @ e_message er]\<rparr>"

text \<open>The loop may run for ever when the limit is \<open>Infinity\<close>; then the value is \<open>None\<close>.\<close>

partial_function (option) send_loop ::
  "('p, 'w, 'tx, 'r) web3lib \<Rightarrow> env \<Rightarrow> 'tx \<Rightarrow> nat \<Rightarrow> ('p, 'w) bc_state \<Rightarrow> ('r sent \<times> ('p, 'w) bc_state) option" where
  "send_loop L e tx attempts s =
     (let limit = js_Number (getenv e ''RETRY_ATTEMPTS'')
      in if num_lt attempts limit
         then (case attempt L e tx s of
             (Inr receipt, s1) \<Rightarrow> Some (Returned receipt, s1)
           | (Inl er, s1) \<Rightarrow>
               let s2 = warn_failed e attempts er s1
               in if num_ge (attempts + 1) limit then Some (Thrown er, s2)
                  else send_loop L e tx (attempts + 1) s2)
         else Some (ReturnedUndefined, s))"

definition sendTransaction ::
  "('p, 'w, 'tx, 'r) web3lib \<Rightarrow> env \<Rightarrow> 'tx \<Rightarrow> ('p, 'w) bc_state \<Rightarrow> ('r sent \<times> ('p, 'w) bc_state) option" where
  "sendTransaction L e tx s = send_loop L e tx 0 s"

text \<open>The data properties of the default export.\<close>

definition chain_exports :: "env \<Rightarrow> (string \<times> jsval) list" where
  "chain_exports e = [(''CONTRACT_ADDRESS'', getenv e ''CONTRACT_ADDRESS''),
     (''GAS_LIMIT'', parseEnv e ''GAS_LIMIT''), (''CHAIN_ID'', parseEnv e ''CHAIN_ID'')]"

section \<open>The limit\<close>

lemma show_nat_all_dec: "list_all is_dec (show_nat n)"
  by (auto simp: list_all_iff is_dec_def digit_of_digit_char dest: show_nat_digits)

lemma show_nat_no_ws: "c \<in> set (show_nat n) \<Longrightarrow> \<not> js_ws c"
  by (auto dest!: show_nat_digits simp: digit_char_not_ws)

lemma js_trim_show_nat [simp]: "js_trim (show_nat n) = show_nat n"
proof -
  have drop: "dropWhile js_ws xs = xs" if "\<forall>c\<in>set xs. \<not> js_ws c" for xs
    using that by (cases xs) auto
  have "\<forall>c\<in>set (rev (show_nat n)). \<not> js_ws c" using show_nat_no_ws by auto
  with drop [of "show_nat n"] drop [of "rev (show_nat n)"] show ?thesis by (simp add: js_trim_def)
qed

lemma strip_sign_show_nat [simp]: "strip_sign (show_nat n) = (False, show_nat n)"
proof -
  obtain d ds where "show_nat n = digit_char d # ds" "d < 10" by (rule show_nat_Cons)
  then show ?thesis by (simp add: strip_sign_def digit_char_eq_iff)
qed

lemma decimal_show_nat: "decimal (show_nat n) = Fin (rat_of_nat n)"
proof -
  have "takeWhile is_dec (show_nat n) = show_nat n" and "dropWhile is_dec (show_nat n) = []"
    using show_nat_all_dec [of n] by (auto simp: list_all_iff)
  then show ?thesis
    by (simp only: decimal_def exponent_def strip_sign_show_nat Let_def prod.case list.case)
      (simp add: digits_val_show_nat)
qed

lemma radix_prefix_show_nat: "radix_prefix (show_nat n) = None"
proof -
  obtain d ds where s: "show_nat n = digit_char d # ds" by (rule show_nat_Cons)
  show ?thesis
  proof (cases ds)
    case Nil
    then show ?thesis by (simp add: s radix_prefix_def)
  next
    case (Cons x xs)
    then have "x \<in> set (show_nat n)" by (simp add: s)
    then obtain k where "k < 10" "x = digit_char k" using show_nat_digits by blast
    then show ?thesis using s Cons by (auto simp: radix_prefix_def digit_char_eq_iff)
  qed
qed

lemma show_nat_neq_text: "\<exists>c\<in>set t. \<not> is_dec c \<Longrightarrow> show_nat n \<noteq> t"
  using show_nat_all_dec [of n] by (auto simp: list_all_iff)

lemma js_Number_show_nat: "js_Number (JStr (show_nat n)) = Fin (rat_of_nat n)"
proof -
  have "show_nat n \<noteq> ''Infinity''" "show_nat n \<noteq> ''+Infinity''" "show_nat n \<noteq> ''-Infinity''"
    by (rule show_nat_neq_text, simp add: is_dec_def digit_of_def)+
  then show ?thesis by (simp add: js_Number_def radix_prefix_show_nat decimal_show_nat Let_def)
qed

lemma limit_env: "e ''RETRY_ATTEMPTS'' = Some (show_nat n) \<Longrightarrow> js_Number (getenv e ''RETRY_ATTEMPTS'') = Fin (rat_of_nat n)"
  by (simp add: js_Number_show_nat)

section \<open>The retry loop\<close>

text \<open>The state before attempt \<open>k\<close>, as long as the attempts fail.\<close>

primrec before ::
  "('p, 'w, 'tx, 'r) web3lib \<Rightarrow> env \<Rightarrow> 'tx \<Rightarrow> ('p, 'w) bc_state \<Rightarrow> nat \<Rightarrow> ('p, 'w) bc_state" where
  "before L e tx s 0 = s"
| "before L e tx s (Suc k) = (case attempt L e tx (before L e tx s k) of
       (Inl er, s1) \<Rightarrow> warn_failed e k er s1 | (Inr r, s1) \<Rightarrow> s1)"

definition fails_at :: "('p, 'w, 'tx, 'r) web3lib \<Rightarrow> env \<Rightarrow> 'tx \<Rightarrow> ('p, 'w) bc_state \<Rightarrow> nat \<Rightarrow> bool" where
  "fails_at L e tx s k \<longleftrightarrow> \<not> is_ok (fst (attempt L e tx (before L e tx s k)))"

definition outcome_at ::
  "('p, 'w, 'tx, 'r) web3lib \<Rightarrow> env \<Rightarrow> 'tx \<Rightarrow> ('p, 'w) bc_state \<Rightarrow> nat \<Rightarrow> 'r sent \<times> ('p, 'w) bc_state" where
  "outcome_at L e tx s k = (case attempt L e tx (before L e tx s k) of
       (Inl er, s1) \<Rightarrow> (Thrown er, warn_failed e k er s1) | (Inr r, s1) \<Rightarrow> (Returned r, s1))"

lemma send_loop_from:
  assumes lim: "js_Number (getenv e ''RETRY_ATTEMPTS'') = Fin (rat_of_nat n)" and "a < n"
  shows "\<exists>k. a \<le> k \<and> k < n \<and> (\<forall>j. a \<le> j \<and> j < k \<longrightarrow> fails_at L e tx s j) \<and>
    (fails_at L e tx s k \<longrightarrow> k = n - 1) \<and>
    send_loop L e tx a (before L e tx s a) = Some (outcome_at L e tx s k)"
  using assms(2)
proof (induction "n - a" arbitrary: a)
  case 0
  then show ?case by simp
next
  case (Suc d)
  have lt: "num_lt a (Fin (rat_of_nat n))" using Suc.prems by simp
  obtain r s1 where att: "attempt L e tx (before L e tx s a) = (r, s1)" by force
  show ?case
  proof (cases r)
    case (Inr v)
    then have "send_loop L e tx a (before L e tx s a) = Some (outcome_at L e tx s a)"
      using lt att by (subst send_loop.simps) (simp add: lim outcome_at_def Let_def)
    moreover have "\<not> fails_at L e tx s a" using Inr att by (simp add: fails_at_def)
    ultimately show ?thesis using Suc.prems by (intro exI [of _ a]) auto
  next
    case (Inl er)
    have fa: "fails_at L e tx s a" using Inl att by (simp add: fails_at_def)
    have step: "send_loop L e tx a (before L e tx s a) =
        (if n \<le> a + 1 then Some (outcome_at L e tx s a)
         else send_loop L e tx (a + 1) (before L e tx s (a + 1)))"
      using lt att Inl by (subst send_loop.simps) (simp add: lim outcome_at_def Let_def)
    show ?thesis
    proof (cases "n \<le> a + 1")
      case True
      then show ?thesis using step Suc.prems by (intro exI [of _ a]) auto
    next
      case False
      then obtain k where k: "a + 1 \<le> k" "k < n" "\<forall>j. a + 1 \<le> j \<and> j < k \<longrightarrow> fails_at L e tx s j"
        "fails_at L e tx s k \<longrightarrow> k = n - 1"
        "send_loop L e tx (a + 1) (before L e tx s (a + 1)) = Some (outcome_at L e tx s k)"
        using Suc.hyps(1) [of "a + 1"] Suc.hyps(2) unfolding not_le by (metis diff_Suc_1 diff_diff_left)
      have "\<forall>j. a \<le> j \<and> j < k \<longrightarrow> fails_at L e tx s j"
        using k(3) fa by (metis Suc_eq_plus1 le_neq_implies_less less_eq_Suc_le)
      then show ?thesis using step False k by (intro exI [of _ k]) auto
    qed
  qed
qed

text \<open>
  C35. Retries: with \<open>RETRY_ATTEMPTS\<close> set to the decimal text of a positive number \<open>n\<close>,
  \<open>sendTransaction\<close> always ends after at most \<open>n\<close> attempts: it returns the receipt of the first
  attempt that succeeds, and throws the error of attempt \<open>n\<close> when all \<open>n\<close> fail.
\<close>

theorem sendTransaction_retries:
  assumes "e ''RETRY_ATTEMPTS'' = Some (show_nat n)" and "0 < n"
  shows "\<exists>k<n. (\<forall>j<k. fails_at L e tx s j) \<and> (fails_at L e tx s k \<longrightarrow> k = n - 1) \<and>
    sendTransaction L e tx s = Some (outcome_at L e tx s k)"
  using send_loop_from [OF limit_env [of e n] assms(2), of L tx s] assms(1) by (auto simp: sendTransaction_def)

definition demo_lib :: "(unit, unit, unit, nat) web3lib" where
  "demo_lib = \<lparr>new_HDWalletProvider = (\<lambda>_. Inr ()), new_Web3 = (\<lambda>_. Inr ()), eth_extend = (\<lambda>_. Inr ()),
     eth_getGasPrice = (\<lambda>_ _. Inr 7), eth_sendTransaction = (\<lambda>_ _ k. if k < 2 then Inl (new_Error ''nonce too low'') else Inr 42),
     utils_toWei = (\<lambda>_ _. Inr 20)\<rparr>"

theorem sendTransaction_retries_witness:
  "\<exists>k<5. (\<forall>j<k. fails_at demo_lib (\<lambda>_. Some (show_nat 5)) () bc_init j) \<and>
    (fails_at demo_lib (\<lambda>_. Some (show_nat 5)) () bc_init k \<longrightarrow> k = 5 - 1) \<and>
    sendTransaction demo_lib (\<lambda>_. Some (show_nat 5)) () bc_init =
      Some (outcome_at demo_lib (\<lambda>_. Some (show_nat 5)) () bc_init k)"
  by (rule sendTransaction_retries) simp_all

text \<open>
  Without \<open>RETRY_ATTEMPTS\<close> in the environment \<open>sendTransaction\<close> sends nothing and returns
  \<open>undefined\<close>: the limit converts to \<open>NaN\<close> and the loop condition is false at once.
\<close>

theorem sendTransaction_unset:
  assumes "e ''RETRY_ATTEMPTS'' = None"
  shows "sendTransaction L e tx s = Some (ReturnedUndefined, s)"
  using assms by (simp add: sendTransaction_def send_loop.simps js_Number_def)

theorem sendTransaction_unset_witness:
  "sendTransaction demo_lib (\<lambda>_. None) () bc_init = Some (ReturnedUndefined, bc_init)"
  by (rule sendTransaction_unset) simp

section \<open>One wallet\<close>

text \<open>The memoised handles: a Web3 object implies a provider, and each is built at most once.\<close>

definition handles_ok :: "('p, 'w) bc_state \<Rightarrow> bool" where
  "handles_ok s \<longleftrightarrow> bc_wallets s = (if bc_provider s = None then 0 else 1) \<and>
     (bc_web3 s \<noteq> None \<longrightarrow> bc_provider s \<noteq> None)"

lemma getProvider_ok:
  "handles_ok s \<Longrightarrow> getProvider L e s = (r, s') \<Longrightarrow>
   handles_ok s' \<and> (\<forall>p. r = Inr p \<longrightarrow> bc_provider s' = Some p) \<and> bc_web3 s' = bc_web3 s"
  by (auto simp: handles_ok_def getProvider_def split: option.splits sum.splits)

lemma getWeb3_ok:
  assumes "getWeb3 L e s = (r, s')" and "handles_ok s"
  shows "handles_ok s'"
proof (cases "bc_web3 s")
  case None
  obtain r1 s1 where p: "getProvider L e s = (r1, s1)" by force
  note ok = getProvider_ok [OF assms(2) p]
  show ?thesis
    using assms(1) None p ok by (auto simp: getWeb3_def handles_ok_def split: sum.splits)
next
  case (Some w)
  then show ?thesis using assms by (simp add: getWeb3_def)
qed

lemma handles_ok_upd [simp]:
  "handles_ok (s\<lparr>bc_requests := k\<rparr>) = handles_ok s"
  "handles_ok (warn_failed e a er s) = handles_ok s"
  by (simp_all add: handles_ok_def warn_failed_def)

lemma getGasPrice_ok: "getGasPrice L e s = (r, s') \<Longrightarrow> handles_ok s \<Longrightarrow> handles_ok s'"
  by (auto simp: getGasPrice_def split: prod.splits sum.splits dest!: getWeb3_ok)

lemma attempt_ok: "attempt L e tx s = (r, s') \<Longrightarrow> handles_ok s \<Longrightarrow> handles_ok s'"
  by (auto simp: attempt_def split: prod.splits sum.splits dest!: getWeb3_ok)

lemma send_loop_ok:
  assumes "send_loop L e tx a s = Some y" and "handles_ok s"
  shows "handles_ok (snd y)"
proof -
  have "handles_ok s \<longrightarrow> handles_ok (snd y)"
    by (rule send_loop.raw_induct [OF _ assms(1), where P = "\<lambda>L e tx a s y. handles_ok s \<longrightarrow> handles_ok (snd y)"])
      (auto simp: Let_def split: if_splits prod.splits sum.splits dest: attempt_ok)
  with assms(2) show ?thesis by blast
qed

text \<open>The calls of the module's clients.\<close>

inductive bc_step :: "('p, 'w, 'tx, 'r) web3lib \<Rightarrow> env \<Rightarrow> ('p, 'w) bc_state \<Rightarrow> ('p, 'w) bc_state \<Rightarrow> bool" for L e where
  web3: "getWeb3 L e s = (r, s') \<Longrightarrow> bc_step L e s s'"
| gas: "getGasPrice L e s = (r, s') \<Longrightarrow> bc_step L e s s'"
| send: "sendTransaction L e tx s = Some (r, s') \<Longrightarrow> bc_step L e s s'"

interpretation bc: invariant_machine "bc_step L e" handles_ok for L e
proof unfold_locales
  fix s s'
  assume "bc_step L e s s'" and "handles_ok s"
  then show "handles_ok s'"
    by cases (auto simp: sendTransaction_def dest: getWeb3_ok getGasPrice_ok send_loop_ok)
qed

text \<open>
  One wallet: whatever sequence of calls is made to the module, and however many of them fail,
  at most one wallet provider is ever built; once it is, \<open>getProvider\<close> returns that one and
  changes nothing.
\<close>

theorem one_wallet:
  assumes "rtranclp (bc_step L e) bc_init s"
  shows "bc_wallets s \<le> 1 \<and> (bc_wallets s = 1 \<longrightarrow>
    (\<exists>p. bc_provider s = Some p \<and> (\<forall>L'. getProvider L' e s = (Inr p, s))))"
proof -
  have "handles_ok s" using bc.inv_run [OF assms] by (simp add: handles_ok_def bc_init_def)
  then show ?thesis by (auto simp: handles_ok_def getProvider_def split: if_splits)
qed

lemma demo_send_step:
  "\<exists>s. bc_step demo_lib (\<lambda>_. None) bc_init s \<and> bc_wallets s = 1"
proof -
  have "getWeb3 demo_lib (\<lambda>_. None) bc_init = (Inr (), bc_init\<lparr>bc_provider := Some (), bc_wallets := 1, bc_web3 := Some ()\<rparr>)"
    by (simp add: getWeb3_def getProvider_def demo_lib_def bc_init_def)
  then show ?thesis
    by (intro exI [of _ "bc_init\<lparr>bc_provider := Some (), bc_wallets := 1, bc_web3 := Some ()\<rparr>"])
      (auto intro: bc_step.web3)
qed

theorem one_wallet_witness:
  "\<exists>s. bc_wallets s = 1 \<and> rtranclp (bc_step demo_lib (\<lambda>_. None)) bc_init s \<and>
    (\<exists>p. bc_provider s = Some p \<and> (\<forall>L'. getProvider (L' :: (unit, unit, unit, nat) web3lib) (\<lambda>_. None) s = (Inr p, s)))"
proof -
  obtain s where s: "bc_step demo_lib (\<lambda>_. None) bc_init s" "bc_wallets s = 1"
    using demo_send_step by blast
  then have "rtranclp (bc_step demo_lib (\<lambda>_. None)) bc_init s" by blast
  with one_wallet [OF this] s show ?thesis by blast
qed

end
