(* ===== verification/Runtime.thy ===== *)
theory Runtime
  imports JsBase
begin

text \<open>
  The life of the server process: \<open>src/server.js\<close> (listening, shutdown on \<open>SIGTERM\<close>, unhandled
  rejections), \<open>src/config/database.js\<close> (connecting, the handlers it registers, reconnecting) and
  the logger of \<open>src/utils/logger.js\<close>, as one state machine over the events the runtime delivers.
  A callback passed to \<open>close\<close> waits until the runtime reports the server drained or the database
  connection closed; \<open>process.exit\<close> ends everything.
\<close>

section \<open>logger.js\<close>

datatype transport =
    RotateFile (tr_filename: string) (tr_level: "string option") (tr_stack: bool)
  | ConsoleTransport

definition logFormat :: "string \<Rightarrow> string \<Rightarrow> string \<Rightarrow> jsval \<Rightarrow> string" where
  "logFormat level message timestamp stack =
     timestamp @ '' '' @ level @ '': '' @ js_String (js_or stack (JStr message))"

definition errorLogRotateTransport :: transport where
  "errorLogRotateTransport = RotateFile ''logs/error-%DATE%.log'' (Some ''error'') True"

definition combinedLogRotateTransport :: transport where
  "combinedLogRotateTransport = RotateFile ''logs/combined-%DATE%.log'' None False"

definition transports :: "env \<Rightarrow> transport list" where
  "transports e = [errorLogRotateTransport, combinedLogRotateTransport] @
     (if getenv e ''NODE_ENV'' \<noteq> JStr ''production'' then [ConsoleTransport] else [])"

definition logger_level :: "env \<Rightarrow> jsval" where
  "logger_level e = js_or (getenv e ''LOG_LEVEL'') (JStr ''info'')"

text \<open>The logger: its level, transports, and the files for exceptions and rejections.\<close>

record logger_config =
  lg_level :: jsval
  lg_transports :: "transport list"
  lg_exceptionHandlers :: "string list"
  lg_rejectionHandlers :: "string list"
  lg_exitOnError :: bool

definition create_logger :: "env \<Rightarrow> logger_config" where
  "create_logger e = \<lparr>lg_level = logger_level e, lg_transports = transports e,
     lg_exceptionHandlers = [''logs/exceptions.log''], lg_rejectionHandlers = [''logs/rejections.log''],
     lg_exitOnError = False\<rparr>"

text \<open>\<open>logger.stream.write\<close>, which \<open>morgan\<close> calls: a line at level \<open>info\<close>.\<close>

definition stream_write :: "string \<Rightarrow> (string \<times> string) list \<Rightarrow> (string \<times> string) list" where
  "stream_write message lines = lines @ [(''info'', message)]"

section \<open>database.js: options and address\<close>

definition db_connect_options :: "env \<Rightarrow> (string \<times> jsval) list" where
  "db_connect_options e = [(''autoIndex'', JBool (getenv e ''NODE_ENV'' = JStr ''development'')),
     (''connectTimeoutMS'', JNum 10000), (''socketTimeoutMS'', JNum 45000), (''family'', JNum 4)]"

definition db_uri :: "env \<Rightarrow> string" where
  "db_uri e = ''mongodb+srv://'' @ js_String (getenv e ''MONGO_USERNAME'') @ '':'' @ js_String (getenv e ''MONGO_PASSWORD'') @
     ''@cluster0.uzy9p.mongodb.net/test?retryWrites=true&w=majority&appName=Cluster0''"

section \<open>The process\<close>

text \<open>What waits for the HTTP server to drain: close the database, or exit.\<close>

datatype http_cb = CloseDb | ExitWith nat

text \<open>
  What waits for the database connection to close: the line to log before exit code 0. A process ends with an exit code
  or is killed by a signal nobody handles.
\<close>

record proc =
  pr_listening :: bool
  pr_http_cbs :: "http_cb list"
  pr_db_cbs :: "string list"
  pr_on_disconnected :: nat
  pr_on_sigint :: nat
  pr_timers :: nat
  pr_exit :: "nat option"
  pr_killed :: bool
  pr_log :: "string list"

datatype proc_event =
    Sigterm
  | Sigint
  | UnhandledRejection string
  | Drained
  | DbClosed
  | DbConnectResult "string option"
  | DbError string
  | DbDisconnected
  | TimerFires "string option"

definition logp :: "string \<Rightarrow> proc \<Rightarrow> proc" where
  "logp l p = p\<lparr>pr_log := pr_log p @ [l]\<rparr>"

definition exitp :: "nat \<Rightarrow> proc \<Rightarrow> proc" where
  "exitp k p = (if pr_exit p = None then p\<lparr>pr_exit := Some k\<rparr> else p)"

text \<open>\<open>connect\<close> once \<open>mongoose.connect\<close> has failed with a message, or succeeded.\<close>

definition db_connect :: "string option \<Rightarrow> proc \<Rightarrow> proc" where
  "db_connect result p = (case result of
       Some err \<Rightarrow> exitp 1 (logp (''MongoDB connection error: '' @ err) p)
     | None \<Rightarrow> (logp ''MongoDB connected successfully'' p)
         \<lparr>pr_on_disconnected := Suc (pr_on_disconnected p), pr_on_sigint := Suc (pr_on_sigint p)\<rparr>)"

definition start_server :: "env \<Rightarrow> jsval \<Rightarrow> proc" where
  "start_server e port =
     \<lparr>pr_listening = True, pr_http_cbs = [], pr_db_cbs = [], pr_on_disconnected = 0, pr_on_sigint = 0, pr_timers = 0,
      pr_exit = None, pr_killed = False,
      pr_log = [''Server running in '' @ js_String (getenv e ''NODE_ENV'') @ '' mode on port '' @ js_String port]\<rparr>"

definition on_sigterm :: "proc \<Rightarrow> proc" where
  "on_sigterm p = (logp ''SIGTERM signal received. Closing HTTP server.'' p)
     \<lparr>pr_listening := False, pr_http_cbs := pr_http_cbs p @ [CloseDb]\<rparr>"

definition on_unhandledRejection :: "string \<Rightarrow> proc \<Rightarrow> proc" where
  "on_unhandledRejection reason p = (logp (''Unhandled Rejection at:'' @ reason) p)
     \<lparr>pr_listening := False, pr_http_cbs := pr_http_cbs p @ [ExitWith 1]\<rparr>"

text \<open>Without a handler, before the first connection, \<open>SIGINT\<close> kills the process.\<close>

definition on_sigint :: "proc \<Rightarrow> proc" where
  "on_sigint p =
     (if pr_on_sigint p = 0 then p\<lparr>pr_killed := True\<rparr>
      else p\<lparr>pr_db_cbs := pr_db_cbs p @
        replicate (pr_on_sigint p) ''MongoDB connection closed due to app termination''\<rparr>)"

definition on_disconnected :: "proc \<Rightarrow> proc" where
  "on_disconnected p = p\<lparr>pr_log := pr_log p @
      replicate (pr_on_disconnected p) ''MongoDB disconnected. Attempting to reconnect...'',
     pr_timers := pr_timers p + pr_on_disconnected p\<rparr>"

fun run_http_cbs :: "http_cb list \<Rightarrow> proc \<Rightarrow> proc" where
  "run_http_cbs [] p = p"
| "run_http_cbs (CloseDb # cbs) p =
     run_http_cbs cbs ((logp ''HTTP server closed.'' p)\<lparr>pr_db_cbs := pr_db_cbs p @ [''MongoDB connection closed.'']\<rparr>)"
| "run_http_cbs (ExitWith k # cbs) p = exitp k p"

definition run_db_cbs :: "proc \<Rightarrow> proc" where
  "run_db_cbs p = (case pr_db_cbs p of [] \<Rightarrow> p | l # ls \<Rightarrow> exitp 0 (logp l (p\<lparr>pr_db_cbs := []\<rparr>)))"

definition handle :: "proc_event \<Rightarrow> proc \<Rightarrow> proc" where
  "handle ev p =
     (if pr_exit p \<noteq> None \<or> pr_killed p then p
      else case ev of
        Sigterm \<Rightarrow> on_sigterm p
      | Sigint \<Rightarrow> on_sigint p
      | UnhandledRejection reason \<Rightarrow> on_unhandledRejection reason p
      | Drained \<Rightarrow> if pr_listening p then p else run_http_cbs (pr_http_cbs p) (p\<lparr>pr_http_cbs := []\<rparr>)
      | DbClosed \<Rightarrow> run_db_cbs p
      | DbConnectResult r \<Rightarrow> db_connect r p
      | DbError err \<Rightarrow> p\<lparr>pr_log := pr_log p @ replicate (pr_on_disconnected p) (''MongoDB connection error: '' @ err)\<rparr>
      | DbDisconnected \<Rightarrow> on_disconnected p
      | TimerFires r \<Rightarrow> if pr_timers p = 0 then p else db_connect r (p\<lparr>pr_timers := pr_timers p - 1\<rparr>))"

definition run_events :: "proc_event list \<Rightarrow> proc \<Rightarrow> proc" where
  "run_events evs p = foldl (\<lambda>q ev. handle ev q) p evs"

section \<open>Exit codes\<close>

definition failure_event :: "proc_event \<Rightarrow> bool" where
  "failure_event ev \<longleftrightarrow> (case ev of UnhandledRejection _ \<Rightarrow> True | DbConnectResult (Some _) \<Rightarrow> True
     | TimerFires (Some _) \<Rightarrow> True | _ \<Rightarrow> False)"

definition stop_event :: "proc_event \<Rightarrow> bool" where
  "stop_event ev \<longleftrightarrow> ev = Sigterm \<or> ev = Sigint"

text \<open>The history of events and the process it led to.\<close>

inductive life_step :: "proc_event list \<times> proc \<Rightarrow> proc_event list \<times> proc \<Rightarrow> bool" where
  "life_step (evs, p) (evs @ [ev], handle ev p)"

inductive_simps life_step_simps: "life_step s s'"

definition codes_ok :: "proc_event list \<times> proc \<Rightarrow> bool" where
  "codes_ok s \<longleftrightarrow> (case s of (evs, p) \<Rightarrow>
     (pr_exit p = Some 0 \<or> pr_db_cbs p \<noteq> [] \<or> CloseDb \<in> set (pr_http_cbs p) \<longrightarrow> (\<exists>ev \<in> set evs. stop_event ev)) \<and>
     (\<forall>k. pr_exit p = Some (Suc k) \<or> ExitWith (Suc k) \<in> set (pr_http_cbs p) \<longrightarrow> (\<exists>ev \<in> set evs. failure_event ev)) \<and>
     ExitWith 0 \<notin> set (pr_http_cbs p))"

lemma run_http_cbs_effect:
  "pr_exit p = None \<Longrightarrow>
   pr_http_cbs (run_http_cbs cbs p) = pr_http_cbs p \<and>
   (pr_db_cbs (run_http_cbs cbs p) \<noteq> [] \<longrightarrow> pr_db_cbs p \<noteq> [] \<or> CloseDb \<in> set cbs) \<and>
   (\<forall>k. pr_exit (run_http_cbs cbs p) = Some k \<longrightarrow> ExitWith k \<in> set cbs)"
  by (induction cbs p rule: run_http_cbs.induct) (auto simp: logp_def exitp_def)

lemma codes_ok_step: "life_step s s' \<Longrightarrow> codes_ok s \<Longrightarrow> codes_ok s'"
proof -
  assume "life_step s s'" and ok: "codes_ok s"
  then obtain evs p ev where s: "s = (evs, p)" "s' = (evs @ [ev], handle ev p)" by (auto simp: life_step_simps)
  show "codes_ok s'"
  proof (cases "pr_exit p \<noteq> None \<or> pr_killed p")
    case True
    then show ?thesis using ok by (auto simp: s codes_ok_def handle_def)
  next
    case False
    then have None: "pr_exit p = None" "\<not> pr_killed p" by auto
    show ?thesis
    proof (cases ev)
      case Drained
      then show ?thesis
        using ok None run_http_cbs_effect [of "p\<lparr>pr_http_cbs := []\<rparr>" "pr_http_cbs p"]
        by (auto simp: s codes_ok_def handle_def)
    qed (use ok None in \<open>auto simp: s codes_ok_def handle_def on_sigterm_def on_sigint_def on_unhandledRejection_def
        run_db_cbs_def db_connect_def on_disconnected_def logp_def exitp_def stop_event_def failure_event_def
        split: option.splits list.splits\<close>)
  qed
qed

interpretation life: invariant_machine life_step codes_ok
  by unfold_locales (rule codes_ok_step)

lemma life_run: "rtranclp life_step (pre, p) (pre @ evs, run_events evs p)"
proof (induction evs rule: rev_induct)
  case Nil
  then show ?case by (simp add: run_events_def)
next
  case (snoc ev evs)
  have "life_step (pre @ evs, run_events evs p) (pre @ evs @ [ev], run_events (evs @ [ev]) p)"
    using life_step.intros [of "pre @ evs" "run_events evs p" ev] by (simp add: run_events_def)
  with snoc show ?case by (rule rtranclp.rtrancl_into_rtrancl)
qed

text \<open>
  C39. Exit codes tell the cause: over every sequence of events, the process ends with code 0 only if
  it was asked to stop by a signal, and with another code only after an unhandled rejection or a
  failed connection to the database.
\<close>

theorem exit_code_cause:
  assumes "pr_exit (run_events evs (start_server e port)) = Some k"
  shows "(k = 0 \<longrightarrow> (\<exists>ev \<in> set evs. stop_event ev)) \<and> (k \<noteq> 0 \<longrightarrow> (\<exists>ev \<in> set evs. failure_event ev))"
proof -
  have "codes_ok ([], start_server e port)" by (simp add: codes_ok_def start_server_def)
  then have ok: "codes_ok (evs, run_events evs (start_server e port))"
    using life.inv_run life_run [of "[]" "start_server e port" evs] by simp
  show ?thesis using ok assms by (cases k) (auto simp: codes_ok_def)
qed

theorem exit_code_cause_witness:
  "pr_exit (run_events [Sigterm, Drained, DbClosed] (start_server (\<lambda>_. None) (JNum 3000))) = Some 0 \<and>
    (\<exists>ev \<in> set [Sigterm, Drained, DbClosed]. stop_event ev)"
proof -
  have r: "pr_exit (run_events [Sigterm, Drained, DbClosed] (start_server (\<lambda>_. None) (JNum 3000))) = Some 0"
    by (simp add: run_events_def handle_def start_server_def on_sigterm_def logp_def run_db_cbs_def exitp_def)
  from exit_code_cause [OF r] r show ?thesis by blast
qed

section \<open>Reconnecting\<close>

lemma run_timers:
  assumes "pr_exit p = None" and "\<not> pr_killed p" and "n \<le> pr_timers p"
  shows "pr_exit (run_events (replicate n (TimerFires None)) p) = None \<and>
    \<not> pr_killed (run_events (replicate n (TimerFires None)) p) \<and>
    pr_timers (run_events (replicate n (TimerFires None)) p) = pr_timers p - n \<and>
    pr_on_disconnected (run_events (replicate n (TimerFires None)) p) = pr_on_disconnected p + n"
  using assms
proof (induction n arbitrary: p)
  case 0
  then show ?case by (simp add: run_events_def)
next
  case (Suc n)
  let ?q = "handle (TimerFires None) p"
  have q: "pr_exit ?q = None" "\<not> pr_killed ?q" "pr_timers ?q = pr_timers p - 1" "pr_on_disconnected ?q = Suc (pr_on_disconnected p)"
    using Suc.prems by (auto simp: handle_def db_connect_def logp_def)
  have "run_events (replicate (Suc n) (TimerFires None)) p = run_events (replicate n (TimerFires None)) ?q"
    by (simp add: run_events_def)
  then show ?case using Suc.IH [of ?q] Suc.prems q by simp
qed

text \<open>One outage: the connection is lost, and every reconnection the handlers schedule succeeds.\<close>

definition outage :: "proc \<Rightarrow> proc" where
  "outage p = run_events (DbDisconnected # replicate (pr_on_disconnected p) (TimerFires None)) p"

lemma outage_doubles:
  assumes "pr_exit p = None" and "\<not> pr_killed p" and "pr_timers p = 0"
  shows "pr_exit (outage p) = None \<and> \<not> pr_killed (outage p) \<and> pr_timers (outage p) = 0 \<and> pr_on_disconnected (outage p) = 2 * pr_on_disconnected p"
proof -
  let ?q = "handle DbDisconnected p"
  have q: "pr_exit ?q = None" "\<not> pr_killed ?q" "pr_timers ?q = pr_on_disconnected p" "pr_on_disconnected ?q = pr_on_disconnected p"
    using assms by (auto simp: handle_def on_disconnected_def)
  have "outage p = run_events (replicate (pr_on_disconnected p) (TimerFires None)) ?q"
    by (simp add: outage_def run_events_def)
  then show ?thesis using run_timers [of ?q "pr_on_disconnected p"] q by simp
qed

text \<open>
  C40. Reconnection handlers double: every successful connection registers the handlers again, so
  after the first connection and \<open>n\<close> outages with successful reconnections, \<open>2 ^ n\<close> handlers react to
  the next loss of the connection, each scheduling a connection of its own.
\<close>

theorem handlers_double:
  "pr_on_disconnected ((outage ^^ n) (handle (DbConnectResult None) (start_server e port))) = 2 ^ n"
proof -
  let ?p = "handle (DbConnectResult None) (start_server e port)"
  have base: "pr_exit ?p = None" "\<not> pr_killed ?p" "pr_timers ?p = 0" "pr_on_disconnected ?p = 1"
    by (auto simp: handle_def db_connect_def logp_def start_server_def)
  have "pr_exit ((outage ^^ n) ?p) = None \<and> \<not> pr_killed ((outage ^^ n) ?p) \<and> pr_timers ((outage ^^ n) ?p) = 0 \<and>
      pr_on_disconnected ((outage ^^ n) ?p) = 2 ^ n"
    by (induction n) (use base outage_doubles in auto)
  then show ?thesis by blast
qed

end
