(* ===== verification/Suites.thy ===== *)
theory Suites
  imports JsBase
begin

text \<open>
  The Hardhat test suites (\<open>test/NFTCollection.js\<close>, \<open>test/NFTMarketplace.js\<close>): their hooks and the contract
  functions the tests call, against the interfaces of the contracts as they are. ethers checks
  the number of constructor arguments and gives a contract object one method per function of its interface.
\<close>

section \<open>Interfaces\<close>

record interface =
  if_inputs :: nat
  if_functions :: "string list"

definition erc721_functions :: "string list" where
  "erc721_functions = [''supportsInterface'', ''balanceOf'', ''ownerOf'', ''name'', ''symbol'', ''tokenURI'', ''approve'',
     ''getApproved'', ''setApprovalForAll'', ''isApprovedForAll'', ''transferFrom'', ''safeTransferFrom'', ''owner'',
     ''renounceOwnership'', ''transferOwnership'']"

definition NFTCollection_interface :: interface where
  "NFTCollection_interface = \<lparr>if_inputs = 6,
     if_functions = erc721_functions @ [''baseURI'', ''marketplaceAddress'', ''category'', ''mint'', ''totalSupply'']\<rparr>"

definition NFTMarketplace_interface :: interface where
  "NFTMarketplace_interface = \<lparr>if_inputs = 0,
     if_functions = [''listingFee'', ''owner'', ''renounceOwnership'', ''transferOwnership'', ''paused'', ''addCategory'', ''getCategories'',
       ''fetchUserCreatedCollections'', ''fetchUserPurchasedItems'', ''createCollection'', ''createMarketItem'',
       ''fetchCollectionDetails'', ''fetchCollections'', ''fetchCollectionItems'', ''createMarketSale'', ''createAuction'',
       ''placeBid'', ''makeOffer'', ''getCollectionDetails'', ''fetchCollectionsByCategory'', ''searchCollections'',
       ''searchCollectionsWithFilters'', ''updateCollectionTotalSupply'']\<rparr>"

text \<open>\<open>deploy(...args)\<close> of a contract factory, by the number of arguments; a call of a method.\<close>

definition factory_deploy :: "interface \<Rightarrow> nat \<Rightarrow> jserr + interface" where
  "factory_deploy I n =
     (if n = if_inputs I \<or> n = if_inputs I + 1 then Inr I
      else Inl (new_Error ''incorrect number of arguments to constructor''))"

definition call_method :: "interface \<Rightarrow> string \<Rightarrow> jserr + unit" where
  "call_method I f = (if f \<in> set (if_functions I) then Inr () else Inl (TypeError (f @ '' is not a function'')))"

section \<open>The suites\<close>

text \<open>
  The contract calls of a test in their order; the expectations on what they return come after them. A test
  fails with the first error, and a failed hook leaves no test of its suite to pass.
\<close>

fun calls :: "(interface \<times> string) list \<Rightarrow> jserr + unit" where
  "calls [] = Inr ()"
| "calls ((I, f) # cs) = bindE (call_method I f) (\<lambda>_. calls cs)"

definition passed :: "jserr + 'c \<Rightarrow> (string \<times> ('c \<Rightarrow> jserr + unit)) list \<Rightarrow> string list" where
  "passed hook tests = (case hook of Inl er \<Rightarrow> [] | Inr c \<Rightarrow> map fst (filter (\<lambda>(_, run). is_ok (run c)) tests))"

definition collection_beforeEach :: "jserr + interface" where
  "collection_beforeEach = factory_deploy NFTCollection_interface 0"

definition collection_tests :: "(string \<times> (interface \<Rightarrow> jserr + unit)) list" where
  "collection_tests =
     [(''Should mint a new NFT'', \<lambda>c. calls [(c, ''mintNFT''), (c, ''ownerOf''), (c, ''tokenURI'')]),
      (''Should emit NFTMinted event'', \<lambda>c. calls [(c, ''mintNFT'')]),
      (''Should not allow non-owner to mint NFT'', \<lambda>c. calls [(c, ''mintNFT'')])]"

definition marketplace_beforeEach :: "jserr + interface \<times> interface" where
  "marketplace_beforeEach =
     bindE (factory_deploy NFTMarketplace_interface 0) (\<lambda>m.
     bindE (factory_deploy NFTCollection_interface 0) (\<lambda>c. Inr (m, c)))"

definition listing_calls :: "interface \<Rightarrow> interface \<Rightarrow> (interface \<times> string) list" where
  "listing_calls m c = [(c, ''mintNFT''), (c, ''approve''), (m, ''getListingFee''), (m, ''createMarketItem'')]"

definition marketplace_tests :: "(string \<times> (interface \<times> interface \<Rightarrow> jserr + unit)) list" where
  "marketplace_tests =
     [(''Should create a market item'', \<lambda>(m, c). calls (listing_calls m c @ [(m, ''fetchMarketItem'')])),
      (''Should execute market sale'', \<lambda>(m, c). calls (listing_calls m c @ [(m, ''purchaseMarketItem''), (m, ''fetchMarketItem'')])),
      (''Should revert if price is not met'', \<lambda>(m, c). calls (listing_calls m c @ [(m, ''purchaseMarketItem'')]))]"

section \<open>No test passes\<close>

lemmas suite_defs = passed_def collection_tests_def marketplace_tests_def listing_calls_def call_method_def
  NFTCollection_interface_def NFTMarketplace_interface_def erc721_functions_def factory_deploy_def

text \<open>Both hooks fail: they deploy \<open>NFTCollection\<close> without its six constructor arguments.\<close>

theorem hooks_fail:
  "passed collection_beforeEach collection_tests = [] \<and> passed marketplace_beforeEach marketplace_tests = []"
  by (simp add: collection_beforeEach_def marketplace_beforeEach_def suite_defs)

text \<open>With these arguments no test would pass either: each calls \<open>mintNFT\<close>, which no contract has.\<close>

theorem tests_fail_deployed:
  "passed (factory_deploy NFTCollection_interface 6) collection_tests = [] \<and>
   passed (Inr (NFTMarketplace_interface, NFTCollection_interface)) marketplace_tests = []"
  by (simp add: suite_defs is_ok_iff)

end
