(* ===== verification/Spec2Isabelle.thy ===== *)
theory Spec2Isabelle
  imports Search Shop DraftLife ScriptProps Documents Loading ChainConfig Runtime Suites
begin

text \<open>
  A verification of the NFT marketplace backend: two Solidity contracts, the Express server
  in JavaScript that fronts them, and the Hardhat scripts that drive them.

  \<^bold>\<open>The program.\<close> \<open>contracts/NFTMarketplace.sol\<close> keeps a registry of collections, sells tokens for a fixed
  price or by auction, and answers searches; it creates \<open>contracts/NFTCollection.sol\<close> contracts, which are
  OpenZeppelin ERC721 tokens that report every mint back to it. The server (\<open>src/server.js\<close>, \<open>src/app.js\<close>,
  routes, controllers, services, models) takes HTTP requests, uploads to IPFS, calls the contracts through
  ethers or web3 and keeps records in MongoDB. The scripts (\<open>scripts\<close>, \<open>deploy\<close>) call the contracts
  directly. A second, older marketplace contract, with offers, refunds and price history, is carried
  as commented-out text below the JavaScript of \<open>blockchain.service.js\<close>, \<open>nft.service.js\<close> and
  \<open>collection.service.js\<close>, four identical copies in each; it is called the draft below.

  \<^bold>\<open>Theories.\<close>
  \<^item> \<open>Prelude\<close>: errors as values, checked 256-bit arithmetic, arrays with bounds checks, the
    count-allocate-fill loop of the view functions, sums, and the locales \<open>invariant_machine\<close> (a step relation with an
    invariant, and what follows along runs), \<open>solvent_machine\<close>, which extends it by claims covered by funds, and \<open>simulation\<close>,
    which extends it by an abstract machine whose invariants carry over.
  \<^item> \<open>Erc721\<close>: accounts and Ether, the OpenZeppelin sources recorded in \<open>deployment/localhost/solcInputs\<close>, the storage
    and operations of \<open>NFTCollection.sol\<close>; the ledger invariant (balances count tokens, ids run from 1 to the
    supply) and the locale \<open>token_custody\<close>, which says who can take a token from its holder.
  \<^item> \<open>Market\<close>, \<open>SearchCode\<close>: \<open>NFTMarketplace.sol\<close>, one definition per function, over the record \<open>market\<close>.
    \<open>MarketInv\<close>: the calls as a step relation, the invariant of registry, supply, custody and balances.
    \<open>MarketProps\<close>, \<open>Search\<close>: the properties, and concrete histories as witnesses. \<open>Purchases\<close>: purchase counters against listings. \<open>MarketBooks\<close>: bids, refunds and
    offers as claims on the balance, through \<open>solvent_machine\<close>. \<open>Shop\<close>: the abstract specification, a shop
    with entitled holders, offers and cash, an abstraction function from the storage, and the \<open>simulation\<close> of every call.
  \<^item> \<open>Draft\<close>: the draft contract over the record \<open>draft\<close>. \<open>DraftInv\<close>: its calls over time as a step relation; the
    invariant, kept by every call of every account, is that it can pay what it owes, with any surplus kept, and that its items and
    counters are in order. \<open>DraftCustody\<close>: the tokens for sale are in the contract's hands as long as no purchase takes
    the token of another item, and which calls lose one. \<open>DraftProps\<close>: the properties. \<open>DraftBooks\<close>: what each call writes to the price history, and the Ether of offers a sale leaves behind.
    \<open>DraftLife\<close>: its abstract specification, a book of lots with a life each, and the \<open>simulation\<close> of every call.
  \<^item> \<open>JsBase\<close>: JavaScript values, property access, numbers from strings, errors. \<open>Config\<close>: \<open>config/index.js\<close>,
    \<open>config/pinata.js\<close>, the Hardhat configuration. \<open>ChainConfig\<close>: \<open>config/blockchain.js\<close>. \<open>Middleware\<close>:
    error, upload and validation middleware and the Joi schema. \<open>Services\<close>, \<open>ServiceProps\<close>:
    \<open>collection.service.js\<close>, \<open>nft.service.js\<close>, \<open>pinata.service.js\<close>, \<open>ipfs.service.js\<close>. \<open>Backend\<close>: \<open>email.service.js\<close>,
    \<open>blockchain.service.js\<close>. \<open>EmailPattern\<close>, \<open>Models\<close>: the Mongoose models. \<open>Http\<close>: controllers, routes, \<open>app.js\<close>.
    \<open>Loading\<close>: the \<open>require\<close> graph and top-level statements of the modules over Node's module cache.
    \<open>Documents\<close>: what validator and model together make of a request to create a collection.
    \<open>Runtime\<close>: \<open>server.js\<close>, \<open>config/database.js\<close>, \<open>utils/logger.js\<close> as an event-driven state machine.
  \<^item> \<open>Scripts\<close>, \<open>ScriptProps\<close>: the Hardhat scripts run on the model of the marketplace. \<open>Suites\<close>: the hooks of the
    test suites and the functions their tests call, against the contracts' interfaces.

  \<^bold>\<open>How the code is rendered.\<close> A contract function maps the storage to a revert reason or the new storage; a
  revert undoes everything, as on the chain. \<open>uint256\<close> is a natural number with the checks of Solidity 0.8 written out, an
  address a 160-bit word, a byte an 8-bit word. A service method maps a world (chain, IPFS,
  database) to an error or a value and the new world; what was done before a throw stays done. Code that is
  not in the repository (web3, ethers, mongoose, bcrypt, axios, nodemailer, Express dispatch, the
  missing collection factory of the draft) is a parameter, and a property that relies on its documented
  behaviour says so as a hypothesis and has a witness with a concrete instance.

  \<^bold>\<open>What is shown.\<close> For the marketplace, in every reachable state: tokens on sale are in escrow, a purchase at
  the asking price succeeds, bids are accounted for, the mirrored supply is exact, search and listings are
  exact; the contracts refine a shop in which offered tokens change hands only for their price, paid to
  the seller; and also that nothing ever pays refunds, offers or fees out although all are backed, and that an auction
  never ends and can be started for a token that is already sold.
  For the draft: solvency, which one kind of call loses custody, that refunds, auctions and accepted offers pay out exactly,
  that its views and statistics are exact, that it refines a book in which each lot moves once along its life and
  an outcome is final; and that a lower bid can replace a higher one, that a
  buyer can name the wrong collection, that a purchase locks the offers on the item up for good, that sales by auction or offer never
  show in the statistics, that one offerer who refuses Ether blocks every acceptance, and that solvency rests on the token contracts being
  \<open>NFTCollection\<close> contracts, which have no token 0. For the server: which errors are answered and how,
  what a successful request has uploaded, sent and stored, that a stored collection fits its schema up to
  blank names, that the API's categories are not the contract's, what it takes for \<open>server.js\<close> to load and in which order things
  then start, that the email service, the user model, \<open>config/blockchain.js\<close> and with it the blockchain service never load, what is left behind by a failure, the retry
  loop, the configuration, the password round trip, the email pattern, and the process lifecycle. For the
  scripts: the interaction script end to end, and that the two older scripts always fail.

  \<^bold>\<open>Loops and bounds.\<close> Contract loops are structural recursions over the arrays they walk, or have a measure
  (the byte loops of the search). The retry loop is a \<open>partial_function\<close>, shown to return
  within the configured number of attempts. No fuel is used anywhere.

  \<^bold>\<open>Not modelled.\<close> Gas and block limits; reentrancy: a payment forwards 2300 gas only, too little for a call back, but the hook a receiving
  contract of a token is asked (\<open>onERC721Received\<close>) runs with all the gas, and its calls back into the contracts are
  left out; contracts other than \<open>NFTCollection\<close> behind a token address. The OpenAPI
  description and the recorded deployments are data. Of the tests the expectations are left out: no test gets that far, since
  both hooks fail and every test calls functions the contracts do not have. Console and log
  output is kept only where a property is about it. socket.io, winston and mongoose are used through
  the calls the source makes. The further copies of the draft are not modelled again: its functions, storage and events refer to the
  first copy in \<open>blockchain.service.js\<close>; its structs, and the bodies of the functions with their steps, to the first copy in
  \<open>nft.service.js\<close>.
\<close>

section \<open>Properties that span components\<close>

text \<open>
  C33. The API's categories are not the contract's: for every request body the validator lets through, a newly
  deployed marketplace refuses to create a collection of the body's category.
\<close>

theorem api_categories_rejected:
  assumes "joi_contract validate" and "validateCollection validate body = None"
    and "field body ''category'' = JStr category" and "new_NFTMarketplace m0 this ch = Inr s" and "msg_value m = 0"
  shows "createCollection m ca name symbol baseURI category s = Inl (Revert ''Invalid category'')"
proof -
  have "is_ok (getp body ''name'')" using assms(3) by (cases body) (auto simp: field_def is_ok_iff)
  then have "category \<in> set api_categories"
    using assms(3) by (elim validated_body [OF assms(1,2)]) simp
  then have "category \<notin> set initial_categories" by (auto simp: api_categories_def initial_categories_def)
  then have "\<not> categoryExists s category"
    using new_NFTMarketplace_shape [OF assms(4)] by (auto simp: empty_market_def)
  then show ?thesis using assms(5) by (simp add: createCollection_def nonpayable_def)
qed

theorem api_categories_rejected_witness:
  "createCollection (demo_msg 2 0) 100 ''Apes'' ''AP'' ''ipfs://base'' ''art'' demo_new = Inl (Revert ''Invalid category'')"
  using api_categories_rejected [OF joi_check_contract post_of_validated post_of_fields(3) demo_new_eq, of "''Apes''" "demo_msg 2 0"]
  by simp

end
